(* ===== verification/Prelude.thy ===== *)
theory Prelude
  imports Main "HOL-Library.Word"
begin

text \<open>
  Prelude of the development: the fragment of Go that the operator is written in.

  \<^item> machine integers (\<open>int32\<close> as a 32-bit word read with \<open>sint\<close>; \<open>int64\<close> and
    \<open>time.Duration\<close> as \<open>int\<close> with the 64-bit wrap-around written out);
  \<^item> pointers with an identity, for the places where the code compares addresses;
  \<^item> \<open>time.Time\<close> and \<open>time.Duration\<close>;
  \<^item> the functions of \<open>strings\<close>, \<open>strconv\<close> and \<open>fmt\<close> that the code calls;
  \<^item> string-keyed maps as association lists;
  \<^item> the monad of effectful Go code: a state, a result and the possibility of a panic,
    with a weakest-precondition calculus whose rules are collected in \<open>wp_simps\<close>.

  Strings are byte strings; \<open>strings.TrimSpace\<close> and the verb \<open>%q\<close> are modelled on ASCII
  text (Kubernetes names and the operator's own messages).
\<close>

section \<open>Machine integers\<close>

type_synonym int32 = "32 word"

text \<open>The value an \<open>int64\<close> variable holds after an operation with the exact result \<open>x\<close>.\<close>

definition wrap64 :: "int \<Rightarrow> int" where
  "wrap64 x = (x + 2 ^ 63) mod 2 ^ 64 - 2 ^ 63"

definition int64_range :: "int \<Rightarrow> bool" where
  "int64_range x \<longleftrightarrow> - (2 ^ 63) \<le> x \<and> x < 2 ^ 63"

lemma wrap64_id [simp]: "int64_range x \<Longrightarrow> wrap64 x = x"
  by (simp add: wrap64_def int64_range_def)

lemma wrap64_range: "int64_range (wrap64 x)"
proof -
  have "0 \<le> (x + 2 ^ 63) mod 2 ^ 64" "(x + 2 ^ 63) mod 2 ^ 64 < (2 ^ 64 :: int)"
    by simp_all
  then show ?thesis by (simp add: wrap64_def int64_range_def)
qed

lemma sint_int32_bounds: "- (2 ^ 31) \<le> sint (w :: int32)" "sint (w :: int32) < 2 ^ 31"
  using sint_ge [of w] sint_lt [of w] by simp_all

section \<open>Pointers\<close>

text \<open>
  A pointer to a scalar: nil, or the address of a variable together with the value it holds.
  Go's \<open>==\<close> on pointers compares the addresses, never the values pointed to.
\<close>

datatype 'a ptr = NilPtr | Ptr nat 'a

fun deref :: "'a ptr \<Rightarrow> 'a option" where
  "deref NilPtr = None"
| "deref (Ptr a v) = Some v"

fun ptrEq :: "'a ptr \<Rightarrow> 'a ptr \<Rightarrow> bool" where
  "ptrEq NilPtr NilPtr = True"
| "ptrEq (Ptr a v) (Ptr b w) = (a = b)"
| "ptrEq _ _ = False"

text \<open>The address of a variable allocated while the given pointer is live: any other address.\<close>

fun freshAddr :: "'a ptr \<Rightarrow> nat" where
  "freshAddr NilPtr = 0"
| "freshAddr (Ptr a v) = Suc a"

lemma ptrEq_fresh [simp]: "\<not> ptrEq p (Ptr (freshAddr p) v)"
  by (cases p) auto

lemma ptrEq_refl [simp]: "ptrEq p p"
  by (cases p) auto

section \<open>Time\<close>

text \<open>
  A \<open>time.Time\<close> is the number of nanoseconds since the zero time (1 January of year 1 UTC), a
  \<open>time.Duration\<close> a number of nanoseconds in the \<open>int64\<close> range. \<open>Sub\<close> saturates, as
  documented in package \<open>time\<close>.
\<close>

type_synonym time = int
type_synonym duration = int

definition isZeroTime :: "time option \<Rightarrow> bool" where
  "isZeroTime t = (case t of None \<Rightarrow> True | Some x \<Rightarrow> x = 0)"

definition timeSub :: "time \<Rightarrow> time \<Rightarrow> duration" where
  "timeSub t u = max (- (2 ^ 63)) (min (2 ^ 63 - 1) (t - u))"

definition timeAdd :: "time \<Rightarrow> duration \<Rightarrow> time" where
  "timeAdd t d = t + d"

definition secondsDuration :: "int \<Rightarrow> duration" where
  "secondsDuration n = wrap64 (1000000000 * n)"

lemma secondsDuration_int32: "secondsDuration (sint (n :: int32)) = 1000000000 * sint n"
  using sint_int32_bounds [of n] by (simp add: secondsDuration_def int64_range_def)

lemma timeSub_range: "int64_range (timeSub t u)"
  by (simp add: timeSub_def int64_range_def)

section \<open>Strings\<close>

definition hasSuffix :: "string \<Rightarrow> string \<Rightarrow> bool" where
  "hasSuffix s suf \<longleftrightarrow> length suf \<le> length s \<and> drop (length s - length suf) s = suf"

definition cutSuffix :: "string \<Rightarrow> string \<Rightarrow> string option" where
  "cutSuffix s suf = (if hasSuffix s suf then Some (take (length s - length suf) s) else None)"

definition trimSuffix :: "string \<Rightarrow> string \<Rightarrow> string" where
  "trimSuffix s suf = (case cutSuffix s suf of None \<Rightarrow> s | Some p \<Rightarrow> p)"

lemma hasSuffix_iff: "hasSuffix s suf \<longleftrightarrow> (\<exists>p. s = p @ suf)"
proof
  assume "hasSuffix s suf"
  then have "s = take (length s - length suf) s @ suf"
    by (metis append_take_drop_id hasSuffix_def)
  then show "\<exists>p. s = p @ suf" ..
next
  assume "\<exists>p. s = p @ suf"
  then show "hasSuffix s suf" by (auto simp: hasSuffix_def)
qed

lemma cutSuffix_append [simp]: "cutSuffix (p @ suf) suf = Some p"
  by (simp add: cutSuffix_def hasSuffix_def)

lemma cutSuffix_Some: "cutSuffix s suf = Some p \<longleftrightarrow> s = p @ suf"
  by (auto simp: cutSuffix_def hasSuffix_def) (metis append_take_drop_id)

definition isSpace :: "char \<Rightarrow> bool" where
  "isSpace c \<longleftrightarrow> of_char c \<in> {9, 10, 11, 12, 13, 32 :: nat}"

definition trimSpace :: "string \<Rightarrow> string" where
  "trimSpace s = rev (dropWhile isSpace (rev (dropWhile isSpace s)))"

lemma trimSpace_Nil [simp]: "trimSpace [] = []"
  by (simp add: trimSpace_def)

text \<open>Decimal printing (\<open>strconv.Itoa\<close> and the verb \<open>%d\<close>) and parsing (\<open>strconv.Atoi\<close>).\<close>

definition digitChar :: "nat \<Rightarrow> char" where
  "digitChar d = char_of (48 + d)"

definition digitOf :: "char \<Rightarrow> nat option" where
  "digitOf c = (let n = of_char c :: nat in if 48 \<le> n \<and> n \<le> 57 then Some (n - 48) else None)"

fun natStr :: "nat \<Rightarrow> string" where
  "natStr n = (if n < 10 then [digitChar n] else natStr (n div 10) @ [digitChar (n mod 10)])"

declare natStr.simps [simp del]

definition itoa :: "int \<Rightarrow> string" where
  "itoa i = (if i < 0 then CHR ''-'' # natStr (nat (- i)) else natStr (nat i))"

fun digitsVal :: "nat \<Rightarrow> string \<Rightarrow> nat option" where
  "digitsVal acc [] = Some acc"
| "digitsVal acc (c # cs) =
     (case digitOf c of None \<Rightarrow> None | Some d \<Rightarrow> digitsVal (10 * acc + d) cs)"

definition decimalVal :: "string \<Rightarrow> nat option" where
  "decimalVal s = (if s = [] then None else digitsVal 0 s)"

definition atoi :: "string \<Rightarrow> int option" where
  "atoi s =
     (let (neg, body) =
        (case s of [] \<Rightarrow> (False, [])
         | c # cs \<Rightarrow> if c = CHR ''-'' then (True, cs)
                   else if c = CHR ''+'' then (False, cs) else (False, s))
      in case decimalVal body of None \<Rightarrow> None
         | Some n \<Rightarrow> (let v = (if neg then - int n else int n)
                    in if int64_range v then Some v else None))"

lemma of_char_char_of_256 [simp]: "n < 256 \<Longrightarrow> of_char (char_of n) = (n :: nat)"
  by simp

lemma digitOf_digitChar [simp]: "d < 10 \<Longrightarrow> digitOf (digitChar d) = Some d"
  by (simp add: digitOf_def digitChar_def)

lemma natStr_not_Nil [simp]: "natStr n \<noteq> []"
  by (subst natStr.simps) simp

lemma digitsVal_append:
  "digitsVal acc (s @ t) = (case digitsVal acc s of None \<Rightarrow> None | Some a \<Rightarrow> digitsVal a t)"
  by (induction s arbitrary: acc) (auto split: option.splits)

lemma digitsVal_natStr: "digitsVal 0 (natStr n) = Some n"
proof (induction n rule: natStr.induct)
  case (1 n)
  show ?case
  proof (cases "n < 10")
    case True
    then show ?thesis by (subst natStr.simps) simp
  next
    case False
    with "1.IH" show ?thesis by (subst natStr.simps) (simp add: digitsVal_append)
  qed
qed

lemma digitChar_nonsign: "d < 10 \<Longrightarrow> digitChar d \<noteq> CHR ''-'' \<and> digitChar d \<noteq> CHR ''+''"
proof -
  assume "d < 10"
  then have "digitOf (digitChar d) = Some d" by simp
  moreover have "digitOf (CHR ''-'') = None" "digitOf (CHR ''+'') = None"
    by (simp_all add: digitOf_def)
  ultimately show ?thesis by auto
qed

lemma hd_natStr_nonsign: "hd (natStr n) \<noteq> CHR ''-'' \<and> hd (natStr n) \<noteq> CHR ''+''"
proof (induction n rule: natStr.induct)
  case (1 n)
  show ?case
  proof (cases "n < 10")
    case True
    then show ?thesis by (subst (1 2) natStr.simps) (simp add: digitChar_nonsign)
  next
    case False
    with "1.IH" show ?thesis by (subst (1 2) natStr.simps) simp
  qed
qed

lemma atoi_itoa: "int64_range i \<Longrightarrow> atoi (itoa i) = Some i"
proof (cases "i < 0")
  case True
  assume "int64_range i"
  with True show ?thesis
    by (simp add: atoi_def itoa_def decimalVal_def digitsVal_natStr)
next
  case False
  assume "int64_range i"
  obtain c cs where s: "natStr (nat i) = c # cs" by (cases "natStr (nat i)") auto
  then have "c \<noteq> CHR ''-''" "c \<noteq> CHR ''+''" using hd_natStr_nonsign [of "nat i"] by auto
  with s False \<open>int64_range i\<close> digitsVal_natStr [of "nat i"] show ?thesis
    by (simp add: atoi_def itoa_def decimalVal_def)
qed

lemma natStr_inj: "natStr m = natStr n \<Longrightarrow> m = n"
  by (metis digitsVal_natStr option.inject)

lemma itoa_inj: "itoa i = itoa j \<longleftrightarrow> i = j"
proof
  assume eq: "itoa i = itoa j"
  have "hd (natStr k) \<noteq> CHR ''-''" for k using hd_natStr_nonsign by blast
  then have "CHR ''-'' # s \<noteq> natStr k" "natStr k \<noteq> CHR ''-'' # s" for s k
    by (metis list.sel(1))+
  with eq show "i = j" by (auto simp: itoa_def dest: natStr_inj split: if_splits)
qed simp

text \<open>\<open>strconv.ParseBool\<close> accepts exactly these spellings.\<close>

definition parseBool :: "string \<Rightarrow> bool option" where
  "parseBool s =
     (if s \<in> {''1'', ''t'', ''T'', ''TRUE'', ''true'', ''True''} then Some True
      else if s \<in> {''0'', ''f'', ''F'', ''FALSE'', ''false'', ''False''} then Some False
      else None)"

text \<open>The verb \<open>%q\<close> on ASCII strings (\<open>strconv.Quote\<close>).\<close>

definition hexChar :: "nat \<Rightarrow> char" where
  "hexChar d = (if d < 10 then char_of (48 + d) else char_of (87 + d))"

definition quoteChar :: "char \<Rightarrow> string" where
  "quoteChar c =
     (let n = of_char c :: nat in
      if n = 34 then [CHR 0x5C, CHR 0x22] else if n = 92 then [CHR 0x5C, CHR 0x5C]
      else if n = 7 then [CHR 0x5C, CHR ''a''] else if n = 8 then [CHR 0x5C, CHR ''b'']
      else if n = 12 then [CHR 0x5C, CHR ''f''] else if n = 10 then [CHR 0x5C, CHR ''n'']
      else if n = 13 then [CHR 0x5C, CHR ''r''] else if n = 9 then [CHR 0x5C, CHR ''t'']
      else if n = 11 then [CHR 0x5C, CHR ''v'']
      else if n < 32 \<or> n = 127 then [CHR 0x5C, CHR ''x'', hexChar (n div 16), hexChar (n mod 16)]
      else [c])"

definition quote :: "string \<Rightarrow> string" where
  "quote s = [CHR 0x22] @ concat (map quoteChar s) @ [CHR 0x22]"

section \<open>String-keyed maps\<close>

text \<open>
  A Go \<open>map[string]string\<close> as an association list without duplicate keys: the code iterates
  over such maps, and never depends on the order. Reading a missing key gives the zero value.
\<close>

type_synonym dict = "(string \<times> string) list"

definition lookupZ :: "dict \<Rightarrow> string \<Rightarrow> string" where
  "lookupZ m k = (case map_of m k of None \<Rightarrow> '''' | Some v \<Rightarrow> v)"

definition dictPut :: "string \<Rightarrow> 'v \<Rightarrow> (string \<times> 'v) list \<Rightarrow> (string \<times> 'v) list" where
  "dictPut k v m = (k, v) # filter (\<lambda>(k', _). k' \<noteq> k) m"

text \<open>The loop \<open>for k, v := range src \{ dst[k] = v \}\<close>.\<close>

definition dictCopy :: "(string \<times> 'v) list \<Rightarrow> (string \<times> 'v) list \<Rightarrow> (string \<times> 'v) list" where
  "dictCopy src dst = fold (\<lambda>(k, v) m. dictPut k v m) src dst"

text \<open>\<open>reflect.DeepEqual\<close> on two such maps.\<close>

definition dictEq :: "(string \<times> 'v) list \<Rightarrow> (string \<times> 'v) list \<Rightarrow> bool" where
  "dictEq m n \<longleftrightarrow> (\<forall>k \<in> set (map fst m @ map fst n). map_of m k = map_of n k)"

lemma map_of_filter_neq:
  "map_of (filter (\<lambda>(k', _). k' \<noteq> k) m) j = (if j = k then None else map_of m j)"
  by (induction m) auto

lemma map_of_dictPut [simp]: "map_of (dictPut k v m) = (map_of m)(k \<mapsto> v)"
  by (auto simp: dictPut_def map_of_filter_neq fun_eq_iff)

lemma distinct_dictPut: "distinct (map fst m) \<Longrightarrow> distinct (map fst (dictPut k v m))"
  by (induction m) (auto simp: dictPut_def)

lemma map_of_dictCopy:
  "distinct (map fst src) \<Longrightarrow> map_of (dictCopy src dst) = map_of dst ++ map_of src"
proof (induction src arbitrary: dst)
  case Nil
  then show ?case by (simp add: dictCopy_def)
next
  case (Cons p src)
  obtain k v where p: "p = (k, v)" by (cases p)
  with Cons.prems have "map_of src k = None"
    by (auto simp: map_of_eq_None_iff)
  with Cons p show ?case
    by (auto simp: dictCopy_def fun_eq_iff map_add_def split: option.splits)
qed

lemma dictEq_iff: "dictEq m n \<longleftrightarrow> map_of m = map_of n"
proof
  assume eq: "dictEq m n"
  show "map_of m = map_of n"
  proof
    fix k
    show "map_of m k = map_of n k"
    proof (cases "k \<in> set (map fst m @ map fst n)")
      case True
      with eq show ?thesis unfolding dictEq_def by blast
    next
      case False
      then have "map_of m k = None" "map_of n k = None"
        by (simp_all add: map_of_eq_None_iff)
      then show ?thesis by simp
    qed
  qed
qed (simp add: dictEq_def)

section \<open>Effectful code\<close>

datatype 'a outcome = Returns 'a | Panics string

type_synonym ('s, 'a) go = "'s \<Rightarrow> 'a outcome \<times> 's"

definition ret :: "'a \<Rightarrow> ('s, 'a) go" where
  "ret a = (\<lambda>s. (Returns a, s))"

definition panic :: "string \<Rightarrow> ('s, 'a) go" where
  "panic msg = (\<lambda>s. (Panics msg, s))"

definition bindG :: "('s, 'a) go \<Rightarrow> ('a \<Rightarrow> ('s, 'b) go) \<Rightarrow> ('s, 'b) go" where
  "bindG m f = (\<lambda>s. case m s of (Returns a, t) \<Rightarrow> f a t | (Panics p, t) \<Rightarrow> (Panics p, t))"

definition readS :: "('s \<Rightarrow> 'a) \<Rightarrow> ('s, 'a) go" where
  "readS f = (\<lambda>s. (Returns (f s), s))"

definition modifyS :: "('s \<Rightarrow> 's) \<Rightarrow> ('s, unit) go" where
  "modifyS f = (\<lambda>s. (Returns (), f s))"

text \<open>Weakest precondition of a postcondition on the outcome and the final state.\<close>

definition wp :: "('s, 'a) go \<Rightarrow> ('a outcome \<Rightarrow> 's \<Rightarrow> bool) \<Rightarrow> 's \<Rightarrow> bool" where
  "wp m Q s = (case m s of (r, t) \<Rightarrow> Q r t)"

named_theorems wp_simps

lemma wp_ret [wp_simps]: "wp (ret a) Q s = Q (Returns a) s"
  by (simp add: wp_def ret_def)

lemma wp_panic [wp_simps]: "wp (panic msg) Q s = Q (Panics msg) s"
  by (simp add: wp_def panic_def)

lemma wp_bindG [wp_simps]:
  "wp (bindG m f) Q s =
     wp m (\<lambda>r t. case r of Returns a \<Rightarrow> wp (f a) Q t | Panics p \<Rightarrow> Q (Panics p) t) s"
  by (simp add: wp_def bindG_def split: prod.splits outcome.splits)

lemma wp_readS [wp_simps]: "wp (readS f) Q s = Q (Returns (f s)) s"
  by (simp add: wp_def readS_def)

lemma wp_modifyS [wp_simps]: "wp (modifyS f) Q s = Q (Returns ()) (f s)"
  by (simp add: wp_def modifyS_def)

lemma wp_if [wp_simps]: "wp (if b then m else n) Q s = (if b then wp m Q s else wp n Q s)"
  by simp

lemma wp_case_option [wp_simps]:
  "wp (case x of None \<Rightarrow> m | Some a \<Rightarrow> f a) Q s =
     (case x of None \<Rightarrow> wp m Q s | Some a \<Rightarrow> wp (f a) Q s)"
  by (simp split: option.split)

lemma wp_case_sum [wp_simps]:
  "wp (case x of Inl a \<Rightarrow> f a | Inr b \<Rightarrow> g b) Q s =
     (case x of Inl a \<Rightarrow> wp (f a) Q s | Inr b \<Rightarrow> wp (g b) Q s)"
  by (simp split: sum.split)

lemma wp_case_prod [wp_simps]:
  "wp (case x of (a, b) \<Rightarrow> f a b) Q s = (case x of (a, b) \<Rightarrow> wp (f a b) Q s)"
  by (simp split: prod.split)

lemma wp_case_ptr [wp_simps]:
  "wp (case x of NilPtr \<Rightarrow> m | Ptr a v \<Rightarrow> f a v) Q s =
     (case x of NilPtr \<Rightarrow> wp m Q s | Ptr a v \<Rightarrow> wp (f a v) Q s)"
  by (simp split: ptr.split)

lemma wp_let [wp_simps]: "wp (Let x f) Q s = wp (f x) Q s"
  by (simp add: Let_def)

lemma wp_mono: "wp m Q s \<Longrightarrow> (\<And>r t. Q r t \<Longrightarrow> R r t) \<Longrightarrow> wp m R s"
  by (auto simp: wp_def split: prod.splits)

lemma wp_conj: "wp m Q s \<Longrightarrow> wp m R s \<Longrightarrow> wp m (\<lambda>r t. Q r t \<and> R r t) s"
  by (auto simp: wp_def split: prod.splits)

lemma wp_run: "wp m Q s \<longleftrightarrow> (\<forall>r t. m s = (r, t) \<longrightarrow> Q r t)"
  by (simp add: wp_def split: prod.splits)

lemma wpD: "wp m Q s \<Longrightarrow> m s = (r, t) \<Longrightarrow> Q r t"
  by (simp add: wp_run)

section \<open>Total correctness\<close>

text \<open>\<open>hoare P m Q\<close>: from a state satisfying \<open>P\<close> the code returns (it does not panic) and its result
  and final state satisfy \<open>Q\<close>. The rules of \<open>hoare_intros\<close> follow the structure of the code with one
  invariant.\<close>

definition hoare :: "('s \<Rightarrow> bool) \<Rightarrow> ('s, 'a) go \<Rightarrow> ('a \<Rightarrow> 's \<Rightarrow> bool) \<Rightarrow> bool" where
  "hoare P m Q \<longleftrightarrow>
     (\<forall>s. P s \<longrightarrow> wp m (\<lambda>r t. case r of Returns a \<Rightarrow> Q a t | Panics p \<Rightarrow> False) s)"

named_theorems hoare_intros

lemma hoare_bindG: "hoare P m Q \<Longrightarrow> (\<And>a. hoare (Q a) (f a) R) \<Longrightarrow> hoare P (bindG m f) R"
proof -
  assume m: "hoare P m Q" and f: "\<And>a. hoare (Q a) (f a) R"
  show ?thesis
    unfolding hoare_def wp_bindG
  proof (intro allI impI)
    fix s assume "P s"
    with m have "wp m (\<lambda>r t. case r of Returns a \<Rightarrow> Q a t | Panics p \<Rightarrow> False) s"
      by (simp add: hoare_def)
    then show "wp m (\<lambda>r t. case r of
        Returns a \<Rightarrow> wp (f a) (\<lambda>r t. case r of Returns a \<Rightarrow> R a t | Panics p \<Rightarrow> False) t
      | Panics p \<Rightarrow> (case Panics p of Returns a \<Rightarrow> R a t | Panics p \<Rightarrow> False)) s"
      by (rule wp_mono, case_tac r) (use f in \<open>auto simp: hoare_def\<close>)
  qed
qed

lemma hoare_keep_bindG [hoare_intros]:
  "hoare I m (\<lambda>_. I) \<Longrightarrow> (\<And>a. hoare I (f a) (\<lambda>_. I)) \<Longrightarrow> hoare I (bindG m f) (\<lambda>_. I)"
  by (rule hoare_bindG)

lemma hoare_ret [hoare_intros]: "hoare I (ret a) (\<lambda>_. I)"
  by (simp add: hoare_def wp_simps)

lemma hoare_readS [hoare_intros]: "hoare I (readS f) (\<lambda>_. I)"
  by (simp add: hoare_def wp_simps)

lemma hoare_bind_readS: "(\<And>x. hoare (\<lambda>s. I s \<and> x = g s) (f x) R) \<Longrightarrow> hoare I (bindG (readS g) f) R"
  by (simp add: hoare_def wp_simps)

lemma hoare_modifyS: "(\<And>s. I s \<Longrightarrow> J (f s)) \<Longrightarrow> hoare I (modifyS f) (\<lambda>_. J)"
  by (simp add: hoare_def wp_simps)

lemma hoare_if [hoare_intros]:
  "(b \<Longrightarrow> hoare P m Q) \<Longrightarrow> (\<not> b \<Longrightarrow> hoare P n Q) \<Longrightarrow> hoare P (if b then m else n) Q"
  by simp

lemma hoare_option [hoare_intros]:
  "(x = None \<Longrightarrow> hoare P m Q) \<Longrightarrow> (\<And>a. x = Some a \<Longrightarrow> hoare P (f a) Q) \<Longrightarrow>
   hoare P (case x of None \<Rightarrow> m | Some a \<Rightarrow> f a) Q"
  by (simp split: option.split)

lemma hoare_sum [hoare_intros]:
  "(\<And>a. x = Inl a \<Longrightarrow> hoare P (f a) Q) \<Longrightarrow> (\<And>b. x = Inr b \<Longrightarrow> hoare P (g b) Q) \<Longrightarrow>
   hoare P (case x of Inl a \<Rightarrow> f a | Inr b \<Rightarrow> g b) Q"
  by (simp split: sum.split)

lemma hoare_prod [hoare_intros]:
  "(\<And>a b. x = (a, b) \<Longrightarrow> hoare P (f a b) Q) \<Longrightarrow> hoare P (case x of (a, b) \<Rightarrow> f a b) Q"
  by (simp split: prod.split)

lemma hoare_let [hoare_intros]: "hoare P (f x) Q \<Longrightarrow> hoare P (Let x f) Q"
  by (simp add: Let_def)

lemma hoare_conseq: "hoare P m Q \<Longrightarrow> (\<And>s. P' s \<Longrightarrow> P s) \<Longrightarrow> (\<And>a s. Q a s \<Longrightarrow> Q' a s) \<Longrightarrow> hoare P' m Q'"
  by (fastforce simp: hoare_def elim!: wp_mono split: outcome.splits)

lemma hoare_pre: "hoare P m Q \<Longrightarrow> (\<And>s. P' s \<Longrightarrow> P s) \<Longrightarrow> hoare P' m Q"
  by (erule hoare_conseq)

lemma hoare_bind_value:
  "hoare P m (\<lambda>a s. Q s \<and> R a) \<Longrightarrow> (\<And>a. R a \<Longrightarrow> hoare Q (f a) S) \<Longrightarrow> hoare P (bindG m f) S"
  by (erule hoare_bindG) (auto simp: hoare_def)

text \<open>Effects that hold of every run, panicking or not: \<open>m\<close> relates each state to its final state
  by a preorder.\<close>

definition tracks :: "('s \<Rightarrow> 's \<Rightarrow> bool) \<Rightarrow> ('s, 'a) go \<Rightarrow> bool" where
  "tracks R m \<longleftrightarrow> (\<forall>s. R s (snd (m s)))"

named_theorems track_intros

locale effect =
  fixes R :: "'s \<Rightarrow> 's \<Rightarrow> bool"
  assumes R_refl: "R s s"
    and R_trans: "R s t \<Longrightarrow> R t u \<Longrightarrow> R s u"
begin

lemma tracks_bindG: "tracks R m \<Longrightarrow> (\<And>a. tracks R (f a)) \<Longrightarrow> tracks R (bindG m f)"
  unfolding tracks_def bindG_def
  by (auto split: prod.splits outcome.splits) (metis R_trans snd_conv)+

lemma tracks_ret: "tracks R (ret a)"
  by (simp add: tracks_def ret_def R_refl)

lemma tracks_panic: "tracks R (panic p)"
  by (simp add: tracks_def panic_def R_refl)

lemma tracks_readS: "tracks R (readS f)"
  by (simp add: tracks_def readS_def R_refl)

end

lemma tracks_modifyS: "(\<And>s. R s (f s)) \<Longrightarrow> tracks R (modifyS f)"
  by (simp add: tracks_def modifyS_def)

lemma tracks_if [track_intros]: "tracks R m \<Longrightarrow> tracks R n \<Longrightarrow> tracks R (if b then m else n)"
  by simp

lemma tracks_option [track_intros]:
  "tracks R m \<Longrightarrow> (\<And>a. tracks R (f a)) \<Longrightarrow> tracks R (case x of None \<Rightarrow> m | Some a \<Rightarrow> f a)"
  by (simp split: option.split)

lemma tracks_sum [track_intros]:
  "(\<And>a. tracks R (f a)) \<Longrightarrow> (\<And>b. tracks R (g b)) \<Longrightarrow>
   tracks R (case x of Inl a \<Rightarrow> f a | Inr b \<Rightarrow> g b)"
  by (simp split: sum.split)

lemma tracks_prod [track_intros]:
  "(\<And>a b. tracks R (f a b)) \<Longrightarrow> tracks R (case x of (a, b) \<Rightarrow> f a b)"
  by (simp split: prod.split)

lemma tracks_let [track_intros]: "tracks R (f x) \<Longrightarrow> tracks R (Let x f)"
  by (simp add: Let_def)

lemma tracks_wp: "tracks R m \<Longrightarrow> wp m (\<lambda>_ t. R s t) s"
  by (auto simp: tracks_def wp_def split: prod.splits) (metis snd_conv)

end
