(* ===== verification/Conditions.thy ===== *)
theory Conditions
  imports Prelude
begin

text \<open>
  The status of an operation (\<^verbatim>\<open>api/v1/condition.go\<close>, \<^verbatim>\<open>api/v1/status.go\<close>,
  \<^verbatim>\<open>api/v1/helpers.go\<close>): conditions, how the \<open>Log\<close> methods append to them, and the
  predicates the controllers branch on.

  The record \<open>OperationStatus\<close> is the Go struct; the methods with a pointer receiver return
  the updated status. \<open>metav1.Now()\<close> is read twice by \<open>NewOperationCondition\<close>: the two
  readings are the first argument (\<open>clock\<close>) of every definition that creates a condition.

  The locale \<open>status_log\<close> is what the controllers rely on: logging replaces the condition of
  one type by a true one at the end and keeps all the others. It is interpreted on
  \<open>logCondition\<close>. The step relation \<open>status_step\<close> has one rule per \<open>Log\<close> method.
\<close>

section \<open>Data\<close>

text \<open>The Go type is a string; the constants are its documented values, and the empty string,
  which \<open>HasUnschedulablePods\<close> returns, is \<open>OtherCondition ''''\<close>.\<close>

datatype OperationConditionType =
    OperationStarting
  | OperationRunning
  | OperationWarning
  | OperationSucceeded
  | OperationFailed
  | OperationStopped
  | OtherCondition string

datatype ConditionStatus = ConditionTrue | ConditionFalse | ConditionUnknown | OtherStatus string

record OperationCondition =
  cType :: OperationConditionType
  cStatus :: ConditionStatus
  cLastUpdateTime :: time
  cLastTransitionTime :: time
  cReason :: string
  cMessage :: string

record OperationStatus =
  Conditions :: "OperationCondition list"
  StartTime :: "time option"
  CompletionTime :: "time option"
  LastReconcileTime :: "time option"

type_synonym clock = "time \<times> time"

section \<open>Operations\<close>

definition NewOperationCondition ::
  "clock \<Rightarrow> OperationConditionType \<Rightarrow> ConditionStatus \<Rightarrow> string \<Rightarrow> string \<Rightarrow> OperationCondition"
where
  "NewOperationCondition clk conditionType status reason message =
     \<lparr>cType = conditionType, cStatus = status,
      cLastUpdateTime = fst clk, cLastTransitionTime = snd clk,
      cReason = reason, cMessage = message\<rparr>"

definition GetMessage ::
  "OperationConditionType \<Rightarrow> string \<Rightarrow> OperationConditionType \<Rightarrow> string \<Rightarrow> string \<Rightarrow> string"
where
  "GetMessage condition entityMessage status reason message =
     (if status = condition \<and> message \<noteq> ''''
      then entityMessage @ '' (Pod: <reason: '' @ reason @ '', message '' @ message @ '')''
      else entityMessage)"

definition GetFailureMessage ::
  "string \<Rightarrow> OperationConditionType \<Rightarrow> string \<Rightarrow> string \<Rightarrow> string"
where
  "GetFailureMessage entityMessage status reason message =
     GetMessage OperationFailed entityMessage status reason message"

definition GetStoppedMessage ::
  "string \<Rightarrow> OperationConditionType \<Rightarrow> string \<Rightarrow> string \<Rightarrow> string"
where
  "GetStoppedMessage entityMessage status reason message =
     GetMessage OperationStopped entityMessage status reason message"

definition isFinal :: "OperationConditionType \<Rightarrow> bool" where
  "isFinal t \<longleftrightarrow> t = OperationSucceeded \<or> t = OperationFailed \<or> t = OperationStopped"

definition getOrUpdateOperationCondition ::
  "clock \<Rightarrow> OperationCondition option \<Rightarrow> OperationConditionType \<Rightarrow> ConditionStatus \<Rightarrow>
   string \<Rightarrow> string \<Rightarrow> OperationCondition \<times> bool"
where
  "getOrUpdateOperationCondition clk currentCond conditionType status reason message =
     (let newCond = NewOperationCondition clk conditionType status reason message in
      case currentCond of
        None \<Rightarrow> (newCond, True)
      | Some cur \<Rightarrow>
          if cType cur = cType newCond \<and> cStatus cur = cStatus newCond \<and>
             cReason cur = cReason newCond \<and> cMessage cur = cMessage newCond
          then (if isFinal (cType cur) then (newCond, True) else (newCond, False))
          else if cType cur = cType newCond \<and> cStatus cur = cStatus newCond
          then (newCond\<lparr>cLastTransitionTime := cLastTransitionTime cur\<rparr>, True)
          else (newCond, True))"

definition getLastEntityCondition :: "OperationStatus \<Rightarrow> OperationCondition option" where
  "getLastEntityCondition status =
     (if length (Conditions status) > 0 then Some (last (Conditions status)) else None)"

definition getEntityConditionFromStatus ::
  "OperationStatus \<Rightarrow> OperationConditionType \<Rightarrow> OperationCondition option"
where
  "getEntityConditionFromStatus status condType =
     List.find (\<lambda>c. cType c = condType) (Conditions status)"

definition hasOperationCondition :: "OperationStatus \<Rightarrow> OperationConditionType \<Rightarrow> bool" where
  "hasOperationCondition status condType =
     (case getEntityConditionFromStatus status condType of
        None \<Rightarrow> False | Some cond \<Rightarrow> cStatus cond = ConditionTrue)"

definition hasLastOperationCondition :: "OperationStatus \<Rightarrow> OperationConditionType \<Rightarrow> bool" where
  "hasLastOperationCondition status condType =
     (case getLastEntityCondition status of
        None \<Rightarrow> False | Some cond \<Rightarrow> cType cond = condType \<and> cStatus cond = ConditionTrue)"

definition IsStarting :: "OperationStatus \<Rightarrow> bool" where
  "IsStarting status = hasLastOperationCondition status OperationStarting"

definition IsRunning :: "OperationStatus \<Rightarrow> bool" where
  "IsRunning status = hasLastOperationCondition status OperationRunning"

definition IsWarning :: "OperationStatus \<Rightarrow> bool" where
  "IsWarning status = hasLastOperationCondition status OperationWarning"

definition IsSucceeded :: "OperationStatus \<Rightarrow> bool" where
  "IsSucceeded status = hasOperationCondition status OperationSucceeded"

definition IsFailed :: "OperationStatus \<Rightarrow> bool" where
  "IsFailed status = hasOperationCondition status OperationFailed"

definition IsStopped :: "OperationStatus \<Rightarrow> bool" where
  "IsStopped status = hasOperationCondition status OperationStopped"

definition IsDone :: "OperationStatus \<Rightarrow> bool" where
  "IsDone status \<longleftrightarrow> IsSucceeded status \<or> IsFailed status \<or> IsStopped status"

definition removeCondition :: "OperationStatus \<Rightarrow> OperationConditionType \<Rightarrow> OperationStatus" where
  "removeCondition status conditionType =
     status\<lparr>Conditions := filter (\<lambda>c. cType c \<noteq> conditionType) (Conditions status)\<rparr>"

definition logCondition ::
  "clock \<Rightarrow> OperationStatus \<Rightarrow> OperationConditionType \<Rightarrow> string \<Rightarrow> string \<Rightarrow>
   OperationStatus \<times> bool"
where
  "logCondition clk status condType reason message =
     (let (cond, isUpdated) =
        getOrUpdateOperationCondition clk (getLastEntityCondition status)
          condType ConditionTrue reason message
      in if isUpdated
         then (let status' = removeCondition status condType
               in (status'\<lparr>Conditions := Conditions status' @ [cond]\<rparr>, True))
         else (status, False))"

definition LogStarting :: "clock \<Rightarrow> OperationStatus \<Rightarrow> OperationStatus \<times> bool" where
  "LogStarting clk status =
     logCondition clk status OperationStarting ''OperatorController'' ''Operation is starting''"

definition LogRunning :: "clock \<Rightarrow> OperationStatus \<Rightarrow> OperationStatus \<times> bool" where
  "LogRunning clk status =
     logCondition clk status OperationRunning ''OperatorController'' ''Operation is running''"

definition LogWarning :: "clock \<Rightarrow> OperationStatus \<Rightarrow> string \<Rightarrow> string \<Rightarrow> OperationStatus \<times> bool" where
  "LogWarning clk status reason message =
     (let reason' = (if reason = '''' then ''OperatorController'' else reason);
          message' = (if message = '''' then ''Underlaying job has an issue'' else message)
      in logCondition clk status OperationWarning reason' message')"

definition LogSucceeded :: "clock \<Rightarrow> OperationStatus \<Rightarrow> OperationStatus \<times> bool" where
  "LogSucceeded clk status =
     logCondition clk status OperationSucceeded ''OperatorController'' ''Operation has succeeded''"

definition LogFailed :: "clock \<Rightarrow> OperationStatus \<Rightarrow> string \<Rightarrow> string \<Rightarrow> OperationStatus \<times> bool" where
  "LogFailed clk status reason message = logCondition clk status OperationFailed reason message"

definition LogStopped :: "clock \<Rightarrow> OperationStatus \<Rightarrow> string \<Rightarrow> string \<Rightarrow> OperationStatus \<times> bool" where
  "LogStopped clk status reason message = logCondition clk status OperationStopped reason message"

text \<open>The result is the pair \<open>(shouldMarkDeleted, isDone)\<close> of the source.\<close>

definition ShouldMarkJobAsDeleted :: "OperationStatus \<Rightarrow> bool \<times> bool" where
  "ShouldMarkJobAsDeleted status =
     (if IsDone status then (False, True)
      else if length (Conditions status) = 0 then (False, False)
      else (let lastCond = last (Conditions status) in
            if cType lastCond = OperationRunning \<or> cType lastCond = OperationWarning
            then (True, False) else (False, False)))"

definition deletedMessage :: "string \<Rightarrow> string" where
  "deletedMessage jobType = ''The underlying '' @ jobType @ '' was deleted externally''"

text \<open>\<open>now\<close> is the reading of the clock at the start of the method.\<close>

definition MarkJobAsDeleted ::
  "time \<Rightarrow> clock \<Rightarrow> OperationStatus \<Rightarrow> string \<Rightarrow> bool \<Rightarrow> OperationStatus \<times> bool"
where
  "MarkJobAsDeleted now clk status jobType useFailed =
     (let message = deletedMessage jobType;
          (status', updated) =
            (if useFailed then LogFailed clk status ''JobDeleted'' message
             else LogStopped clk status ''JobDeleted'' message)
      in if updated then (status'\<lparr>CompletionTime := Some now\<rparr>, True) else (status', False))"

definition containsString :: "string list \<Rightarrow> string \<Rightarrow> bool" where
  "containsString strs s = list_ex (\<lambda>item. item = s) strs"

definition removeString :: "string list \<Rightarrow> string \<Rightarrow> string list" where
  "removeString strs s = filter (\<lambda>item. item \<noteq> s) strs"

section \<open>The interface the controllers rely on\<close>

text \<open>A list of conditions holds a condition type when its first entry of that type is true.\<close>

definition holds :: "OperationConditionType \<Rightarrow> OperationCondition list \<Rightarrow> bool" where
  "holds t cs = (case List.find (\<lambda>c. cType c = t) cs of
                   None \<Rightarrow> False | Some c \<Rightarrow> cStatus c = ConditionTrue)"

definition condTypes :: "OperationCondition list \<Rightarrow> OperationConditionType list" where
  "condTypes cs = map cType cs"

lemma find_filter_same:
  "(\<And>x. P x \<Longrightarrow> Q x) \<Longrightarrow> List.find P (filter Q xs) = List.find P xs"
  by (induction xs) auto

lemma find_append: "List.find P (xs @ ys) =
   (case List.find P xs of None \<Rightarrow> List.find P ys | Some x \<Rightarrow> Some x)"
  by (induction xs) auto

lemma find_filter_None: "List.find P (filter (\<lambda>x. \<not> P x) xs) = None"
  by (induction xs) auto

lemma holds_replace:
  "cType c = t \<Longrightarrow> cStatus c = ConditionTrue \<Longrightarrow>
   holds u (filter (\<lambda>c. cType c \<noteq> t) cs @ [c]) \<longleftrightarrow> u = t \<or> holds u cs"
proof (cases "u = t")
  case True
  assume "cType c = t" "cStatus c = ConditionTrue"
  with True show ?thesis
    by (simp add: holds_def find_append find_filter_None)
next
  case False
  assume "cType c = t" "cStatus c = ConditionTrue"
  moreover have "List.find (\<lambda>c. cType c = u) (filter (\<lambda>c. cType c \<noteq> t) cs) =
      List.find (\<lambda>c. cType c = u) cs"
    using False by (auto intro: find_filter_same)
  ultimately show ?thesis using False
    by (auto simp: holds_def find_append split: option.splits)
qed

lemma distinct_replace:
  "distinct (condTypes cs) \<Longrightarrow> cType c = t \<Longrightarrow>
   distinct (condTypes (filter (\<lambda>c. cType c \<noteq> t) cs @ [c]))"
  by (induction cs) (auto simp: condTypes_def)

locale status_log =
  fixes conds :: "'s \<Rightarrow> OperationCondition list"
    and log :: "clock \<Rightarrow> 's \<Rightarrow> OperationConditionType \<Rightarrow> string \<Rightarrow> string \<Rightarrow> 's \<times> bool"
  assumes log_unchanged: "log clk s t r m = (s', False) \<Longrightarrow>
      s' = s \<and> conds s \<noteq> [] \<and> cType (last (conds s)) = t \<and> \<not> isFinal t
      \<and> cStatus (last (conds s)) = ConditionTrue"
    and log_changed: "log clk s t r m = (s', True) \<Longrightarrow>
      \<exists>c. conds s' = filter (\<lambda>c. cType c \<noteq> t) (conds s) @ [c] \<and>
          cType c = t \<and> cStatus c = ConditionTrue \<and> cReason c = r \<and> cMessage c = m"
begin

lemma log_not_empty: "conds (fst (log clk s t r m)) \<noteq> []"
  by (cases "log clk s t r m"; cases "snd (log clk s t r m)")
     (auto dest!: log_unchanged log_changed)

lemma log_last: "cType (last (conds (fst (log clk s t r m)))) = t
    \<and> cStatus (last (conds (fst (log clk s t r m)))) = ConditionTrue"
  by (cases "log clk s t r m"; cases "snd (log clk s t r m)")
     (auto dest!: log_unchanged log_changed)

lemma log_holds_mono: "holds u (conds s) \<Longrightarrow> holds u (conds (fst (log clk s t r m)))"
  by (cases "log clk s t r m"; cases "snd (log clk s t r m)")
     (auto dest!: log_unchanged log_changed simp: holds_replace)

lemma log_final: "isFinal t \<Longrightarrow> snd (log clk s t r m)"
  by (cases "log clk s t r m"; cases "snd (log clk s t r m)") (auto dest!: log_unchanged)

lemma log_holds: "snd (log clk s t r m) \<Longrightarrow>
    holds u (conds (fst (log clk s t r m))) \<longleftrightarrow> u = t \<or> holds u (conds s)"
  by (cases "log clk s t r m") (auto dest!: log_changed simp: holds_replace)

lemma log_distinct:
  "distinct (condTypes (conds s)) \<Longrightarrow> distinct (condTypes (conds (fst (log clk s t r m))))"
  by (cases "log clk s t r m"; cases "snd (log clk s t r m)")
     (auto dest!: log_unchanged log_changed simp: distinct_replace)

lemma log_types: "set (condTypes (conds (fst (log clk s t r m)))) \<subseteq> insert t (set (condTypes (conds s)))"
  by (cases "log clk s t r m"; cases "snd (log clk s t r m)")
     (auto dest!: log_unchanged log_changed simp: condTypes_def)

lemma log_all_true: "(\<forall>c \<in> set (conds s). cStatus c = ConditionTrue) \<Longrightarrow>
    (\<forall>c \<in> set (conds (fst (log clk s t r m))). cStatus c = ConditionTrue)"
  by (cases "log clk s t r m"; cases "snd (log clk s t r m)")
     (auto dest!: log_unchanged log_changed)

end

lemma logCondition_cases:
  "logCondition clk s t r m =
     (if Conditions s \<noteq> [] \<and> cType (last (Conditions s)) = t \<and>
         cStatus (last (Conditions s)) = ConditionTrue \<and>
         cReason (last (Conditions s)) = r \<and> cMessage (last (Conditions s)) = m \<and> \<not> isFinal t
      then (s, False)
      else (s\<lparr>Conditions := filter (\<lambda>c. cType c \<noteq> t) (Conditions s) @
              [\<lparr>cType = t, cStatus = ConditionTrue, cLastUpdateTime = fst clk,
                cLastTransitionTime =
                  (if Conditions s \<noteq> [] \<and> cType (last (Conditions s)) = t \<and>
                      cStatus (last (Conditions s)) = ConditionTrue \<and>
                      (cReason (last (Conditions s)) \<noteq> r \<or> cMessage (last (Conditions s)) \<noteq> m)
                   then cLastTransitionTime (last (Conditions s)) else snd clk),
                cReason = r, cMessage = m\<rparr>]\<rparr>, True))"
  by (auto simp: logCondition_def getOrUpdateOperationCondition_def getLastEntityCondition_def
        NewOperationCondition_def removeCondition_def Let_def)

interpretation status: status_log Conditions logCondition
proof unfold_locales
  fix clk s t r m s'
  assume "logCondition clk s t r m = (s', False)"
  then show "s' = s \<and> Conditions s \<noteq> [] \<and> cType (last (Conditions s)) = t \<and> \<not> isFinal t
      \<and> cStatus (last (Conditions s)) = ConditionTrue"
    by (auto simp: logCondition_cases split: if_splits)
next
  fix clk s t r m s'
  assume "logCondition clk s t r m = (s', True)"
  then show "\<exists>c. Conditions s' = filter (\<lambda>c. cType c \<noteq> t) (Conditions s) @ [c] \<and>
      cType c = t \<and> cStatus c = ConditionTrue \<and> cReason c = r \<and> cMessage c = m"
    by (auto simp: logCondition_cases split: if_splits)
qed


section \<open>Consequences for the methods\<close>

lemmas log_methods = LogStarting_def LogRunning_def LogWarning_def LogSucceeded_def
  LogFailed_def LogStopped_def Let_def

lemma hasOperationCondition_holds: "hasOperationCondition s t = holds t (Conditions s)"
  by (simp add: hasOperationCondition_def getEntityConditionFromStatus_def holds_def)

lemma IsDone_holds: "IsDone s \<longleftrightarrow> (\<exists>t. isFinal t \<and> holds t (Conditions s))"
  by (auto simp: IsDone_def IsSucceeded_def IsFailed_def IsStopped_def
      hasOperationCondition_holds isFinal_def)

lemma IsDone_cong: "Conditions s = Conditions s' \<Longrightarrow> IsDone s = IsDone s'"
  by (simp add: IsDone_holds)

lemma IsDone_logCondition:
  "IsDone (fst (logCondition clk s t r m)) \<longleftrightarrow> isFinal t \<or> IsDone s"
proof (cases "snd (logCondition clk s t r m)")
  case True
  then show ?thesis by (auto simp: IsDone_holds status.log_holds)
next
  case False
  then have "fst (logCondition clk s t r m) = s" and "\<not> isFinal t"
    using status.log_unchanged [of clk s t r m "fst (logCondition clk s t r m)"]
    by (cases "logCondition clk s t r m"; auto)+
  then show ?thesis by simp
qed

lemma logCondition_times [simp]:
  "StartTime (fst (logCondition clk s t r m)) = StartTime s"
  "CompletionTime (fst (logCondition clk s t r m)) = CompletionTime s"
  "LastReconcileTime (fst (logCondition clk s t r m)) = LastReconcileTime s"
  by (simp_all add: logCondition_cases)

lemma logCondition_final: "isFinal t \<Longrightarrow> snd (logCondition clk s t r m)"
  by (rule status.log_final)

lemma isFinal_simps [simp]:
  "isFinal OperationSucceeded" "isFinal OperationFailed" "isFinal OperationStopped"
  "\<not> isFinal OperationStarting" "\<not> isFinal OperationRunning" "\<not> isFinal OperationWarning"
  by (simp_all add: isFinal_def)

lemma IsDone_log_methods [simp]:
  "IsDone (fst (LogStarting clk s)) = IsDone s"
  "IsDone (fst (LogRunning clk s)) = IsDone s"
  "IsDone (fst (LogWarning clk s r m)) = IsDone s"
  "IsDone (fst (LogSucceeded clk s))"
  "IsDone (fst (LogFailed clk s r m))"
  "IsDone (fst (LogStopped clk s r m))"
  by (simp_all add: log_methods IsDone_logCondition)

lemma log_final_methods [simp]:
  "snd (LogSucceeded clk s)" "snd (LogFailed clk s r m)" "snd (LogStopped clk s r m)"
  by (simp_all add: log_methods logCondition_final)

lemma log_methods_times [simp]:
  "StartTime (fst (LogStarting clk s)) = StartTime s"
  "StartTime (fst (LogRunning clk s)) = StartTime s"
  "StartTime (fst (LogWarning clk s r m)) = StartTime s"
  "StartTime (fst (LogSucceeded clk s)) = StartTime s"
  "StartTime (fst (LogFailed clk s r m)) = StartTime s"
  "StartTime (fst (LogStopped clk s r m)) = StartTime s"
  "CompletionTime (fst (LogStarting clk s)) = CompletionTime s"
  "CompletionTime (fst (LogRunning clk s)) = CompletionTime s"
  "CompletionTime (fst (LogWarning clk s r m)) = CompletionTime s"
  "CompletionTime (fst (LogSucceeded clk s)) = CompletionTime s"
  "CompletionTime (fst (LogFailed clk s r m)) = CompletionTime s"
  "CompletionTime (fst (LogStopped clk s r m)) = CompletionTime s"
  by (simp_all add: log_methods)

lemma log_methods_not_empty [simp]:
  "Conditions (fst (LogStarting clk s)) \<noteq> []" "Conditions (fst (LogRunning clk s)) \<noteq> []"
  "Conditions (fst (LogWarning clk s r m)) \<noteq> []" "Conditions (fst (LogSucceeded clk s)) \<noteq> []"
  "Conditions (fst (LogFailed clk s r m)) \<noteq> []" "Conditions (fst (LogStopped clk s r m)) \<noteq> []"
  by (simp_all add: log_methods status.log_not_empty)

lemma ShouldMarkJobAsDeleted_snd [simp]: "snd (ShouldMarkJobAsDeleted s) = IsDone s"
  by (simp add: ShouldMarkJobAsDeleted_def Let_def)

lemma MarkJobAsDeleted_eq:
  "MarkJobAsDeleted now clk s jobType useFailed =
     ((fst (logCondition clk s (if useFailed then OperationFailed else OperationStopped)
        ''JobDeleted'' (deletedMessage jobType)))\<lparr>CompletionTime := Some now\<rparr>, True)"
  by (simp add: MarkJobAsDeleted_def LogFailed_def LogStopped_def Let_def case_prod_beta
      logCondition_final)

section \<open>The status as a state machine\<close>

text \<open>One rule per method that changes a status.\<close>

inductive status_step :: "OperationStatus \<Rightarrow> OperationStatus \<Rightarrow> bool" where
  starting: "status_step s (fst (LogStarting clk s))"
| running: "status_step s (fst (LogRunning clk s))"
| warning: "status_step s (fst (LogWarning clk s r m))"
| succeeded: "status_step s (fst (LogSucceeded clk s))"
| failed: "status_step s (fst (LogFailed clk s r m))"
| stopped: "status_step s (fst (LogStopped clk s r m))"
| deleted: "status_step s (fst (MarkJobAsDeleted now clk s jobType useFailed))"
| startTime: "status_step s (s\<lparr>StartTime := Some now\<rparr>)"
| completionTime: "status_step s (s\<lparr>CompletionTime := Some now\<rparr>)"

inductive_cases status_stepE: "status_step s t"

definition emptyStatus :: OperationStatus where
  "emptyStatus = \<lparr>Conditions = [], StartTime = None, CompletionTime = None, LastReconcileTime = None\<rparr>"

definition loggedTypes :: "OperationConditionType list" where
  "loggedTypes = [OperationStarting, OperationRunning, OperationWarning,
     OperationSucceeded, OperationFailed, OperationStopped]"

definition status_wf :: "OperationStatus \<Rightarrow> bool" where
  "status_wf s \<longleftrightarrow> distinct (condTypes (Conditions s)) \<and>
     set (condTypes (Conditions s)) \<subseteq> set loggedTypes \<and>
     (\<forall>c \<in> set (Conditions s). cStatus c = ConditionTrue)"

lemma logCondition_wf:
  "status_wf s \<Longrightarrow> t \<in> set loggedTypes \<Longrightarrow> status_wf (fst (logCondition clk s t r m))"
  using status.log_types [of clk s t r m]
  by (auto simp: status_wf_def status.log_distinct status.log_all_true)

lemma status_wf_times [simp]:
  "status_wf (s\<lparr>StartTime := x\<rparr>) = status_wf s" "status_wf (s\<lparr>CompletionTime := x\<rparr>) = status_wf s"
  by (simp_all add: status_wf_def)

lemma IsDone_times [simp]:
  "IsDone (s\<lparr>StartTime := x\<rparr>) = IsDone s" "IsDone (s\<lparr>CompletionTime := x\<rparr>) = IsDone s"
  by (simp_all add: IsDone_holds)

lemma status_step_wf: "status_step s t \<Longrightarrow> status_wf s \<Longrightarrow> status_wf t"
  by (induction rule: status_step.induct)
     (simp_all add: log_methods MarkJobAsDeleted_eq logCondition_wf loggedTypes_def)

lemma status_step_holds:
  "status_step s t \<Longrightarrow> holds u (Conditions s) \<Longrightarrow> holds u (Conditions t)"
  by (induction rule: status_step.induct)
     (simp_all add: log_methods MarkJobAsDeleted_eq status.log_holds_mono)

lemma status_steps_holds:
  "status_step\<^sup>*\<^sup>* s t \<Longrightarrow> holds u (Conditions s) \<Longrightarrow> holds u (Conditions t)"
  by (induction rule: rtranclp_induct) (auto intro: status_step_holds)

lemma status_reached_wf: "status_step\<^sup>*\<^sup>* emptyStatus s \<Longrightarrow> status_wf s"
proof (induction rule: rtranclp_induct)
  case base
  show ?case by (simp add: status_wf_def emptyStatus_def condTypes_def)
next
  case (step t u)
  then show ?case by (blast intro: status_step_wf)
qed

section \<open>Properties\<close>

text \<open>C6: a final condition is absorbing: once an operation has succeeded, failed or stopped,
  no sequence of \<open>Log\<close> methods, deletion marks or time updates makes it succeed, fail or stop
  any less. In particular a done operation stays done.\<close>

theorem done_absorbing:
  assumes "status_step\<^sup>*\<^sup>* s t"
  shows "(IsSucceeded s \<longrightarrow> IsSucceeded t) \<and> (IsFailed s \<longrightarrow> IsFailed t) \<and>
         (IsStopped s \<longrightarrow> IsStopped t) \<and> (IsDone s \<longrightarrow> IsDone t)"
  using status_steps_holds [OF assms]
  by (auto simp: IsSucceeded_def IsFailed_def IsStopped_def IsDone_holds hasOperationCondition_holds)

theorem done_absorbing_witness:
  "let s = fst (LogSucceeded (1, 1) emptyStatus); t = fst (LogFailed (2, 2) s ''Error'' ''late'')
   in IsSucceeded s \<and> IsSucceeded t \<and> IsFailed t"
proof -
  let ?s = "fst (LogSucceeded (1, 1) emptyStatus)"
  let ?t = "fst (LogFailed (2, 2) ?s ''Error'' ''late'')"
  have "status_step\<^sup>*\<^sup>* ?s ?t" by (intro r_into_rtranclp status_step.failed)
  moreover have "IsSucceeded ?s" "IsFailed ?t"
    by (simp_all add: IsSucceeded_def IsFailed_def hasOperationCondition_holds log_methods
        logCondition_cases holds_def emptyStatus_def find_append)
  ultimately show ?thesis using done_absorbing [of ?s ?t] by (simp add: Let_def)
qed

text \<open>C7: every status the operator builds from an empty one holds each condition type at most
  once, only the six types of the operator, all of them true; so it never has more than six
  conditions, whatever the sequence of methods.\<close>

theorem status_reachable_wf:
  assumes "status_step\<^sup>*\<^sup>* emptyStatus s"
  shows "status_wf s \<and> length (Conditions s) \<le> 6"
proof -
  have wf: "status_wf s" using assms by (rule status_reached_wf)
  then have "card (set (condTypes (Conditions s))) \<le> card (set loggedTypes)"
    by (auto simp: status_wf_def intro: card_mono)
  moreover have "card (set loggedTypes) \<le> 6"
    by (rule order_trans [OF card_length]) (simp add: loggedTypes_def)
  moreover have "card (set (condTypes (Conditions s))) = length (Conditions s)"
    using wf distinct_card [of "condTypes (Conditions s)"] by (simp add: status_wf_def condTypes_def)
  ultimately show ?thesis using wf by simp
qed

theorem status_reachable_wf_witness:
  "status_wf (fst (LogRunning (2, 2) (fst (LogStarting (1, 1) emptyStatus))))"
proof -
  have "status_step\<^sup>*\<^sup>* emptyStatus (fst (LogRunning (2, 2) (fst (LogStarting (1, 1) emptyStatus))))"
    by (blast intro: rtranclp.rtrancl_into_rtrancl status_step.intros)
  then show ?thesis using status_reachable_wf by blast
qed

text \<open>what \<open>logCondition\<close> does on every branch. It reports no change exactly when the last
  condition already has the same type, reason and message, is true, and the type is not final;
  the status is then untouched. Otherwise every condition of the type is dropped, the others keep
  their order, and a true one is appended; its transition time is kept from the last condition
  exactly when that one has the same type and is true but differs in reason or message.\<close>

theorem logCondition_spec:
  fixes s :: OperationStatus
  defines "cs \<equiv> Conditions s"
  shows "logCondition clk s t r m =
    (let same = (cs \<noteq> [] \<and> cType (last cs) = t \<and> cStatus (last cs) = ConditionTrue);
         text_same = (cReason (last cs) = r \<and> cMessage (last cs) = m)
     in if same \<and> text_same \<and> t \<notin> {OperationSucceeded, OperationFailed, OperationStopped}
        then (s, False)
        else (s\<lparr>Conditions := filter (\<lambda>c. cType c \<noteq> t) cs @
               [\<lparr>cType = t, cStatus = ConditionTrue, cLastUpdateTime = fst clk,
                 cLastTransitionTime = (if same \<and> \<not> text_same then cLastTransitionTime (last cs)
                                        else snd clk),
                 cReason = r, cMessage = m\<rparr>]\<rparr>, True))"
  unfolding cs_def logCondition_cases Let_def isFinal_def by auto

text \<open>logging is idempotent for the conditions that are not final: repeating a \<open>LogStarting\<close>,
  \<open>LogRunning\<close> or \<open>LogWarning\<close> reports no change and leaves the status as it is, at any later
  time; a final condition is always reported as a change, even when nothing but its times
  differs.\<close>

theorem log_repeat:
  "LogStarting clk' (fst (LogStarting clk s)) = (fst (LogStarting clk s), False) \<and>
   LogRunning clk' (fst (LogRunning clk s)) = (fst (LogRunning clk s), False) \<and>
   LogWarning clk' (fst (LogWarning clk s r m)) r m = (fst (LogWarning clk s r m), False) \<and>
   snd (LogSucceeded clk s) \<and> snd (LogFailed clk s r m) \<and> snd (LogStopped clk s r m)"
proof -
  have rep: "logCondition clk' (fst (logCondition clk s t r m)) t r m =
      (fst (logCondition clk s t r m), False)" if "\<not> isFinal t" for t r m
    using that by (simp add: logCondition_cases)
  show ?thesis by (simp add: log_methods rep logCondition_final)
qed

text \<open>\<open>MarkJobAsDeleted\<close> always reports a change and leaves a done operation with a
  completion time, whose last condition is the requested final one with reason \<open>JobDeleted\<close>.\<close>

theorem MarkJobAsDeleted_final:
  "snd (MarkJobAsDeleted now clk s jobType useFailed) \<and>
   (let s' = fst (MarkJobAsDeleted now clk s jobType useFailed) in
    IsDone s' \<and> CompletionTime s' = Some now \<and> Conditions s' \<noteq> [] \<and>
    (if useFailed then IsFailed s' else IsStopped s') \<and>
    cType (last (Conditions s')) = (if useFailed then OperationFailed else OperationStopped) \<and>
    cReason (last (Conditions s')) = ''JobDeleted'')"
proof -
  let ?t = "if useFailed then OperationFailed else OperationStopped"
  let ?L = "logCondition clk s ?t ''JobDeleted'' (deletedMessage jobType)"
  have ch: "snd ?L" by (rule logCondition_final) simp
  have "holds ?t (Conditions (fst ?L))" using ch by (simp only: status.log_holds) simp
  then have "if useFailed then IsFailed (fst ?L) else IsStopped (fst ?L)"
    by (auto simp: IsFailed_def IsStopped_def hasOperationCondition_holds split: if_splits)
  moreover have "cReason (last (Conditions (fst ?L))) = ''JobDeleted''"
    using ch by (simp add: logCondition_cases split: if_splits)
  moreover have "IsDone (fst ?L)" by (simp add: IsDone_logCondition)
  ultimately show ?thesis
    by (simp add: MarkJobAsDeleted_eq Let_def status.log_last status.log_not_empty
        IsFailed_def IsStopped_def hasOperationCondition_holds split: if_splits)
qed

text \<open>the decision about a job that no longer exists. It counts as deleted externally exactly
  when the operation is not done and its last condition is \<open>Running\<close> or \<open>Warning\<close>; both flags are
  never set together, and a done operation is always reported as done.\<close>

theorem ShouldMarkJobAsDeleted_spec:
  "(fst (ShouldMarkJobAsDeleted s) \<longleftrightarrow>
      \<not> IsDone s \<and> Conditions s \<noteq> [] \<and>
      cType (last (Conditions s)) \<in> {OperationRunning, OperationWarning}) \<and>
   (snd (ShouldMarkJobAsDeleted s) \<longleftrightarrow> IsDone s) \<and>
   \<not> (fst (ShouldMarkJobAsDeleted s) \<and> snd (ShouldMarkJobAsDeleted s))"
  by (auto simp: ShouldMarkJobAsDeleted_def Let_def)

end
