(* ===== verification/Kube_Types.thy ===== *)
theory Kube_Types
  imports Prelude Conditions "HOL-Library.Finite_Map"
begin

text \<open>
  The Kubernetes API objects the operator reads and writes (\<^verbatim>\<open>k8s.io/api\<close>), with the fields its
  code touches. Everything else of a specification is carried in one opaque field per record
  (\<open>ctOther\<close>, \<open>psOther\<close>, \<dots>), so that copying and comparing whole specifications is faithful.
  Slices whose nil-ness the code tests are \<open>list option\<close>.
\<close>

section \<open>Metadata\<close>

record OwnerReference =
  orAPIVersion :: string
  orKind :: string
  orName :: string
  orController :: "bool option"

type_synonym key = "string \<times> string"  \<comment> \<open>namespace and name\<close>

section \<open>Pods\<close>

record ContainerPort =
  cpContainerPort :: int32
  cpProtocol :: string
  cpOther :: string

record Container =
  ctName :: string
  ctPorts :: "ContainerPort list option"
  ctOther :: string

record PodSpec =
  Containers :: "Container list"
  RestartPolicy :: string
  psOther :: string

record PodTemplateSpec =
  ptLabels :: dict
  ptAnnotations :: dict
  ptSpec :: PodSpec

record ContainerStateTerminated =
  tExitCode :: int32
  tReason :: string
  tMessage :: string

record ContainerStateWaiting =
  wReason :: string
  wMessage :: string

text \<open>At most one of the three members of a container state is set; \<open>stRunning\<close> says whether the
  \<open>Running\<close> member is non-nil, its content is never read.\<close>

record ContainerState =
  stWaiting :: "ContainerStateWaiting option"
  stRunning :: bool
  stTerminated :: "ContainerStateTerminated option"

record ContainerStatus =
  csName :: string
  csState :: ContainerState
  csLastTerminationState :: ContainerState
  csReady :: bool
  csRestartCount :: int32

record PodCondition =
  pcType :: string
  pcStatus :: ConditionStatus
  pcReason :: string
  pcMessage :: string

record Pod =
  podName :: string
  podNamespace :: string
  podLabels :: dict
  podOwnerReferences :: "OwnerReference list"
  podCreationTimestamp :: time
  podSpec :: PodSpec
  podPhase :: string
  podMessage :: string
  podConditions :: "PodCondition list option"
  podInitContainerStatuses :: "ContainerStatus list"
  podContainerStatuses :: "ContainerStatus list"

section \<open>Batch jobs\<close>

record JobCondition =
  jcType :: string
  jcStatus :: ConditionStatus
  jcReason :: string
  jcMessage :: string

record BatchJob =
  bjName :: string
  bjNamespace :: string
  bjLabels :: dict
  bjAnnotations :: dict
  bjOwnerReferences :: "OwnerReference list"
  bjBackoffLimit :: "int32 ptr"
  bjActiveDeadlineSeconds :: "int ptr"
  bjTTLSecondsAfterFinished :: "int32 ptr"
  bjPodFailurePolicy :: "string option"
  bjTemplate :: PodTemplateSpec
  bjActive :: int32
  bjSucceeded :: int32
  bjFailed :: int32
  bjCompletionTime :: "time option"
  bjConditions :: "JobCondition list"

section \<open>Deployments and services\<close>

record DeploymentCondition =
  dcType :: string
  dcStatus :: ConditionStatus
  dcReason :: string
  dcMessage :: string

record DeploymentStatus =
  dsAvailableReplicas :: int32
  dsReadyReplicas :: int32
  dsUnavailableReplicas :: int32
  dsConditions :: "DeploymentCondition list"

record Deployment =
  dpName :: string
  dpNamespace :: string
  dpLabels :: dict
  dpAnnotations :: dict
  dpOwnerReferences :: "OwnerReference list"
  dpReplicas :: "int32 option"
  dpSelector :: dict
  dpTemplate :: PodTemplateSpec
  dpStatus :: DeploymentStatus

record ServicePort =
  spName :: string
  spPort :: int32
  spTargetPort :: int32
  spProtocol :: string

record CoreService =
  svName :: string
  svNamespace :: string
  svLabels :: dict
  svAnnotations :: dict
  svOwnerReferences :: "OwnerReference list"
  svType :: string
  svSelector :: dict
  svPorts :: "ServicePort list"
  svOther :: string

section \<open>Unstructured objects\<close>

text \<open>JSON values; an object is a finite map, on which equality is what \<open>reflect.DeepEqual\<close> compares.\<close>

datatype json =
    JNull
  | JBool bool
  | JInt int
  | JStr string
  | JList "json list"
  | JMap "(string, json) fmap"

type_synonym jobject = "(string, json) fmap"

end
