(* ===== verification/Config.thy ===== *)
theory Config
  imports Prelude
begin

text \<open>
  Configuration and small helpers: \<^verbatim>\<open>internal/helpers/config/config.go\<close>,
  \<^verbatim>\<open>internal/helpers/utils/common.go\<close> and \<^verbatim>\<open>internal/helpers/utils/constant.go\<close>.

  The process environment is a parameter, \<open>os.LookupEnv\<close> as a partial function. The defaulting
  helpers return pointers; the address of the local variable they may take is their first argument.
  Errors of the Kubernetes API are values of \<open>error\<close>, of which the code only ever asks whether they
  are a not-found error and for their message.
\<close>

section \<open>Errors\<close>

datatype error = NotFound string | OtherError string

fun errorText :: "error \<Rightarrow> string" where
  "errorText (NotFound m) = m"
| "errorText (OtherError m) = m"

fun IsNotFound :: "error \<Rightarrow> bool" where
  "IsNotFound (NotFound m) = True"
| "IsNotFound (OtherError m) = False"

definition IgnoreNotFound :: "error option \<Rightarrow> error option" where
  "IgnoreNotFound err = (case err of None \<Rightarrow> None | Some e \<Rightarrow> if IsNotFound e then None else err)"

section \<open>Environment variables\<close>

definition GetStrEnv :: "(string \<Rightarrow> string option) \<Rightarrow> string \<Rightarrow> string \<Rightarrow> string" where
  "GetStrEnv env key defaultValue =
     (case env key of Some value \<Rightarrow> value | None \<Rightarrow> defaultValue)"

definition GetBoolEnv :: "(string \<Rightarrow> string option) \<Rightarrow> string \<Rightarrow> bool \<Rightarrow> bool" where
  "GetBoolEnv env key defaultValue =
     (case env key of
        Some valueStr \<Rightarrow> (case parseBool valueStr of Some value \<Rightarrow> value | None \<Rightarrow> defaultValue)
      | None \<Rightarrow> defaultValue)"

definition GetIntEnv :: "(string \<Rightarrow> string option) \<Rightarrow> string \<Rightarrow> int \<Rightarrow> int" where
  "GetIntEnv env key defaultValue =
     (case env key of
        Some valueStr \<Rightarrow> (case atoi valueStr of Some value \<Rightarrow> value | None \<Rightarrow> defaultValue)
      | None \<Rightarrow> defaultValue)"

definition cfgNamespace :: string where "cfgNamespace = ''POLYAXON_K8S_NAMESPACE''"
definition cfgSingleNamespace :: string where "cfgSingleNamespace = ''POLYAXON_SINGLE_NAMESPACE''"
definition cfgMaxConcurrentReconciles :: string where
  "cfgMaxConcurrentReconciles = ''POLYAXON_MAX_CONCURRENT_RECONCILES''"
definition cfgLeaderElection :: string where "cfgLeaderElection = ''POLYAXON_LEADER_ELECTION''"
definition cfgLogLevel :: string where "cfgLogLevel = ''POLYAXON_LOG_LEVEL''"
definition cfgTFJobEnabled :: string where "cfgTFJobEnabled = ''POLYAXON_TFJOB_ENABLED''"
definition cfgPytorchJobEnabled :: string where "cfgPytorchJobEnabled = ''POLYAXON_PYTORCH_JOB_ENABLED''"
definition cfgMPIJobEnabled :: string where "cfgMPIJobEnabled = ''POLYAXON_MPIJOB_ENABLED''"
definition cfgDaskClusterEnabled :: string where "cfgDaskClusterEnabled = ''POLYAXON_DASK_CLUSTER_ENABLED''"
definition cfgRayClusterEnabled :: string where "cfgRayClusterEnabled = ''POLYAXON_RAY_JOB_ENABLED''"
definition cfgIstioEnabled :: string where "cfgIstioEnabled = ''POLYAXON_ISTIO_ENABLED''"
definition cfgIstioGateway :: string where "cfgIstioGateway = ''POLYAXON_ISTIO_GATEWAY''"
definition cfgIstioPrefix :: string where "cfgIstioPrefix = ''POLYAXON_ISTIO_PREFIX''"
definition cfgIstioTimeout :: string where "cfgIstioTimeout = ''POLYAXON_ISTIO_TIMEOUT''"
definition cfgClusterDomain :: string where "cfgClusterDomain = ''POLYAXON_CLUSTER_DOMAIN''"
definition cfgAgentEnabled :: string where "cfgAgentEnabled = ''POLYAXON_SET_AGENT''"
definition cfgEnableStatusFinalizers :: string where
  "cfgEnableStatusFinalizers = ''POLYAXON_ENABLE_STATUS_FINALIZERS''"
definition cfgEnableLogsFinalizers :: string where
  "cfgEnableLogsFinalizers = ''POLYAXON_ENABLE_LOGS_FINALIZERS''"
definition PolyaxonRunIdLabel :: string where
  "PolyaxonRunIdLabel = ''operation.polyaxon.com/uuid''"

section \<open>Defaults\<close>

definition MinTTLValue :: int32 where "MinTTLValue = 5"

definition GetTTL :: "nat \<Rightarrow> int32 ptr \<Rightarrow> int32 ptr" where
  "GetTTL local ttlSecondsAfterFinished =
     (case ttlSecondsAfterFinished of
        NilPtr \<Rightarrow> Ptr local MinTTLValue
      | Ptr a v \<Rightarrow> if v <s MinTTLValue then Ptr local MinTTLValue else ttlSecondsAfterFinished)"

definition GetBackoffLimit :: "nat \<Rightarrow> int32 ptr \<Rightarrow> int32 ptr" where
  "GetBackoffLimit local backoffLimit =
     (case backoffLimit of NilPtr \<Rightarrow> Ptr local 0 | Ptr a v \<Rightarrow> backoffLimit)"

definition GetNumReplicas :: "int32 option \<Rightarrow> int32 list \<Rightarrow> int32 option" where
  "GetNumReplicas numReplicas defaultValues =
     (let defaultNumReplicas = (case defaultValues of [] \<Rightarrow> 1 | d # _ \<Rightarrow> d)
      in case numReplicas of None \<Rightarrow> Some defaultNumReplicas | Some n \<Rightarrow> numReplicas)"

section \<open>Lemmas\<close>

lemma GetTTL_not_nil: "GetTTL a p \<noteq> NilPtr"
  by (simp add: GetTTL_def split: ptr.splits)

lemma GetBackoffLimit_not_nil: "GetBackoffLimit a p \<noteq> NilPtr"
  by (simp add: GetBackoffLimit_def split: ptr.splits)

section \<open>Properties\<close>

text \<open>the time to live handed to Kubernetes is never below five seconds, so that the operator
  can read the final status: it is the requested value when that is at least five (as a signed
  number), and five when it is missing, smaller or negative.\<close>

theorem GetTTL_min:
  "\<exists>a v. GetTTL local p = Ptr a v \<and> 5 \<le> sint v \<and>
     (case deref p of None \<Rightarrow> v = 5 | Some w \<Rightarrow> v = (if 5 \<le> sint w then w else 5))"
  by (cases p) (auto simp: GetTTL_def MinTTLValue_def word_sless_alt)

text \<open>an environment variable holding a printed integer of the \<open>int64\<close> range is read back
  exactly, and a missing or malformed one gives the default: \<open>GetIntEnv\<close> never fails.\<close>

theorem GetIntEnv_roundtrip:
  assumes "int64_range i"
  shows "GetIntEnv (env(key \<mapsto> itoa i)) key d = i \<and>
         GetIntEnv (env(key := None)) key d = d \<and>
         GetIntEnv (env(key \<mapsto> '''')) key d = d \<and>
         GetIntEnv (env(key \<mapsto> itoa i @ ''x'')) key d = d"
proof -
  have dx: "digitOf (CHR ''x'') = None" by (simp add: digitOf_def)
  have bad: "decimalVal (natStr n @ ''x'') = None" for n
    by (simp add: decimalVal_def digitsVal_append digitsVal_natStr dx)
  have "atoi (itoa i @ ''x'') = None"
  proof (cases "i < 0")
    case True
    then show ?thesis by (simp add: atoi_def itoa_def bad)
  next
    case False
    obtain c cs where s: "natStr (nat i) = c # cs" by (cases "natStr (nat i)") auto
    then have "c \<noteq> CHR ''-''" "c \<noteq> CHR ''+''" using hd_natStr_nonsign [of "nat i"] by auto
    then show ?thesis using False s bad [of "nat i"] by (simp add: atoi_def itoa_def)
  qed
  moreover have "atoi '''' = None" by (simp add: atoi_def decimalVal_def)
  ultimately show ?thesis using assms by (simp add: GetIntEnv_def atoi_itoa)
qed

theorem GetIntEnv_roundtrip_witness:
  "int64_range (-42) \<and> GetIntEnv (Map.empty(''N'' \<mapsto> itoa (-42))) ''N'' 1 = -42"
  using GetIntEnv_roundtrip [of "-42" Map.empty "''N''" 1] by (simp add: int64_range_def)

end
