(* ===== verification/Operations.thy ===== *)
theory Operations
  imports Kube_Types Config
begin

text \<open>
  The custom resources of the operator (\<^verbatim>\<open>api/v1/*_types.go\<close>, \<^verbatim>\<open>termination.go\<close>,
  \<^verbatim>\<open>batch_job.go\<close>, \<^verbatim>\<open>service.go\<close>, \<^verbatim>\<open>finalizers.go\<close>).

  The four resources share their metadata, termination, flags and status: these are the record
  \<open>operation\<close>, and each resource extends it with its own specification, so that the code the four
  controllers have in common is defined once over \<open>'a operation_scheme\<close>.
\<close>

section \<open>Termination\<close>

record CullingSpec =
  cullTimeout :: "int32 option"

record ActivityProbeExec =
  peCommand :: "string list"

record ActivityProbeHttp =
  phPath :: string
  phPort :: int32

record ActivityProbe =
  apExec :: "ActivityProbeExec option"
  apHttp :: "ActivityProbeHttp option"

record TerminationSpec =
  BackoffLimit :: "int32 ptr"
  ActiveDeadlineSeconds :: "int ptr"
  TTLSecondsAfterFinished :: "int32 ptr"
  Culling :: "CullingSpec option"
  Probe :: "ActivityProbe option"
  PodFailurePolicy :: "string option"

section \<open>Resources\<close>

record operation =
  opName :: string
  opNamespace :: string
  opLabels :: dict
  opAnnotations :: dict
  opFinalizers :: "string list"
  opDeletionTimestamp :: "time option"
  opTermination :: TerminationSpec
  opCollectLogs :: bool
  opSyncStatuses :: bool
  opStatus :: OperationStatus

record BatchJobSpec =
  bjsTemplate :: PodTemplateSpec

record Job = operation +
  jobBatchJobSpec :: "BatchJobSpec option"

record ServiceSpec =
  ssReplicas :: "int32 option"
  ssPorts :: "int32 list option"
  ssIsExternal :: bool
  ssTemplate :: PodTemplateSpec

record Service = operation +
  svcBatchJobSpec :: "BatchJobSpec option"
  svcServiceSpec :: "ServiceSpec option"

definition OperationLogsFinalizer :: string where
  "OperationLogsFinalizer = ''operation.logs.finalizers.polyaxon.com''"

definition OperationStatusFinalizer :: string where
  "OperationStatusFinalizer = ''operation.status.finalizers.polyaxon.com''"

lemma finalizers_distinct [simp]: "OperationLogsFinalizer \<noteq> OperationStatusFinalizer"
  by (simp add: OperationLogsFinalizer_def OperationStatusFinalizer_def)

definition IsOperationBeingDeleted :: "'a operation_scheme \<Rightarrow> bool" where
  "IsOperationBeingDeleted obj = (\<not> isZeroTime (opDeletionTimestamp obj))"

end
