(* ===== verification/Plugins.thy ===== *)
theory Plugins
  imports Conditions Config
begin

text \<open>
  The calls to the Polyaxon API: \<^verbatim>\<open>internal/helpers/plugins/polyaxon.go\<close>.

  The generated SDK is a parameter: each function takes the SDK operation it calls, which maps a
  request and a world to an error and a new world. A request carries what the code sets: host, scheme,
  headers and parameters. The SDK errors the code distinguishes by their Go type are constructors of
  \<open>sdkError\<close>.
\<close>

datatype sdkError =
    NotifyRunStatusNotFound
  | CreateRunStatusNotFound
  | CreateRunStatusForbidden
  | CreateRunStatusDefault string
  | CollectRunLogsNotFound
  | CollectRunLogsForbidden
  | CollectRunLogsDefault string
  | OtherSdkError string

record sdkRequest =
  rqHost :: string
  rqScheme :: string
  rqHeaders :: dict
  rqNamespace :: string
  rqOwner :: string
  rqProject :: string
  rqUUID :: string
  rqKind :: string
  rqName :: string
  rqConnections :: "string list"
  rqCondition :: "OperationCondition option"

type_synonym 'w sdkOp = "sdkRequest \<Rightarrow> 'w \<Rightarrow> sdkError option \<times> 'w"

definition polyaxonService :: "string \<Rightarrow> string" where
  "polyaxonService name =
     (if name = ''InternalToken'' then ''X-POLYAXON-INTERNAL'' else ''X-POLYAXON-SERVICE'')"

text \<open>The headers written on a request.\<close>

definition polyaxonAuth :: "string \<Rightarrow> string \<Rightarrow> dict" where
  "polyaxonAuth name token =
     [(''Authorization'', name @ '' '' @ token), (polyaxonService name, ''operator'')]"

definition polyaxonHost :: "string \<Rightarrow> int \<Rightarrow> string" where
  "polyaxonHost host port = host @ '':'' @ itoa port"

definition notifyRequest ::
  "(string \<Rightarrow> string option) \<Rightarrow> string \<Rightarrow> string \<Rightarrow> string \<Rightarrow> string \<Rightarrow> string \<Rightarrow> OperationCondition \<Rightarrow>
   string list \<Rightarrow> sdkRequest"
where
  "notifyRequest env namespace name owner project uuid statusCond connections =
     \<lparr>rqHost = polyaxonHost (GetStrEnv env ''POLYAXON_PROXY_STREAMS_HOST'' ''localhost'')
                 (GetIntEnv env ''POLYAXON_PROXY_STREAMS_PORT'' 8000),
      rqScheme = ''http'',
      rqHeaders = polyaxonAuth ''Token'' (GetStrEnv env ''POLYAXON_AUTH_TOKEN'' ''''),
      rqNamespace = namespace, rqOwner = owner, rqProject = project, rqUUID = uuid, rqKind = '''',
      rqName = name, rqConnections = connections, rqCondition = Some statusCond\<rparr>"

definition NotifyPolyaxonRunStatus ::
  "'w sdkOp \<Rightarrow> (string \<Rightarrow> string option) \<Rightarrow> string \<Rightarrow> string \<Rightarrow> string \<Rightarrow> string \<Rightarrow> string \<Rightarrow>
   OperationCondition \<Rightarrow> string list \<Rightarrow> 'w \<Rightarrow> sdkError option \<times> 'w"
where
  "NotifyPolyaxonRunStatus notifyRunStatus env namespace name owner project uuid statusCond connections w =
     (let (err, w') =
        notifyRunStatus (notifyRequest env namespace name owner project uuid statusCond connections) w
      in if err = Some CollectRunLogsNotFound then (None, w') else (err, w'))"

definition runStatusRequest ::
  "(string \<Rightarrow> string option) \<Rightarrow> string \<Rightarrow> string \<Rightarrow> string \<Rightarrow> OperationCondition \<Rightarrow> sdkRequest"
where
  "runStatusRequest env owner project uuid statusCond =
     (let port = GetIntEnv env ''POLYAXON_PROXY_API_PORT'' 8000
      in \<lparr>rqHost = polyaxonHost (GetStrEnv env ''POLYAXON_PROXY_API_HOST'' ''localhost'') port,
          rqScheme = (if port = 443 then ''https'' else ''http''),
          rqHeaders = polyaxonAuth ''Token'' (GetStrEnv env ''POLYAXON_AUTH_TOKEN'' ''''),
          rqNamespace = '''', rqOwner = owner, rqProject = project, rqUUID = uuid, rqKind = '''',
          rqName = '''', rqConnections = [], rqCondition = Some statusCond\<rparr>)"

definition LogPolyaxonRunStatus ::
  "'w sdkOp \<Rightarrow> (string \<Rightarrow> string option) \<Rightarrow> string \<Rightarrow> string \<Rightarrow> string \<Rightarrow> OperationCondition \<Rightarrow>
   'w \<Rightarrow> sdkError option \<times> 'w"
where
  "LogPolyaxonRunStatus createRunStatus env owner project uuid statusCond w =
     (let (err, w') = createRunStatus (runStatusRequest env owner project uuid statusCond) w
      in if err = Some CreateRunStatusNotFound then (None, w')
         else if err = Some CreateRunStatusForbidden then (None, w')
         else (err, w'))"

definition collectLogsRequest ::
  "(string \<Rightarrow> string option) \<Rightarrow> string \<Rightarrow> string \<Rightarrow> string \<Rightarrow> string \<Rightarrow> string \<Rightarrow> sdkRequest"
where
  "collectLogsRequest env namespace owner project uuid kind =
     \<lparr>rqHost = polyaxonHost (GetStrEnv env ''POLYAXON_PROXY_STREAMS_HOST'' ''localhost'')
                 (GetIntEnv env ''POLYAXON_PROXY_STREAMS_PORT'' 8000),
      rqScheme = ''http'',
      rqHeaders = polyaxonAuth ''InternalToken'' (GetStrEnv env ''POLYAXON_SECRET_INTERNAL_TOKEN'' ''''),
      rqNamespace = namespace, rqOwner = owner, rqProject = project, rqUUID = uuid, rqKind = kind,
      rqName = '''', rqConnections = [], rqCondition = None\<rparr>"

definition CollectPolyaxonRunLogs ::
  "'w sdkOp \<Rightarrow> (string \<Rightarrow> string option) \<Rightarrow> string \<Rightarrow> string \<Rightarrow> string \<Rightarrow> string \<Rightarrow> string \<Rightarrow>
   'w \<Rightarrow> sdkError option \<times> 'w"
where
  "CollectPolyaxonRunLogs collectRunLogs env namespace owner project uuid kind w =
     (let (err, w') = collectRunLogs (collectLogsRequest env namespace owner project uuid kind) w
      in if err = Some CollectRunLogsNotFound then (None, w')
         else if err = Some CollectRunLogsForbidden then (None, w')
         else (err, w'))"

section \<open>Properties\<close>

text \<open>how SDK errors reach the caller. Creating a status and collecting logs swallow their own
  not-found and forbidden errors and pass every other error on; a notification swallows the not-found
  error of log collection, which its own SDK operation does not return, and passes its own not-found
  error on. The SDK is called exactly once each time, with the request of the source.\<close>

theorem polyaxon_errors:
  "LogPolyaxonRunStatus sdk env owner project uuid c w =
     (let (err, w') = sdk (runStatusRequest env owner project uuid c) w
      in (if err \<in> {Some CreateRunStatusNotFound, Some CreateRunStatusForbidden} then None else err, w')) \<and>
   CollectPolyaxonRunLogs sdk env ns owner project uuid kind w =
     (let (err, w') = sdk (collectLogsRequest env ns owner project uuid kind) w
      in (if err \<in> {Some CollectRunLogsNotFound, Some CollectRunLogsForbidden} then None else err, w')) \<and>
   fst (NotifyPolyaxonRunStatus (\<lambda>_ v. (Some NotifyRunStatusNotFound, v)) env ns name owner project uuid c conns w)
     = Some NotifyRunStatusNotFound"
  by (auto simp: LogPolyaxonRunStatus_def CollectPolyaxonRunLogs_def NotifyPolyaxonRunStatus_def
      split: prod.splits)

end
