(* ===== verification/Pods.thy ===== *)
theory Pods
  imports Kube_Types
begin

text \<open>
  What the operator reads off the pods of an operation: \<^verbatim>\<open>internal/helpers/managers/pods.go\<close>.

  Loops with an early return are recursive functions over the list of pods or containers, in the
  order of the source; \<open>podVerdict\<close> is the body of the loop of \<open>HasUnschedulablePods\<close>, with
  \<open>None\<close> where the loop goes on to the next pod. Restart counts and exit codes are \<open>int32\<close>.
\<close>

section \<open>Definitions\<close>

record MainContainerExitStatus =
  esPodName :: string
  esContainerName :: string
  esExitCode :: int32
  esReason :: string
  esMessage :: string
  esRestartCount :: int32
  esCurrentExitSeen :: bool

definition imagePullBackOffReason :: string where
  "imagePullBackOffReason = ''ImagePullBackOff''"

definition isPullingImage :: "ContainerStatus \<Rightarrow> bool" where
  "isPullingImage cs \<longleftrightarrow> \<not> csReady cs \<and>
     (case stWaiting (csState cs) of
        None \<Rightarrow> False
      | Some w \<Rightarrow> wReason w = imagePullBackOffReason \<or> wReason w = ''ErrImagePull'')"

definition ContainerFailedAttempts :: "MainContainerExitStatus \<Rightarrow> int32" where
  "ContainerFailedAttempts status =
     (if esCurrentExitSeen status then esRestartCount status + 1 else esRestartCount status)"

definition FailureReason :: "MainContainerExitStatus \<Rightarrow> string" where
  "FailureReason status = (if esReason status = '''' then ''ContainerFailed'' else esReason status)"

definition exitDetail :: "MainContainerExitStatus \<Rightarrow> string" where
  "exitDetail es =
     (let detail = ''Main container '' @ quote (esContainerName es) @ '' in pod '' @
            quote (esPodName es) @ '' terminated with exit code '' @ itoa (sint (esExitCode es));
          detail = (if esReason es \<noteq> '''' then detail @ '' ('' @ esReason es @ '')'' else detail)
      in if esMessage es \<noteq> '''' then detail @ '': '' @ esMessage es else detail)"

definition FormatMainContainerFailureMessage ::
  "string \<Rightarrow> MainContainerExitStatus option \<Rightarrow> int32 option \<Rightarrow> string"
where
  "FormatMainContainerFailureMessage entityMessage exitStatus attempts =
     (case exitStatus of
        None \<Rightarrow> entityMessage
      | Some es \<Rightarrow>
          let message = trimSpace entityMessage;
              message =
                (case attempts of
                   None \<Rightarrow> message
                 | Some n \<Rightarrow>
                     if 0 <s n
                     then (if message = ''''
                           then ''Operation failed after '' @ itoa (sint n) @ '' failed attempt(s)''
                           else trimSuffix message ''.'' @ '' after '' @ itoa (sint n) @
                                '' failed attempt(s)'')
                     else message);
              detail = exitDetail es
          in if message = '''' then detail
             else if hasSuffix message ''.'' then message @ '' '' @ detail
             else message @ ''. '' @ detail)"

text \<open>The outcome \<open>Inl\<close> is the panic of indexing an empty list of containers.\<close>

definition GetPodPorts :: "PodSpec \<Rightarrow> int32 \<Rightarrow> string + int32 list" where
  "GetPodPorts spec defaultPort =
     (case Containers spec of
        [] \<Rightarrow> Inl ''index out of range''
      | c # _ \<Rightarrow>
          Inr (case ctPorts c of
                 None \<Rightarrow> [defaultPort]
               | Some containerPorts \<Rightarrow> map cpContainerPort containerPorts))"

definition getPodLastTime :: "Pod \<Rightarrow> time option \<Rightarrow> bool \<times> time option" where
  "getPodLastTime pod lastTime =
     (let timeRaw = podCreationTimestamp pod
      in case lastTime of
           None \<Rightarrow> (True, Some timeRaw)
         | Some t \<Rightarrow> if t < timeRaw then (True, Some timeRaw) else (False, lastTime))"

text \<open>\<open>None\<close> is the empty pod the source returns when no pod is later than the zero time.\<close>

fun GetLastPod_loop :: "Pod list \<Rightarrow> time option \<Rightarrow> Pod option \<Rightarrow> Pod option" where
  "GetLastPod_loop [] lastTime lastPod = lastPod"
| "GetLastPod_loop (pod # pods) lastTime lastPod =
     (let (isLast, lastTime') = getPodLastTime pod lastTime
      in GetLastPod_loop pods lastTime' (if isLast then Some pod else lastPod))"

definition GetLastPod :: "Pod list \<Rightarrow> Pod option" where
  "GetLastPod pods = GetLastPod_loop pods (Some 0) None"

definition getMainContainerStatus :: "Pod \<Rightarrow> ContainerStatus option" where
  "getMainContainerStatus pod =
     (case podContainerStatuses pod of
        [] \<Rightarrow> None
      | cs # _ \<Rightarrow>
          let containerName = (case Containers (podSpec pod) of [] \<Rightarrow> csName cs | c # _ \<Rightarrow> ctName c)
          in List.find (\<lambda>s. csName s = containerName) (podContainerStatuses pod))"

definition getPodMainContainerExitStatus :: "Pod \<Rightarrow> MainContainerExitStatus option" where
  "getPodMainContainerExitStatus pod =
     (case getMainContainerStatus pod of
        None \<Rightarrow> None
      | Some cs \<Rightarrow>
          let (termination, currentExitSeen) =
                (case stTerminated (csState cs) of
                   Some t \<Rightarrow> (Some t, True)
                 | None \<Rightarrow>
                     if stRunning (csState cs) then
                       (case stTerminated (csLastTerminationState cs) of
                          None \<Rightarrow> (None, False)
                        | Some t \<Rightarrow> if tExitCode t \<noteq> 0 then (Some t, False) else (None, False))
                     else if stWaiting (csState cs) \<noteq> None then
                       (stTerminated (csLastTerminationState cs), False)
                     else (None, False))
          in (case termination of
               None \<Rightarrow> None
             | Some t \<Rightarrow>
                 Some \<lparr>esPodName = podName pod, esContainerName = csName cs,
                       esExitCode = tExitCode t, esReason = tReason t, esMessage = tMessage t,
                       esRestartCount = csRestartCount cs, esCurrentExitSeen = currentExitSeen\<rparr>))"

fun GetMainContainerExitStatus_loop ::
  "Pod list \<Rightarrow> MainContainerExitStatus option \<Rightarrow> MainContainerExitStatus option \<Rightarrow>
   MainContainerExitStatus option"
where
  "GetMainContainerExitStatus_loop [] failed succeeded =
     (case failed of Some f \<Rightarrow> Some f | None \<Rightarrow> succeeded)"
| "GetMainContainerExitStatus_loop (pod # pods) failed succeeded =
     (case getPodMainContainerExitStatus pod of
        None \<Rightarrow> GetMainContainerExitStatus_loop pods failed succeeded
      | Some status \<Rightarrow>
          if esExitCode status = 0 then
            GetMainContainerExitStatus_loop pods failed
              (case succeeded of None \<Rightarrow> Some status | Some s \<Rightarrow> succeeded)
          else
            GetMainContainerExitStatus_loop pods
              (case failed of
                 None \<Rightarrow> Some status
               | Some f \<Rightarrow> if ContainerFailedAttempts f <s ContainerFailedAttempts status
                         then Some status else failed)
              succeeded)"

definition GetMainContainerExitStatus :: "Pod list \<Rightarrow> MainContainerExitStatus option" where
  "GetMainContainerExitStatus pods = GetMainContainerExitStatus_loop pods None None"

fun IsMainContainerRunning :: "Pod list \<Rightarrow> bool" where
  "IsMainContainerRunning [] = False"
| "IsMainContainerRunning (pod # pods) =
     (case getMainContainerStatus pod of
        Some status \<Rightarrow> if stRunning (csState status) then True else IsMainContainerRunning pods
      | None \<Rightarrow> IsMainContainerRunning pods)"

definition InvalidImageNameReason :: string where
  "InvalidImageNameReason = ''InvalidImageName''"

fun invalidImageStatus :: "ContainerStatus list \<Rightarrow> string option" where
  "invalidImageStatus [] = None"
| "invalidImageStatus (cs # css) =
     (case stWaiting (csState cs) of
        Some w \<Rightarrow> if wReason w = InvalidImageNameReason then Some (wMessage w)
                  else invalidImageStatus css
      | None \<Rightarrow> invalidImageStatus css)"

fun GetInvalidImageName :: "Pod list \<Rightarrow> string option" where
  "GetInvalidImageName [] = None"
| "GetInvalidImageName (pod # pods) =
     (case invalidImageStatus (podInitContainerStatuses pod) of
        Some m \<Rightarrow> Some m
      | None \<Rightarrow>
          (case invalidImageStatus (podContainerStatuses pod) of
             Some m \<Rightarrow> Some m
           | None \<Rightarrow> GetInvalidImageName pods))"

type_synonym verdict = "OperationConditionType \<times> string \<times> string"

definition noVerdict :: verdict where
  "noVerdict = (OtherCondition '''', '''', '''')"

fun failedContainer :: "ContainerStatus list \<Rightarrow> ContainerStateTerminated option" where
  "failedContainer [] = None"
| "failedContainer (cs # css) =
     (case stTerminated (csState cs) of
        Some t \<Rightarrow> if 0 <s tExitCode t then Some t else failedContainer css
      | None \<Rightarrow> failedContainer css)"

text \<open>The message of the first container that is pulling its image.\<close>

definition pullingMessage :: "ContainerStatus list \<Rightarrow> string option" where
  "pullingMessage css =
     (case List.find isPullingImage css of
        None \<Rightarrow> None
      | Some cs \<Rightarrow> map_option wMessage (stWaiting (csState cs)))"

definition notReady :: "PodCondition \<Rightarrow> bool" where
  "notReady cond \<longleftrightarrow> pcReason cond = ''Unschedulable'' \<or>
     (pcType cond = ''Ready'' \<and> pcStatus cond = ConditionFalse \<and> pcReason cond = ''ContainersNotReady'')"

definition pendingVerdict :: "Pod \<Rightarrow> PodCondition list \<Rightarrow> verdict option" where
  "pendingVerdict pod conds =
     (case pullingMessage (podInitContainerStatuses pod) of
        Some m \<Rightarrow> Some (OperationWarning, ''InitContainerImagePullBackOff'', m)
      | None \<Rightarrow>
          (case pullingMessage (podContainerStatuses pod) of
             Some m \<Rightarrow> Some (OperationWarning, imagePullBackOffReason, m)
           | None \<Rightarrow>
               (case List.find notReady conds of
                  Some cond \<Rightarrow> Some (OperationWarning, ''ContainersNotReady'', pcMessage cond)
                | None \<Rightarrow> None)))"

definition podVerdict :: "Pod \<Rightarrow> verdict option" where
  "podVerdict pod =
     (if podPhase pod = ''Failed'' then
        (case failedContainer (podContainerStatuses pod) of
           Some t \<Rightarrow> Some (OperationFailed, tReason t @ ''ExitCode '' @ itoa (sint (tExitCode t)),
                         tMessage t)
         | None \<Rightarrow> Some (OperationFailed, ''PodFailed'', podMessage pod))
      else if podPhase pod = ''Succeeded'' then Some noVerdict
      else
        let pending = (if podPhase pod \<noteq> ''Running''
                       then (case podConditions pod of
                               None \<Rightarrow> None | Some conds \<Rightarrow> pendingVerdict pod conds)
                       else None)
        in case pending of
             Some v \<Rightarrow> Some v
           | None \<Rightarrow>
               if podPhase pod = ''Unschedulable'' then
                 Some (OperationWarning, ''PodReasonUnschedulable'', ''Pod is unschedulable'')
               else if podPhase pod = ''Pending'' \<and> podConditions pod = None then
                 Some (OperationWarning, ''PodPending'', ''Pod is still pending without conditions'')
               else None)"

fun HasUnschedulablePods_loop :: "Pod list \<Rightarrow> verdict" where
  "HasUnschedulablePods_loop [] = noVerdict"
| "HasUnschedulablePods_loop (pod # pods) =
     (case podVerdict pod of Some v \<Rightarrow> v | None \<Rightarrow> HasUnschedulablePods_loop pods)"

definition HasUnschedulablePods :: "Pod list \<Rightarrow> verdict" where
  "HasUnschedulablePods pods =
     (if pods = [] then (OperationStarting, ''PodNotReady'', ''Operation has no pods yet.'')
      else HasUnschedulablePods_loop pods)"

section \<open>Loops against reference definitions\<close>

text \<open>The first element of a list with the greatest key.\<close>

fun keepMax :: "('a \<Rightarrow> int) \<Rightarrow> 'a option \<Rightarrow> 'a \<Rightarrow> 'a option" where
  "keepMax f None x = Some x"
| "keepMax f (Some y) x = (if f y < f x then Some x else Some y)"

definition firstMax :: "('a \<Rightarrow> int) \<Rightarrow> 'a list \<Rightarrow> 'a option" where
  "firstMax f xs = foldl (keepMax f) None xs"

definition isFirstMax :: "('a \<Rightarrow> int) \<Rightarrow> 'a list \<Rightarrow> 'a \<Rightarrow> bool" where
  "isFirstMax f xs x \<longleftrightarrow> (\<exists>us vs. xs = us @ x # vs \<and>
     list_all (\<lambda>y. f y < f x) us \<and> list_all (\<lambda>y. f y \<le> f x) vs)"

lemma isFirstMax_snoc_new:
  "isFirstMax f xs x \<Longrightarrow> f x < f y \<Longrightarrow> isFirstMax f (xs @ [y]) y"
  unfolding isFirstMax_def
  by (rule exI [of _ xs], rule exI [of _ "[]"]) (force simp: list_all_iff)

lemma isFirstMax_snoc_old:
  "isFirstMax f xs x \<Longrightarrow> \<not> f x < f y \<Longrightarrow> isFirstMax f (xs @ [y]) x"
  unfolding isFirstMax_def
proof (elim exE conjE)
  fix us vs
  assume "\<not> f x < f y" "xs = us @ x # vs" "list_all (\<lambda>y. f y < f x) us" "list_all (\<lambda>y. f y \<le> f x) vs"
  then show "\<exists>us' vs'. xs @ [y] = us' @ x # vs' \<and> list_all (\<lambda>y. f y < f x) us' \<and>
      list_all (\<lambda>y. f y \<le> f x) vs'"
    by (intro exI [of _ us] exI [of _ "vs @ [y]"]) simp
qed

lemma firstMax_isFirstMax: "case firstMax f xs of None \<Rightarrow> xs = [] | Some x \<Rightarrow> isFirstMax f xs x"
proof (induction xs rule: rev_induct)
  case Nil
  then show ?case by (simp add: firstMax_def)
next
  case (snoc y xs)
  show ?case
  proof (cases "firstMax f xs")
    case None
    with snoc have "xs = []" by simp
    then have "firstMax f (xs @ [y]) = Some y" and "isFirstMax f (xs @ [y]) y"
      by (simp_all add: firstMax_def isFirstMax_def Cons_eq_append_conv)
    then show ?thesis by simp
  next
    case (Some x)
    with snoc have "isFirstMax f xs x" by simp
    with Some show ?thesis
      by (auto simp: firstMax_def intro: isFirstMax_snoc_new isFirstMax_snoc_old)
  qed
qed

lemma firstMax_Some: "firstMax f xs = Some x \<Longrightarrow> isFirstMax f xs x"
  using firstMax_isFirstMax [where f = f and xs = xs] by simp

lemma firstMax_None [simp]: "firstMax f xs = None \<longleftrightarrow> xs = []"
  using firstMax_isFirstMax [where f = f and xs = xs]
  by (cases "firstMax f xs") (auto simp: firstMax_def)

abbreviation exits :: "Pod list \<Rightarrow> MainContainerExitStatus list" where
  "exits pods \<equiv> List.map_filter getPodMainContainerExitStatus pods"

definition signedAttempts :: "MainContainerExitStatus \<Rightarrow> int" where
  "signedAttempts s = sint (ContainerFailedAttempts s)"

lemma exit_loop:
  "GetMainContainerExitStatus_loop pods failed succeeded =
     (case foldl (keepMax signedAttempts) failed (filter (\<lambda>s. esExitCode s \<noteq> 0) (exits pods)) of
        Some f \<Rightarrow> Some f
      | None \<Rightarrow> (case succeeded of Some s \<Rightarrow> Some s
                 | None \<Rightarrow> List.find (\<lambda>s. esExitCode s = 0) (exits pods)))"
proof (induction pods failed succeeded rule: GetMainContainerExitStatus_loop.induct)
  case (1 failed succeeded)
  then show ?case by (auto simp: List.map_filter_def split: option.splits)
next
  case (2 pod pods failed succeeded)
  have step: "(case failed of None \<Rightarrow> Some st
      | Some f \<Rightarrow> if ContainerFailedAttempts f <s ContainerFailedAttempts st then Some st else failed)
      = keepMax signedAttempts failed st" for st
    by (cases failed) (simp_all add: signedAttempts_def word_sless_alt)
  show ?case
  proof (cases "getPodMainContainerExitStatus pod")
    case None
    then have "exits (pod # pods) = exits pods" by simp
    with None "2.IH"(1) show ?thesis by (simp split: option.splits)
  next
    case (Some st)
    then have "exits (pod # pods) = st # exits pods" by simp
    with Some "2.IH"(2,3) [OF Some] show ?thesis
      by (cases "esExitCode st = 0"; cases succeeded) (simp_all add: step split: option.splits)
  qed
qed

lemma invalidImageStatus_iff:
  "invalidImageStatus css \<noteq> None \<longleftrightarrow>
     (\<exists>cs w. cs \<in> set css \<and> stWaiting (csState cs) = Some w \<and> wReason w = InvalidImageNameReason)"
  by (induction css) (auto split: option.splits)

lemma HasUnschedulable_loop_find:
  "HasUnschedulablePods_loop pods =
     (case List.find (\<lambda>p. podVerdict p \<noteq> None) pods of
        None \<Rightarrow> noVerdict | Some p \<Rightarrow> the (podVerdict p))"
  by (induction pods) (auto split: option.splits)

lemma find_split:
  "List.find P xs = Some x \<longleftrightarrow> (\<exists>us vs. xs = us @ x # vs \<and> P x \<and> list_all (\<lambda>y. \<not> P y) us)"
proof
  assume "List.find P xs = Some x"
  then show "\<exists>us vs. xs = us @ x # vs \<and> P x \<and> list_all (\<lambda>y. \<not> P y) us"
  proof (induction xs)
    case (Cons a xs)
    show ?case
    proof (cases "P a")
      case True
      with Cons.prems show ?thesis by (intro exI [of _ "[]"] exI [of _ xs]) simp
    next
      case False
      with Cons obtain us vs where "xs = us @ x # vs \<and> P x \<and> list_all (\<lambda>y. \<not> P y) us" by auto
      with False show ?thesis by (intro exI [of _ "a # us"] exI [of _ vs]) simp
    qed
  qed simp
next
  assume "\<exists>us vs. xs = us @ x # vs \<and> P x \<and> list_all (\<lambda>y. \<not> P y) us"
  then obtain us vs where "xs = us @ x # vs" "P x" "list_all (\<lambda>y. \<not> P y) us" by blast
  then show "List.find P xs = Some x" by (induction us arbitrary: xs) auto
qed

lemma pendingVerdict_warning: "pendingVerdict pod conds = Some v \<Longrightarrow> fst v = OperationWarning"
  by (auto simp: pendingVerdict_def split: option.splits)

lemma podVerdict_not_starting: "podVerdict p = Some v \<Longrightarrow> fst v \<noteq> OperationStarting"
  by (auto simp: podVerdict_def noVerdict_def Let_def dest!: pendingVerdict_warning
      split: option.splits if_splits)

lemma verdict_iff:
  assumes "pods \<noteq> []" and "t \<noteq> OtherCondition ''''"
  shows "fst (HasUnschedulablePods pods) = t \<longleftrightarrow>
    (\<exists>us p vs. pods = us @ p # vs \<and> list_all (\<lambda>q. podVerdict q = None) us \<and>
       (\<exists>v. podVerdict p = Some v \<and> fst v = t))"
proof (cases "List.find (\<lambda>p. podVerdict p \<noteq> None) pods")
  case None
  then have "\<forall>p \<in> set pods. podVerdict p = None"
    unfolding find_None_iff by blast
  with None assms show ?thesis
    by (auto simp: HasUnschedulablePods_def HasUnschedulable_loop_find noVerdict_def)
next
  case (Some p)
  then obtain us vs where sp: "pods = us @ p # vs" "podVerdict p \<noteq> None"
      "list_all (\<lambda>q. \<not> podVerdict q \<noteq> None) us"
    unfolding find_split by blast
  then have us: "list_all (\<lambda>q. podVerdict q = None) us" unfolding not_not by blast
  from sp(2) obtain v where v: "podVerdict p = Some v" by blast
  have "p' = p" if "pods = us' @ p' # vs'" "list_all (\<lambda>q. podVerdict q = None) us'"
      "podVerdict p' \<noteq> None" for us' p' vs'
  proof -
    have "List.find (\<lambda>p. podVerdict p \<noteq> None) pods = Some p'"
      unfolding find_split not_not using that by blast
    with Some show ?thesis by simp
  qed
  moreover have "HasUnschedulablePods pods = v"
    using assms Some v by (simp add: HasUnschedulablePods_def HasUnschedulable_loop_find)
  ultimately show ?thesis using sp(1) us v by (metis option.distinct(1) option.inject)
qed

lemma verdict_starting: "fst (HasUnschedulablePods pods) = OperationStarting \<longleftrightarrow> pods = []"
  using verdict_iff [of pods OperationStarting]
  by (cases "pods = []") (auto simp: HasUnschedulablePods_def dest: podVerdict_not_starting)

section \<open>Properties\<close>

text \<open>C33: which main container decides an operation. Among the pods whose main container has
  exited, a non-zero exit wins over a clean one; of the failed ones it is the first with the
  greatest number of failed attempts, and without a failed one the first that exited cleanly.\<close>

theorem GetMainContainerExitStatus_spec:
  "let failed = filter (\<lambda>s. esExitCode s \<noteq> 0) (exits pods) in
   if failed = [] then
     GetMainContainerExitStatus pods = (case exits pods of [] \<Rightarrow> None | s # _ \<Rightarrow> Some s)
   else
     (\<exists>f. GetMainContainerExitStatus pods = Some f \<and>
        isFirstMax (\<lambda>s. sint (ContainerFailedAttempts s)) failed f)"
proof -
  let ?failed = "filter (\<lambda>s. esExitCode s \<noteq> 0) (exits pods)"
  have eq: "GetMainContainerExitStatus pods =
      (case firstMax signedAttempts ?failed of
         Some f \<Rightarrow> Some f | None \<Rightarrow> List.find (\<lambda>s. esExitCode s = 0) (exits pods))"
    by (simp add: GetMainContainerExitStatus_def exit_loop firstMax_def split: option.splits)
  have sa: "signedAttempts = (\<lambda>s. sint (ContainerFailedAttempts s))"
    by (simp add: fun_eq_iff signedAttempts_def)
  show ?thesis
  proof (cases "?failed = []")
    case True
    then have "\<forall>s \<in> set (exits pods). esExitCode s = 0" by (simp add: filter_empty_conv)
    then have "List.find (\<lambda>s. esExitCode s = 0) (exits pods) =
        (case exits pods of [] \<Rightarrow> None | s # _ \<Rightarrow> Some s)"
      by (cases "exits pods") auto
    with True eq show ?thesis by (simp add: Let_def firstMax_def)
  next
    case False
    then obtain f where f: "firstMax signedAttempts ?failed = Some f"
      by (cases "firstMax signedAttempts ?failed") auto
    with eq have "GetMainContainerExitStatus pods = Some f" by simp
    with False firstMax_Some [OF f] show ?thesis by (simp add: Let_def sa)
  qed
qed

text \<open>the count of failed attempts is the restart count, plus one while the container sits in
  its final exit; at the largest \<open>int32\<close> it wraps around to the smallest.\<close>

theorem ContainerFailedAttempts_wrap:
  "sint (ContainerFailedAttempts s) =
     (if \<not> esCurrentExitSeen s then sint (esRestartCount s)
      else if sint (esRestartCount s) = 2 ^ 31 - 1 then - (2 ^ 31)
      else sint (esRestartCount s) + 1)"
proof -
  let ?r = "sint (esRestartCount s)"
  have b: "- (2 ^ 31) \<le> ?r" "?r < 2 ^ 31" by (rule sint_int32_bounds)+
  have "sint (esRestartCount s + 1) = signed_take_bit 31 (?r + 1)"
    by (simp add: sint_word_ariths)
  also have "\<dots> = (if ?r = 2 ^ 31 - 1 then - (2 ^ 31) else ?r + 1)"
  proof (cases "?r = 2 ^ 31 - 1")
    case True
    then show ?thesis by (simp add: signed_take_bit_eq_take_bit_shift take_bit_eq_mod)
  next
    case False
    with b show ?thesis by (simp add: signed_take_bit_int_eq_self)
  qed
  finally show ?thesis by (simp add: ContainerFailedAttempts_def)
qed

text \<open>an operation is failed for an unparsable image exactly when some init or regular container
  of one of its pods waits with the reason \<open>InvalidImageName\<close>.\<close>

theorem GetInvalidImageName_iff:
  "GetInvalidImageName pods \<noteq> None \<longleftrightarrow>
     (\<exists>pod cs w. pod \<in> set pods \<and>
        cs \<in> set (podInitContainerStatuses pod @ podContainerStatuses pod) \<and>
        stWaiting (csState cs) = Some w \<and> wReason w = ''InvalidImageName'')"
proof (induction pods)
  case Nil
  then show ?case by simp
next
  case (Cons pod pods)
  have split: "GetInvalidImageName (pod # pods) \<noteq> None \<longleftrightarrow>
      invalidImageStatus (podInitContainerStatuses pod) \<noteq> None \<or>
      invalidImageStatus (podContainerStatuses pod) \<noteq> None \<or> GetInvalidImageName pods \<noteq> None"
    by (auto split: option.splits)
  show ?case
    unfolding split Cons.IH invalidImageStatus_iff InvalidImageNameReason_def set_append
    by (simp del: GetInvalidImageName.simps) blast
qed

text \<open>A reading of the pods on their fields alone. A container cannot pull its image when it waits for one of two reasons; a
  pod is kept back for the reason \<open>r\<close>, or else it is quiet unless it is over.\<close>

definition cannotPull :: "ContainerStatus list \<Rightarrow> bool" where
  "cannotPull css \<longleftrightarrow> (\<exists>cs \<in> set css. \<not> csReady cs \<and>
     (\<exists>w. stWaiting (csState cs) = Some w \<and> wReason w \<in> {''ImagePullBackOff'', ''ErrImagePull''}))"

definition keptBack :: "Pod \<Rightarrow> string \<Rightarrow> bool" where
  "keptBack pod r \<longleftrightarrow> podPhase pod \<notin> {''Failed'', ''Succeeded'', ''Running''} \<and>
     (case podConditions pod of
        None \<Rightarrow> podPhase pod = ''Unschedulable'' \<and> r = ''PodReasonUnschedulable'' \<or>
                podPhase pod = ''Pending'' \<and> r = ''PodPending''
      | Some conds \<Rightarrow>
          if cannotPull (podInitContainerStatuses pod) then r = ''InitContainerImagePullBackOff''
          else if cannotPull (podContainerStatuses pod) then r = ''ImagePullBackOff''
          else if \<exists>c \<in> set conds. pcReason c = ''Unschedulable'' \<or>
                    pcType c = ''Ready'' \<and> pcStatus c = ConditionFalse \<and> pcReason c = ''ContainersNotReady''
               then r = ''ContainersNotReady''
          else podPhase pod = ''Unschedulable'' \<and> r = ''PodReasonUnschedulable'')"

definition quietPod :: "Pod \<Rightarrow> bool" where
  "quietPod pod \<longleftrightarrow> podPhase pod \<notin> {''Failed'', ''Succeeded''} \<and> (\<forall>r. \<not> keptBack pod r)"

lemma cannotPull_iff: "cannotPull css \<longleftrightarrow> pullingMessage css \<noteq> None"
proof -
  have pulls: "isPullingImage cs \<longleftrightarrow> \<not> csReady cs \<and>
      (\<exists>w. stWaiting (csState cs) = Some w \<and> wReason w \<in> {''ImagePullBackOff'', ''ErrImagePull''})" for cs
    by (auto simp: isPullingImage_def imagePullBackOffReason_def split: option.splits)
  have "stWaiting (csState cs) \<noteq> None" if "List.find isPullingImage css = Some cs" for cs
    using that unfolding find_split pulls by auto
  then have "pullingMessage css = None \<longleftrightarrow> List.find isPullingImage css = None"
    by (auto simp: pullingMessage_def split: option.splits)
  also have "\<dots> \<longleftrightarrow> \<not> cannotPull css" unfolding find_None_iff cannotPull_def pulls by blast
  finally show ?thesis by simp
qed

lemma pendingVerdict_Warning:
  "(\<exists>m. pendingVerdict p conds = Some (OperationWarning, r, m)) \<longleftrightarrow>
     (if cannotPull (podInitContainerStatuses p) then r = ''InitContainerImagePullBackOff''
      else if cannotPull (podContainerStatuses p) then r = ''ImagePullBackOff''
      else List.find notReady conds \<noteq> None \<and> r = ''ContainersNotReady'')"
  unfolding cannotPull_iff
  by (cases "pullingMessage (podInitContainerStatuses p)"; cases "pullingMessage (podContainerStatuses p)";
      cases "List.find notReady conds")
     (auto simp: pendingVerdict_def imagePullBackOffReason_def)

lemma pendingVerdict_None:
  "pendingVerdict p conds = None \<longleftrightarrow> \<not> cannotPull (podInitContainerStatuses p) \<and>
     \<not> cannotPull (podContainerStatuses p) \<and> List.find notReady conds = None"
  unfolding cannotPull_iff
  by (cases "pullingMessage (podInitContainerStatuses p)"; cases "pullingMessage (podContainerStatuses p)";
      cases "List.find notReady conds")
     (auto simp: pendingVerdict_def)

lemma podVerdict_Warning: "(\<exists>m. podVerdict p = Some (OperationWarning, r, m)) \<longleftrightarrow> keptBack p r"
proof -
  have found: "(\<exists>c \<in> set conds. pcReason c = ''Unschedulable'' \<or>
      pcType c = ''Ready'' \<and> pcStatus c = ConditionFalse \<and> pcReason c = ''ContainersNotReady'') \<longleftrightarrow>
      List.find notReady conds \<noteq> None" for conds
    unfolding find_None_iff notReady_def by blast
  show ?thesis
  proof (cases "podPhase p \<in> {''Failed'', ''Succeeded'', ''Running''}")
    case True
    then show ?thesis by (auto simp: podVerdict_def keptBack_def noVerdict_def split: option.splits)
  next
    case False
    show ?thesis
    proof (cases "podConditions p")
      case None
      with False show ?thesis by (auto simp: podVerdict_def keptBack_def)
    next
      case (Some conds)
      show ?thesis
      proof (cases "pendingVerdict p conds")
        case None
        with False Some show ?thesis
          using pendingVerdict_None [of p conds] by (auto simp: podVerdict_def keptBack_def found)
      next
        case pending: (Some v)
        then have "podVerdict p = pendingVerdict p conds" using False Some by (simp add: podVerdict_def)
        moreover have "pendingVerdict p conds \<noteq> None" using pending by simp
        ultimately show ?thesis
          using False unfolding pendingVerdict_None by (simp add: pendingVerdict_Warning keptBack_def Some found) auto
      qed
    qed
  qed
qed

lemma podVerdict_None: "podVerdict p = None \<longleftrightarrow> quietPod p"
proof -
  have "podVerdict p = None \<longleftrightarrow> podPhase p \<notin> {''Failed'', ''Succeeded''} \<and> (\<forall>r m. podVerdict p \<noteq> Some (OperationWarning, r, m))"
  proof (cases "podVerdict p")
    case (Some v)
    have "fst v = OperationWarning" if "podPhase p \<noteq> ''Failed''" "podPhase p \<noteq> ''Succeeded''"
      using Some that
      by (auto simp: podVerdict_def Let_def dest!: pendingVerdict_warning split: option.splits if_splits)
    with Some show ?thesis by (cases v) auto
  qed (auto simp: podVerdict_def split: option.splits)
  then show ?thesis by (auto simp: quietPod_def podVerdict_Warning [symmetric])
qed

lemma podVerdict_Some:
  "podVerdict p = Some v \<Longrightarrow> fst v = OperationFailed \<longleftrightarrow> podPhase p = ''Failed''"
  "podVerdict p = Some v \<Longrightarrow> v = noVerdict \<longleftrightarrow> podPhase p = ''Succeeded''"
  by (auto simp: podVerdict_def noVerdict_def Let_def dest!: pendingVerdict_warning split: option.splits if_splits)

text \<open>The first pod with a verdict decides.\<close>

lemma loop_decided:
  "HasUnschedulablePods_loop pods = v \<longleftrightarrow>
     (\<exists>us p vs. pods = us @ p # vs \<and> list_all quietPod us \<and> podVerdict p = Some v) \<or>
     list_all quietPod pods \<and> v = noVerdict"
proof -
  have main: "HasUnschedulablePods_loop pods = v \<longleftrightarrow>
      (\<exists>p. List.find (\<lambda>p. podVerdict p \<noteq> None) pods = Some p \<and> podVerdict p = Some v) \<or>
      List.find (\<lambda>p. podVerdict p \<noteq> None) pods = None \<and> v = noVerdict"
  proof (cases "List.find (\<lambda>p. podVerdict p \<noteq> None) pods")
    case (Some p)
    then have "podVerdict p \<noteq> None" unfolding find_split by blast
    with Some show ?thesis by (auto simp: HasUnschedulable_loop_find)
  qed (auto simp: HasUnschedulable_loop_find)
  have q: "quietPod = (\<lambda>p. podVerdict p = None)" by (simp add: fun_eq_iff podVerdict_None)
  have some: "List.find (\<lambda>p. podVerdict p \<noteq> None) pods = Some p \<longleftrightarrow>
      (\<exists>us vs. pods = us @ p # vs \<and> podVerdict p \<noteq> None \<and> list_all quietPod us)" for p
    unfolding find_split q not_not by blast
  have none: "List.find (\<lambda>p. podVerdict p \<noteq> None) pods = None \<longleftrightarrow> list_all quietPod pods"
    unfolding find_None_iff q list_all_iff by metis
  show ?thesis unfolding main some none by (metis option.distinct(1))
qed

text \<open>C34: how pods turn into a status, on their fields. \<open>Starting\<close> means there are no pods. Otherwise the first pod that is
  not quiet decides: in phase \<open>Failed\<close> it makes \<open>Failed\<close>, in phase \<open>Succeeded\<close> it makes no status and hides every pod
  after it, and a pod that is kept back makes \<open>Warning\<close> with the reason for which it is kept back: an image that cannot
  be pulled by an init container, or else by a container, or else a condition that says unschedulable or not ready, or
  else the phase. A running pod is always quiet; when all pods are quiet there is no status.\<close>

theorem HasUnschedulablePods_spec:
  "(fst (HasUnschedulablePods pods) = OperationStarting \<longleftrightarrow> pods = []) \<and>
   (fst (HasUnschedulablePods pods) = OperationFailed \<longleftrightarrow>
      (\<exists>us p vs. pods = us @ p # vs \<and> list_all quietPod us \<and> podPhase p = ''Failed'')) \<and>
   ((\<exists>m. HasUnschedulablePods pods = (OperationWarning, r, m)) \<longleftrightarrow>
      (\<exists>us p vs. pods = us @ p # vs \<and> list_all quietPod us \<and> keptBack p r)) \<and>
   (HasUnschedulablePods pods = (OtherCondition [], [], []) \<longleftrightarrow> pods \<noteq> [] \<and>
      (list_all quietPod pods \<or> (\<exists>us p vs. pods = us @ p # vs \<and> list_all quietPod us \<and> podPhase p = ''Succeeded''))) \<and>
   quietPod (p\<lparr>podPhase := ''Running''\<rparr>)"
proof (cases "pods = []")
  case True
  then show ?thesis by (simp add: HasUnschedulablePods_def quietPod_def keptBack_def)
next
  case False
  have loop: "HasUnschedulablePods pods = HasUnschedulablePods_loop pods" using False by (simp add: HasUnschedulablePods_def)
  have failed: "(\<exists>v. fst v = OperationFailed \<and> podVerdict p = Some v) \<longleftrightarrow> podPhase p = ''Failed''" for p
    using podVerdict_Some(1) [of p] podVerdict_None [of p] by (cases "podVerdict p") (auto simp: quietPod_def)
  have succeeded: "podVerdict p = Some noVerdict \<longleftrightarrow> podPhase p = ''Succeeded''" for p
    using podVerdict_Some(2) [of p] podVerdict_None [of p] by (cases "podVerdict p") (auto simp: quietPod_def)
  have none: "fst noVerdict \<noteq> OperationFailed" "(OperationWarning, r, m) \<noteq> noVerdict" for m by (simp_all add: noVerdict_def)
  have "fst (HasUnschedulablePods pods) = OperationFailed \<longleftrightarrow>
      (\<exists>v. fst v = OperationFailed \<and> HasUnschedulablePods_loop pods = v)" unfolding loop by blast
  also have "\<dots> \<longleftrightarrow> (\<exists>us p vs. pods = us @ p # vs \<and> list_all quietPod us \<and> podPhase p = ''Failed'')"
    unfolding loop_decided failed [symmetric] using none(1) by blast
  finally have f: "fst (HasUnschedulablePods pods) = OperationFailed \<longleftrightarrow>
      (\<exists>us p vs. pods = us @ p # vs \<and> list_all quietPod us \<and> podPhase p = ''Failed'')" .
  have w: "(\<exists>m. HasUnschedulablePods pods = (OperationWarning, r, m)) \<longleftrightarrow>
      (\<exists>us p vs. pods = us @ p # vs \<and> list_all quietPod us \<and> keptBack p r)"
    unfolding loop loop_decided podVerdict_Warning [symmetric] using none(2) by blast
  have n: "HasUnschedulablePods pods = noVerdict \<longleftrightarrow> list_all quietPod pods \<or>
      (\<exists>us p vs. pods = us @ p # vs \<and> list_all quietPod us \<and> podPhase p = ''Succeeded'')"
    unfolding loop loop_decided succeeded by blast
  show ?thesis
    using False f w n [unfolded noVerdict_def] by (auto simp: verdict_starting quietPod_def keptBack_def)
qed

text \<open>the failure message of a run always ends with the exit of its main container, separated
  from what precedes it by a full stop and a space; nothing precedes it exactly when the job's own
  message is blank and no positive attempt count is given. Without an exit status the job's message
  is passed on unchanged.\<close>

theorem FormatMainContainerFailureMessage_spec:
  "FormatMainContainerFailureMessage m None att = m \<and>
   (\<exists>p. FormatMainContainerFailureMessage m (Some es) att = p @ exitDetail es \<and>
        (p = '''' \<or> hasSuffix p ''. '') \<and>
        (p = '''' \<longleftrightarrow> trimSpace m = '''' \<and> (case att of None \<Rightarrow> True | Some n \<Rightarrow> sint n \<le> 0)))"
proof -
  define M where "M = (case att of None \<Rightarrow> trimSpace m
      | Some n \<Rightarrow> if 0 <s n
          then (if trimSpace m = '''' then ''Operation failed after '' @ itoa (sint n) @ '' failed attempt(s)''
                else trimSuffix (trimSpace m) ''.'' @ '' after '' @ itoa (sint n) @ '' failed attempt(s)'')
          else trimSpace m)"
  have M_empty: "M = '''' \<longleftrightarrow> trimSpace m = '''' \<and> (case att of None \<Rightarrow> True | Some n \<Rightarrow> sint n \<le> 0)"
    by (auto simp: M_def word_sless_alt split: option.splits)
  have f: "FormatMainContainerFailureMessage m (Some es) att =
      (if M = '''' then exitDetail es else if hasSuffix M ''.'' then M @ '' '' @ exitDetail es
       else M @ ''. '' @ exitDetail es)"
    by (simp add: FormatMainContainerFailureMessage_def M_def Let_def)
  have suf: "hasSuffix (M @ '' '') ''. ''" if "hasSuffix M ''.''"
    using that by (auto simp: hasSuffix_iff)
  show ?thesis
    by (rule conjI, simp add: FormatMainContainerFailureMessage_def,
        rule exI [of _ "if M = '''' then '''' else if hasSuffix M ''.'' then M @ '' '' else M @ ''. ''"])
      (auto simp: f suf M_empty [symmetric] hasSuffix_iff)
qed

end
