(* ===== verification/Managers.thy ===== *)
theory Managers
  imports Kube_Types Config Pods
begin

text \<open>
  The builders and the field copiers of the typed Kubernetes objects:
  \<^verbatim>\<open>internal/helpers/managers/jobs.go\<close>, \<^verbatim>\<open>services.go\<close> and \<^verbatim>\<open>deployments.go\<close>.

  A copier returns the updated target and the flag the source returns. \<open>GenerateDeployment\<close>
  writes the ports of the first container through the slice it shares with its caller: it returns
  the deployment and the pod specification the caller holds afterwards.
\<close>

section \<open>Jobs\<close>

text \<open>The loop \<open>for k, v := range to.Labels \{ if from.Labels[k] != v ... \}\<close>.\<close>

definition labelsDiffer :: "dict \<Rightarrow> dict \<Rightarrow> bool" where
  "labelsDiffer toLabels fromLabels = list_ex (\<lambda>(k, v). lookupZ fromLabels k \<noteq> v) toLabels"

definition CopyJobFields :: "BatchJob \<Rightarrow> BatchJob \<Rightarrow> BatchJob \<times> bool" where
  "CopyJobFields from to =
     (let requireUpdate = labelsDiffer (bjLabels to) (bjLabels from);
          to = to\<lparr>bjLabels := bjLabels from\<rparr>;
          (to, requireUpdate) =
            (if \<not> ptrEq (bjActiveDeadlineSeconds to) (bjActiveDeadlineSeconds from)
             then (to\<lparr>bjActiveDeadlineSeconds := bjActiveDeadlineSeconds from\<rparr>, True)
             else (to, requireUpdate));
          (to, requireUpdate) =
            (if \<not> ptrEq (bjBackoffLimit to) (bjBackoffLimit from)
             then (to\<lparr>bjBackoffLimit := bjBackoffLimit from\<rparr>, True)
             else (to, requireUpdate));
          (to, requireUpdate) =
            (if \<not> ptrEq (bjTTLSecondsAfterFinished to) (bjTTLSecondsAfterFinished from)
             then (to\<lparr>bjTTLSecondsAfterFinished := bjTTLSecondsAfterFinished from\<rparr>, True)
             else (to, requireUpdate));
          (to, requireUpdate) =
            (if bjPodFailurePolicy to \<noteq> bjPodFailurePolicy from
             then (to\<lparr>bjPodFailurePolicy := bjPodFailurePolicy from\<rparr>, True)
             else (to, requireUpdate))
      in if ptSpec (bjTemplate to) \<noteq> ptSpec (bjTemplate from)
         then (to\<lparr>bjTemplate := (bjTemplate to)\<lparr>ptSpec := ptSpec (bjTemplate from)\<rparr>\<rparr>, True)
         else (to, requireUpdate))"

definition IsJobSucceeded :: "JobCondition \<Rightarrow> bool" where
  "IsJobSucceeded jc \<longleftrightarrow> jcType jc = ''Complete'' \<and> jcStatus jc = ConditionTrue"

definition IsJobFailed :: "JobCondition \<Rightarrow> bool" where
  "IsJobFailed jc \<longleftrightarrow> jcType jc = ''Failed'' \<and> jcStatus jc = ConditionTrue"

text \<open>\<open>addr\<close> is where the locals of \<open>GetBackoffLimit\<close> and \<open>GetTTL\<close> are allocated.\<close>

definition GenerateJob ::
  "nat \<Rightarrow> string \<Rightarrow> string \<Rightarrow> dict \<Rightarrow> dict \<Rightarrow> int32 ptr \<Rightarrow> int ptr \<Rightarrow> int32 ptr \<Rightarrow>
   string option \<Rightarrow> PodSpec \<Rightarrow> BatchJob"
where
  "GenerateJob addr name namespace labels annotations backoffLimit activeDeadlineSeconds
       ttlSecondsAfterFinished podFailurePolicy spec =
     (let spec = (if RestartPolicy spec = '''' then spec\<lparr>RestartPolicy := ''Never''\<rparr> else spec);
          l = dictCopy labels [];
          a = dictCopy annotations []
      in \<lparr>bjName = name, bjNamespace = namespace, bjLabels = labels, bjAnnotations = annotations,
          bjOwnerReferences = [],
          bjBackoffLimit = GetBackoffLimit addr backoffLimit,
          bjActiveDeadlineSeconds = activeDeadlineSeconds,
          bjTTLSecondsAfterFinished = GetTTL (Suc addr) ttlSecondsAfterFinished,
          bjPodFailurePolicy = podFailurePolicy,
          bjTemplate = \<lparr>ptLabels = l, ptAnnotations = a, ptSpec = spec\<rparr>,
          bjActive = 0, bjSucceeded = 0, bjFailed = 0, bjCompletionTime = None, bjConditions = []\<rparr>)"

section \<open>Services\<close>

definition DefaultTargetPort :: int32 where "DefaultTargetPort = 6006"

definition DefaultServiceReplicas :: int32 where "DefaultServiceReplicas = 1"

definition GetReplicas :: "int32 \<Rightarrow> int32 option \<Rightarrow> int32" where
  "GetReplicas dreplicas serviceReplicas =
     (case serviceReplicas of None \<Rightarrow> dreplicas | Some n \<Rightarrow> n)"

definition CopyServiceFields :: "CoreService \<Rightarrow> CoreService \<Rightarrow> CoreService \<times> bool" where
  "CopyServiceFields from to =
     (let requireUpdate = labelsDiffer (svLabels to) (svLabels from);
          to = to\<lparr>svLabels := svLabels from\<rparr>;
          requireUpdate = (requireUpdate \<or> labelsDiffer (svAnnotations to) (svAnnotations from));
          to = to\<lparr>svAnnotations := svAnnotations from\<rparr>;
          requireUpdate = (requireUpdate \<or> \<not> dictEq (svSelector to) (svSelector from));
          to = to\<lparr>svSelector := svSelector from\<rparr>;
          requireUpdate = (requireUpdate \<or> svPorts to \<noteq> svPorts from);
          to = to\<lparr>svPorts := svPorts from\<rparr>
      in (to, requireUpdate))"

definition servicePort :: "int32 \<Rightarrow> ServicePort" where
  "servicePort sp = \<lparr>spName = ''port-'' @ itoa (sint sp), spPort = sp, spTargetPort = sp,
     spProtocol = ''TCP''\<rparr>"

definition GenerateService ::
  "string \<Rightarrow> string \<Rightarrow> dict \<Rightarrow> dict \<Rightarrow> int32 list \<Rightarrow> CoreService"
where
  "GenerateService name namespace labels annotations ports =
     \<lparr>svName = name, svNamespace = namespace, svLabels = labels, svAnnotations = annotations,
      svOwnerReferences = [], svType = ''ClusterIP'', svSelector = labels,
      svPorts = map servicePort ports, svOther = ''''\<rparr>"

section \<open>Deployments\<close>

definition CopyDeploymentFields :: "Deployment \<Rightarrow> Deployment \<Rightarrow> Deployment \<times> bool" where
  "CopyDeploymentFields from to =
     (let requireUpdate = labelsDiffer (dpLabels to) (dpLabels from);
          to = to\<lparr>dpLabels := dpLabels from\<rparr>;
          requireUpdate =
            (requireUpdate \<or> ptSpec (dpTemplate to) \<noteq> ptSpec (dpTemplate from));
          to = to\<lparr>dpTemplate := (dpTemplate to)\<lparr>ptSpec := ptSpec (dpTemplate from)\<rparr>\<rparr>
      in (to, requireUpdate))"

definition IsDeploymentWarning :: "DeploymentStatus \<Rightarrow> DeploymentCondition \<Rightarrow> bool" where
  "IsDeploymentWarning ds dc =
     (if dcType dc = ''ReplicaFailure'' then True
      else if dcType dc = ''Available'' \<and> dcStatus dc = ConditionFalse then True
      else if dcType dc = ''Progressing'' \<and> 0 <s dsUnavailableReplicas ds then True
      else False)"

definition IsDeploymentRunning :: "DeploymentStatus \<Rightarrow> DeploymentCondition \<Rightarrow> bool" where
  "IsDeploymentRunning ds dc =
     (if dcType dc = ''Progressing'' \<and> 0 <s dsAvailableReplicas ds \<and> 0 <s dsReadyReplicas ds
      then True
      else if dcType dc = ''Available'' \<and> dcStatus dc = ConditionTrue then True
      else False)"

definition tcpPort :: "int32 \<Rightarrow> ContainerPort" where
  "tcpPort p = \<lparr>cpContainerPort = p, cpProtocol = ''TCP'', cpOther = ''''\<rparr>"

text \<open>A nil slice of ports ranges like an empty one.\<close>

definition containerPorts :: "Container \<Rightarrow> ContainerPort list" where
  "containerPorts c = (case ctPorts c of None \<Rightarrow> [] | Some ps \<Rightarrow> ps)"

definition missingPorts :: "int32 list \<Rightarrow> Container \<Rightarrow> int32 list" where
  "missingPorts ports c =
     filter (\<lambda>sp. \<not> list_ex (\<lambda>cp. cpContainerPort cp = sp) (containerPorts c)) ports"

definition addPorts :: "int32 list \<Rightarrow> Container \<Rightarrow> Container" where
  "addPorts ports c =
     (if length (missingPorts ports c) > 0
      then c\<lparr>ctPorts := Some (containerPorts c @ map tcpPort ports)\<rparr> else c)"

definition GenerateDeployment ::
  "string \<Rightarrow> string \<Rightarrow> dict \<Rightarrow> dict \<Rightarrow> int32 list \<Rightarrow> int32 \<Rightarrow> PodSpec \<Rightarrow>
   error + (Deployment \<times> PodSpec)"
where
  "GenerateDeployment name namespace labels annotations ports replicas spec =
     (let l = dictCopy labels [];
          a = dictCopy annotations []
      in case Containers spec of
           [] \<Rightarrow> Inl (OtherError ''service deployment has no container in Spec'')
         | container # rest \<Rightarrow>
             let spec = spec\<lparr>Containers := addPorts ports container # rest\<rparr>
             in Inr (\<lparr>dpName = name, dpNamespace = namespace, dpLabels = labels,
                      dpAnnotations = annotations, dpOwnerReferences = [],
                      dpReplicas = Some replicas, dpSelector = labels,
                      dpTemplate = \<lparr>ptLabels = l, ptAnnotations = a, ptSpec = spec\<rparr>,
                      dpStatus = \<lparr>dsAvailableReplicas = 0, dsReadyReplicas = 0,
                                  dsUnavailableReplicas = 0, dsConditions = []\<rparr>\<rparr>,
                     spec))"

section \<open>Lemmas\<close>

lemma CopyJobFields_fst:
  "fst (CopyJobFields from to) =
     to\<lparr>bjLabels := bjLabels from,
        bjActiveDeadlineSeconds := (if ptrEq (bjActiveDeadlineSeconds to) (bjActiveDeadlineSeconds from)
           then bjActiveDeadlineSeconds to else bjActiveDeadlineSeconds from),
        bjBackoffLimit := (if ptrEq (bjBackoffLimit to) (bjBackoffLimit from)
           then bjBackoffLimit to else bjBackoffLimit from),
        bjTTLSecondsAfterFinished := (if ptrEq (bjTTLSecondsAfterFinished to) (bjTTLSecondsAfterFinished from)
           then bjTTLSecondsAfterFinished to else bjTTLSecondsAfterFinished from),
        bjPodFailurePolicy := bjPodFailurePolicy from,
        bjTemplate := (bjTemplate to)\<lparr>ptSpec := ptSpec (bjTemplate from)\<rparr>\<rparr>"
  by (simp add: CopyJobFields_def Let_def)

lemma CopyJobFields_snd:
  "snd (CopyJobFields from to) \<longleftrightarrow>
     labelsDiffer (bjLabels to) (bjLabels from) \<or>
     \<not> ptrEq (bjActiveDeadlineSeconds to) (bjActiveDeadlineSeconds from) \<or>
     \<not> ptrEq (bjBackoffLimit to) (bjBackoffLimit from) \<or>
     \<not> ptrEq (bjTTLSecondsAfterFinished to) (bjTTLSecondsAfterFinished from) \<or>
     bjPodFailurePolicy to \<noteq> bjPodFailurePolicy from \<or>
     ptSpec (bjTemplate to) \<noteq> ptSpec (bjTemplate from)"
  by (auto simp: CopyJobFields_def Let_def)

lemma labelsDiffer_iff:
  "distinct (map fst m) \<Longrightarrow>
   \<not> labelsDiffer m n \<longleftrightarrow> (\<forall>k v. map_of m k = Some v \<longrightarrow> lookupZ n k = v)"
  by (auto simp: labelsDiffer_def list_ex_iff)

section \<open>Properties\<close>

text \<open>the copier of job fields compares pointers, not the numbers they point to. When the job
  found in the cluster is a different object than the generated one, so that no variable is shared,
  it asks for an update on every pass, even when every value agrees: a generated job always has a
  backoff limit.\<close>

theorem CopyJobFields_always_updates:
  assumes "case bjBackoffLimit found of NilPtr \<Rightarrow> True
           | Ptr a _ \<Rightarrow> (\<forall>b v. bjBackoffLimit (GenerateJob addr n ns ls an bl ad ttl pfp spec) = Ptr b v \<longrightarrow> a \<noteq> b)"
  shows "snd (CopyJobFields (GenerateJob addr n ns ls an bl ad ttl pfp spec) found)"
proof -
  let ?job = "GenerateJob addr n ns ls an bl ad ttl pfp spec"
  obtain b v where b: "bjBackoffLimit ?job = Ptr b v"
    using GetBackoffLimit_not_nil by (cases "bjBackoffLimit ?job") (auto simp: GenerateJob_def Let_def)
  with assms have "\<not> ptrEq (bjBackoffLimit found) (bjBackoffLimit ?job)"
    by (cases "bjBackoffLimit found") auto
  then show ?thesis by (simp add: CopyJobFields_snd)
qed

theorem CopyJobFields_always_updates_witness:
  "let gen = (\<lambda>addr. GenerateJob addr ''run'' ''ns'' [] [] NilPtr NilPtr NilPtr None
                \<lparr>Containers = [], RestartPolicy = ''Never'', psOther = ''''\<rparr>)
   in deref (bjBackoffLimit (gen 7)) = deref (bjBackoffLimit (gen 100)) \<and>
      snd (CopyJobFields (gen 7) (gen 100))"
proof -
  let ?spec = "\<lparr>Containers = [], RestartPolicy = ''Never'', psOther = ''''\<rparr>"
  let ?gen = "\<lambda>addr. GenerateJob addr ''run'' ''ns'' [] [] NilPtr NilPtr NilPtr None ?spec"
  have "snd (CopyJobFields (?gen 7) (?gen 100))"
    by (rule CopyJobFields_always_updates) (simp add: GenerateJob_def GetBackoffLimit_def)
  then show ?thesis by (simp add: GenerateJob_def GetBackoffLimit_def)
qed

text \<open>after the copy the target has every field the operator owns as generated: labels, deadline,
  backoff limit and time to live (the pointers), failure policy and pod specification; its identity,
  annotations, template labels and status are untouched. The copied pointers are those of the
  generated job, or pointers to the same variable.\<close>

theorem CopyJobFields_copies:
  "let to' = fst (CopyJobFields from to) in
   bjLabels to' = bjLabels from \<and>
   ptrEq (bjActiveDeadlineSeconds to') (bjActiveDeadlineSeconds from) \<and>
   ptrEq (bjBackoffLimit to') (bjBackoffLimit from) \<and>
   ptrEq (bjTTLSecondsAfterFinished to') (bjTTLSecondsAfterFinished from) \<and>
   bjPodFailurePolicy to' = bjPodFailurePolicy from \<and>
   ptSpec (bjTemplate to') = ptSpec (bjTemplate from) \<and>
   (bjName to', bjNamespace to', bjAnnotations to', bjOwnerReferences to', ptLabels (bjTemplate to'),
    ptAnnotations (bjTemplate to')) =
   (bjName to, bjNamespace to, bjAnnotations to, bjOwnerReferences to, ptLabels (bjTemplate to),
    ptAnnotations (bjTemplate to)) \<and>
   (bjActive to', bjSucceeded to', bjFailed to', bjCompletionTime to', bjConditions to') =
   (bjActive to, bjSucceeded to, bjFailed to, bjCompletionTime to, bjConditions to)"
  by (simp add: CopyJobFields_fst Let_def)

text \<open>a generated service exposes every requested port once per occurrence, under names that
  are distinct exactly when the ports are, and targets the port of the same number.\<close>

theorem GenerateService_ports:
  "let svc = GenerateService name namespace labels annotations ports in
   map spPort (svPorts svc) = ports \<and> map spTargetPort (svPorts svc) = ports \<and>
   (distinct (map spName (svPorts svc)) \<longleftrightarrow> distinct ports) \<and> svSelector svc = labels"
proof -
  have "inj (\<lambda>p :: int32. ''port-'' @ itoa (sint p))"
    by (rule injI) (simp add: itoa_inj signed_word_eqI)
  then have "distinct (map (\<lambda>p :: int32. ''port-'' @ itoa (sint p)) ports) \<longleftrightarrow> distinct ports"
    by (simp add: distinct_map) (meson inj_on_subset subset_UNIV)
  then show ?thesis
    by (simp add: GenerateService_def servicePort_def comp_def)
qed

text \<open>copying a service is a fixed point: once a service carries the generated fields, copying
  again reports no change and leaves it as it is, and copying never touches the fields Kubernetes
  owns (the cluster address among them).\<close>

theorem CopyServiceFields_idempotent:
  assumes "distinct (map fst (svLabels from))" and "distinct (map fst (svAnnotations from))"
  shows "CopyServiceFields from (fst (CopyServiceFields from to)) =
           (fst (CopyServiceFields from to), False) \<and>
         svOther (fst (CopyServiceFields from to)) = svOther to"
proof -
  have "\<not> labelsDiffer m m" if "distinct (map fst m)" for m
    using that by (simp add: labelsDiffer_iff lookupZ_def)
  with assms show ?thesis by (simp add: CopyServiceFields_def Let_def dictEq_iff)
qed

theorem CopyServiceFields_idempotent_witness:
  "let g = GenerateService ''svc'' ''ns'' [(''app'', ''x'')] [] [80];
       found = (GenerateService ''svc'' ''ns'' [] [] [])\<lparr>svOther := ''clusterIP''\<rparr>
   in snd (CopyServiceFields g found) \<and> \<not> snd (CopyServiceFields g (fst (CopyServiceFields g found)))"
proof -
  let ?g = "GenerateService ''svc'' ''ns'' [(''app'', ''x'')] [] [80]"
  let ?found = "(GenerateService ''svc'' ''ns'' [] [] [])\<lparr>svOther := ''clusterIP''\<rparr>"
  have "CopyServiceFields ?g (fst (CopyServiceFields ?g ?found)) = (fst (CopyServiceFields ?g ?found), False)"
    using CopyServiceFields_idempotent [of ?g ?found] by (simp add: GenerateService_def)
  moreover have "snd (CopyServiceFields ?g ?found)"
    by (simp add: CopyServiceFields_def GenerateService_def dictEq_iff Let_def)
  ultimately show ?thesis by (simp add: Let_def)
qed

text \<open>C31: when some requested port is missing from the first container, \<open>GenerateDeployment\<close> appends
  all requested ports and not only the missing ones: a port the container already declares is then
  declared twice. When no port is missing the container is unchanged. Either way every requested port
  is declared by the first container of both the deployment and the caller's pod specification.\<close>

theorem GenerateDeployment_ports:
  "case Containers spec of
     [] \<Rightarrow> (\<exists>e. GenerateDeployment n ns ls an ports r spec = Inl e)
   | c # rest \<Rightarrow>
       (\<exists>d c'. GenerateDeployment n ns ls an ports r spec =
                Inr (d, spec\<lparr>Containers := c' # rest\<rparr>) \<and>
          ptSpec (dpTemplate d) = spec\<lparr>Containers := c' # rest\<rparr> \<and>
          set ports \<subseteq> set (map cpContainerPort (containerPorts c')) \<and>
          map cpContainerPort (containerPorts c') =
            map cpContainerPort (containerPorts c) @
              (if set ports \<subseteq> set (map cpContainerPort (containerPorts c)) then [] else ports))"
proof (cases "Containers spec")
  case Nil
  then show ?thesis by (simp add: GenerateDeployment_def)
next
  case (Cons c rest)
  have missing: "missingPorts ports c = [] \<longleftrightarrow> set ports \<subseteq> set (map cpContainerPort (containerPorts c))"
    by (auto simp: missingPorts_def filter_empty_conv list_ex_iff)
  have tcp: "cpContainerPort \<circ> tcpPort = id" by (simp add: fun_eq_iff tcpPort_def)
  have declared: "map cpContainerPort (containerPorts (addPorts ports c)) =
      map cpContainerPort (containerPorts c) @
        (if set ports \<subseteq> set (map cpContainerPort (containerPorts c)) then [] else ports)"
    unfolding missing [symmetric]
    by (simp add: addPorts_def) (simp add: containerPorts_def tcp)
  then have all: "set ports \<subseteq> set (map cpContainerPort (containerPorts (addPorts ports c)))"
    unfolding declared by auto
  let ?spec = "spec\<lparr>Containers := addPorts ports c # rest\<rparr>"
  obtain d where "GenerateDeployment n ns ls an ports r spec = Inr (d, ?spec)"
      "ptSpec (dpTemplate d) = ?spec"
    using Cons by (simp add: GenerateDeployment_def Let_def)
  then show ?thesis unfolding Cons list.case
    using declared all by (intro exI [of _ d] exI [of _ "addPorts ports c"]) (intro conjI)
qed

end
