(* ===== verification/Float64.thy ===== *)
theory Float64
  imports Complex_Main Prelude
begin

text \<open>
  The floating point numbers that the back-off of \<^verbatim>\<open>cleanup.go\<close> computes with: IEEE 754 double precision, which is Go's
  \<open>float64\<close>. Only numbers that are not negative occur, so a value is the rational number it stands for, or infinity. An
  integer constant that is used as a \<open>float64\<close> is rounded to the nearest value, ties to even, and \<open>math.Pow\<close> of two and
  an integer gives the power itself whenever that is a \<open>float64\<close>.
\<close>

datatype float64 = Finite rat | PosInf

fun bitLength :: "nat \<Rightarrow> nat" where
  "bitLength n = (if n = 0 then 0 else Suc (bitLength (n div 2)))"

declare bitLength.simps [simp del]

text \<open>Rounding to a significand of 53 bits.\<close>

definition roundSignificand :: "nat \<Rightarrow> nat" where
  "roundSignificand n =
     (let e = bitLength n - 53;
          q = n div 2 ^ e;
          r = n mod 2 ^ e
      in if 2 ^ e < 2 * r \<or> (2 * r = 2 ^ e \<and> odd q) then (q + 1) * 2 ^ e else q * 2 ^ e)"

definition float64_const :: "nat \<Rightarrow> float64" where
  "float64_const n =
     (let m = roundSignificand n in if m < 2 ^ 1024 then Finite (of_nat m) else PosInf)"

text \<open>\<open>math.Pow(2, n)\<close>: the powers from the smallest subnormal number to the largest exponent are values; the ones below
  give zero, the ones above infinity.\<close>

definition pow2 :: "int \<Rightarrow> float64" where
  "pow2 n =
     (if n < - 1074 then Finite 0
      else if n \<le> 1023 then Finite (if 0 \<le> n then 2 ^ nat n else 1 / 2 ^ nat (- n))
      else PosInf)"

fun float64_less :: "float64 \<Rightarrow> float64 \<Rightarrow> bool" where
  "float64_less (Finite a) (Finite b) = (a < b)"
| "float64_less (Finite a) PosInf = True"
| "float64_less PosInf y = False"

text \<open>The conversion to an integer discards the fraction. Outside the range of \<open>int64\<close> its result is left to the
  implementation by the Go specification: \<open>None\<close>.\<close>

definition int64_of_float64 :: "float64 \<Rightarrow> int option" where
  "int64_of_float64 x =
     (case x of
        PosInf \<Rightarrow> None
      | Finite a \<Rightarrow> let n = (if 0 \<le> a then \<lfloor>a\<rfloor> else \<lceil>a\<rceil>) in if int64_range n then Some n else None)"

section \<open>Properties\<close>

text \<open>Rounding is exact up to 53 bits.\<close>

lemma bitLength_le: "n < 2 ^ k \<Longrightarrow> bitLength n \<le> k"
proof (induction n arbitrary: k rule: bitLength.induct)
  case (1 n)
  show ?case
  proof (cases "n = 0")
    case False
    then obtain j where k: "k = Suc j" using 1(2) by (cases k) auto
    then have "n div 2 < 2 ^ j" using 1(2) by (simp add: less_mult_imp_div_less mult.commute)
    from 1(1) [OF False this] show ?thesis using False k by (simp add: bitLength.simps [of n])
  qed (simp add: bitLength.simps)
qed

lemma roundSignificand_exact: "n < 2 ^ 53 \<Longrightarrow> roundSignificand n = n"
  using bitLength_le [of n 53] by (simp add: roundSignificand_def)

text \<open>The largest \<open>int64\<close> has 63 bits, all of them set: it is rounded up to a power of two.\<close>

lemma maxInt64_rounds: "float64_const (2 ^ 63 - 1) = Finite (2 ^ 63)"
proof -
  have "bitLength (2 ^ 63 - 1) = 63" by (simp add: bitLength.simps)
  then have "roundSignificand (2 ^ 63 - 1) = 2 ^ 63" by (simp add: roundSignificand_def)
  then show ?thesis by (simp add: float64_const_def)
qed

lemma pow2_less_const:
  "float64_less (Finite (2 ^ 63)) (pow2 n) \<longleftrightarrow> 63 < n"
proof -
  have "(2 :: rat) ^ 63 < 2 ^ nat n \<longleftrightarrow> 63 < n" if "0 \<le> n"
    using that by (simp only: power_strict_increasing_iff [of "2 :: rat"]) linarith
  moreover have "\<not> (2 :: rat) ^ 63 < 1 / 2 ^ nat (- n)"
  proof -
    have "1 / (2 :: rat) ^ nat (- n) \<le> 1" by (simp add: divide_le_eq)
    also have "(1 :: rat) \<le> 2 ^ 63" by simp
    finally show ?thesis by (simp only: not_less)
  qed
  ultimately show ?thesis by (auto simp: pow2_def)
qed

lemma int64_of_pow2:
  "int64_of_float64 (pow2 n) =
     (if n < 0 then Some 0 else if n < 63 then Some (2 ^ nat n) else None)"
proof -
  have floor0: "\<lfloor>1 / (2 :: rat) ^ nat (- n)\<rfloor> = 0" if "n < 0"
    using that by (simp add: floor_eq_iff divide_less_eq)
  have floorP: "\<lfloor>(2 :: rat) ^ nat n\<rfloor> = 2 ^ nat n"
    by (metis floor_of_int of_int_numeral of_int_power)
  have range: "int64_range (2 ^ nat n) \<longleftrightarrow> n < 63" if "0 \<le> n"
  proof -
    have "(2 :: int) ^ nat n < 2 ^ 63 \<longleftrightarrow> n < 63"
      using that by (simp only: power_strict_increasing_iff [of "2 :: int"]) linarith
    moreover have "- (2 ^ 63) \<le> (2 :: int) ^ nat n" by (rule order_trans [of _ 0]) simp_all
    ultimately show ?thesis by (auto simp: int64_range_def)
  qed
  have "int64_range 0" by (simp add: int64_range_def)
  then show ?thesis
    by (auto simp: int64_of_float64_def pow2_def floor0 floorP range)
qed

end
