(* ===== verification/Reconcile.thy ===== *)
theory Reconcile
  imports Operations Plugins Managers Float64
begin

text \<open>
  What the four controllers have in common: \<^verbatim>\<open>finalizer.go\<close>, \<^verbatim>\<open>sync.go\<close>, \<^verbatim>\<open>status.go\<close>,
  \<^verbatim>\<open>cleanup.go\<close> and the body of \<open>Reconcile\<close> in \<^verbatim>\<open>controller.go\<close>. Each controller package has its
  own copy of this code, equal up to the receiver type, so it is defined once over
  \<open>'a operation_scheme\<close>; the controller theories name their instances.

  Code outside the repository is the record \<open>api\<close>: the controller-runtime client on the
  operation resource, \<open>controllerutil\<close>, the clock, the environment and the SDK. Its functions
  act on an arbitrary world \<open>'w\<close>. A pass works on the record \<open>pass\<close>: the in-memory instance, the
  world, and the list of the calls that leave the process, which no code reads and on which the
  safety properties are stated.
\<close>

section \<open>The outside world\<close>

datatype kobj = KJob | KDeployment | KService | KVirtualService | KUnstructured string

text \<open>A call that leaves the process, with what it sends and the error it gets or whether it succeeded. The call that
  collects logs is recorded with the answer of the Polyaxon API itself, before the operator looks at it.\<close>

datatype call =
    CUpdate "string list" "error option"           \<comment> \<open>the finalizers sent\<close>
  | CStatusUpdate OperationStatus "error option"    \<comment> \<open>the status sent\<close>
  | CDelete "error option"
  | CCreate kobj bool
  | CObjUpdate kobj bool
  | CRunStatus OperationCondition bool
  | CCollectLogs "sdkError option"

record ('i, 'w) api =
  osEnv :: "string \<Rightarrow> string option"
  timeNow :: "'w \<Rightarrow> time \<times> 'w"
  getInstance :: "key \<Rightarrow> 'w \<Rightarrow> (error + 'i) \<times> 'w"
  updateInstance :: "'i \<Rightarrow> 'w \<Rightarrow> (error + 'i) \<times> 'w"
  updateInstanceStatus :: "'i \<Rightarrow> 'w \<Rightarrow> (error + 'i) \<times> 'w"
  deleteInstance :: "'i \<Rightarrow> 'w \<Rightarrow> error option \<times> 'w"
  listPods :: "string \<Rightarrow> dict \<Rightarrow> 'w \<Rightarrow> (Pod list \<times> error option) \<times> 'w"
  containsFinalizer :: "string list \<Rightarrow> string \<Rightarrow> bool"
  addFinalizer :: "string list \<Rightarrow> string \<Rightarrow> string list"
  removeFinalizer :: "string list \<Rightarrow> string \<Rightarrow> string list"
  createRunStatus :: "'w sdkOp"
  collectRunLogs :: "'w sdkOp"

text \<open>The client on one kind of owned object, with \<open>ctrl.SetControllerReference\<close> for it.\<close>

record ('i, 'o, 'w) objApi =
  oGet :: "key \<Rightarrow> 'w \<Rightarrow> (error + 'o) \<times> 'w"
  oCreate :: "'o \<Rightarrow> 'w \<Rightarrow> error option \<times> 'w"
  oUpdate :: "'o \<Rightarrow> 'w \<Rightarrow> (error + 'o) \<times> 'w"
  setControllerReference :: "'i \<Rightarrow> 'o \<Rightarrow> error + 'o"

record ('i, 'w) pass =
  inst :: 'i
  world :: 'w
  calls :: "call list"

record ctrlResult =
  Requeue :: bool
  RequeueAfter :: duration

definition noRequeue :: ctrlResult where
  "noRequeue = \<lparr>Requeue = False, RequeueAfter = 0\<rparr>"

section \<open>Calls\<close>

definition external :: "('w \<Rightarrow> 'b \<times> 'w) \<Rightarrow> (('i, 'w) pass, 'b) go" where
  "external f = (\<lambda>s. let (b, w) = f (world s) in (Returns b, s\<lparr>world := w\<rparr>))"

definition logCall :: "call \<Rightarrow> (('i, 'w) pass, unit) go" where
  "logCall c = modifyS (\<lambda>s. s\<lparr>calls := calls s @ [c]\<rparr>)"

definition now :: "('i, 'w, 'm) api_scheme \<Rightarrow> (('i, 'w) pass, time) go" where
  "now api = external (timeNow api)"

definition newClock :: "('i, 'w, 'm) api_scheme \<Rightarrow> (('i, 'w) pass, clock) go" where
  "newClock api = bindG (now api) (\<lambda>t. bindG (now api) (\<lambda>u. ret (t, u)))"

text \<open>\<open>r.Get\<close> on the operation: the instance is overwritten on success only.\<close>

definition clientGet :: "('i, 'w, 'm) api_scheme \<Rightarrow> key \<Rightarrow> (('i, 'w) pass, error option) go" where
  "clientGet api req =
     bindG (external (getInstance api req)) (\<lambda>r.
       case r of Inl e \<Rightarrow> ret (Some e)
       | Inr i \<Rightarrow> bindG (modifyS (\<lambda>s. s\<lparr>inst := i\<rparr>)) (\<lambda>_. ret None))"

text \<open>\<open>r.Update\<close> and \<open>r.Status().Update\<close> decode the response into the instance on success.\<close>

definition clientUpdate ::
  "('a operation_scheme, 'w, 'm) api_scheme \<Rightarrow> (('a operation_scheme, 'w) pass, error option) go"
where
  "clientUpdate api =
     bindG (readS inst) (\<lambda>i. bindG (external (updateInstance api i)) (\<lambda>r.
       case r of
         Inl e \<Rightarrow> bindG (logCall (CUpdate (opFinalizers i) (Some e))) (\<lambda>_. ret (Some e))
       | Inr j \<Rightarrow> bindG (logCall (CUpdate (opFinalizers i) None)) (\<lambda>_.
                  bindG (modifyS (\<lambda>s. s\<lparr>inst := j\<rparr>)) (\<lambda>_. ret None))))"

definition clientStatusUpdate ::
  "('a operation_scheme, 'w, 'm) api_scheme \<Rightarrow> (('a operation_scheme, 'w) pass, error option) go"
where
  "clientStatusUpdate api =
     bindG (readS inst) (\<lambda>i. bindG (external (updateInstanceStatus api i)) (\<lambda>r.
       case r of
         Inl e \<Rightarrow> bindG (logCall (CStatusUpdate (opStatus i) (Some e))) (\<lambda>_. ret (Some e))
       | Inr j \<Rightarrow> bindG (logCall (CStatusUpdate (opStatus i) None)) (\<lambda>_.
                  bindG (modifyS (\<lambda>s. s\<lparr>inst := j\<rparr>)) (\<lambda>_. ret None))))"

definition clientDelete :: "('i, 'w, 'm) api_scheme \<Rightarrow> (('i, 'w) pass, error option) go" where
  "clientDelete api =
     bindG (readS inst) (\<lambda>i. bindG (external (deleteInstance api i)) (\<lambda>err.
       bindG (logCall (CDelete err)) (\<lambda>_. ret err)))"

text \<open>The client on an owned object of kind \<open>k\<close>; \<open>objUpdate\<close> returns the object as decoded from the
  response, and as it was sent when the call fails.\<close>

definition objGet :: "('i, 'o, 'w) objApi \<Rightarrow> key \<Rightarrow> (('i, 'w) pass, error + 'o) go" where
  "objGet objs k = external (oGet objs k)"

definition objCreate :: "('i, 'o, 'w) objApi \<Rightarrow> kobj \<Rightarrow> 'o \<Rightarrow> (('i, 'w) pass, error option) go" where
  "objCreate objs k obj =
     bindG (external (oCreate objs obj)) (\<lambda>err. bindG (logCall (CCreate k (err = None))) (\<lambda>_. ret err))"

definition objUpdate ::
  "('i, 'o, 'w) objApi \<Rightarrow> kobj \<Rightarrow> 'o \<Rightarrow> (('i, 'w) pass, error option \<times> 'o) go"
where
  "objUpdate objs k obj =
     bindG (external (oUpdate objs obj)) (\<lambda>r.
       case r of Inl e \<Rightarrow> bindG (logCall (CObjUpdate k False)) (\<lambda>_. ret (Some e, obj))
       | Inr o' \<Rightarrow> bindG (logCall (CObjUpdate k True)) (\<lambda>_. ret (None, o')))"

definition setStatus ::
  "(OperationStatus \<Rightarrow> OperationStatus) \<Rightarrow> (('a operation_scheme, 'w) pass, unit) go"
where
  "setStatus f = modifyS (\<lambda>s. s\<lparr>inst := (inst s)\<lparr>opStatus := f (opStatus (inst s))\<rparr>\<rparr>)"

text \<open>A call of one of the \<open>Log\<close> methods on the status of the instance.\<close>

definition logM ::
  "('a operation_scheme, 'w, 'm) api_scheme \<Rightarrow> (clock \<Rightarrow> OperationStatus \<Rightarrow> OperationStatus \<times> bool) \<Rightarrow>
   (('a operation_scheme, 'w) pass, bool) go"
where
  "logM api f =
     bindG (newClock api) (\<lambda>clk.
     bindG (readS (\<lambda>s. f clk (opStatus (inst s)))) (\<lambda>r.
     bindG (setStatus (\<lambda>_. fst r)) (\<lambda>_. ret (snd r))))"

section \<open>Start time\<close>

definition AddStartTime ::
  "('a operation_scheme, 'w, 'm) api_scheme \<Rightarrow> (('a operation_scheme, 'w) pass, error option) go"
where
  "AddStartTime api =
     bindG (readS inst) (\<lambda>i.
       if StartTime (opStatus i) \<noteq> None then ret None
       else bindG (now api) (\<lambda>t.
            bindG (setStatus (\<lambda>st. st\<lparr>StartTime := Some t\<rparr>)) (\<lambda>_. clientStatusUpdate api)))"

section \<open>Synchronisation with the Polyaxon API\<close>

definition nonEmpty :: "string option \<Rightarrow> string option" where
  "nonEmpty v = (case v of None \<Rightarrow> None | Some x \<Rightarrow> if x = '''' then None else Some x)"

text \<open>Owner, project, identifier and kind; \<open>None\<close> is the result with \<open>ok = false\<close>.\<close>

definition getInstanceInfo ::
  "'a operation_scheme \<Rightarrow> (string \<times> string \<times> string \<times> string) option"
where
  "getInstanceInfo i =
     (case nonEmpty (map_of (opLabels i) ''app.kubernetes.io/instance'') of
        None \<Rightarrow> None
      | Some instanceID \<Rightarrow>
          (case nonEmpty (map_of (opAnnotations i) ''operation.polyaxon.com/owner'') of
             None \<Rightarrow> None
           | Some instanceOwner \<Rightarrow>
               (case nonEmpty (map_of (opAnnotations i) ''operation.polyaxon.com/project'') of
                  None \<Rightarrow> None
                | Some instanceProject \<Rightarrow>
                    Some (instanceOwner, instanceProject, instanceID,
                      (case nonEmpty (map_of (opAnnotations i) ''operation.polyaxon.com/kind'') of
                         None \<Rightarrow> ''operation'' | Some k \<Rightarrow> k)))))"

lemma getInstanceInfo_status: "getInstanceInfo (i\<lparr>opStatus := st\<rparr>) = getInstanceInfo i"
  by (simp add: getInstanceInfo_def cong: option.case_cong)

definition syncStatus ::
  "('a operation_scheme, 'w, 'm) api_scheme \<Rightarrow> OperationCondition \<Rightarrow>
   (('a operation_scheme, 'w) pass, sdkError option) go"
where
  "syncStatus api statusCond =
     bindG (readS inst) (\<lambda>i.
       if \<not> GetBoolEnv (osEnv api) cfgAgentEnabled True \<or> \<not> opSyncStatuses i then ret None
       else case getInstanceInfo i of
              None \<Rightarrow> ret None
            | Some (owner, project, instanceID, _) \<Rightarrow>
                bindG (external (LogPolyaxonRunStatus (createRunStatus api) (osEnv api)
                         owner project instanceID statusCond)) (\<lambda>err.
                bindG (logCall (CRunStatus statusCond (err = None))) (\<lambda>_. ret err)))"

definition instanceSyncStatus ::
  "('a operation_scheme, 'w, 'm) api_scheme \<Rightarrow> (('a operation_scheme, 'w) pass, sdkError option) go"
where
  "instanceSyncStatus api =
     bindG (readS (\<lambda>s. Conditions (opStatus (inst s)))) (\<lambda>cs.
       if cs = [] then panic ''index out of range'' else syncStatus api (last cs))"

text \<open>An SDK operation that also keeps its own answer, for the record of calls.\<close>

definition observed :: "'w sdkOp \<Rightarrow> ('w \<times> sdkError option) sdkOp" where
  "observed sdk = (\<lambda>request (w, _). let (answer, w') = sdk request w in (answer, (w', answer)))"

definition collectObserved ::
  "('i, 'w, 'm) api_scheme \<Rightarrow> string \<Rightarrow> string \<Rightarrow> string \<Rightarrow> string \<Rightarrow> string \<Rightarrow> 'w \<Rightarrow> (sdkError option \<times> sdkError option) \<times> 'w"
where
  "collectObserved api namespace owner project uuid kind w =
     (let (err, (w', answer)) = CollectPolyaxonRunLogs (observed (collectRunLogs api)) (osEnv api)
            namespace owner project uuid kind (w, None)
      in ((err, answer), w'))"

definition collectLogs ::
  "('a operation_scheme, 'w, 'm) api_scheme \<Rightarrow> (('a operation_scheme, 'w) pass, sdkError option) go"
where
  "collectLogs api =
     bindG (readS inst) (\<lambda>i.
       if \<not> GetBoolEnv (osEnv api) cfgAgentEnabled True \<or> \<not> opCollectLogs i then ret None
       else case getInstanceInfo i of
              None \<Rightarrow> ret None
            | Some (owner, project, instanceID, runKind) \<Rightarrow>
                bindG (external (collectObserved api (opNamespace i) owner project instanceID runKind)) (\<lambda>(err, answer).
                bindG (logCall (CCollectLogs answer)) (\<lambda>_. ret err)))"

text \<open>The sequence the controllers use to publish a status: write it, return the error if that fails,
  and otherwise report the last condition, whose own error is ignored.\<close>

definition publishStatus ::
  "('a operation_scheme, 'w, 'm) api_scheme \<Rightarrow> (('a operation_scheme, 'w) pass, error option) go"
where
  "publishStatus api =
     bindG (clientStatusUpdate api) (\<lambda>statusErr.
       case statusErr of
         Some e \<Rightarrow> ret (Some e)
       | None \<Rightarrow> bindG (instanceSyncStatus api) (\<lambda>_. ret None))"

section \<open>Pods\<close>

definition ListPods ::
  "('i, 'w, 'm) api_scheme \<Rightarrow> string \<Rightarrow> dict \<Rightarrow> (('i, 'w) pass, Pod list \<times> error option) go"
where
  "ListPods api namespace selector = external (listPods api namespace selector)"

definition ListInstancePods ::
  "('i, 'w, 'm) api_scheme \<Rightarrow> string \<Rightarrow> string \<Rightarrow> (('i, 'w) pass, Pod list \<times> error option) go"
where
  "ListInstancePods api instanceID namespace =
     ListPods api namespace [(''app.kubernetes.io/instance'', instanceID)]"

text \<open>The idiom \<open>if updated := instance.Status.Log...; updated \{ CompletionTime = &now; return true \}\<close>.\<close>

definition finishWith ::
  "('a operation_scheme, 'w, 'm) api_scheme \<Rightarrow> time \<Rightarrow>
   (clock \<Rightarrow> OperationStatus \<Rightarrow> OperationStatus \<times> bool) \<Rightarrow> (('a operation_scheme, 'w) pass, bool) go"
where
  "finishWith api t f =
     bindG (logM api f) (\<lambda>updated.
       if updated then bindG (setStatus (\<lambda>st. st\<lparr>CompletionTime := Some t\<rparr>)) (\<lambda>_. ret True)
       else ret False)"

section \<open>Finalizers\<close>

definition setFinalizers ::
  "(string list \<Rightarrow> string list) \<Rightarrow> (('a operation_scheme, 'w) pass, unit) go"
where
  "setFinalizers f = modifyS (\<lambda>s. s\<lparr>inst := (inst s)\<lparr>opFinalizers := f (opFinalizers (inst s))\<rparr>\<rparr>)"

definition AddLogsFinalizer ::
  "('a operation_scheme, 'w, 'm) api_scheme \<Rightarrow> (('a operation_scheme, 'w) pass, error option) go"
where
  "AddLogsFinalizer api =
     bindG (setFinalizers (\<lambda>fs. addFinalizer api fs OperationLogsFinalizer)) (\<lambda>_. clientUpdate api)"

definition AddStatusFinalizer ::
  "('a operation_scheme, 'w, 'm) api_scheme \<Rightarrow> (('a operation_scheme, 'w) pass, error option) go"
where
  "AddStatusFinalizer api =
     bindG (setFinalizers (\<lambda>fs. addFinalizer api fs OperationStatusFinalizer)) (\<lambda>_. clientUpdate api)"

definition hasFinalizer ::
  "('a operation_scheme, 'w, 'm) api_scheme \<Rightarrow> string \<Rightarrow> (('a operation_scheme, 'w) pass, bool) go"
where
  "hasFinalizer api f = readS (\<lambda>s. containsFinalizer api (opFinalizers (inst s)) f)"

text \<open>The two halves of \<open>handleFinalizers\<close>: the report that the operation was stopped, and the removal
  of one finalizer.\<close>

definition reportStopped ::
  "('a operation_scheme, 'w, 'm) api_scheme \<Rightarrow> (('a operation_scheme, 'w) pass, unit) go"
where
  "reportStopped api =
     bindG (readS (\<lambda>s. IsDone (opStatus (inst s)))) (\<lambda>isDone.
       if \<not> isDone then
         bindG (newClock api) (\<lambda>clk.
         bindG (syncStatus api (NewOperationCondition clk OperationStopped ConditionTrue
                  ''OperatorFinalizer'' ''Operation stopped in finalizer'')) (\<lambda>_. ret ()))
       else ret ())"

definition releaseFinalizer ::
  "('a operation_scheme, 'w, 'm) api_scheme \<Rightarrow> (('a operation_scheme, 'w) pass, error option) go"
where
  "releaseFinalizer api =
     bindG (hasFinalizer api OperationLogsFinalizer) (\<lambda>hasLogs.
       if hasLogs then
         bindG (collectLogs api) (\<lambda>err.
           if err \<noteq> None then ret None
           else bindG (setFinalizers (\<lambda>fs. removeFinalizer api fs OperationLogsFinalizer)) (\<lambda>_.
                clientUpdate api))
       else
         bindG (hasFinalizer api OperationStatusFinalizer) (\<lambda>hasStatus.
           if hasStatus then
             bindG (setFinalizers (\<lambda>fs. removeFinalizer api fs OperationStatusFinalizer)) (\<lambda>_.
             clientUpdate api)
           else ret None))"

definition handleFinalizers ::
  "('a operation_scheme, 'w, 'm) api_scheme \<Rightarrow> (('a operation_scheme, 'w) pass, error option) go"
where
  "handleFinalizers api = bindG (reportStopped api) (\<lambda>_. releaseFinalizer api)"

section \<open>Cleanup\<close>

definition deleteOp :: "('i, 'w, 'm) api_scheme \<Rightarrow> (('i, 'w) pass, error option) go" where
  "deleteOp api = clientDelete api"

text \<open>\<open>ttl == &ZeroValue\<close> compares with the address of a local variable.\<close>

definition handleTTL ::
  "('a operation_scheme, 'w, 'm) api_scheme \<Rightarrow>
   (('a operation_scheme, 'w) pass, ctrlResult \<times> error option) go"
where
  "handleTTL api =
     bindG (now api) (\<lambda>currentTime.
     bindG (readS inst) (\<lambda>i.
       let ttl = TTLSecondsAfterFinished (opTermination i);
           zeroValue = Ptr (freshAddr ttl) 0
       in if ptrEq ttl NilPtr \<or> ptrEq ttl zeroValue
          then bindG (deleteOp api) (\<lambda>err. ret (noRequeue, err))
          else case (deref ttl, CompletionTime (opStatus i)) of
                 (Some seconds, Some completionTime) \<Rightarrow>
                   let futureTime = timeAdd completionTime (secondsDuration (sint seconds))
                   in if futureTime < currentTime
                      then bindG (deleteOp api) (\<lambda>err. ret (noRequeue, err))
                      else ret (\<lparr>Requeue = True, RequeueAfter = timeSub futureTime currentTime\<rparr>, None)
               | _ \<Rightarrow> panic ''nil pointer dereference''))"

definition deadlineReason :: string where
  "deadlineReason = ''DeadlineExceeded''"

definition deadlineMessage :: string where
  "deadlineMessage =
     ''Cleanup triggered based on ActiveDeadlineSeconds, operation was active longer than specified deadline''"

definition stopAtDeadline ::
  "('a operation_scheme, 'w, 'm) api_scheme \<Rightarrow>
   (('a operation_scheme, 'w) pass, duration option \<times> error option) go"
where
  "stopAtDeadline api =
     bindG (logM api (\<lambda>clk st. LogStopped clk st deadlineReason deadlineMessage)) (\<lambda>updated.
     bindG (if updated then publishStatus api else ret None) (\<lambda>statusErr.
       case statusErr of
         Some e \<Rightarrow> ret (None, Some e)
       | None \<Rightarrow> bindG (deleteOp api) (\<lambda>err. ret (None, err))))"

text \<open>The variant of the service and cluster controllers.\<close>

definition handlePastActiveDeadline ::
  "('a operation_scheme, 'w, 'm) api_scheme \<Rightarrow>
   (('a operation_scheme, 'w) pass, duration option \<times> error option) go"
where
  "handlePastActiveDeadline api =
     bindG (readS inst) (\<lambda>i.
       case (deref (ActiveDeadlineSeconds (opTermination i)), StartTime (opStatus i)) of
         (Some seconds, Some startTime) \<Rightarrow>
           if IsDone (opStatus i) then ret (None, None)
           else bindG (now api) (\<lambda>currentTime.
             let elapsed = timeSub currentTime startTime;
                 allowedDuration = secondsDuration seconds
             in if allowedDuration \<le> elapsed then stopAtDeadline api
                else ret (Some (timeSub (timeAdd startTime allowedDuration) currentTime), None))
       | _ \<Rightarrow> ret (None, None))"

text \<open>The variant of the job controllers, which is defined there and not called.\<close>

definition handlePastActiveDeadlineJob ::
  "('a operation_scheme, 'w, 'm) api_scheme \<Rightarrow>
   (('a operation_scheme, 'w) pass, duration option \<times> error option) go"
where
  "handlePastActiveDeadlineJob api =
     bindG (readS inst) (\<lambda>i.
       case (deref (ActiveDeadlineSeconds (opTermination i)), StartTime (opStatus i)) of
         (Some seconds, Some startTime) \<Rightarrow>
           bindG (now api) (\<lambda>currentTime.
             let elapsed = timeSub currentTime startTime;
                 allowedDuration = secondsDuration seconds
             in if allowedDuration \<le> elapsed then stopAtDeadline api
                else if length (Conditions (opStatus i)) \<le> 2
                then ret (Some (timeSub (timeAdd startTime allowedDuration) currentTime), None)
                else ret (None, None))
       | _ \<Rightarrow> ret (None, None))"

text \<open>The factor \<open>float64(1)\<close> of the source changes nothing, and an \<open>int32\<close> is a \<open>float64\<close>. The comparison takes
  \<open>math.MaxInt64\<close> as a \<open>float64\<close>. \<open>None\<close> is the result of a conversion that is out of range.\<close>

definition MaxInt64 :: nat where
  "MaxInt64 = 2 ^ 63 - 1"

definition MaxBackOff :: duration where
  "MaxBackOff = 360 * 1000000000"

definition getBackOff :: "int32 \<Rightarrow> duration option" where
  "getBackOff backOff =
     (let delay = pow2 (sint backOff)
      in if float64_less (float64_const MaxInt64) delay then Some MaxBackOff
         else int64_of_float64 delay)"

section \<open>The reconcile pass\<close>

definition addMissingFinalizers ::
  "('a operation_scheme, 'w, 'm) api_scheme \<Rightarrow> string \<Rightarrow> string \<Rightarrow>
   (('a operation_scheme, 'w) pass, error option) go \<Rightarrow> (('a operation_scheme, 'w) pass, error option) go"
where
  "addMissingFinalizers api enabled f add =
     (if GetBoolEnv (osEnv api) enabled False then
        bindG (hasFinalizer api f) (\<lambda>has. if \<not> has then add else ret None)
      else ret None)"

text \<open>The cluster controller reads the instance again after each write of its pass; the others do not.\<close>

definition thenRefetch ::
  "bool \<Rightarrow> ('i, 'w, 'm) api_scheme \<Rightarrow> key \<Rightarrow> (('i, 'w) pass, error option) go \<Rightarrow> (('i, 'w) pass, error option) go"
where
  "thenRefetch refetch api req m =
     bindG m (\<lambda>err.
       if err \<noteq> None then ret err else if refetch then clientGet api req else ret None)"

text \<open>\<open>cleanup\<close> and \<open>runtime\<close> are the controller's own \<open>cleanUpOperation\<close> and
  \<open>reconcileOperation\<close>.\<close>

definition reconcileInstance ::
  "bool \<Rightarrow>
   (('a operation_scheme, 'w, 'm) api_scheme \<Rightarrow> (('a operation_scheme, 'w) pass, ctrlResult \<times> error option) go) \<Rightarrow>
   (('a operation_scheme, 'w, 'm) api_scheme \<Rightarrow> (('a operation_scheme, 'w) pass, ctrlResult \<times> error option) go) \<Rightarrow>
   ('a operation_scheme, 'w, 'm) api_scheme \<Rightarrow> key \<Rightarrow>
   (('a operation_scheme, 'w) pass, ctrlResult \<times> error option) go"
where
  "reconcileInstance refetch cleanup runtime api req =
     bindG (readS inst) (\<lambda>i.
       if IsOperationBeingDeleted i then
         bindG (handleFinalizers api) (\<lambda>err. ret (noRequeue, err))
       else if IsDone (opStatus i) then
         bindG (handleFinalizers api) (\<lambda>err.
           if err \<noteq> None then ret (noRequeue, err) else cleanup api)
       else
         bindG (addMissingFinalizers api cfgEnableLogsFinalizers OperationLogsFinalizer
                  (thenRefetch refetch api req (AddLogsFinalizer api))) (\<lambda>err.
           if err \<noteq> None then ret (noRequeue, err)
           else
             bindG (addMissingFinalizers api cfgEnableStatusFinalizers OperationStatusFinalizer
                      (thenRefetch refetch api req (AddStatusFinalizer api))) (\<lambda>err.
               if err \<noteq> None then ret (noRequeue, err) else runtime api)))"

definition reconcilePass ::
  "bool \<Rightarrow>
   (('a operation_scheme, 'w, 'm) api_scheme \<Rightarrow> (('a operation_scheme, 'w) pass, ctrlResult \<times> error option) go) \<Rightarrow>
   (('a operation_scheme, 'w, 'm) api_scheme \<Rightarrow> (('a operation_scheme, 'w) pass, ctrlResult \<times> error option) go) \<Rightarrow>
   ('a operation_scheme, 'w, 'm) api_scheme \<Rightarrow> key \<Rightarrow>
   (('a operation_scheme, 'w) pass, ctrlResult \<times> error option) go"
where
  "reconcilePass refetch cleanup runtime api req =
     bindG (clientGet api req) (\<lambda>err.
       if err \<noteq> None then ret (noRequeue, IgnoreNotFound err)
       else
         bindG (readS (\<lambda>s. StartTime (opStatus (inst s)))) (\<lambda>startTime.
         bindG (if startTime = None then thenRefetch refetch api req (AddStartTime api) else ret None) (\<lambda>err.
           if err \<noteq> None then ret (noRequeue, err)
           else reconcileInstance refetch cleanup runtime api req)))"

section \<open>The calls of a pass\<close>

text \<open>\<open>emits P\<close>: the state only ever gets calls satisfying \<open>P\<close> added at the end of its list.\<close>

definition emits :: "(call \<Rightarrow> bool) \<Rightarrow> ('i, 'w) pass \<Rightarrow> ('i, 'w) pass \<Rightarrow> bool" where
  "emits P s t \<longleftrightarrow> (\<exists>new. calls t = calls s @ new \<and> list_all P new)"

interpretation emission: effect "emits P" for P :: "call \<Rightarrow> bool"
proof unfold_locales
  fix s t u :: "('i, 'w) pass"
  show "emits P s s" by (simp add: emits_def)
  assume "emits P s t" "emits P t u"
  then show "emits P s u" by (fastforce simp: emits_def)
qed

declare emission.tracks_bindG [track_intros] emission.tracks_ret [track_intros]
  emission.tracks_panic [track_intros] emission.tracks_readS [track_intros]

lemma tracks_json [track_intros]:
  "(\<And>m. v = JMap m \<Longrightarrow> tracks R (f m)) \<Longrightarrow> tracks R n \<Longrightarrow>
   tracks R (case v of JMap m \<Rightarrow> f m | _ \<Rightarrow> n)"
  by (cases v) simp_all

lemma tracks_external [track_intros]: "tracks (emits P) (external f)"
  by (simp add: tracks_def external_def emits_def Let_def split: prod.split)

lemma tracks_logCall [track_intros]: "P c \<Longrightarrow> tracks (emits P) (logCall c)"
  unfolding logCall_def by (rule tracks_modifyS) (simp add: emits_def)

lemma tracks_setStatus [track_intros]: "tracks (emits P) (setStatus f)"
  unfolding setStatus_def by (rule tracks_modifyS) (simp add: emits_def)

lemma tracks_setFinalizers [track_intros]: "tracks (emits P) (setFinalizers f)"
  unfolding setFinalizers_def by (rule tracks_modifyS) (simp add: emits_def)

lemma tracks_setInst [track_intros]: "tracks (emits P) (modifyS (\<lambda>s. s\<lparr>inst := i\<rparr>))"
  by (rule tracks_modifyS) (simp add: emits_def)

lemma tracks_hasFinalizer [track_intros]: "tracks (emits P) (hasFinalizer api f)"
  unfolding hasFinalizer_def by (intro track_intros)

lemma tracks_now [track_intros]: "tracks (emits P) (now api)"
  unfolding now_def by (intro track_intros)

lemma tracks_newClock [track_intros]: "tracks (emits P) (newClock api)"
  unfolding newClock_def by (intro track_intros)

lemma tracks_clientGet [track_intros]: "tracks (emits P) (clientGet api req)"
  unfolding clientGet_def by (intro track_intros)

lemma tracks_clientUpdate [track_intros]:
  "(\<And>fs b. P (CUpdate fs b)) \<Longrightarrow> tracks (emits P) (clientUpdate api)"
  unfolding clientUpdate_def by (intro track_intros)

lemma tracks_clientStatusUpdate [track_intros]:
  "(\<And>st b. P (CStatusUpdate st b)) \<Longrightarrow> tracks (emits P) (clientStatusUpdate api)"
  unfolding clientStatusUpdate_def by (intro track_intros)

lemma tracks_deleteOp [track_intros]:
  "(\<And>b. P (CDelete b)) \<Longrightarrow> tracks (emits P) (deleteOp api)"
  unfolding deleteOp_def clientDelete_def by (intro track_intros)

lemma tracks_objGet [track_intros]: "tracks (emits P) (objGet objs k)"
  unfolding objGet_def by (intro track_intros)

lemma tracks_objCreate [track_intros]:
  "(\<And>b. P (CCreate k b)) \<Longrightarrow> tracks (emits P) (objCreate objs k obj)"
  unfolding objCreate_def by (intro track_intros)

lemma tracks_objUpdate [track_intros]:
  "(\<And>b. P (CObjUpdate k b)) \<Longrightarrow> tracks (emits P) (objUpdate objs k obj)"
  unfolding objUpdate_def by (intro track_intros)

lemma tracks_logM [track_intros]: "tracks (emits P) (logM api f)"
  unfolding logM_def by (intro track_intros)

lemma tracks_ListInstancePods [track_intros]: "tracks (emits P) (ListInstancePods api i n)"
  unfolding ListInstancePods_def ListPods_def by (intro track_intros)

lemma tracks_finishWith [track_intros]: "tracks (emits P) (finishWith api t f)"
  unfolding finishWith_def by (intro track_intros)

lemma tracks_AddStartTime [track_intros]:
  "(\<And>st b. P (CStatusUpdate st b)) \<Longrightarrow> tracks (emits P) (AddStartTime api)"
  unfolding AddStartTime_def by (intro track_intros)

lemma tracks_syncStatus [track_intros]:
  "(\<And>c b. P (CRunStatus c b)) \<Longrightarrow> tracks (emits P) (syncStatus api cond)"
  unfolding syncStatus_def by (intro track_intros)

lemma tracks_instanceSyncStatus [track_intros]:
  "(\<And>c b. P (CRunStatus c b)) \<Longrightarrow> tracks (emits P) (instanceSyncStatus api)"
  unfolding instanceSyncStatus_def by (intro track_intros)

lemma tracks_collectLogs [track_intros]:
  "(\<And>b. P (CCollectLogs b)) \<Longrightarrow> tracks (emits P) (collectLogs api)"
  unfolding collectLogs_def by (intro track_intros)

lemma tracks_publishStatus [track_intros]:
  "(\<And>st b. P (CStatusUpdate st b)) \<Longrightarrow> (\<And>c b. P (CRunStatus c b)) \<Longrightarrow>
   tracks (emits P) (publishStatus api)"
  unfolding publishStatus_def by (intro track_intros)

lemma tracks_handleFinalizers [track_intros]:
  "(\<And>fs b. P (CUpdate fs b)) \<Longrightarrow> (\<And>c b. P (CRunStatus c b)) \<Longrightarrow> (\<And>b. P (CCollectLogs b)) \<Longrightarrow>
   tracks (emits P) (handleFinalizers api)"
  unfolding handleFinalizers_def reportStopped_def releaseFinalizer_def by (intro track_intros)

lemma tracks_handleTTL [track_intros]:
  "(\<And>b. P (CDelete b)) \<Longrightarrow> tracks (emits P) (handleTTL api)"
  unfolding handleTTL_def by (intro track_intros)

lemma tracks_handlePastActiveDeadline [track_intros]:
  "(\<And>st b. P (CStatusUpdate st b)) \<Longrightarrow> (\<And>c b. P (CRunStatus c b)) \<Longrightarrow> (\<And>b. P (CDelete b)) \<Longrightarrow>
   tracks (emits P) (handlePastActiveDeadline api)"
  unfolding handlePastActiveDeadline_def stopAtDeadline_def by (intro track_intros)


section \<open>Weakest preconditions of the calls\<close>

lemma wp_external [wp_simps]:
  "wp (external f) Q s = (case f (world s) of (b, w) \<Rightarrow> Q (Returns b) (s\<lparr>world := w\<rparr>))"
  by (simp add: wp_def external_def Let_def split: prod.split)

lemma wp_logCall [wp_simps]: "wp (logCall c) Q s = Q (Returns ()) (s\<lparr>calls := calls s @ [c]\<rparr>)"
  by (simp add: logCall_def wp_simps)

lemma wp_now [wp_simps]:
  "wp (now api) Q s = (case timeNow api (world s) of (t, w) \<Rightarrow> Q (Returns t) (s\<lparr>world := w\<rparr>))"
  by (simp add: now_def wp_simps)

lemma wp_newClock:
  "(\<And>clk w. Q (Returns clk) (s\<lparr>world := w\<rparr>)) \<Longrightarrow> wp (newClock api) Q s"
  by (simp add: newClock_def wp_simps split: prod.split)

lemma wp_clientUpdate:
  "wp (clientUpdate api) Q s =
     (case updateInstance api (inst s) (world s) of
        (Inl e, w) \<Rightarrow> Q (Returns (Some e))
          (s\<lparr>world := w, calls := calls s @ [CUpdate (opFinalizers (inst s)) (Some e)]\<rparr>)
      | (Inr j, w) \<Rightarrow> Q (Returns None)
          (s\<lparr>world := w, calls := calls s @ [CUpdate (opFinalizers (inst s)) None], inst := j\<rparr>))"
  by (simp add: clientUpdate_def wp_simps split: prod.split sum.split)

lemma wp_clientStatusUpdate:
  "wp (clientStatusUpdate api) Q s =
     (case updateInstanceStatus api (inst s) (world s) of
        (Inl e, w) \<Rightarrow> Q (Returns (Some e))
          (s\<lparr>world := w, calls := calls s @ [CStatusUpdate (opStatus (inst s)) (Some e)]\<rparr>)
      | (Inr j, w) \<Rightarrow> Q (Returns None)
          (s\<lparr>world := w, calls := calls s @ [CStatusUpdate (opStatus (inst s)) None], inst := j\<rparr>))"
  by (simp add: clientStatusUpdate_def wp_simps split: prod.split sum.split)

lemma wp_deleteOp:
  "wp (deleteOp api) Q s =
     (case deleteInstance api (inst s) (world s) of
        (err, w) \<Rightarrow> Q (Returns err) (s\<lparr>world := w, calls := calls s @ [CDelete err]\<rparr>))"
  by (simp add: deleteOp_def clientDelete_def wp_simps split: prod.split)

lemma wp_setFinalizers [wp_simps]:
  "wp (setFinalizers f) Q s =
     Q (Returns ()) (s\<lparr>inst := (inst s)\<lparr>opFinalizers := f (opFinalizers (inst s))\<rparr>\<rparr>)"
  by (simp add: setFinalizers_def wp_simps)

lemma wp_setStatus [wp_simps]:
  "wp (setStatus f) Q s =
     Q (Returns ()) (s\<lparr>inst := (inst s)\<lparr>opStatus := f (opStatus (inst s))\<rparr>\<rparr>)"
  by (simp add: setStatus_def wp_simps)

lemma wp_hasFinalizer [wp_simps]:
  "wp (hasFinalizer api f) Q s = Q (Returns (containsFinalizer api (opFinalizers (inst s)) f)) s"
  by (simp add: hasFinalizer_def wp_simps)

text \<open>Whether a pass has to report to the Polyaxon API.\<close>

definition mustReport :: "('i, 'w, 'm) api_scheme \<Rightarrow> 'a operation_scheme \<Rightarrow> bool" where
  "mustReport api i \<longleftrightarrow>
     GetBoolEnv (osEnv api) cfgAgentEnabled True \<and> opSyncStatuses i \<and> getInstanceInfo i \<noteq> None"

definition mustCollect :: "('i, 'w, 'm) api_scheme \<Rightarrow> 'a operation_scheme \<Rightarrow> bool" where
  "mustCollect api i \<longleftrightarrow>
     GetBoolEnv (osEnv api) cfgAgentEnabled True \<and> opCollectLogs i \<and> getInstanceInfo i \<noteq> None"

lemma wp_syncStatus:
  assumes "mustReport api (inst s) \<Longrightarrow> (\<And>err w. Q (Returns err)
             (s\<lparr>world := w, calls := calls s @ [CRunStatus c (err = None)]\<rparr>))"
    and "\<not> mustReport api (inst s) \<Longrightarrow> Q (Returns None) s"
  shows "wp (syncStatus api c) Q s"
  using assms by (auto simp: syncStatus_def mustReport_def wp_simps split: option.split prod.split)

text \<open>The answers with which the operator takes the logs for collected: success, and the two errors that
  \<open>CollectPolyaxonRunLogs\<close> swallows, 404 and 403.\<close>

definition takenAsCollected :: "sdkError option \<Rightarrow> bool" where
  "takenAsCollected answer \<longleftrightarrow>
     answer = None \<or> answer = Some CollectRunLogsNotFound \<or> answer = Some CollectRunLogsForbidden"

lemma takenAsCollected_None: "takenAsCollected None"
  by (simp add: takenAsCollected_def)

lemma collectObserved_eq:
  "collectObserved api ns owner project uuid kind w =
     (let (answer, w') = collectRunLogs api (collectLogsRequest (osEnv api) ns owner project uuid kind) w
      in ((if takenAsCollected answer then None else answer, answer), w'))"
  by (auto simp: collectObserved_def CollectPolyaxonRunLogs_def observed_def takenAsCollected_def split: prod.split)

lemma wp_collectLogs:
  assumes "mustCollect api (inst s) \<Longrightarrow> (\<And>answer w. Q (Returns (if takenAsCollected answer then None else answer))
             (s\<lparr>world := w, calls := calls s @ [CCollectLogs answer]\<rparr>))"
    and "\<not> mustCollect api (inst s) \<Longrightarrow> Q (Returns None) s"
  shows "wp (collectLogs api) Q s"
  using assms
  by (auto simp: collectLogs_def mustCollect_def wp_simps collectObserved_eq Let_def
      split: option.split prod.split)

section \<open>Finalizers\<close>

text \<open>What \<open>controllerutil\<close> documents of its finalizer functions.\<close>

definition finalizer_laws :: "('i, 'w, 'm) api_scheme \<Rightarrow> bool" where
  "finalizer_laws api \<longleftrightarrow>
     (\<forall>fs f. containsFinalizer api fs f \<longleftrightarrow> f \<in> set fs) \<and>
     (\<forall>fs f. set (addFinalizer api fs f) = insert f (set fs)) \<and>
     (\<forall>fs f. set (removeFinalizer api fs f) = set fs - {f})"

definition isStopReport :: "call \<Rightarrow> bool" where
  "isStopReport c = (case c of
     CRunStatus cond _ \<Rightarrow> cType cond = OperationStopped \<and> cReason cond = ''OperatorFinalizer''
   | _ \<Rightarrow> False)"

text \<open>What one call of \<open>handleFinalizers\<close> on an instance with finalizers \<open>fs\<close> may do: \<open>r\<close> is its
  result and \<open>new\<close> its calls.\<close>

definition finalizerStep ::
  "bool \<Rightarrow> string list \<Rightarrow> error option outcome \<Rightarrow> call list \<Rightarrow> bool"
where
  "finalizerStep collect fs r new =
     (if OperationLogsFinalizer \<in> set fs then
        (\<exists>answer. collect \<and> \<not> takenAsCollected answer \<and> new = [CCollectLogs answer] \<and> r = Returns None) \<or>
        (\<exists>answer fs' err. takenAsCollected answer \<and>
           new = (if collect then [CCollectLogs answer] else []) @ [CUpdate fs' err] \<and>
           set fs' = set fs - {OperationLogsFinalizer} \<and> r = Returns err)
      else if OperationStatusFinalizer \<in> set fs then
        (\<exists>fs' err. new = [CUpdate fs' err] \<and> set fs' = set fs - {OperationStatusFinalizer} \<and> r = Returns err)
      else new = [] \<and> r = Returns None)"

lemma wp_handleFinalizers:
  assumes laws: "finalizer_laws api"
  shows "wp (handleFinalizers api)
    (\<lambda>r t. \<exists>report new. calls t = calls s @ report @ new \<and>
       list_all isStopReport report \<and>
       length report = (if mustReport api (inst s) \<and> \<not> IsDone (opStatus (inst s)) then 1 else 0) \<and>
       finalizerStep (mustCollect api (inst s)) (opFinalizers (inst s)) r new) s"
proof -
  let ?fin = "finalizerStep (mustCollect api (inst s)) (opFinalizers (inst s))"
  let ?n = "if mustReport api (inst s) \<and> \<not> IsDone (opStatus (inst s)) then 1 else 0"
  have rest: "wp (releaseFinalizer api) (\<lambda>r t. \<exists>new. calls t = calls u @ new \<and> ?fin r new) u"
    if "inst u = inst s" for u
    using that laws takenAsCollected_None
    by (auto simp: releaseFinalizer_def wp_simps finalizerStep_def finalizer_laws_def wp_clientUpdate
        split: prod.split sum.split if_splits intro!: wp_collectLogs)
  have first: "wp (reportStopped api) (\<lambda>r u. r = Returns () \<and> inst u = inst s \<and>
      (\<exists>report. calls u = calls s @ report \<and> list_all isStopReport report \<and> length report = ?n)) s"
    by (auto simp: reportStopped_def wp_simps isStopReport_def NewOperationCondition_def
        intro!: wp_newClock wp_syncStatus)
  show ?thesis
    unfolding handleFinalizers_def wp_bindG
    by (rule wp_mono [OF first]) (auto dest!: rest elim!: wp_mono; force)
qed

text \<open>C2: the finalizer protocol. A call of \<open>handleFinalizers\<close> first reports \<open>Stopped\<close> when the operation is
  not done and reporting applies. Then, while the logs finalizer is present, it asks for the logs to be collected when
  that applies, and gives up without touching the object when the answer is an error other than 404 and 403, which it
  takes for success; otherwise it sends an update that removes the logs finalizer and nothing else; only a later
  call, on an object without the logs finalizer, removes the status finalizer; with neither it does nothing. It
  returns, and its error is the error of that update, never one of the Polyaxon API.\<close>

theorem handleFinalizers_protocol:
  assumes laws: "finalizer_laws api"
  shows "wp (handleFinalizers api)
    (\<lambda>r t. \<exists>report new. calls t = calls s @ report @ new \<and>
       list_all isStopReport report \<and>
       length report = (if mustReport api (inst s) \<and> \<not> IsDone (opStatus (inst s)) then 1 else 0) \<and>
       finalizerStep (mustCollect api (inst s)) (opFinalizers (inst s)) r new) s"
  using assms by (rule wp_handleFinalizers)

section \<open>Cleanup\<close>

lemma handleTTL_eq:
  "handleTTL api s =
     (let (currentTime, w) = timeNow api (world s);
          (err, w') = deleteInstance api (inst s) w;
          deleted = (Returns (noRequeue, err),
                     s\<lparr>world := w', calls := calls s @ [CDelete err]\<rparr>)
      in case deref (TTLSecondsAfterFinished (opTermination (inst s))) of
           None \<Rightarrow> deleted
         | Some n \<Rightarrow>
             (case CompletionTime (opStatus (inst s)) of
                None \<Rightarrow> (Panics ''nil pointer dereference'', s\<lparr>world := w\<rparr>)
              | Some t \<Rightarrow>
                  let expiry = t + 1000000000 * sint n
                  in if expiry < currentTime then deleted
                     else (Returns (\<lparr>Requeue = True,
                              RequeueAfter = min (2 ^ 63 - 1) (expiry - currentTime)\<rparr>, None),
                           s\<lparr>world := w\<rparr>)))"
proof -
  have eq: "handleTTL api s = x" if "wp (handleTTL api) (\<lambda>r t. (r, t) = x) s" for x
    using that by (simp add: wp_def split: prod.splits)
  show ?thesis
    by (rule eq, cases "TTLSecondsAfterFinished (opTermination (inst s))")
       (auto simp: handleTTL_def wp_simps wp_deleteOp secondsDuration_int32 timeAdd_def timeSub_def
          Let_def split: prod.split option.split)
qed


text \<open>C35: \<open>getBackOff\<close> computes with floating point numbers, and is not capped where it means to be. It doubles from one
  nanosecond, gives zero for a negative argument, whose power is a fraction, and is six minutes for arguments above
  63. For 63 itself neither holds: \<open>math.MaxInt64\<close> is rounded up to \<open>2 ^ 63\<close> when it is compared, which lets \<open>2 ^ 63\<close>
  through, and the conversion of that to a duration is out of range. Every other result is a duration between zero
  and \<open>2 ^ 62\<close> nanoseconds.\<close>

theorem getBackOff_spec:
  "getBackOff n =
     (if sint n < 0 then Some 0
      else if sint n < 63 then Some (2 ^ nat (sint n))
      else if sint n = 63 then None
      else Some MaxBackOff) \<and>
   pred_option (\<lambda>d. 0 \<le> d \<and> d \<le> 2 ^ 62) (getBackOff n)"
proof -
  have eq: "getBackOff n =
     (if sint n < 0 then Some 0
      else if sint n < 63 then Some (2 ^ nat (sint n))
      else if sint n = 63 then None
      else Some MaxBackOff)"
    unfolding getBackOff_def MaxInt64_def maxInt64_rounds Let_def pow2_less_const int64_of_pow2 by simp
  have "(2 :: int) ^ nat (sint n) \<le> 2 ^ 62" if "sint n < 63"
    using that by (intro power_increasing) auto
  then have "pred_option (\<lambda>d. 0 \<le> d \<and> d \<le> 2 ^ 62) (getBackOff n)"
    by (auto simp: eq MaxBackOff_def)
  with eq show ?thesis by blast
qed

section \<open>Invariants of a pass\<close>

text \<open>\<open>inv J C\<close>: the instance satisfies \<open>J\<close> and every call so far satisfies \<open>C\<close>.\<close>

definition inv :: "('i \<Rightarrow> bool) \<Rightarrow> (call \<Rightarrow> bool) \<Rightarrow> ('i, 'w) pass \<Rightarrow> bool" where
  "inv J C s \<longleftrightarrow> J (inst s) \<and> list_all C (calls s)"

text \<open>What a controller relies on of the API server. An accepted write of a status answers with the conditions that
  were sent, with start and completion time set exactly when they were (times may lose precision). An accepted write
  of the main resource answers with the stored status; for an object as the server gave it out, up to its finalizers
  (\<open>served\<close>), that is the status the object has, because the server refuses a write that is based on an older
  version. Every object given out satisfies \<open>J\<close>, as long as those sent do.\<close>

definition served :: "('a operation_scheme, 'w, 'm) api_scheme \<Rightarrow> 'a operation_scheme \<Rightarrow> bool" where
  "served api i \<longleftrightarrow> (\<exists>i\<^sub>0 fs. i = i\<^sub>0\<lparr>opFinalizers := fs\<rparr> \<and>
     ((\<exists>k w w'. getInstance api k w = (Inr i\<^sub>0, w')) \<or>
      (\<exists>j w w'. updateInstance api j w = (Inr i\<^sub>0, w')) \<or>
      (\<exists>j w w'. updateInstanceStatus api j w = (Inr i\<^sub>0, w'))))"

definition condKey :: "OperationCondition \<Rightarrow> OperationConditionType \<times> ConditionStatus \<times> string \<times> string" where
  "condKey c = (cType c, cStatus c, cReason c, cMessage c)"

definition statusKept :: "OperationStatus \<Rightarrow> OperationStatus \<Rightarrow> bool" where
  "statusKept s t \<longleftrightarrow> map condKey (Conditions s) = map condKey (Conditions t) \<and>
     (CompletionTime s = None \<longleftrightarrow> CompletionTime t = None) \<and>
     (StartTime s = None \<longleftrightarrow> StartTime t = None)"

definition status_echo :: "('a operation_scheme, 'w, 'm) api_scheme \<Rightarrow> bool" where
  "status_echo api \<longleftrightarrow>
     (\<forall>i w j w'. served api i \<longrightarrow> updateInstance api i w = (Inr j, w') \<longrightarrow> statusKept (opStatus i) (opStatus j)) \<and>
     (\<forall>i w j w'. updateInstanceStatus api i w = (Inr j, w') \<longrightarrow> statusKept (opStatus i) (opStatus j))"

definition serves :: "('a operation_scheme \<Rightarrow> bool) \<Rightarrow> ('a operation_scheme, 'w, 'm) api_scheme \<Rightarrow> bool" where
  "serves J api \<longleftrightarrow>
     (\<forall>k w i w'. getInstance api k w = (Inr i, w') \<longrightarrow> J i) \<and>
     (\<forall>i w j w'. served api i \<longrightarrow> J i \<longrightarrow> updateInstance api i w = (Inr j, w') \<longrightarrow> J j) \<and>
     (\<forall>i w j w'. J i \<longrightarrow> updateInstanceStatus api i w = (Inr j, w') \<longrightarrow> J j)"

lemma servesD:
  assumes "serves J api"
  shows "getInstance api k w = (Inr i, w') \<Longrightarrow> J i"
    and "updateInstance api i w = (Inr j, w') \<Longrightarrow> served api i \<Longrightarrow> J i \<Longrightarrow> J j"
    and "updateInstanceStatus api i w = (Inr j, w') \<Longrightarrow> J i \<Longrightarrow> J j"
  using assms unfolding serves_def by blast+

lemma status_echoD:
  assumes "status_echo api"
  shows "updateInstance api i w = (Inr j, w') \<Longrightarrow> served api i \<Longrightarrow> statusKept (opStatus i) (opStatus j)"
    and "updateInstanceStatus api i w = (Inr j, w') \<Longrightarrow> statusKept (opStatus i) (opStatus j)"
  using assms unfolding status_echo_def by blast+

lemma served_self:
  "(\<exists>k w w'. getInstance api k w = (Inr i, w')) \<or> (\<exists>j w w'. updateInstance api j w = (Inr i, w')) \<or>
   (\<exists>j w w'. updateInstanceStatus api j w = (Inr i, w')) \<Longrightarrow> served api i"
  unfolding served_def by (rule exI [of _ i], rule exI [of _ "opFinalizers i"]) simp

lemma served_get: "getInstance api k w = (Inr i, w') \<Longrightarrow> served api i"
  by (rule served_self) blast

lemma served_update: "updateInstance api j w = (Inr i, w') \<Longrightarrow> served api i"
  by (rule served_self) blast

lemma served_status: "updateInstanceStatus api j w = (Inr i, w') \<Longrightarrow> served api i"
  by (rule served_self) blast

lemmas served_answers = served_get served_update served_status

lemma served_finalizers: "served api i \<Longrightarrow> served api (i\<lparr>opFinalizers := fs\<rparr>)"
proof -
  assume "served api i"
  then obtain i\<^sub>0 gs where i: "i = i\<^sub>0\<lparr>opFinalizers := gs\<rparr>" and given: "(\<exists>k w w'. getInstance api k w = (Inr i\<^sub>0, w')) \<or>
      (\<exists>j w w'. updateInstance api j w = (Inr i\<^sub>0, w')) \<or> (\<exists>j w w'. updateInstanceStatus api j w = (Inr i\<^sub>0, w'))"
    unfolding served_def by blast
  show ?thesis
    unfolding served_def by (rule exI [of _ i\<^sub>0], rule exI [of _ fs]) (use given i in simp)
qed

text \<open>An instance with an invariant, as the server gave it out.\<close>

definition given :: "('a operation_scheme, 'w, 'm) api_scheme \<Rightarrow> ('a operation_scheme \<Rightarrow> bool) \<Rightarrow> 'a operation_scheme \<Rightarrow> bool" where
  "given api J i \<longleftrightarrow> J i \<and> served api i"

lemma statusKept_conditions: "statusKept s t \<Longrightarrow> Conditions s \<noteq> [] \<Longrightarrow> Conditions t \<noteq> []"
  by (auto simp: statusKept_def)

lemma holds_condKey:
  "map condKey cs = map condKey ds \<Longrightarrow> holds t cs = holds t ds"
proof (induction cs arbitrary: ds)
  case (Cons c cs)
  then obtain d ds' where "ds = d # ds'" by (cases ds) auto
  with Cons show ?case by (auto simp: holds_def condKey_def)
qed simp

lemma statusKept_IsDone: "statusKept s t \<Longrightarrow> IsDone s = IsDone t"
  by (auto simp: statusKept_def IsDone_holds dest: holds_condKey)

lemma hoare_external [hoare_intros]: "hoare (inv J C) (external f) (\<lambda>_. inv J C)"
  by (simp add: hoare_def inv_def wp_simps split: prod.split)

lemma hoare_logCall [hoare_intros]: "C c \<Longrightarrow> hoare (inv J C) (logCall c) (\<lambda>_. inv J C)"
  by (simp add: hoare_def inv_def wp_simps)

lemma hoare_now [hoare_intros]: "hoare (inv J C) (now api) (\<lambda>_. inv J C)"
  unfolding now_def by (rule hoare_external)

lemma hoare_newClock [hoare_intros]: "hoare (inv J C) (newClock api) (\<lambda>_. inv J C)"
  unfolding newClock_def by (intro hoare_intros)

lemma hoare_hasFinalizer [hoare_intros]: "hoare (inv J C) (hasFinalizer api f) (\<lambda>_. inv J C)"
  unfolding hasFinalizer_def by (intro hoare_intros)

lemma hoare_clientGet:
  "serves J api \<Longrightarrow>
   hoare (\<lambda>s. list_all C (calls s)) (clientGet api req)
     (\<lambda>err s. if err = None then inv (given api J) C s else list_all C (calls s))"
  by (auto simp: hoare_def clientGet_def inv_def given_def wp_simps served_answers dest: servesD(1) split: prod.split sum.split)

lemma hoare_refetch [hoare_intros]: "serves J api \<Longrightarrow> hoare (inv J C) (clientGet api req) (\<lambda>_. inv J C)"
  by (auto simp: hoare_def clientGet_def inv_def wp_simps dest: servesD(1) split: prod.split sum.split)

lemma hoare_refetch_given:
  "serves J api \<Longrightarrow> hoare (inv (given api J) C) (clientGet api req) (\<lambda>_. inv (given api J) C)"
  by (auto simp: hoare_def clientGet_def inv_def given_def wp_simps served_answers dest: servesD(1)
      split: prod.split sum.split)

lemma hoare_clientUpdate [hoare_intros]:
  "serves J api \<Longrightarrow> (\<And>fs err. C (CUpdate fs err)) \<Longrightarrow>
   hoare (inv (given api J) C) (clientUpdate api) (\<lambda>_. inv (given api J) C)"
  by (auto simp: hoare_def inv_def given_def wp_clientUpdate dest: servesD(2) served_answers(2) split: prod.split sum.split)

lemma hoare_clientStatusUpdate [hoare_intros]:
  "serves J api \<Longrightarrow> (\<And>i b. J i \<Longrightarrow> C (CStatusUpdate (opStatus i) b)) \<Longrightarrow>
   hoare (inv J C) (clientStatusUpdate api) (\<lambda>_. inv J C)"
  by (auto simp: hoare_def inv_def wp_clientStatusUpdate dest: servesD(3) split: prod.split sum.split)

lemma hoare_deleteOp [hoare_intros]:
  "(\<And>b. C (CDelete b)) \<Longrightarrow> hoare (inv J C) (deleteOp api) (\<lambda>_. inv J C)"
  by (auto simp: hoare_def inv_def wp_deleteOp split: prod.split)

lemma hoare_objGet [hoare_intros]: "hoare (inv J C) (objGet objs k) (\<lambda>_. inv J C)"
  unfolding objGet_def by (rule hoare_external)

lemma hoare_objCreate [hoare_intros]:
  "(\<And>b. C (CCreate k b)) \<Longrightarrow> hoare (inv J C) (objCreate objs k obj) (\<lambda>_. inv J C)"
  unfolding objCreate_def by (intro hoare_intros)

lemma hoare_objUpdate [hoare_intros]:
  "(\<And>b. C (CObjUpdate k b)) \<Longrightarrow> hoare (inv J C) (objUpdate objs k obj) (\<lambda>_. inv J C)"
  unfolding objUpdate_def by (intro hoare_intros)

lemma hoare_setStatus:
  "(\<And>i. J i \<Longrightarrow> J' (i\<lparr>opStatus := f (opStatus i)\<rparr>)) \<Longrightarrow>
   hoare (inv J C) (setStatus f) (\<lambda>_. inv J' C)"
  by (simp add: hoare_def inv_def wp_simps)

lemma hoare_setFinalizers:
  "(\<And>i fs. J i \<Longrightarrow> J (i\<lparr>opFinalizers := fs\<rparr>)) \<Longrightarrow>
   hoare (inv J C) (setFinalizers f) (\<lambda>_. inv J C)"
  by (simp add: hoare_def inv_def wp_simps)

lemma hoare_logM:
  "(\<And>i clk. J i \<Longrightarrow> J' (i\<lparr>opStatus := fst (f clk (opStatus i))\<rparr>)) \<Longrightarrow>
   hoare (inv J C) (logM api f) (\<lambda>_. inv J' C)"
  by (auto simp: hoare_def inv_def logM_def wp_simps intro!: wp_newClock)

lemma hoare_ListInstancePods [hoare_intros]: "hoare (inv J C) (ListInstancePods api i n) (\<lambda>_. inv J C)"
  unfolding ListInstancePods_def ListPods_def by (rule hoare_external)

lemma hoare_finishWith:
  assumes "\<And>clk st. snd (f clk st)"
    and "\<And>i clk. J i \<Longrightarrow> J' (i\<lparr>opStatus := (fst (f clk (opStatus i)))\<lparr>CompletionTime := Some t\<rparr>\<rparr>)"
  shows "hoare (inv J C) (finishWith api t f) (\<lambda>r s. r \<and> inv J' C s)"
  using assms by (auto simp: hoare_def inv_def finishWith_def logM_def wp_simps intro!: wp_newClock)

lemma hoare_syncStatus [hoare_intros]:
  "(\<And>b. C (CRunStatus c b)) \<Longrightarrow> hoare (inv J C) (syncStatus api c) (\<lambda>_. inv J C)"
  unfolding syncStatus_def by (intro hoare_intros)

lemma hoare_collectLogs [hoare_intros]:
  "(\<And>b. C (CCollectLogs b)) \<Longrightarrow> hoare (inv J C) (collectLogs api) (\<lambda>_. inv J C)"
  unfolding collectLogs_def by (intro hoare_intros)

lemma hoare_instanceSyncStatus:
  "(\<And>c b. C (CRunStatus c b)) \<Longrightarrow>
   hoare (inv (\<lambda>i. J i \<and> Conditions (opStatus i) \<noteq> []) C) (instanceSyncStatus api) (\<lambda>_. inv J C)"
  by (auto simp: hoare_def instanceSyncStatus_def inv_def wp_simps intro!: wp_syncStatus)

lemma hoare_publishStatus:
  assumes "serves J api" "status_echo api" "\<And>i b. J i \<Longrightarrow> C (CStatusUpdate (opStatus i) b)"
    "\<And>c b. C (CRunStatus c b)"
  shows "hoare (inv (\<lambda>i. J i \<and> Conditions (opStatus i) \<noteq> []) C) (publishStatus api) (\<lambda>_. inv J C)"
proof -
  let ?K = "\<lambda>i. J i \<and> Conditions (opStatus i) \<noteq> []"
  have "hoare (inv ?K C) (clientStatusUpdate api) (\<lambda>_. inv ?K C)"
    using assms(3) by (auto simp: hoare_def inv_def wp_clientStatusUpdate split: prod.split sum.split
        dest: servesD(3) [OF assms(1)] status_echoD(2) [OF assms(2)] statusKept_conditions)
  then show ?thesis
    unfolding publishStatus_def
    by (rule hoare_bindG)
       (rule hoare_option hoare_bindG hoare_instanceSyncStatus hoare_ret assms
         | (rule hoare_pre [OF hoare_ret], simp add: inv_def))+
qed

lemma serves_done:
  assumes "serves J api" "status_echo api" "\<And>fs err. C (CUpdate fs err)"
  shows "hoare (inv (\<lambda>i. given api J i \<and> IsDone (opStatus i) = d) C) (clientUpdate api)
           (\<lambda>_. inv (\<lambda>i. given api J i \<and> IsDone (opStatus i) = d) C)"
  using assms(3) by (auto simp: hoare_def inv_def given_def wp_clientUpdate split: prod.split sum.split
      dest: servesD(2) [OF assms(1)] status_echoD(1) [OF assms(2)] statusKept_IsDone served_answers(2))

section \<open>The contract between the pass and a controller\<close>

definition isDeleteCall :: "call \<Rightarrow> bool" where
  "isDeleteCall c = (case c of CDelete _ \<Rightarrow> True | _ \<Rightarrow> False)"

definition isUpdateCall :: "call \<Rightarrow> bool" where
  "isUpdateCall c = (case c of CUpdate _ _ \<Rightarrow> True | _ \<Rightarrow> False)"

text \<open>The calls that release and remove an operation: no object is created or changed and no
  status is written.\<close>

definition isReleaseCall :: "call \<Rightarrow> bool" where
  "isReleaseCall c = (case c of CUpdate _ _ \<Rightarrow> True | CRunStatus _ _ \<Rightarrow> True | CCollectLogs _ \<Rightarrow> True
     | CDelete _ \<Rightarrow> True | _ \<Rightarrow> False)"

text \<open>No update in the list drops the logs finalizer before the Polyaxon API has been asked for the logs and its answer
  was taken for a collection.\<close>

fun logsSafe :: "bool \<Rightarrow> call list \<Rightarrow> bool" where
  "logsSafe collected [] = True"
| "logsSafe collected (CCollectLogs answer # cs) = logsSafe (collected \<or> takenAsCollected answer) cs"
| "logsSafe collected (CUpdate fs err # cs) =
     ((OperationLogsFinalizer \<in> set fs \<or> collected) \<and> logsSafe collected cs)"
| "logsSafe collected (_ # cs) = logsSafe collected cs"

lemma logsSafe_no_update: "list_all (\<lambda>c. \<not> isUpdateCall c) cs \<Longrightarrow> logsSafe b cs"
  by (induction b cs rule: logsSafe.induct) (auto simp: isUpdateCall_def)

lemma logsSafe_append:
  "logsSafe b cs \<Longrightarrow> list_all (\<lambda>c. \<not> isUpdateCall c) ds \<Longrightarrow> logsSafe b (cs @ ds)"
  by (induction b cs rule: logsSafe.induct) (auto simp: logsSafe_no_update)

lemma logsSafe_prepend:
  "list_all (\<lambda>c. \<not> isUpdateCall c) cs \<Longrightarrow> (\<And>b. logsSafe b ds) \<Longrightarrow> logsSafe b (cs @ ds)"
  by (induction b cs rule: logsSafe.induct) (auto simp: isUpdateCall_def)

lemma finalizerStep_collect:
  "finalizerStep True fs r new \<Longrightarrow> OperationLogsFinalizer \<in> set fs \<Longrightarrow> logsSafe b new"
  unfolding finalizerStep_def by (simp, elim disjE exE conjE) simp_all

lemma finalizerStep_logsSafe:
  assumes "list_all isStopReport report" "finalizerStep True fs r new" "OperationLogsFinalizer \<in> set fs"
  shows "logsSafe False (report @ new)"
proof (rule logsSafe_prepend)
  show "list_all (\<lambda>c. \<not> isUpdateCall c) report"
    using assms(1) by (auto simp: list_all_iff isStopReport_def isUpdateCall_def split: call.splits)
  show "logsSafe b new" for b using assms(2,3) by (rule finalizerStep_collect)
qed

lemma emits_mono: "emits P s t \<Longrightarrow> (\<And>c. P c \<Longrightarrow> Q c) \<Longrightarrow> emits Q s t"
  by (auto simp: emits_def list_all_iff)

lemma tracks_emits_mono:
  "tracks (emits P) m \<Longrightarrow> (\<And>c. P c \<Longrightarrow> Q c) \<Longrightarrow> tracks (emits Q) m"
  unfolding tracks_def by (blast intro: emits_mono)

lemma tracks_emits_wp:
  "tracks (emits P) m \<Longrightarrow> (\<And>r t. emits P s t \<Longrightarrow> Q r t) \<Longrightarrow> wp m Q s"
  by (rule wp_mono [OF tracks_wp])

text \<open>An accepted write of the status answers with the object that was sent, up to the status, which is kept.\<close>

definition writesStatusOnly :: "('a operation_scheme, 'w, 'm) api_scheme \<Rightarrow> bool" where
  "writesStatusOnly api \<longleftrightarrow>
     (\<forall>i w j w'. updateInstanceStatus api i w = (Inr j, w') \<longrightarrow>
        j = i\<lparr>opStatus := opStatus j\<rparr> \<and> statusKept (opStatus i) (opStatus j))"

text \<open>The call that records the start of an operation with status \<open>st\<close> at time \<open>t\<close>, when it has no start time yet.\<close>

definition startWrite :: "OperationStatus \<Rightarrow> time \<Rightarrow> call list \<Rightarrow> bool" where
  "startWrite st t cs \<longleftrightarrow>
     (if StartTime st = None then \<exists>err. cs = [CStatusUpdate (st\<lparr>StartTime := Some t\<rparr>) err] else cs = [])"

lemma pass_order:
  "s\<lparr>world := w, inst := j\<rparr> = s\<lparr>inst := j, world := w\<rparr>"
  "s\<lparr>calls := c, inst := j\<rparr> = s\<lparr>inst := j, calls := c\<rparr>"
  "s\<lparr>calls := c, world := w\<rparr> = s\<lparr>world := w, calls := c\<rparr>"
  by simp_all

text \<open>
  \<open>good\<close> is the controller's invariant of its instances, \<open>sent\<close> what it guarantees of its calls, \<open>lawful\<close>
  what it relies on of its own part of the environment. The runtime never writes the finalizers; the
  cleanup only deletes; both return, when the API server answers as \<open>serves\<close> and \<open>status_echo\<close> say.
\<close>

locale op_controller =
  fixes cleanup :: "('a operation_scheme, 'w, 'm) api_scheme \<Rightarrow>
      (('a operation_scheme, 'w) pass, ctrlResult \<times> error option) go"
    and runtime :: "('a operation_scheme, 'w, 'm) api_scheme \<Rightarrow>
      (('a operation_scheme, 'w) pass, ctrlResult \<times> error option) go"
    and good :: "'a operation_scheme \<Rightarrow> bool"
    and sent :: "call \<Rightarrow> bool"
    and lawful :: "('a operation_scheme, 'w, 'm) api_scheme \<Rightarrow> bool"
  assumes cleanup_calls: "tracks (emits isDeleteCall) (cleanup api)"
    and runtime_calls: "tracks (emits (\<lambda>c. \<not> isUpdateCall c)) (runtime api)"
    and cleanup_safe: "lawful api \<Longrightarrow> serves good api \<Longrightarrow> status_echo api \<Longrightarrow>
      hoare (inv (\<lambda>i. good i \<and> IsDone (opStatus i)) sent) (cleanup api) (\<lambda>_ s. list_all sent (calls s))"
    and runtime_safe: "lawful api \<Longrightarrow> serves good api \<Longrightarrow> status_echo api \<Longrightarrow>
      hoare (inv good sent) (runtime api) (\<lambda>_ s. list_all sent (calls s))"
    and good_finalizers: "good i \<Longrightarrow> good (i\<lparr>opFinalizers := fs\<rparr>)"
    and good_start: "good i \<Longrightarrow> good (i\<lparr>opStatus := (opStatus i)\<lparr>StartTime := Some t\<rparr>\<rparr>)"
    and good_sent: "good i \<Longrightarrow> sent (CStatusUpdate (opStatus i) b)"
    and release_sent: "isReleaseCall c \<Longrightarrow> sent c"
begin

lemma sent_simps: "sent (CUpdate fs err)" "sent (CRunStatus c b)" "sent (CCollectLogs answer)" "sent (CDelete err)"
  by (simp_all add: release_sent isReleaseCall_def)

text \<open>A pass over a fetched instance starts with \<open>reconcileInstance\<close> when its start time is set.\<close>

lemma pass_started:
  assumes "getInstance api req (world s) = (Inr i, w)" "StartTime (opStatus i) \<noteq> None"
  shows "wp (reconcilePass refetch cleanup runtime api req) Q s =
         wp (reconcileInstance refetch cleanup runtime api req) Q (s\<lparr>world := w, inst := i\<rparr>)"
  using assms by (auto simp: reconcilePass_def clientGet_def wp_simps)

text \<open>Otherwise it writes the start time first. An accepted write of the status changes nothing else.\<close>

lemma pass_unstarted:
  assumes "getInstance api req (world s) = (Inr i, w)" "StartTime (opStatus i) = None" "writesStatusOnly api"
    and now: "timeNow api w = (t, w')"
    and fail: "\<And>e v. Q (Returns (noRequeue, Some e)) (s\<lparr>inst := i\<lparr>opStatus := (opStatus i)\<lparr>StartTime := Some t\<rparr>\<rparr>, world := v,
        calls := calls s @ [CStatusUpdate ((opStatus i)\<lparr>StartTime := Some t\<rparr>) (Some e)]\<rparr>)"
    and rest: "\<And>st v. statusKept ((opStatus i)\<lparr>StartTime := Some t\<rparr>) st \<Longrightarrow>
      wp (reconcileInstance False cleanup runtime api req) Q (s\<lparr>inst := i\<lparr>opStatus := st\<rparr>, world := v,
        calls := calls s @ [CStatusUpdate ((opStatus i)\<lparr>StartTime := Some t\<rparr>) None]\<rparr>)"
  shows "wp (reconcilePass False cleanup runtime api req) Q s"
proof -
  let ?i = "i\<lparr>opStatus := (opStatus i)\<lparr>StartTime := Some t\<rparr>\<rparr>"
  have answer: "\<exists>st. j = i\<lparr>opStatus := st\<rparr> \<and> statusKept ((opStatus i)\<lparr>StartTime := Some t\<rparr>) st"
    if "updateInstanceStatus api ?i w' = (Inr j, v)" for j v
  proof -
    have "j = ?i\<lparr>opStatus := opStatus j\<rparr>" "statusKept (opStatus ?i) (opStatus j)"
      using assms(3) that unfolding writesStatusOnly_def by blast+
    then show ?thesis by (intro exI [of _ "opStatus j"]) simp
  qed
  show ?thesis
    using assms(1,2) fail
    by (auto simp: reconcilePass_def clientGet_def thenRefetch_def AddStartTime_def wp_bindG wp_external wp_readS
        wp_modifyS wp_ret wp_if wp_now wp_setStatus wp_clientStatusUpdate now pass_order
        split: prod.split sum.split dest!: answer intro!: rest)
qed

lemma instance_release:
  assumes "IsOperationBeingDeleted (inst s) \<or> IsDone (opStatus (inst s))"
  shows "wp (reconcileInstance refetch cleanup runtime api req) (\<lambda>_ t. emits isReleaseCall s t) s"
proof -
  have fin: "tracks (emits isReleaseCall) (handleFinalizers api)"
    by (rule tracks_handleFinalizers) (simp_all add: isReleaseCall_def)
  have clean: "tracks (emits isReleaseCall) (cleanup api)"
    by (rule tracks_emits_mono [OF cleanup_calls])
       (simp add: isDeleteCall_def isReleaseCall_def split: call.splits)
  have "tracks (emits isReleaseCall)
      (bindG (handleFinalizers api) (\<lambda>err. ret (noRequeue, err) :: (('a operation_scheme, 'w) pass, ctrlResult \<times> error option) go))"
    and "tracks (emits isReleaseCall)
      (bindG (handleFinalizers api) (\<lambda>err. if err \<noteq> None then ret (noRequeue, err) else cleanup api))"
    by (intro track_intros fin clean)+
  then show ?thesis
    using assms unfolding reconcileInstance_def wp_bindG wp_readS by (auto simp: wp_if intro!: tracks_wp)
qed

lemma release_calls_started:
  assumes "getInstance api req (world s) = (Inr i, w)" "StartTime (opStatus i) \<noteq> None"
    "IsOperationBeingDeleted i \<or> IsDone (opStatus i)"
  shows "wp (reconcilePass refetch cleanup runtime api req) (\<lambda>_ t. emits isReleaseCall s t) s"
  unfolding pass_started [OF assms(1,2)]
  by (rule wp_mono [OF instance_release]) (use assms(3) in \<open>auto simp: emits_def\<close>)

lemma release_calls:
  assumes "getInstance api req (world s) = (Inr i, w)" "writesStatusOnly api"
    and over: "IsOperationBeingDeleted i \<or> IsDone (opStatus i)"
  shows "wp (reconcilePass False cleanup runtime api req)
    (\<lambda>_ t. \<exists>first rest. calls t = calls s @ first @ rest \<and> startWrite (opStatus i) (fst (timeNow api w)) first \<and>
       list_all isReleaseCall rest) s"
proof (cases "StartTime (opStatus i)")
  case None
  obtain t w' where now: "timeNow api w = (t, w')" by fastforce
  let ?st = "(opStatus i)\<lparr>StartTime := Some t\<rparr>"
  have over': "IsOperationBeingDeleted (i\<lparr>opStatus := st\<rparr>) \<or> IsDone (opStatus (i\<lparr>opStatus := st\<rparr>))"
    if "statusKept ?st st" for st
    using over statusKept_IsDone [OF that] by (auto simp: IsOperationBeingDeleted_def IsDone_holds)
  have start: "startWrite (opStatus i) (fst (timeNow api w)) [CStatusUpdate ?st err]" for err
    by (simp add: startWrite_def None now)
  let ?Q = "\<lambda>t. \<exists>first rest. calls t = calls s @ first @ rest \<and> startWrite (opStatus i) (fst (timeNow api w)) first \<and>
       list_all isReleaseCall rest"
  have sent: "?Q u" if "calls u = calls s @ [CStatusUpdate ?st err] @ rest" "list_all isReleaseCall rest"
    for u :: "('a operation_scheme, 'w) pass" and err rest
    using that start by blast
  show ?thesis
  proof (rule pass_unstarted [OF assms(1) None assms(2) now])
    show "?Q (s\<lparr>inst := i\<lparr>opStatus := ?st\<rparr>, world := v, calls := calls s @ [CStatusUpdate ?st (Some e)]\<rparr>)" for e v
      by (rule sent [of _ "Some e" "[]"]) simp_all
  next
    fix st v assume kept: "statusKept ?st st"
    let ?u = "s\<lparr>inst := i\<lparr>opStatus := st\<rparr>, world := v, calls := calls s @ [CStatusUpdate ?st None]\<rparr>"
    show "wp (reconcileInstance False cleanup runtime api req) (\<lambda>_ t. ?Q t) ?u"
      by (rule wp_mono [OF instance_release]) (use over' [OF kept] in \<open>auto simp: emits_def intro: sent\<close>)
  qed
next
  case (Some x)
  then have x: "StartTime (opStatus i) \<noteq> None" by simp
  show ?thesis
    by (rule wp_mono [OF release_calls_started [OF assms(1) x over]]) (auto simp: startWrite_def Some emits_def)
qed

lemma instance_logs:
  assumes laws: "finalizer_laws api"
    and logs: "OperationLogsFinalizer \<in> set (opFinalizers (inst s))" "mustCollect api (inst s)"
  shows "wp (reconcileInstance refetch cleanup runtime api req)
           (\<lambda>_ t. \<exists>new. calls t = calls s @ new \<and> logsSafe False new) s"
proof -
  let ?Q = "\<lambda>t. \<exists>new. calls t = calls s @ new \<and> logsSafe False new"
  have ext: "wp m (\<lambda>_ t. ?Q t) u" if "tracks (emits (\<lambda>c. \<not> isUpdateCall c)) m" "?Q u"
    for u and m :: "(('a operation_scheme, 'w) pass, ctrlResult \<times> error option) go"
    using that(2) by (intro tracks_emits_wp [OF that(1)]) (auto simp: emits_def intro: logsSafe_append)
  have clean: "tracks (emits (\<lambda>c. \<not> isUpdateCall c)) (cleanup api)"
    by (rule tracks_emits_mono [OF cleanup_calls])
       (simp add: isDeleteCall_def isUpdateCall_def split: call.splits)
  have fin: "wp (handleFinalizers api) (\<lambda>_ t. ?Q t) s"
    by (rule wp_mono [OF wp_handleFinalizers [OF laws]])
       (use logs in \<open>auto dest: finalizerStep_logsSafe\<close>)
  show ?thesis
    using laws logs unfolding reconcileInstance_def
    by (auto simp: wp_simps addMissingFinalizers_def thenRefetch_def AddLogsFinalizer_def AddStatusFinalizer_def
        clientGet_def wp_clientUpdate finalizer_laws_def split: outcome.split prod.split sum.split
        intro!: wp_mono [OF fin] ext [OF clean] ext [OF runtime_calls])
qed

lemma logs_collected_started:
  assumes laws: "finalizer_laws api"
    and fetched: "getInstance api req (world s) = (Inr i, w)" "StartTime (opStatus i) \<noteq> None"
    and logs: "OperationLogsFinalizer \<in> set (opFinalizers i)" "mustCollect api i"
  shows "wp (reconcilePass refetch cleanup runtime api req)
           (\<lambda>_ t. \<exists>new. calls t = calls s @ new \<and> logsSafe False new) s"
  unfolding pass_started [OF fetched] using instance_logs [OF laws, of "s\<lparr>world := w, inst := i\<rparr>"] logs by simp

lemma logs_collected_first:
  assumes laws: "finalizer_laws api" "writesStatusOnly api"
    and fetched: "getInstance api req (world s) = (Inr i, w)"
    and logs: "OperationLogsFinalizer \<in> set (opFinalizers i)" "mustCollect api i"
  shows "wp (reconcilePass False cleanup runtime api req)
           (\<lambda>_ t. \<exists>new. calls t = calls s @ new \<and> logsSafe False new) s"
proof (cases "StartTime (opStatus i)")
  case None
  obtain t w' where now: "timeNow api w = (t, w')" by fastforce
  have collect: "mustCollect api (i\<lparr>opStatus := st\<rparr>)" for st
    using logs(2) by (simp add: mustCollect_def getInstanceInfo_status)
  show ?thesis
    by (rule pass_unstarted [OF fetched None laws(2) now])
       (use logs(1) collect in \<open>auto intro!: wp_mono [OF instance_logs [OF laws(1)]]\<close>)
next
  case (Some x)
  then have x: "StartTime (opStatus i) \<noteq> None" by simp
  show ?thesis by (rule logs_collected_started [OF laws(1) fetched x logs])
qed

lemma given_safe:
  assumes "lawful api" "serves good api" "status_echo api"
  shows "hoare (inv (\<lambda>i. given api good i \<and> IsDone (opStatus i)) sent) (cleanup api) (\<lambda>_ s. list_all sent (calls s))"
    and "hoare (inv (given api good) sent) (runtime api) (\<lambda>_ s. list_all sent (calls s))"
  by (rule hoare_pre [OF cleanup_safe [OF assms]], simp add: inv_def given_def)
     (rule hoare_pre [OF runtime_safe [OF assms]], simp add: inv_def given_def)

lemma given_finalizers: "given api good i \<Longrightarrow> given api good (i\<lparr>opFinalizers := fs\<rparr>)"
  by (simp add: given_def good_finalizers served_finalizers)

lemma handleFinalizers_safe:
  assumes "serves good api" "status_echo api"
  shows "hoare (inv (\<lambda>i. given api good i \<and> IsDone (opStatus i) = d) sent) (handleFinalizers api)
           (\<lambda>_. inv (\<lambda>i. given api good i \<and> IsDone (opStatus i) = d) sent)"
  unfolding handleFinalizers_def reportStopped_def releaseFinalizer_def
  by (intro hoare_intros hoare_setFinalizers serves_done assms sent_simps conjI)
     (auto simp: given_finalizers)

lemma add_finalizers_safe:
  assumes "serves good api"
  shows "hoare (inv (given api good) sent) (addMissingFinalizers api enabled OperationLogsFinalizer
             (thenRefetch refetch api req (AddLogsFinalizer api)))
           (\<lambda>_. inv (given api good) sent)"
    and "hoare (inv (given api good) sent) (addMissingFinalizers api enabled OperationStatusFinalizer
             (thenRefetch refetch api req (AddStatusFinalizer api)))
           (\<lambda>_. inv (given api good) sent)"
  unfolding addMissingFinalizers_def AddLogsFinalizer_def AddStatusFinalizer_def thenRefetch_def
  by (intro hoare_refetch_given hoare_intros hoare_setFinalizers assms sent_simps given_finalizers; assumption)+

lemma ret_safe: "hoare (inv J sent) (ret a) (\<lambda>_ s. list_all sent (calls s))"
  by (simp add: hoare_def wp_simps inv_def)

lemma instance_safe:
  assumes laws: "lawful api" "serves good api" "status_echo api"
  shows "hoare (inv (given api good) sent) (reconcileInstance refetch cleanup runtime api req) (\<lambda>_ s. list_all sent (calls s))"
  unfolding reconcileInstance_def
proof (rule hoare_bind_readS, intro hoare_if)
  fix i :: "'a operation_scheme"
  let ?d = "IsDone (opStatus i)"
  have fin: "hoare (\<lambda>s. inv (given api good) sent s \<and> i = inst s) (handleFinalizers api)
      (\<lambda>_. inv (\<lambda>j. given api good j \<and> IsDone (opStatus j) = ?d) sent)"
    by (rule hoare_pre [OF handleFinalizers_safe [OF laws(2,3)]]) (auto simp: inv_def)
  show "hoare (\<lambda>s. inv (given api good) sent s \<and> i = inst s)
      (bindG (handleFinalizers api) (\<lambda>err. ret (noRequeue, err))) (\<lambda>_ s. list_all sent (calls s))"
    by (rule hoare_bindG [OF fin]) (rule ret_safe)
  show "hoare (\<lambda>s. inv (given api good) sent s \<and> i = inst s)
      (bindG (handleFinalizers api) (\<lambda>err. if err \<noteq> None then ret (noRequeue, err) else cleanup api))
      (\<lambda>_ s. list_all sent (calls s))" if "?d"
    using that given_safe(1) [OF laws]
    by (intro hoare_bindG [OF fin] hoare_if ret_safe) simp
  have "hoare (inv (given api good) sent)
      (bindG (addMissingFinalizers api cfgEnableLogsFinalizers OperationLogsFinalizer
           (thenRefetch refetch api req (AddLogsFinalizer api))) (\<lambda>err.
         if err \<noteq> None then ret (noRequeue, err)
         else bindG (addMissingFinalizers api cfgEnableStatusFinalizers OperationStatusFinalizer
           (thenRefetch refetch api req (AddStatusFinalizer api))) (\<lambda>err.
           if err \<noteq> None then ret (noRequeue, err) else runtime api)))
      (\<lambda>_ s. list_all sent (calls s))"
    by (intro hoare_bindG [OF add_finalizers_safe(1)] hoare_bindG [OF add_finalizers_safe(2)]
        hoare_if ret_safe given_safe(2) laws)
  then show "hoare (\<lambda>s. inv (given api good) sent s \<and> i = inst s)
      (bindG (addMissingFinalizers api cfgEnableLogsFinalizers OperationLogsFinalizer
           (thenRefetch refetch api req (AddLogsFinalizer api))) (\<lambda>err.
         if err \<noteq> None then ret (noRequeue, err)
         else bindG (addMissingFinalizers api cfgEnableStatusFinalizers OperationStatusFinalizer
           (thenRefetch refetch api req (AddStatusFinalizer api))) (\<lambda>err.
           if err \<noteq> None then ret (noRequeue, err) else runtime api)))
      (\<lambda>_ s. list_all sent (calls s))"
    by (rule hoare_pre) simp
qed

lemma pass_safe:
  assumes laws: "lawful api" "serves good api" "status_echo api"
  shows "hoare (\<lambda>s. list_all sent (calls s)) (reconcilePass refetch cleanup runtime api req)
           (\<lambda>_ s. list_all sent (calls s))"
proof -
  let ?K = "\<lambda>err s. if err = None then inv (given api good) sent s else list_all sent (calls s)"
  have start_sent: "good i \<Longrightarrow> sent (CStatusUpdate ((opStatus i)\<lparr>StartTime := Some t\<rparr>) b)" for i t b
    using good_sent [OF good_start [of i t], of b] by simp
  have start: "hoare (inv (given api good) sent) (thenRefetch refetch api req (AddStartTime api)) ?K"
    using servesD(1,3) [OF laws(2)] good_start start_sent
    by (auto simp: hoare_def inv_def given_def AddStartTime_def thenRefetch_def clientGet_def wp_simps
        wp_clientStatusUpdate served_answers split: prod.split sum.split)
  have none: "hoare (inv (given api good) sent) (ret None) ?K"
    by (simp add: hoare_def wp_ret)
  have "hoare (inv (given api good) sent)
      (bindG (readS (\<lambda>s. StartTime (opStatus (inst s)))) (\<lambda>startTime.
       bindG (if startTime = None then thenRefetch refetch api req (AddStartTime api) else ret None) (\<lambda>err.
         if err \<noteq> None then ret (noRequeue, err) else reconcileInstance refetch cleanup runtime api req)))
      (\<lambda>_ s. list_all sent (calls s))"
    by (intro hoare_bindG [OF hoare_readS] hoare_bindG [where Q = ?K] hoare_if start none)
       (use instance_safe [OF laws, of refetch req] in \<open>simp_all add: hoare_def wp_ret\<close>)
  then show ?thesis
    unfolding reconcilePass_def
    by (intro hoare_bindG [OF hoare_clientGet [OF laws(2)]] hoare_if)
       (simp_all add: hoare_def wp_ret)
qed

text \<open>An instance that is done and has nothing left to finalize goes to the cleanup at once.\<close>

lemma done_untimed:
  assumes "finalizer_laws api" "getInstance api req (world s) = (Inr i, w)" "StartTime (opStatus i) \<noteq> None"
    and "\<not> IsOperationBeingDeleted i" "IsDone (opStatus i)" "opFinalizers i = []"
    and clean: "\<And>t. inst t = i \<Longrightarrow> fst (cleanup api t) = Panics p"
  shows "fst (reconcilePass refetch cleanup runtime api req s) = Panics p"
proof -
  have "wp (handleFinalizers api) (\<lambda>r t. r = Returns None \<and> inst t = i) t" if "inst t = i" for t
    using that assms(1,5,6)
    by (simp add: handleFinalizers_def reportStopped_def releaseFinalizer_def wp_simps finalizer_laws_def)
  note fin = wp_mono [OF this]
  have clean': "wp (cleanup api) (\<lambda>r t. r = Panics p) t" if "inst t = i" for t
    using clean [OF that] by (simp add: wp_def case_prod_beta)
  have "wp (reconcileInstance refetch cleanup runtime api req) (\<lambda>r t. r = Panics p) (s\<lparr>world := w, inst := i\<rparr>)"
    unfolding reconcileInstance_def wp_bindG [of "readS inst"] wp_readS
    using assms(4,5) by (simp add: wp_bindG [of "handleFinalizers api"]) (rule fin, auto simp: wp_simps clean')
  then have "wp (reconcilePass refetch cleanup runtime api req) (\<lambda>r t. r = Panics p) s"
    by (simp add: pass_started [OF assms(2,3)])
  then show ?thesis by (simp add: wp_def case_prod_beta)
qed

end

lemma handleTTL_untimed:
  "TTLSecondsAfterFinished (opTermination (inst s)) = Ptr a n \<Longrightarrow> CompletionTime (opStatus (inst s)) = None \<Longrightarrow>
   fst (handleTTL api s) = Panics ''nil pointer dereference''"
  by (simp add: handleTTL_eq Let_def split: prod.split)

section \<open>Logging and publishing\<close>

lemma wp_logM:
  "(\<And>clk w. Q (Returns (snd (f clk (opStatus (inst s)))))
     (s\<lparr>world := w, inst := (inst s)\<lparr>opStatus := fst (f clk (opStatus (inst s)))\<rparr>\<rparr>)) \<Longrightarrow>
   wp (logM api f) Q s"
  by (auto simp: logM_def wp_simps intro!: wp_newClock)

lemma wp_finishWith:
  "(\<And>clk st. snd (f clk st)) \<Longrightarrow>
   (\<And>clk w. Q (Returns True) (s\<lparr>world := w, inst := (inst s)\<lparr>opStatus :=
      (fst (f clk (opStatus (inst s))))\<lparr>CompletionTime := Some t\<rparr>\<rparr>\<rparr>)) \<Longrightarrow>
   wp (finishWith api t f) Q s"
  by (auto simp: finishWith_def wp_simps intro!: wp_logM)


text \<open>What a status handler that calls for condition type \<open>ty\<close> at time \<open>t\<close> leaves behind: a true last condition of
  that type; a final one comes with the completion time and is always reported as a change; when no
  change is reported the instance is untouched.\<close>

definition logged :: "time \<Rightarrow> OperationConditionType \<Rightarrow> 'a operation_scheme \<Rightarrow> bool \<Rightarrow> 'a operation_scheme \<Rightarrow> bool" where
  "logged t ty i changed j \<longleftrightarrow>
     Conditions (opStatus j) \<noteq> [] \<and> cType (last (Conditions (opStatus j))) = ty \<and>
     cStatus (last (Conditions (opStatus j))) = ConditionTrue \<and>
     (if isFinal ty then changed \<and> CompletionTime (opStatus j) = Some t
      else CompletionTime (opStatus j) = CompletionTime (opStatus i)) \<and>
     (changed \<or> j = i)"

lemma logged_logCondition_final:
  "isFinal ty \<Longrightarrow> logged t ty i True
     (i\<lparr>opStatus := (fst (logCondition clk (opStatus i) ty r m))\<lparr>CompletionTime := Some t\<rparr>\<rparr>)"
  by (simp add: logged_def status.log_not_empty status.log_last)

lemma logCondition_unchanged: "\<not> snd (logCondition clk s t r m) \<Longrightarrow> fst (logCondition clk s t r m) = s"
  by (auto simp: logCondition_cases split: if_splits)

lemma logged_logCondition:
  "\<not> isFinal ty \<Longrightarrow> logged t ty i (snd (logCondition clk (opStatus i) ty r m))
     (i\<lparr>opStatus := fst (logCondition clk (opStatus i) ty r m)\<rparr>)"
  by (cases "snd (logCondition clk (opStatus i) ty r m)")
     (use status.log_last [of clk "opStatus i" ty r m] status.log_not_empty [of clk "opStatus i" ty r m]
      in \<open>auto simp: logged_def dest: logCondition_unchanged\<close>)

lemma wp_finish_logged:
  assumes "\<And>clk st. f clk st = logCondition clk st ty r m" "isFinal ty"
    and "\<And>w j. logged t ty (inst s) True j \<Longrightarrow> Q (Returns True) (s\<lparr>world := w, inst := j\<rparr>)"
  shows "wp (finishWith api t f) Q s"
  using assms by (intro wp_finishWith) (auto simp: logCondition_final logged_logCondition_final)

lemma wp_log_logged:
  assumes "\<And>clk st. f clk st = logCondition clk st ty r m" "\<not> isFinal ty"
    and "\<And>b w j. logged t ty (inst s) b j \<Longrightarrow> Q (Returns b) (s\<lparr>world := w, inst := j\<rparr>)"
  shows "wp (logM api f) Q s"
  using assms by (intro wp_logM) (auto simp: logged_logCondition)

lemma logged_weaken: "logged t ty i b j \<Longrightarrow> \<not> isFinal ty \<Longrightarrow> logged t ty i True j"
  by (simp add: logged_def)

lemma logged_after: "logged t ty i False j \<Longrightarrow> logged t ty j b k \<Longrightarrow> logged t ty i b k"
  by (auto simp: logged_def)

text \<open>What a status handler does for the condition type \<open>next\<close> that its decision table gives.\<close>

definition statusOutcome ::
  "time \<Rightarrow> OperationConditionType option \<Rightarrow> 'a operation_scheme \<Rightarrow> bool outcome \<Rightarrow> 'a operation_scheme \<Rightarrow> bool"
where
  "statusOutcome t next i r j \<longleftrightarrow>
     (case next of None \<Rightarrow> r = Returns False \<and> j = i
      | Some ty \<Rightarrow> \<exists>changed. r = Returns changed \<and> logged t ty i changed j)"

lemma statusOutcome_Some [simp]: "statusOutcome t (Some ty) i (Returns b) j = logged t ty i b j"
  by (simp add: statusOutcome_def)

text \<open>The rules for each method.\<close>

lemma wp_LogWarning:
  assumes "\<And>b w j. logged t OperationWarning (inst s) b j \<Longrightarrow> Q (Returns b) (s\<lparr>world := w, inst := j\<rparr>)"
  shows "wp (logM api (\<lambda>clk st. LogWarning clk st reason message)) Q s"
  by (rule wp_log_logged [where ty = OperationWarning and t = t], rule LogWarning_def [unfolded Let_def], simp, erule assms)

lemma wp_LogRunning:
  assumes "\<And>b w j. logged t OperationRunning (inst s) b j \<Longrightarrow> Q (Returns b) (s\<lparr>world := w, inst := j\<rparr>)"
  shows "wp (logM api LogRunning) Q s"
  by (rule wp_log_logged [where ty = OperationRunning and t = t], rule LogRunning_def, simp, erule assms)

lemma wp_finish_LogFailed:
  assumes "\<And>w j. logged t OperationFailed (inst s) True j \<Longrightarrow> Q (Returns True) (s\<lparr>world := w, inst := j\<rparr>)"
  shows "wp (finishWith api t (\<lambda>clk st. LogFailed clk st reason message)) Q s"
  by (rule wp_finish_logged [where ty = OperationFailed], rule LogFailed_def, simp, erule assms)

lemma wp_finish_LogSucceeded:
  assumes "\<And>w j. logged t OperationSucceeded (inst s) True j \<Longrightarrow> Q (Returns True) (s\<lparr>world := w, inst := j\<rparr>)"
  shows "wp (finishWith api t LogSucceeded) Q s"
  by (rule wp_finish_logged [where ty = OperationSucceeded], rule LogSucceeded_def, simp, erule assms)

definition isCreateCall :: "call \<Rightarrow> bool" where
  "isCreateCall c = (case c of CCreate _ _ \<Rightarrow> True | _ \<Rightarrow> False)"

lemma isCreateCall_simps [simp]:
  "isCreateCall (CCreate k b)" "\<not> isCreateCall (CStatusUpdate st err)" "\<not> isCreateCall (CRunStatus c b)"
  by (simp_all add: isCreateCall_def)

text \<open>The calls that publish a status.\<close>

definition isReportCall :: "call \<Rightarrow> bool" where
  "isReportCall c = (case c of CStatusUpdate _ _ \<Rightarrow> True | CRunStatus _ _ \<Rightarrow> True | _ \<Rightarrow> False)"

definition reportOnly :: "call list \<Rightarrow> bool" where
  "reportOnly cs \<longleftrightarrow> cs = [] \<or> (\<exists>c b. cs = [CRunStatus c b])"

text \<open>Publishing a status: one status update, with the status of the instance, and at most one report.\<close>

lemma wp_publishStatus_exact:
  assumes "\<And>e w. updateInstanceStatus api (inst s) (world s) = (Inl e, w) \<Longrightarrow>
       Q (Returns (Some e)) (s\<lparr>world := w, calls := calls s @ [CStatusUpdate (opStatus (inst s)) (Some e)]\<rparr>)"
    and "\<And>j w w' r report. updateInstanceStatus api (inst s) (world s) = (Inr j, w') \<Longrightarrow>
       reportOnly report \<Longrightarrow>
       r = (if Conditions (opStatus j) = [] then Panics ''index out of range'' else Returns None) \<Longrightarrow>
       Q r (s\<lparr>inst := j, world := w, calls := calls s @ CStatusUpdate (opStatus (inst s)) None # report\<rparr>)"
  shows "wp (publishStatus api) Q s"
proof (cases "updateInstanceStatus api (inst s) (world s)")
  case (Pair r w)
  show ?thesis
  proof (cases r)
    case (Inl e)
    with Pair assms(1) show ?thesis by (simp add: publishStatus_def wp_simps wp_clientStatusUpdate)
  next
    case (Inr j)
    with Pair have upd: "updateInstanceStatus api (inst s) (world s) = (Inr j, w)" by simp
    note ok = assms(2) [OF upd]
    have "wp (instanceSyncStatus api) (\<lambda>r t. case r of Returns a \<Rightarrow> wp (ret None) Q t | Panics p \<Rightarrow> Q (Panics p) t)
        (s\<lparr>world := w, calls := calls s @ [CStatusUpdate (opStatus (inst s)) None], inst := j\<rparr>)"
      using ok [of "[]"] ok [of "[CRunStatus c b]" for c b]
      by (auto simp: instanceSyncStatus_def wp_simps pass_order reportOnly_def intro!: wp_syncStatus)
    then show ?thesis by (simp add: publishStatus_def wp_simps wp_clientStatusUpdate upd)
  qed
qed

lemma wp_publishStatus:
  assumes "\<And>e w. updateInstanceStatus api (inst s) (world s) = (Inl e, w) \<Longrightarrow>
       Q (Returns (Some e)) (s\<lparr>world := w, calls := calls s @ [CStatusUpdate (opStatus (inst s)) (Some e)]\<rparr>)"
    and "\<And>j w w' r report. updateInstanceStatus api (inst s) (world s) = (Inr j, w') \<Longrightarrow>
       list_all (\<lambda>c. \<not> isCreateCall c) report \<Longrightarrow>
       r = (if Conditions (opStatus j) = [] then Panics ''index out of range'' else Returns None) \<Longrightarrow>
       Q r (s\<lparr>inst := j, world := w, calls := calls s @ CStatusUpdate (opStatus (inst s)) None # report\<rparr>)"
  shows "wp (publishStatus api) Q s"
  by (rule wp_publishStatus_exact) (auto simp: reportOnly_def intro: assms)

lemma statusKept_last:
  "statusKept s t \<Longrightarrow> Conditions s \<noteq> [] \<Longrightarrow> cType (last (Conditions t)) = cType (last (Conditions s))"
proof -
  assume "statusKept s t" "Conditions s \<noteq> []"
  then have "Conditions t \<noteq> []" "last (map condKey (Conditions s)) = last (map condKey (Conditions t))"
    by (auto simp: statusKept_def)
  with \<open>Conditions s \<noteq> []\<close> show ?thesis by (simp add: last_map condKey_def)
qed

lemma statusKept_IsStopped: "statusKept s t \<Longrightarrow> IsStopped s = IsStopped t"
  by (auto simp: statusKept_def IsStopped_def hasOperationCondition_holds dest: holds_condKey)

text \<open>Done operations have a completion time; the statuses sent keep to it.\<close>

definition timedDone :: "OperationStatus \<Rightarrow> bool" where
  "timedDone st = (IsDone st \<longrightarrow> CompletionTime st \<noteq> None)"

definition timedSent :: "call \<Rightarrow> bool" where
  "timedSent c = (case c of CStatusUpdate st _ \<Rightarrow> timedDone st | _ \<Rightarrow> True)"

lemma timedSent_simps [simp]:
  "timedSent (CUpdate fs err)" "timedSent (CDelete err)" "timedSent (CCreate k b)" "timedSent (CObjUpdate k b)"
  "timedSent (CRunStatus c b)" "timedSent (CCollectLogs answer)"
  by (simp_all add: timedSent_def)

lemma handleTTL_safe:
  "hoare (inv (\<lambda>i. timedDone (opStatus i) \<and> IsDone (opStatus i)) C) (handleTTL api)
     (\<lambda>_ s. list_all C (calls s))" if "\<And>b. C (CDelete b)"
  using that
  by (auto simp: hoare_def wp_def handleTTL_eq inv_def timedDone_def Let_def split: option.splits prod.splits)

section \<open>Handlers that ask for their status to be published\<close>

text \<open>\<open>ready J C r\<close>: the invariant, and a condition to report when \<open>r\<close> asks for it.\<close>

definition ready :: "('a operation_scheme \<Rightarrow> bool) \<Rightarrow> (call \<Rightarrow> bool) \<Rightarrow> bool \<Rightarrow> ('a operation_scheme, 'w) pass \<Rightarrow> bool" where
  "ready J C r = inv (\<lambda>i. J i \<and> (r \<longrightarrow> Conditions (opStatus i) \<noteq> [])) C"

text \<open>An invariant of the instances that looks at their status only through whether they are done and when they
  completed, with the calls it allows.\<close>

locale status_inv =
  fixes J :: "'a operation_scheme \<Rightarrow> bool" and C :: "call \<Rightarrow> bool"
  assumes J_same: "J i \<Longrightarrow> IsDone st = IsDone (opStatus i) \<Longrightarrow> CompletionTime st = CompletionTime (opStatus i) \<Longrightarrow>
      J (i\<lparr>opStatus := st\<rparr>)"
    and J_timed: "J i \<Longrightarrow> CompletionTime st \<noteq> None \<Longrightarrow> J (i\<lparr>opStatus := st\<rparr>)"
    and J_sent: "J i \<Longrightarrow> C (CStatusUpdate (opStatus i) b)"
    and C_other: "(\<And>st b. c \<noteq> CStatusUpdate st b) \<Longrightarrow> C c"
begin

lemma C_simps: "C (CUpdate fs err)" "C (CDelete err)" "C (CCreate k b)" "C (CObjUpdate k b)"
  "C (CRunStatus cond b)" "C (CCollectLogs answer)"
  by (rule C_other, simp)+

lemma ready_ret: "hoare (inv J C) (ret False) (ready J C)"
  by (simp add: hoare_def wp_simps inv_def ready_def)

lemma ready_finishWith:
  "(\<And>clk st. snd (f clk st)) \<Longrightarrow> (\<And>clk st. Conditions (fst (f clk st)) \<noteq> []) \<Longrightarrow>
   hoare (inv J C) (finishWith api t f) (ready J C)"
  by (rule hoare_conseq [OF hoare_finishWith [where J = J and C = C and J' = "\<lambda>i. J i \<and> Conditions (opStatus i) \<noteq> []"]])
     (auto simp: J_timed inv_def ready_def)

lemma ready_logM:
  "(\<And>clk st. IsDone (fst (f clk st)) = IsDone st) \<Longrightarrow>
   (\<And>clk st. CompletionTime (fst (f clk st)) = CompletionTime st) \<Longrightarrow>
   (\<And>clk st. Conditions (fst (f clk st)) \<noteq> []) \<Longrightarrow> hoare (inv J C) (logM api f) (ready J C)"
  by (rule hoare_conseq [OF hoare_logM [where J = J and C = C and J' = "\<lambda>i. J i \<and> Conditions (opStatus i) \<noteq> []"]])
     (auto simp: J_same inv_def ready_def)

lemma ready_log_true:
  "(\<And>clk st. IsDone (fst (f clk st)) = IsDone st) \<Longrightarrow>
   (\<And>clk st. CompletionTime (fst (f clk st)) = CompletionTime st) \<Longrightarrow>
   (\<And>clk st. Conditions (fst (f clk st)) \<noteq> []) \<Longrightarrow>
   hoare (inv J C) (logM api f) (\<lambda>_. ready J C True)"
  by (rule hoare_conseq [OF hoare_logM [where J = J and C = C and J' = "\<lambda>i. J i \<and> Conditions (opStatus i) \<noteq> []"]])
     (auto simp: J_same inv_def ready_def)

lemma ready_pass:
  assumes "hoare (inv J C) m (ready J C)"
  shows "hoare (ready J C r) (if r then ret True else m) (ready J C)"
  using assms by (cases r) (auto simp: hoare_def wp_simps inv_def ready_def)

lemma ready_mark:
  "hoare (inv J C) (logM api (\<lambda>clk st. MarkJobAsDeleted t clk st kind False)) (ready J C)"
  by (rule hoare_conseq [OF hoare_logM [where J = J and C = C and J' = "\<lambda>i. J i \<and> Conditions (opStatus i) \<noteq> []"]])
     (auto simp: MarkJobAsDeleted_eq J_timed inv_def ready_def status.log_not_empty)

lemma publish_true:
  assumes "serves J api" "status_echo api"
  shows "hoare (ready J C True) (publishStatus api) (\<lambda>_. inv J C)"
  using hoare_publishStatus [OF assms, of C] by (simp add: ready_def J_sent C_simps)

lemma publish_ready:
  assumes "serves J api" "status_echo api"
  shows "hoare (ready J C r) (if r then publishStatus api else ret None) (\<lambda>_. inv J C)"
  using publish_true [OF assms] by (cases r) (auto simp: hoare_ret ready_def)

end

section \<open>Deleted runtimes\<close>

text \<open>What is published of a job that is gone: stopped, with the reason and a completion time.\<close>

definition stoppedAsDeleted :: "OperationStatus \<Rightarrow> bool" where
  "stoppedAsDeleted st \<longleftrightarrow> IsStopped st \<and> CompletionTime st \<noteq> None \<and> Conditions st \<noteq> [] \<and>
     cReason (last (Conditions st)) = ''JobDeleted''"

lemma MarkJobAsDeleted_stopped:
  "stoppedAsDeleted (fst (MarkJobAsDeleted t clk st kind False))"
proof -
  let ?L = "logCondition clk st OperationStopped ''JobDeleted'' (deletedMessage kind)"
  have ch: "snd ?L" by (rule logCondition_final) simp
  then have "holds OperationStopped (Conditions (fst ?L))" by (simp only: status.log_holds) simp
  moreover have "cReason (last (Conditions (fst ?L))) = ''JobDeleted''"
    using ch by (simp add: logCondition_cases split: if_splits)
  ultimately show ?thesis
    by (simp add: stoppedAsDeleted_def MarkJobAsDeleted_eq IsStopped_def hasOperationCondition_holds
        status.log_not_empty)
qed

section \<open>Owners\<close>

text \<open>What \<open>metav1.GetControllerOf\<close> documents: the owner reference marked as the controller.\<close>

definition controllerOf_law :: "(OwnerReference list \<Rightarrow> OwnerReference option) \<Rightarrow> bool" where
  "controllerOf_law g \<longleftrightarrow> (\<forall>refs. g refs = List.find (\<lambda>r. orController r = Some True) refs)"

section \<open>A concrete environment\<close>

text \<open>An API server that serves one operation and accepts every write, a clock that advances by one at
  each reading, and an SDK that always succeeds: the hypotheses on the environment hold together.\<close>

definition fixedApi ::
  "(string \<Rightarrow> string option) \<Rightarrow> 'a operation_scheme \<Rightarrow> 'm \<Rightarrow> ('a operation_scheme, int, 'm) api_scheme"
where
  "fixedApi env i ext =
     \<lparr>osEnv = env, timeNow = (\<lambda>w. (w, w + 1)), getInstance = (\<lambda>k w. (Inr i, w)),
      updateInstance = (\<lambda>i w. (Inr i, w)), updateInstanceStatus = (\<lambda>i w. (Inr i, w)),
      deleteInstance = (\<lambda>i w. (None, w)), listPods = (\<lambda>ns sel w. (([], None), w)),
      containsFinalizer = (\<lambda>fs f. f \<in> set fs),
      addFinalizer = (\<lambda>fs f. if f \<in> set fs then fs else fs @ [f]),
      removeFinalizer = (\<lambda>fs f. filter (\<lambda>g. g \<noteq> f) fs),
      createRunStatus = (\<lambda>r w. (None, w)), collectRunLogs = (\<lambda>r w. (None, w)), \<dots> = ext\<rparr>"

definition fixedObjs :: "'o option \<Rightarrow> error option \<Rightarrow> ('i, 'o, 'w) objApi" where
  "fixedObjs found createErr =
     \<lparr>oGet = (\<lambda>k w. (case found of None \<Rightarrow> Inl (NotFound ''not found'') | Some obj \<Rightarrow> Inr obj, w)),
      oCreate = (\<lambda>obj w. (createErr, w)), oUpdate = (\<lambda>obj w. (Inr obj, w)),
      setControllerReference = (\<lambda>i obj. Inr obj)\<rparr>"

lemma fixedApi_laws [simp]:
  "finalizer_laws (fixedApi env i m)" "status_echo (fixedApi env i m)" "writesStatusOnly (fixedApi env i m)"
  "J i \<Longrightarrow> serves J (fixedApi env i m)"
  by (auto simp: finalizer_laws_def status_echo_def writesStatusOnly_def serves_def statusKept_def fixedApi_def)

definition startPass :: "'i \<Rightarrow> (int \<Rightarrow> ('i, int) pass)" where
  "startPass i t = \<lparr>inst = i, world = t, calls = []\<rparr>"

section \<open>Deadlines\<close>

lemma timeSub_expiry:
  assumes "\<not> a \<le> timeSub t t0" "int64_range a"
  shows "0 < timeSub (timeAdd t0 a) t"
  using assms unfolding timeSub_def timeAdd_def int64_range_def by (auto simp: min_def max_def split: if_splits)

lemma secondsDuration_range: "int64_range (secondsDuration n)"
  by (simp add: secondsDuration_def wrap64_range)

lemma LogStopped_stopped: "IsStopped (fst (LogStopped clk st r m))"
  using logCondition_final [of OperationStopped clk st r m]
  by (simp add: IsStopped_def hasOperationCondition_holds log_methods status.log_holds)

lemma wp_stopAtDeadline:
  assumes echo: "status_echo api"
    and fail: "\<And>st e t. IsStopped st \<Longrightarrow> CompletionTime st = CompletionTime (opStatus (inst s)) \<Longrightarrow>
      calls t = calls s @ [CStatusUpdate st (Some e)] \<Longrightarrow> Q (Returns (None, Some e)) t"
    and ok: "\<And>st report err t. IsStopped st \<Longrightarrow> CompletionTime st = CompletionTime (opStatus (inst s)) \<Longrightarrow>
      reportOnly report \<Longrightarrow> calls t = calls s @ CStatusUpdate st None # report @ [CDelete err] \<Longrightarrow> Q (Returns (None, err)) t"
  shows "wp (stopAtDeadline api) Q s"
proof -
  have pub: "wp (publishStatus api) (\<lambda>r t. case r of
        Returns statusErr \<Rightarrow> wp (case statusErr of Some e \<Rightarrow> ret (None, Some e)
          | None \<Rightarrow> bindG (deleteOp api) (\<lambda>err. ret (None, err))) Q t
      | Panics p \<Rightarrow> Q (Panics p) t) u"
    if u: "inst u = (inst s)\<lparr>opStatus := fst (LogStopped clk (opStatus (inst s)) r m)\<rparr>" "calls u = calls s"
    for u clk r m
  proof -
    let ?st = "fst (LogStopped clk (opStatus (inst s)) r m)"
    have st: "IsStopped ?st" "CompletionTime ?st = CompletionTime (opStatus (inst s))" "Conditions ?st \<noteq> []"
      by (rule LogStopped_stopped) (simp_all add: log_methods status.log_not_empty)
    have kept: "Conditions (opStatus j) \<noteq> []" if "updateInstanceStatus api (inst u) w = (Inr j, w')" for j w w'
      using statusKept_conditions [OF status_echoD(2) [OF echo that]] st(3) u(1) by simp
    show ?thesis
      by (rule wp_publishStatus_exact)
         (auto simp: wp_simps wp_deleteOp u kept split: prod.split intro: fail [OF st(1,2)] ok [OF st(1,2)])
  qed
  show ?thesis
    unfolding stopAtDeadline_def wp_bindG
    by (rule wp_logM) (simp add: wp_simps pub)
qed

text \<open>A deadline beyond the largest duration. The product of nanoseconds wraps, and as far as it wraps only once the
  result is negative.\<close>

lemma secondsDuration_overflows:
  assumes "9223372037 \<le> n" "n \<le> 18446744073"
  shows "secondsDuration n < 0"
proof -
  have "(1000000000 * n + 2 ^ 63) mod 2 ^ 64 = (1000000000 * n + 2 ^ 63 - 2 ^ 64) mod 2 ^ 64"
    by (rule minus_mod_self2 [symmetric])
  also have "\<dots> = 1000000000 * n + 2 ^ 63 - 2 ^ 64"
    using assms by (intro mod_pos_pos_trivial) simp_all
  finally show ?thesis using assms by (simp add: secondsDuration_def wrap64_def)
qed

text \<open>What the service and cluster controllers do at the deadline with an operation of status \<open>st\<^sub>0\<close>: result and calls.\<close>

definition stoppedAtDeadline ::
  "OperationStatus \<Rightarrow> (duration option \<times> error option) outcome \<Rightarrow> call list \<Rightarrow> bool"
where
  "stoppedAtDeadline st\<^sub>0 r new \<longleftrightarrow>
     (\<exists>st. IsStopped st \<and> CompletionTime st = CompletionTime st\<^sub>0 \<and>
        ((\<exists>e. new = [CStatusUpdate st (Some e)] \<and> r = Returns (None, Some e)) \<or>
         (\<exists>report err. reportOnly report \<and> new = CStatusUpdate st None # report @ [CDelete err] \<and> r = Returns (None, err))))"


section \<open>Witnesses\<close>

definition demoOp :: "string list \<Rightarrow> operation" where
  "demoOp finalizers =
     \<lparr>opName = ''run'', opNamespace = ''ns'', opLabels = [(''app.kubernetes.io/instance'', ''uuid'')],
      opAnnotations = [(''operation.polyaxon.com/owner'', ''me''), (''operation.polyaxon.com/project'', ''p'')],
      opFinalizers = finalizers, opDeletionTimestamp = Some 5,
      opTermination = \<lparr>BackoffLimit = NilPtr, ActiveDeadlineSeconds = NilPtr,
         TTLSecondsAfterFinished = NilPtr, Culling = None, Probe = None, PodFailurePolicy = None\<rparr>,
      opCollectLogs = True, opSyncStatuses = True, opStatus = emptyStatus\<rparr>"


theorem handleFinalizers_protocol_witness:
  "let fs = [OperationLogsFinalizer, OperationStatusFinalizer]; api = fixedApi (\<lambda>_. None) (demoOp fs) ();
       s = startPass (demoOp fs) 10
   in wp (handleFinalizers api)
    (\<lambda>r t. \<exists>report new. calls t = calls s @ report @ new \<and> list_all isStopReport report \<and>
       length report = 1 \<and> finalizerStep True fs r new) s"
proof -
  let ?fs = "[OperationLogsFinalizer, OperationStatusFinalizer]"
  let ?api = "fixedApi (\<lambda>_. None) (demoOp ?fs) ()"
  have info: "mustReport ?api (demoOp ?fs)" "mustCollect ?api (demoOp ?fs)"
    by (simp_all add: mustReport_def mustCollect_def fixedApi_def demoOp_def GetBoolEnv_def getInstanceInfo_def
        nonEmpty_def)
  have "\<not> IsDone (opStatus (demoOp ?fs))" "opFinalizers (demoOp ?fs) = ?fs"
    by (simp_all add: demoOp_def emptyStatus_def IsDone_holds holds_def)
  then show ?thesis
    using handleFinalizers_protocol [OF fixedApi_laws(1), of "\<lambda>_. None" "demoOp ?fs" "()" "startPass (demoOp ?fs) 10"]
      info by (simp add: Let_def startPass_def)
qed

end
