(* ===== verification/Release.thy ===== *)
theory Release
  imports Reconcile
begin

text \<open>
  What becomes of an operation over several passes: the handlers of \<^verbatim>\<open>finalizer.go\<close> and \<^verbatim>\<open>cleanup.go\<close> against an API
  server that stores the operation.

  \<open>stores\<close> is what Kubernetes documents of an object with finalizers, when nobody else writes it: an update keeps the
  status and the deletion time, a delete marks the object as long as it has finalizers, and a marked object
  disappears with its last finalizer. The lemmas are proved once in \<open>op_controller\<close>; the controllers' own theorems
  follow through its interpretations.
\<close>

section \<open>A server that stores the operation\<close>

definition settle :: "'a operation_scheme \<Rightarrow> 'a operation_scheme option" where
  "settle i = (if IsOperationBeingDeleted i \<and> opFinalizers i = [] then None else Some i)"

text \<open>The clock does not go back.\<close>

definition ticks :: "('i, 'w, 'm) api_scheme \<Rightarrow> 'w \<Rightarrow> 'w \<Rightarrow> bool" where
  "ticks api w w' \<longleftrightarrow> fst (timeNow api w) \<le> fst (timeNow api w')"

definition stores ::
  "('a operation_scheme, 'w, 'm) api_scheme \<Rightarrow> key \<Rightarrow> ('w \<Rightarrow> 'a operation_scheme option) \<Rightarrow> bool"
where
  "stores api req stored \<longleftrightarrow>
     (\<forall>w. \<exists>m w'. ticks api w w' \<and> stored w' = stored w \<and>
        getInstance api req w = (case stored w of None \<Rightarrow> Inl (NotFound m) | Some i \<Rightarrow> Inr i, w')) \<and>
     (\<forall>w i j. stored w = Some j \<longrightarrow> (\<exists>w'. ticks api w w' \<and>
        (let k = i\<lparr>opStatus := opStatus j, opDeletionTimestamp := opDeletionTimestamp j\<rparr>
         in updateInstance api i w = (Inr k, w') \<and> stored w' = settle k))) \<and>
     (\<forall>w i j. stored w = Some j \<longrightarrow> (\<exists>w'. deleteInstance api i w = (None, w') \<and>
        (if IsOperationBeingDeleted j then stored w' = Some j
         else \<exists>t. t \<noteq> 0 \<and> stored w' = settle (j\<lparr>opDeletionTimestamp := Some t\<rparr>)))) \<and>
     (\<forall>w. ticks api w (snd (timeNow api w)) \<and> stored (snd (timeNow api w)) = stored w) \<and>
     (\<forall>w r. ticks api w (snd (createRunStatus api r w)) \<and> stored (snd (createRunStatus api r w)) = stored w) \<and>
     (\<forall>w r. ticks api w (snd (collectRunLogs api r w)) \<and> stored (snd (collectRunLogs api r w)) = stored w)"

text \<open>A server that stores the operation and refuses to delete it.\<close>

definition refusesDelete ::
  "('a operation_scheme, 'w, 'm) api_scheme \<Rightarrow> key \<Rightarrow> ('w \<Rightarrow> 'a operation_scheme option) \<Rightarrow> bool"
where
  "refusesDelete api req stored \<longleftrightarrow>
     (\<forall>w i. stored w = Some i \<longrightarrow> (\<exists>w'. getInstance api req w = (Inr i, w') \<and> stored w' = Some i)) \<and>
     (\<forall>w i st. stored w = Some i \<longrightarrow> (\<exists>w'.
        updateInstanceStatus api (i\<lparr>opStatus := st\<rparr>) w = (Inr (i\<lparr>opStatus := st\<rparr>), w') \<and> stored w' = Some (i\<lparr>opStatus := st\<rparr>))) \<and>
     (\<forall>w i. \<exists>e w'. deleteInstance api i w = (Some e, w') \<and> stored w' = stored w) \<and>
     (\<forall>w. stored (snd (timeNow api w)) = stored w) \<and>
     (\<forall>w r. stored (snd (createRunStatus api r w)) = stored w)"

text \<open>An SDK whose collection of logs never fails, or only in ways that the operator ignores.\<close>

definition collects :: "('i, 'w, 'm) api_scheme \<Rightarrow> bool" where
  "collects api \<longleftrightarrow> (\<forall>r w. fst (collectRunLogs api r w) \<in> {None, Some CollectRunLogsNotFound, Some CollectRunLogsForbidden})"

text \<open>An operation whose time to live is over at some time, if it has one.\<close>

definition expired :: "time \<Rightarrow> 'a operation_scheme \<Rightarrow> bool" where
  "expired x i \<longleftrightarrow>
     (case deref (TTLSecondsAfterFinished (opTermination i)) of
        None \<Rightarrow> True
      | Some n \<Rightarrow> (case CompletionTime (opStatus i) of None \<Rightarrow> False | Some t \<Rightarrow> t + 1000000000 * sint n < x))"

text \<open>An operation that is being deleted, or is done and past its time to live, on such a server.\<close>

definition releasable ::
  "('a operation_scheme, 'w, 'm) api_scheme \<Rightarrow> key \<Rightarrow> ('w \<Rightarrow> 'a operation_scheme option) \<Rightarrow> 'a operation_scheme \<Rightarrow>
   ('a operation_scheme, 'w) pass \<Rightarrow> bool"
where
  "releasable api req stored i s \<longleftrightarrow>
     stores api req stored \<and> finalizer_laws api \<and> collects api \<and>
     stored (world s) = Some i \<and> StartTime (opStatus i) \<noteq> None \<and>
     (IsOperationBeingDeleted i \<and> opFinalizers i \<noteq> [] \<or>
      \<not> IsOperationBeingDeleted i \<and> IsDone (opStatus i) \<and> expired (fst (timeNow api (world s))) i)"

text \<open>Two passes in a row return without an error, and leave nothing of the operation but the finalizers of others.\<close>

definition released ::
  "('w \<Rightarrow> 'a operation_scheme option) \<Rightarrow> 'a operation_scheme \<Rightarrow>
   (('a operation_scheme, 'w) pass, ctrlResult \<times> error option) go \<Rightarrow> ('a operation_scheme, 'w) pass \<Rightarrow> bool"
where
  "released stored i pass s \<longleftrightarrow>
     fst (pass s) = Returns (noRequeue, None) \<and> fst (pass (snd (pass s))) = Returns (noRequeue, None) \<and>
     (case stored (world (snd (pass (snd (pass s))))) of
        None \<Rightarrow> set (opFinalizers i) \<subseteq> {OperationLogsFinalizer, OperationStatusFinalizer}
      | Some j \<Rightarrow> IsOperationBeingDeleted j \<and> opFinalizers j \<noteq> [] \<and>
          set (opFinalizers j) = set (opFinalizers i) - {OperationLogsFinalizer, OperationStatusFinalizer})"

lemma settle_eq: "opFinalizers i \<noteq> [] \<Longrightarrow> settle i = Some i" "\<not> IsOperationBeingDeleted i \<Longrightarrow> settle i = Some i"
  by (auto simp: settle_def)

text \<open>The state between two calls of a pass: the instance in memory is the stored one, and it is not earlier than \<open>x\<close>.\<close>

abbreviation inSync :: "('i, 'w, 'm) api_scheme \<Rightarrow> ('w \<Rightarrow> 'i option) \<Rightarrow> time \<Rightarrow> 'i \<Rightarrow> ('i, 'w) pass \<Rightarrow> bool" where
  "inSync api stored x i s \<equiv> stored (world s) = Some i \<and> inst s = i \<and> x \<le> fst (timeNow api (world s))"

lemma storesD:
  assumes "stores api req stored"
  shows "stored w = Some i \<Longrightarrow> \<exists>w'. stored w' = Some i \<and> ticks api w w' \<and> getInstance api req w = (Inr i, w')"
    and "stored w = None \<Longrightarrow> \<exists>m w'. stored w' = None \<and> getInstance api req w = (Inl (NotFound m), w')"
    and "stored w = Some j \<Longrightarrow> opStatus i = opStatus j \<Longrightarrow> opDeletionTimestamp i = opDeletionTimestamp j \<Longrightarrow>
      \<exists>w'. updateInstance api i w = (Inr i, w') \<and> stored w' = settle i \<and> ticks api w w'"
    and "stored w = Some j \<Longrightarrow> \<not> IsOperationBeingDeleted j \<Longrightarrow>
      \<exists>w' t. deleteInstance api i w = (None, w') \<and> t \<noteq> 0 \<and> stored w' = settle (j\<lparr>opDeletionTimestamp := Some t\<rparr>)"
    and "stored (snd (timeNow api w)) = stored w" "stored (snd (createRunStatus api r w)) = stored w"
      "stored (snd (collectRunLogs api r w)) = stored w"
    and "ticks api w (snd (timeNow api w))" "ticks api w (snd (createRunStatus api r w))"
      "ticks api w (snd (collectRunLogs api r w))"
proof -
  have same: "i\<lparr>opStatus := opStatus j, opDeletionTimestamp := opDeletionTimestamp j\<rparr> = i"
    if "opStatus i = opStatus j" "opDeletionTimestamp i = opDeletionTimestamp j" for i j :: "'a operation_scheme"
    using that by (cases i) simp
  have get: "\<exists>m w'. ticks api w w' \<and> stored w' = stored w \<and>
      getInstance api req w = (case stored w of None \<Rightarrow> Inl (NotFound m) | Some i \<Rightarrow> Inr i, w')"
    and upd: "stored w = Some j \<Longrightarrow> \<exists>w'. ticks api w w' \<and>
        (let k = i\<lparr>opStatus := opStatus j, opDeletionTimestamp := opDeletionTimestamp j\<rparr>
         in updateInstance api i w = (Inr k, w') \<and> stored w' = settle k)"
    and del: "stored w = Some j \<Longrightarrow> \<exists>w'. deleteInstance api i w = (None, w') \<and>
        (if IsOperationBeingDeleted j then stored w' = Some j
         else \<exists>t. t \<noteq> 0 \<and> stored w' = settle (j\<lparr>opDeletionTimestamp := Some t\<rparr>))" for w i j
    using assms unfolding stores_def by blast+
  show "stored w = Some i \<Longrightarrow> \<exists>w'. stored w' = Some i \<and> ticks api w w' \<and> getInstance api req w = (Inr i, w')"
    "stored w = None \<Longrightarrow> \<exists>m w'. stored w' = None \<and> getInstance api req w = (Inl (NotFound m), w')"
    using get [of w] by auto
  show "stored w = Some j \<Longrightarrow> opStatus i = opStatus j \<Longrightarrow> opDeletionTimestamp i = opDeletionTimestamp j \<Longrightarrow>
      \<exists>w'. updateInstance api i w = (Inr i, w') \<and> stored w' = settle i \<and> ticks api w w'"
    using upd [of w j i] same [of i j] by (auto simp: Let_def)
  show "stored w = Some j \<Longrightarrow> \<not> IsOperationBeingDeleted j \<Longrightarrow>
      \<exists>w' t. deleteInstance api i w = (None, w') \<and> t \<noteq> 0 \<and> stored w' = settle (j\<lparr>opDeletionTimestamp := Some t\<rparr>)"
    using del [of w j i] by auto
  show "stored (snd (timeNow api w)) = stored w" "stored (snd (createRunStatus api r w)) = stored w"
    "stored (snd (collectRunLogs api r w)) = stored w" "ticks api w (snd (timeNow api w))"
    "ticks api w (snd (createRunStatus api r w))" "ticks api w (snd (collectRunLogs api r w))"
    using assms unfolding stores_def by blast+
qed

text \<open>A call that keeps the stored operation and lets time pass keeps a pass in sync.\<close>

lemma wp_external_sync:
  assumes "\<And>w. stored (snd (f w)) = stored w" "\<And>w. ticks api w (snd (f w))" "inSync api stored x i s"
    and "\<And>t. inSync api stored x i t \<Longrightarrow> Q (Returns (fst (f (world s)))) t"
  shows "wp (external f) Q s"
  using assms(3) assms(1) [of "world s"] assms(2) [of "world s"] assms(4) [of "s\<lparr>world := snd (f (world s))\<rparr>"]
  by (simp add: wp_external case_prod_beta ticks_def)

section \<open>One release\<close>

definition nextFinalizers :: "('i, 'w, 'm) api_scheme \<Rightarrow> string list \<Rightarrow> string list" where
  "nextFinalizers api fs =
     (if OperationLogsFinalizer \<in> set fs then removeFinalizer api fs OperationLogsFinalizer
      else if OperationStatusFinalizer \<in> set fs then removeFinalizer api fs OperationStatusFinalizer
      else fs)"

lemma set_nextFinalizers:
  "finalizer_laws api \<Longrightarrow> set (nextFinalizers api fs) =
     (if OperationLogsFinalizer \<in> set fs then set fs - {OperationLogsFinalizer} else set fs - {OperationStatusFinalizer})"
  by (auto simp: nextFinalizers_def finalizer_laws_def)

lemma wp_syncStatus_sync:
  assumes st: "stores api req stored" and s: "inSync api stored x i s"
  shows "wp (syncStatus api c) (\<lambda>r t. inSync api stored x i t \<and> (\<exists>e. r = Returns e)) s"
proof -
  let ?f = "LogPolyaxonRunStatus (createRunStatus api) (osEnv api)"
  have sdk: "stored (snd (?f owner project uuid c w)) = stored w" "ticks api w (snd (?f owner project uuid c w))"
    for owner project uuid w
    using storesD(6,9) [OF st] by (simp_all add: LogPolyaxonRunStatus_def case_prod_beta)
  show ?thesis
    unfolding syncStatus_def using s
    by (auto simp: wp_bindG wp_readS wp_if wp_ret wp_case_option wp_logCall split: option.split prod.split
        intro!: wp_external_sync [OF sdk s])
qed

lemma wp_reportStopped_sync:
  assumes st: "stores api req stored" and s: "inSync api stored x i s"
  shows "wp (reportStopped api) (\<lambda>r t. r = Returns () \<and> inSync api stored x i t) s"
proof -
  have now: "wp (now api) (\<lambda>r t. inSync api stored x i t \<and> (\<exists>e. r = Returns e)) u" if "inSync api stored x i u" for u
    unfolding now_def by (rule wp_external_sync [OF storesD(5,8) [OF st] that]) simp
  have "wp (newClock api) (\<lambda>r t. inSync api stored x i t \<and> (\<exists>e. r = Returns e)) s"
    unfolding newClock_def wp_bindG by (rule wp_mono [OF now [OF s]]) (auto simp: wp_ret intro!: wp_mono [OF now])
  then show ?thesis
    unfolding reportStopped_def using s
    by (auto simp: wp_bindG wp_readS wp_if wp_ret elim!: wp_mono intro!: wp_mono [OF wp_syncStatus_sync [OF st]])
qed

text \<open>A collection that answers the same each time.\<close>

lemma wp_collectLogs_sync:
  assumes st: "stores api req stored" and s: "inSync api stored x i s"
    and sdk: "\<And>r w. fst (collectRunLogs api r w) \<in> E"
    and E: "\<And>e. e \<in> E \<Longrightarrow> (if e \<in> {Some CollectRunLogsNotFound, Some CollectRunLogsForbidden} then None else e) = err"
    and skip: "mustCollect api i \<or> err = None"
  shows "wp (collectLogs api) (\<lambda>r t. r = Returns err \<and> inSync api stored x i t) s"
proof -
  let ?f = "collectObserved api"
  have sdk: "stored (snd (?f ns owner project uuid kind w)) = stored w" "ticks api w (snd (?f ns owner project uuid kind w))"
    "fst (fst (?f ns owner project uuid kind w)) = err" for ns owner project uuid kind w
    using storesD(7,10) [OF st] E [OF sdk [of "collectLogsRequest (osEnv api) ns owner project uuid kind" w]]
    by (auto simp: collectObserved_eq takenAsCollected_def case_prod_beta Let_def split: if_splits)
  have collect: "wp (bindG (external (?f ns owner project uuid kind)) (\<lambda>(err, answer).
      bindG (logCall (CCollectLogs answer)) (\<lambda>_. ret err))) (\<lambda>r t. r = Returns err \<and> inSync api stored x i t) s"
    for ns owner project uuid kind
    unfolding wp_bindG [of "external g" for g]
    by (rule wp_external_sync [OF sdk(1,2) s]) (simp add: case_prod_beta wp_bindG wp_ret wp_logCall sdk(3))
  have i: "inst s = i" using s by simp
  show ?thesis
    unfolding collectLogs_def wp_bindG [of "readS inst"] wp_readS i
    using s skip collect by (auto simp: wp_if wp_ret wp_case_option mustCollect_def i split: option.split prod.split)
qed

lemma wp_dropFinalizer_sync:
  assumes st: "stores api req stored" and s: "inSync api stored x i s"
  shows "wp (bindG (setFinalizers f) (\<lambda>_. clientUpdate api))
    (\<lambda>r t. r = Returns None \<and> inst t = i\<lparr>opFinalizers := f (opFinalizers i)\<rparr> \<and>
       stored (world t) = settle (i\<lparr>opFinalizers := f (opFinalizers i)\<rparr>) \<and> x \<le> fst (timeNow api (world t))) s"
  using storesD(3) [OF st, of "world s" i "i\<lparr>opFinalizers := f (opFinalizers i)\<rparr>"] s
  by (auto simp: wp_simps wp_clientUpdate ticks_def)

lemma wp_handleFinalizers_sync:
  assumes st: "stores api req stored" and laws: "finalizer_laws api" "collects api" and s: "inSync api stored x i s"
    and i: "IsOperationBeingDeleted i \<Longrightarrow> opFinalizers i \<noteq> []"
  defines "j \<equiv> i\<lparr>opFinalizers := nextFinalizers api (opFinalizers i)\<rparr>"
  shows "wp (handleFinalizers api)
    (\<lambda>r t. r = Returns None \<and> inst t = j \<and> stored (world t) = settle j \<and> x \<le> fst (timeNow api (world t))) s"
proof -
  let ?Q = "\<lambda>r t. r = Returns None \<and> inst t = j \<and> stored (world t) = settle j \<and> x \<le> fst (timeNow api (world t))"
  have same: "i\<lparr>opFinalizers := opFinalizers i\<rparr> = i" by (cases i) simp
  have kept: "settle i = Some i" using i by (auto simp: settle_def)
  have drop: "wp (bindG (setFinalizers f) (\<lambda>_. clientUpdate api)) ?Q u"
    if "inSync api stored x i u" "nextFinalizers api (opFinalizers i) = f (opFinalizers i)" for u f
    using wp_dropFinalizer_sync [OF st that(1), of f] that(2) by (simp add: j_def)
  have contains: "containsFinalizer api fs f \<longleftrightarrow> f \<in> set fs" for fs f
    using laws(1) by (simp add: finalizer_laws_def)
  have collect: "wp (collectLogs api) (\<lambda>r t. r = Returns None \<and> inSync api stored x i t) u" if "inSync api stored x i u" for u
    by (rule wp_collectLogs_sync [OF st that, where E = "{None, Some CollectRunLogsNotFound, Some CollectRunLogsForbidden}"])
       (use laws(2) in \<open>auto simp: collects_def\<close>)
  have "wp (releaseFinalizer api) ?Q u" if u: "inSync api stored x i u" for u
  proof (cases "OperationLogsFinalizer \<in> set (opFinalizers i)")
    case True
    have rest: "wp (bindG (setFinalizers (\<lambda>fs. removeFinalizer api fs OperationLogsFinalizer)) (\<lambda>_. clientUpdate api)) ?Q t"
      if "inSync api stored x i t" for t
      by (rule drop [OF that]) (simp add: nextFinalizers_def True)
    have "wp (bindG (collectLogs api) (\<lambda>err. if err \<noteq> None then ret None
        else bindG (setFinalizers (\<lambda>fs. removeFinalizer api fs OperationLogsFinalizer)) (\<lambda>_. clientUpdate api))) ?Q u"
      unfolding wp_bindG [of "collectLogs api"] by (rule wp_mono [OF collect [OF u]]) (simp add: rest)
    with True u show ?thesis
      by (simp add: releaseFinalizer_def wp_bindG [of "hasFinalizer api f" for f] wp_hasFinalizer contains)
  next
    case False
    with u show ?thesis
      using drop [OF u, of "\<lambda>fs. removeFinalizer api fs OperationStatusFinalizer"]
      by (cases "OperationStatusFinalizer \<in> set (opFinalizers i)")
         (simp_all add: releaseFinalizer_def wp_bindG [of "hasFinalizer api f" for f] wp_hasFinalizer contains
            wp_ret nextFinalizers_def same kept j_def)
  qed
  then show ?thesis
    unfolding handleFinalizers_def wp_bindG
    by (auto intro!: wp_mono [OF wp_reportStopped_sync [OF st s]])
qed

section \<open>Passes\<close>

text \<open>Cleaning up an expired operation deletes it.\<close>

lemma wp_handleTTL_sync:
  assumes st: "stores api req stored" and s: "inSync api stored x i s" and i: "expired x i" "\<not> IsOperationBeingDeleted i"
  shows "wp (handleTTL api) (\<lambda>r t. r = Returns (noRequeue, None) \<and>
    (\<exists>d. d \<noteq> 0 \<and> stored (world t) = settle (i\<lparr>opDeletionTimestamp := Some d\<rparr>))) s"
proof -
  obtain t w where now: "timeNow api (world s) = (t, w)" by fastforce
  have w: "stored w = Some i" using storesD(5) [OF st, of "world s"] s now by simp
  obtain w' d where "deleteInstance api i w = (None, w')" "d \<noteq> 0" "stored w' = settle (i\<lparr>opDeletionTimestamp := Some d\<rparr>)"
    using storesD(4) [OF st w i(2), of i] by blast
  then show ?thesis
    using s i(1) now by (auto simp: wp_def handleTTL_eq expired_def Let_def split: option.splits)
qed

section \<open>A deletion that is refused\<close>

lemma refusesDeleteD:
  assumes "refusesDelete api req stored"
  shows "stored w = Some i \<Longrightarrow> \<exists>w'. getInstance api req w = (Inr i, w') \<and> stored w' = Some i"
    and "stored w = Some i \<Longrightarrow> \<exists>w'.
      updateInstanceStatus api (i\<lparr>opStatus := st\<rparr>) w = (Inr (i\<lparr>opStatus := st\<rparr>), w') \<and> stored w' = Some (i\<lparr>opStatus := st\<rparr>)"
    and "\<exists>e w'. deleteInstance api i w = (Some e, w') \<and> stored w' = stored w"
    and "stored (snd (timeNow api w)) = stored w"
    and "stored (snd (createRunStatus api r w)) = stored w"
  using assms unfolding refusesDelete_def by blast+

text \<open>At the deadline the operation is stopped, and the error of the deletion is returned.\<close>

lemma wp_stopAtDeadline_refused:
  assumes ref: "refusesDelete api req stored" and s: "stored (world s) = Some (inst s)"
  shows "wp (stopAtDeadline api) (\<lambda>r t. (\<exists>e. r = Returns (None, Some e)) \<and> IsStopped (opStatus (inst t)) \<and>
    inst t = (inst s)\<lparr>opStatus := opStatus (inst t)\<rparr> \<and> StartTime (opStatus (inst t)) = StartTime (opStatus (inst s)) \<and>
    CompletionTime (opStatus (inst t)) = CompletionTime (opStatus (inst s)) \<and> stored (world t) = Some (inst t)) s"
proof -
  let ?i = "\<lambda>clk. (inst s)\<lparr>opStatus := fst (LogStopped clk (opStatus (inst s)) deadlineReason deadlineMessage)\<rparr>"
  let ?Q = "\<lambda>r t. (\<exists>e. r = Returns (None, Some e)) \<and> inst t \<in> range ?i \<and> stored (world t) = Some (inst t)"
  have now: "stored w' = stored w" if "timeNow api w = (t, w')" for t w w'
    using refusesDeleteD(4) [OF ref, of w] that by simp
  have report: "stored w' = stored w" if "LogPolyaxonRunStatus (createRunStatus api) env owner project uuid c w = (e, w')"
    for env owner project uuid c w e w'
    using refusesDeleteD(5) [OF ref, of "runStatusRequest env owner project uuid c" w] that
    by (auto simp: LogPolyaxonRunStatus_def split: prod.splits if_splits)
  have some: "Conditions (opStatus (?i clk)) \<noteq> []" for clk by (simp add: log_methods status.log_not_empty)
  have del: "wp (bindG (deleteOp api) (\<lambda>err. ret (None, err))) ?Q u"
    if "inst u \<in> range ?i" "stored (world u) = Some (inst u)" for u
    using refusesDeleteD(3) [OF ref, of "inst u" "world u"] that(2) by (auto simp: wp_bindG wp_deleteOp wp_ret that(1))
  have sync: "wp (instanceSyncStatus api) (\<lambda>r t. (\<exists>e. r = Returns e) \<and> inst t = ?i clk \<and> stored (world t) = Some (?i clk)) u"
    if "inst u = ?i clk" "stored (world u) = Some (?i clk)" for u clk
    using that some [of clk]
    by (auto simp: instanceSyncStatus_def syncStatus_def wp_simps split: option.split prod.split dest!: report)
  have pub: "wp (bindG (publishStatus api) (\<lambda>statusErr. case statusErr of Some e \<Rightarrow> ret (None, Some e)
          | None \<Rightarrow> bindG (deleteOp api) (\<lambda>err. ret (None, err)))) ?Q u"
    if "inst u = ?i clk" "stored (world u) = Some (inst s)" for u clk
    using refusesDeleteD(2) [OF ref that(2), of "opStatus (?i clk)"] that(1)
    by (auto simp: wp_bindG publishStatus_def wp_clientStatusUpdate wp_ret
        intro!: wp_mono [OF sync [of _ clk]] del [unfolded wp_bindG])
  have "wp (stopAtDeadline api) ?Q s"
    using s
    by (auto simp: stopAtDeadline_def wp_bindG [of "logM api f" for f] logM_def newClock_def wp_simps
        split: prod.split dest!: now intro!: pub [unfolded wp_bindG])
  then show ?thesis
    by (rule wp_mono) (auto simp: LogStopped_stopped [unfolded log_methods] log_methods)
qed

context op_controller
begin

text \<open>While the deletion is refused, an operation that is done and has nothing left to finalize meets the same
  cleanup in every pass.\<close>

lemma done_untimed_stuck:
  assumes laws: "finalizer_laws api" and ref: "refusesDelete api req stored"
    and i: "stored (world s) = Some i" "StartTime (opStatus i) \<noteq> None" "\<not> IsOperationBeingDeleted i" "IsDone (opStatus i)"
      "opFinalizers i = []"
    and clean: "\<And>t. inst t = i \<Longrightarrow> stored (world t) = Some i \<Longrightarrow> wp (cleanup api) (\<lambda>r u. r = Panics p \<and> stored (world u) = Some i) t"
  shows "wp (reconcilePass refetch cleanup runtime api req) (\<lambda>r u. r = Panics p \<and> stored (world u) = Some i) s"
proof -
  obtain w where w: "getInstance api req (world s) = (Inr i, w)" "stored w = Some i"
    using refusesDeleteD(1) [OF ref i(1)] by blast
  have fin: "wp (handleFinalizers api) (\<lambda>r t. r = Returns None \<and> inst t = i \<and> stored (world t) = Some i)
      (s\<lparr>world := w, inst := i\<rparr>)"
    using laws i(4,5) w(2)
    by (simp add: handleFinalizers_def reportStopped_def releaseFinalizer_def wp_simps finalizer_laws_def)
  show ?thesis
    unfolding pass_started [OF w(1) i(2)] reconcileInstance_def wp_bindG [of "readS inst"] wp_readS
    using i(3,4) by (simp add: wp_bindG [of "handleFinalizers api"]) (rule wp_mono [OF fin], auto simp: clean)
qed

text \<open>A pass over the stored operation starts in sync.\<close>

lemma pass_sync:
  assumes st: "stores api req stored" and i: "stored (world s) = Some i" "StartTime (opStatus i) \<noteq> None"
    and rest: "\<And>t. inSync api stored (fst (timeNow api (world s))) i t \<Longrightarrow>
      wp (reconcileInstance refetch cleanup runtime api req) Q t"
  shows "wp (reconcilePass refetch cleanup runtime api req) Q s"
proof -
  obtain w where w: "stored w = Some i" "ticks api (world s) w" "getInstance api req (world s) = (Inr i, w)"
    using storesD(1) [OF st i(1)] by blast
  then show ?thesis
    unfolding pass_started [OF w(3) i(2)] by (intro rest) (simp add: ticks_def)
qed

text \<open>One pass over an operation that is being deleted, and over one that is done.\<close>

lemma pass_deleting:
  assumes st: "stores api req stored" and laws: "finalizer_laws api" "collects api"
    and i: "stored (world s) = Some i" "StartTime (opStatus i) \<noteq> None" "IsOperationBeingDeleted i" "opFinalizers i \<noteq> []"
  shows "wp (reconcilePass refetch cleanup runtime api req)
    (\<lambda>r t. r = Returns (noRequeue, None) \<and>
       stored (world t) = settle (i\<lparr>opFinalizers := nextFinalizers api (opFinalizers i)\<rparr>)) s"
proof (rule pass_sync [OF st i(1,2)])
  fix t assume t: "inSync api stored (fst (timeNow api (world s))) i t"
  from wp_handleFinalizers_sync [OF st laws t i(4)]
  show "wp (reconcileInstance refetch cleanup runtime api req) (\<lambda>r t. r = Returns (noRequeue, None) \<and>
       stored (world t) = settle (i\<lparr>opFinalizers := nextFinalizers api (opFinalizers i)\<rparr>)) t"
    using i(3) t by (auto simp: reconcileInstance_def wp_bindG wp_readS wp_ret elim!: wp_mono)
qed

lemma pass_done:
  assumes st: "stores api req stored" and laws: "finalizer_laws api" "collects api"
    and i: "stored (world s) = Some i" "StartTime (opStatus i) \<noteq> None" "\<not> IsOperationBeingDeleted i"
      "IsDone (opStatus i)" "expired (fst (timeNow api (world s))) i"
    and clean: "\<And>s fs. inst s = i\<lparr>opFinalizers := fs\<rparr> \<Longrightarrow> cleanup api s = handleTTL api s"
  shows "wp (reconcilePass refetch cleanup runtime api req)
    (\<lambda>r t. r = Returns (noRequeue, None) \<and> (\<exists>d. d \<noteq> 0 \<and> stored (world t) =
       settle (i\<lparr>opFinalizers := nextFinalizers api (opFinalizers i), opDeletionTimestamp := Some d\<rparr>))) s"
proof (rule pass_sync [OF st i(1,2)])
  let ?x = "fst (timeNow api (world s))" and ?j = "i\<lparr>opFinalizers := nextFinalizers api (opFinalizers i)\<rparr>"
  let ?Q = "\<lambda>r t. r = Returns (noRequeue, None) \<and> (\<exists>d. d \<noteq> 0 \<and> stored (world t) = settle (?j\<lparr>opDeletionTimestamp := Some d\<rparr>))"
  fix t assume t: "inSync api stored ?x i t"
  have j: "\<not> IsOperationBeingDeleted ?j" "expired ?x ?j"
    using i(3,5) by (auto simp: IsOperationBeingDeleted_def expired_def split: option.splits)
  have clean': "wp (cleanup api) ?Q u"
    if "inst u = ?j" "stored (world u) = settle ?j" "?x \<le> fst (timeNow api (world u))" for u
  proof -
    have "wp (handleTTL api) ?Q u"
      using that j by (intro wp_handleTTL_sync [OF st]) (simp_all add: settle_eq)
    then show ?thesis by (simp add: wp_def clean [OF that(1)])
  qed
  have "wp (handleFinalizers api)
    (\<lambda>r t. r = Returns None \<and> inst t = ?j \<and> stored (world t) = settle ?j \<and> ?x \<le> fst (timeNow api (world t))) t"
    by (rule wp_handleFinalizers_sync [OF st laws t]) (simp add: i)
  with clean' show "wp (reconcileInstance refetch cleanup runtime api req) ?Q t"
    using i(3,4) t by (auto simp: reconcileInstance_def wp_bindG wp_readS wp_if elim!: wp_mono)
qed

lemma pass_gone:
  assumes st: "stores api req stored" and "stored (world s) = None"
  shows "wp (reconcilePass refetch cleanup runtime api req)
    (\<lambda>r t. r = Returns (noRequeue, None) \<and> stored (world t) = None \<and> calls t = calls s) s"
  using storesD(2) [OF assms]
  by (auto simp: reconcilePass_def clientGet_def wp_simps IgnoreNotFound_def)

text \<open>The first of two passes marks the operation and removes one finalizer.\<close>

lemma first_pass:
  fixes refetch
  assumes rel: "releasable api req stored i s"
    and clean: "\<And>s fs. inst s = i\<lparr>opFinalizers := fs\<rparr> \<Longrightarrow> cleanup api s = handleTTL api s"
  defines "pass \<equiv> reconcilePass refetch cleanup runtime api req"
  obtains d where "\<not> isZeroTime d" "fst (pass s) = Returns (noRequeue, None)"
    "stored (world (snd (pass s))) =
       settle (i\<lparr>opFinalizers := nextFinalizers api (opFinalizers i), opDeletionTimestamp := d\<rparr>)"
proof (cases "IsOperationBeingDeleted i")
  let ?fs = "nextFinalizers api (opFinalizers i)"
  case True
  then have "i\<lparr>opFinalizers := ?fs, opDeletionTimestamp := opDeletionTimestamp i\<rparr> = i\<lparr>opFinalizers := ?fs\<rparr>"
    "\<not> isZeroTime (opDeletionTimestamp i)" by (cases i, simp) (use True in \<open>simp add: IsOperationBeingDeleted_def\<close>)
  with True rel pass_deleting [of api req stored s i refetch] that [of "opDeletionTimestamp i"]
  show ?thesis by (simp add: wp_def pass_def case_prod_beta releasable_def)
next
  let ?fs = "nextFinalizers api (opFinalizers i)"
  case False
  have "wp pass (\<lambda>r t. r = Returns (noRequeue, None) \<and> (\<exists>d. d \<noteq> 0 \<and> stored (world t) =
     settle (i\<lparr>opFinalizers := ?fs, opDeletionTimestamp := Some d\<rparr>))) s"
    unfolding pass_def by (rule pass_done [OF _ _ _ _ _ False _ _ clean]) (use rel False in \<open>auto simp: releasable_def\<close>)
  then obtain d where "fst (pass s) = Returns (noRequeue, None)" "d \<noteq> 0" "stored (world (snd (pass s))) =
      settle (i\<lparr>opFinalizers := ?fs, opDeletionTimestamp := Some d\<rparr>)"
    by (auto simp: wp_def case_prod_beta)
  then show ?thesis using that [of "Some d"] by (simp add: isZeroTime_def)
qed

text \<open>Two passes release the operation: its own finalizers are gone, and so is the operation unless somebody else holds
  it.\<close>

lemma two_passes:
  fixes refetch
  assumes rel: "releasable api req stored i s"
    and clean: "\<And>s fs. inst s = i\<lparr>opFinalizers := fs\<rparr> \<Longrightarrow> cleanup api s = handleTTL api s"
  defines "pass \<equiv> reconcilePass refetch cleanup runtime api req"
  shows "released stored i pass s"
proof -
  have st: "stores api req stored" and laws: "finalizer_laws api" "collects api" and start: "StartTime (opStatus i) \<noteq> None"
    using rel by (simp_all add: releasable_def)
  let ?fs = "nextFinalizers api (opFinalizers i)"
  obtain d where d: "\<not> isZeroTime d" and first: "fst (pass s) = Returns (noRequeue, None)"
    "stored (world (snd (pass s))) = settle (i\<lparr>opFinalizers := ?fs, opDeletionTimestamp := d\<rparr>)"
    unfolding pass_def by (rule first_pass [OF rel, where refetch = refetch]) (use clean in auto)
  define j where "j = i\<lparr>opFinalizers := ?fs, opDeletionTimestamp := d\<rparr>"
  note first = first [folded j_def]
  let ?t = "snd (pass s)"
  have deleting: "IsOperationBeingDeleted j" "StartTime (opStatus j) \<noteq> None" "opFinalizers j = ?fs"
    using d start by (simp_all add: j_def IsOperationBeingDeleted_def)
  let ?ours = "{OperationLogsFinalizer, OperationStatusFinalizer}"
  have sets: "set ?fs \<subseteq> set (opFinalizers i)" "set (nextFinalizers api ?fs) = set (opFinalizers i) - ?ours"
    "set (opFinalizers i) - ?ours \<subseteq> set ?fs"
    using laws(1) by (auto simp: set_nextFinalizers)
  show ?thesis
  proof (cases "?fs = []")
    case True
    then have "stored (world ?t) = None" using first(2) deleting by (simp add: settle_def)
    from pass_gone [OF st this] have "fst (pass ?t) = Returns (noRequeue, None)" "stored (world (snd (pass ?t))) = None"
      by (auto simp: wp_def pass_def case_prod_beta)
    with first(1) sets(3) True show ?thesis by (simp add: released_def)
  next
    case False
    then have "stored (world ?t) = Some j" using first(2) deleting by (simp add: settle_eq)
    from pass_deleting [OF st laws this deleting(2,1)] False
    have "fst (pass ?t) = Returns (noRequeue, None)"
      "stored (world (snd (pass ?t))) = settle (j\<lparr>opFinalizers := nextFinalizers api ?fs\<rparr>)"
      by (auto simp: wp_def pass_def case_prod_beta deleting(3))
    moreover have "IsOperationBeingDeleted (j\<lparr>opFinalizers := nextFinalizers api ?fs\<rparr>)"
      using deleting(1) by (simp add: IsOperationBeingDeleted_def)
    moreover have "set (opFinalizers i) \<subseteq> ?ours" if "nextFinalizers api ?fs = []" using sets(2) that by simp
    ultimately show ?thesis
      using first(1) sets(2) by (cases "nextFinalizers api ?fs = []") (simp_all add: settle_def released_def)
  qed
qed

text \<open>A collection that fails while the operation is being deleted.\<close>

lemma stalled_pass:
  assumes st: "stores api req stored" and "finalizer_laws api"
    and i: "stored (world s) = Some i" "StartTime (opStatus i) \<noteq> None" "IsOperationBeingDeleted i"
    and logs: "OperationLogsFinalizer \<in> set (opFinalizers i)" "mustCollect api i"
    and fails: "\<And>r w. fst (collectRunLogs api r w) = Some (OtherSdkError e)"
  shows "wp (reconcilePass refetch cleanup runtime api req)
    (\<lambda>r t. r = Returns (noRequeue, None) \<and> stored (world t) = Some i) s"
proof (rule pass_sync [OF st i(1,2)])
  let ?x = "fst (timeNow api (world s))"
  fix t assume t: "inSync api stored ?x i t"
  have collect: "wp (collectLogs api) (\<lambda>r t. r = Returns (Some (OtherSdkError e)) \<and> inSync api stored ?x i t) u"
    if "inSync api stored ?x i u" for u
    by (rule wp_collectLogs_sync [OF st that, where E = "{Some (OtherSdkError e)}"]) (simp_all add: fails logs)
  have "wp (releaseFinalizer api) (\<lambda>r t. r = Returns None \<and> inSync api stored ?x i t) u" if "inSync api stored ?x i u" for u
    using that logs(1) assms(2)
    by (simp add: releaseFinalizer_def wp_bindG wp_hasFinalizer finalizer_laws_def)
       (rule wp_mono [OF collect [OF that]], simp add: wp_ret)
  then have "wp (handleFinalizers api) (\<lambda>r t. r = Returns None \<and> inSync api stored ?x i t) t"
    unfolding handleFinalizers_def wp_bindG by (auto intro!: wp_mono [OF wp_reportStopped_sync [OF st t]])
  then show "wp (reconcileInstance refetch cleanup runtime api req)
      (\<lambda>r t. r = Returns (noRequeue, None) \<and> stored (world t) = Some i) t"
    using i(3) t by (auto simp: reconcileInstance_def wp_bindG wp_readS wp_ret elim!: wp_mono)
qed

end

section \<open>A concrete server\<close>

text \<open>It stores one operation next to its clock.\<close>

definition storeApi ::
  "(string \<Rightarrow> string option) \<Rightarrow> sdkError option \<Rightarrow> 'm \<Rightarrow>
   ('a operation_scheme, 'a operation_scheme option \<times> int, 'm) api_scheme"
where
  "storeApi env logsErr ext =
     \<lparr>osEnv = env, timeNow = (\<lambda>(i, t). (t, (i, t + 1))),
      getInstance = (\<lambda>k (i, t). (case i of None \<Rightarrow> Inl (NotFound ''not found'') | Some j \<Rightarrow> Inr j, (i, t))),
      updateInstance = (\<lambda>i (s, t). case s of None \<Rightarrow> (Inl (NotFound ''not found''), (s, t))
         | Some j \<Rightarrow> let k = i\<lparr>opStatus := opStatus j, opDeletionTimestamp := opDeletionTimestamp j\<rparr> in (Inr k, (settle k, t))),
      updateInstanceStatus = (\<lambda>i (s, t). case s of None \<Rightarrow> (Inl (NotFound ''not found''), (s, t))
         | Some j \<Rightarrow> let k = j\<lparr>opStatus := opStatus i\<rparr> in (Inr k, (Some k, t))),
      deleteInstance = (\<lambda>i (s, t). case s of None \<Rightarrow> (Some (NotFound ''not found''), (s, t))
         | Some j \<Rightarrow> (None, (if IsOperationBeingDeleted j then Some j
             else settle (j\<lparr>opDeletionTimestamp := Some (if t = 0 then 1 else t)\<rparr>), t))),
      listPods = (\<lambda>ns sel w. (([], None), w)),
      containsFinalizer = (\<lambda>fs f. f \<in> set fs),
      addFinalizer = (\<lambda>fs f. if f \<in> set fs then fs else fs @ [f]),
      removeFinalizer = (\<lambda>fs f. filter (\<lambda>g. g \<noteq> f) fs),
      createRunStatus = (\<lambda>r w. (None, w)), collectRunLogs = (\<lambda>r w. (logsErr, w)), \<dots> = ext\<rparr>"

lemma storeApi_refuses [simp]:
  "refusesDelete ((storeApi env e m)\<lparr>deleteInstance := \<lambda>i w. (Some (OtherError ''forbidden''), w)\<rparr>) req fst"
  by (auto simp: refusesDelete_def storeApi_def Let_def split: option.split)

lemma storeApi_laws [simp]:
  "finalizer_laws (storeApi env e m)" "collects (storeApi env None m)"
  by (auto simp: storeApi_def finalizer_laws_def collects_def)

lemma storeApi_stores [simp]: "stores (storeApi env e m) req fst"
  by (auto simp: stores_def ticks_def storeApi_def Let_def split: option.split) (rule exI [of _ 1], simp)

end
