(* ===== verification/Requeue.thy ===== *)
theory Requeue
  imports Release
begin

text \<open>
  The loop that a controller drives by itself: \<open>Reconcile\<close> returns when it wants to be called again, and the work
  queue of controller-runtime calls it. \<open>rounds\<close> runs that loop, with at most as many passes as it is given;
  \<open>waits\<close> is what is relied on of the queue: it waits for the time that was asked for, at least until the clock has
  moved, and writes nothing. The lemmas show that the loop over a finished operation with a time to live ends, with
  the operation deleted.
\<close>

section \<open>The work queue\<close>

type_synonym ('i, 'w) queue = "ctrlResult \<times> error option \<Rightarrow> ('i, 'w) pass \<Rightarrow> ('i, 'w) pass"

text \<open>Nothing more to do: no error, and neither of the fields of the result asks for another call.\<close>

definition settled :: "ctrlResult \<times> error option \<Rightarrow> bool" where
  "settled = (\<lambda>(r, e). e = None \<and> \<not> Requeue r \<and> RequeueAfter r \<le> 0)"

text \<open>The state when the loop has come to rest; \<open>None\<close> when the passes do not suffice, or one of them panics.\<close>

fun rounds ::
  "nat \<Rightarrow> (('i, 'w) pass, ctrlResult \<times> error option) go \<Rightarrow> ('i, 'w) queue \<Rightarrow> ('i, 'w) pass \<Rightarrow> ('i, 'w) pass option"
where
  "rounds 0 pass queue s = None"
| "rounds (Suc n) pass queue s =
     (case pass s of
        (Panics p, t) \<Rightarrow> None
      | (Returns r, t) \<Rightarrow> if settled r then Some t else rounds n pass queue (queue r t))"

definition waits ::
  "('i, 'w, 'm) api_scheme \<Rightarrow> ('w \<Rightarrow> 'i option) \<Rightarrow> ('i, 'w) queue \<Rightarrow> bool"
where
  "waits api stored queue \<longleftrightarrow>
     (\<forall>r e s. stored (world (queue (r, e) s)) = stored (world s) \<and>
        fst (timeNow api (world s)) + max 1 (RequeueAfter r) \<le> fst (timeNow api (world (queue (r, e) s))))"

lemma waitsD:
  "waits api stored queue \<Longrightarrow> stored (world (queue (r, e) s)) = stored (world s)"
  "waits api stored queue \<Longrightarrow>
   fst (timeNow api (world s)) + max 1 (RequeueAfter r) \<le> fst (timeNow api (world (queue (r, e) s)))"
  by (simp_all add: waits_def)

section \<open>An operation with a time to live\<close>

text \<open>An operation that finished at \<open>c\<close> and is to be kept until \<open>e\<close>, on a server that stores it.\<close>

definition keptUntil ::
  "('a operation_scheme, 'w, 'm) api_scheme \<Rightarrow> key \<Rightarrow> ('w \<Rightarrow> 'a operation_scheme option) \<Rightarrow> 'a operation_scheme \<Rightarrow>
   time \<Rightarrow> time \<Rightarrow> bool"
where
  "keptUntil api req stored i c e \<longleftrightarrow>
     stores api req stored \<and> finalizer_laws api \<and> collects api \<and> StartTime (opStatus i) \<noteq> None \<and>
     \<not> IsOperationBeingDeleted i \<and> IsDone (opStatus i) \<and> CompletionTime (opStatus i) = Some c \<and>
     (case deref (TTLSecondsAfterFinished (opTermination i)) of
        None \<Rightarrow> False | Some n \<Rightarrow> e = c + 1000000000 * sint n)"

text \<open>The operation is deleted: it is gone, or it is marked and waits for its finalizers.\<close>

definition deletedOp :: "('w \<Rightarrow> 'a operation_scheme option) \<Rightarrow> ('a operation_scheme, 'w) pass \<Rightarrow> bool" where
  "deletedOp stored s \<longleftrightarrow> (case stored (world s) of None \<Rightarrow> True | Some j \<Rightarrow> IsOperationBeingDeleted j)"

text \<open>What a pass does at a time \<open>x\<close> or later: it deletes the operation, strictly after \<open>e\<close>, or it asks to be called
  again for the time that is left.\<close>

definition deletesOrWaits ::
  "('a operation_scheme, 'w, 'm) api_scheme \<Rightarrow> ('w \<Rightarrow> 'a operation_scheme option) \<Rightarrow> 'a operation_scheme \<Rightarrow> time \<Rightarrow>
   time \<Rightarrow> (ctrlResult \<times> error option) outcome \<Rightarrow> ('a operation_scheme, 'w) pass \<Rightarrow> bool"
where
  "deletesOrWaits api stored i x e r t \<longleftrightarrow>
     r = Returns (noRequeue, None) \<and> deletedOp stored t \<or>
     (\<exists>y fs. x \<le> y \<and> y \<le> e \<and> y \<le> fst (timeNow api (world t)) \<and>
        r = Returns (\<lparr>Requeue = True, RequeueAfter = min (2 ^ 63 - 1) (e - y)\<rparr>, None) \<and>
        stored (world t) = Some (i\<lparr>opFinalizers := fs\<rparr>))"

lemma deletedOp_settle: "d \<noteq> 0 \<Longrightarrow> stored (world t) = settle (i\<lparr>opDeletionTimestamp := Some d\<rparr>) \<Longrightarrow> deletedOp stored t"
  by (simp add: deletedOp_def settle_def IsOperationBeingDeleted_def isZeroTime_def split: option.split)

lemma wp_handleTTL_kept:
  assumes k: "keptUntil api req stored i c e" and s: "inSync api stored x (i\<lparr>opFinalizers := fs\<rparr>) s"
  shows "wp (handleTTL api) (deletesOrWaits api stored i x e) s"
proof -
  let ?i = "i\<lparr>opFinalizers := fs\<rparr>"
  have st: "stores api req stored" and i: "\<not> IsOperationBeingDeleted ?i" "CompletionTime (opStatus ?i) = Some c"
    using k by (auto simp: keptUntil_def IsOperationBeingDeleted_def)
  obtain n where n: "deref (TTLSecondsAfterFinished (opTermination ?i)) = Some n" "e = c + 1000000000 * sint n"
    using k by (auto simp: keptUntil_def split: option.splits)
  obtain y w where now: "timeNow api (world s) = (y, w)" by fastforce
  have w: "stored w = Some ?i" "y \<le> fst (timeNow api w)"
    using storesD(5,8) [OF st, of "world s"] s now by (simp_all add: ticks_def)
  obtain w' d where del: "deleteInstance api ?i w = (None, w')" "d \<noteq> 0"
    "stored w' = settle (?i\<lparr>opDeletionTimestamp := Some d\<rparr>)"
    using storesD(4) [OF st w(1) i(1), of ?i] by blast
  show ?thesis
  proof (cases "e < y")
    case True
    then show ?thesis
      using s n i now del deletedOp_settle [of d stored _ ?i]
      by (simp add: wp_def handleTTL_eq deletesOrWaits_def)
  next
    case False
    then show ?thesis
      using s n i now w by (auto simp: wp_def handleTTL_eq deletesOrWaits_def)
  qed
qed

context op_controller
begin

text \<open>A pass over such an operation: its finalizers are not the only thing it looks after.\<close>

lemma pass_kept:
  assumes k: "keptUntil api req stored i c e" and s: "stored (world s) = Some (i\<lparr>opFinalizers := fs\<rparr>)"
    and clean: "\<forall>s fs. inst s = i\<lparr>opFinalizers := fs\<rparr> \<longrightarrow> cleanup api s = handleTTL api s"
  shows "wp (reconcilePass refetch cleanup runtime api req)
    (deletesOrWaits api stored i (fst (timeNow api (world s))) e) s"
proof -
  let ?i = "i\<lparr>opFinalizers := fs\<rparr>" and ?x = "fst (timeNow api (world s))"
  let ?j = "i\<lparr>opFinalizers := nextFinalizers api fs\<rparr>" and ?Q = "deletesOrWaits api stored i ?x e"
  have st: "stores api req stored" and laws: "finalizer_laws api" "collects api"
    and i: "StartTime (opStatus ?i) \<noteq> None" "\<not> IsOperationBeingDeleted ?i" "IsDone (opStatus ?i)"
      "\<not> IsOperationBeingDeleted ?j"
    using k by (auto simp: keptUntil_def IsOperationBeingDeleted_def)
  have fin: "wp (handleFinalizers api) (\<lambda>r t. r = Returns None \<and> inst t = ?j \<and> stored (world t) = settle ?j \<and>
      ?x \<le> fst (timeNow api (world t))) t" if t: "inSync api stored ?x ?i t" for t
    using wp_handleFinalizers_sync [OF st laws t] i(2) by simp
  have "wp (cleanup api) ?Q u" if "inst u = ?j" "stored (world u) = settle ?j" "?x \<le> fst (timeNow api (world u))" for u
  proof -
    have "cleanup api u = handleTTL api u" using clean that(1) by blast
    with wp_handleTTL_kept [OF k, where x = ?x and s = u and fs = "nextFinalizers api fs"] that i(4)
    show ?thesis by (simp add: wp_def settle_eq)
  qed
  then have "wp (reconcileInstance refetch cleanup runtime api req) ?Q t" if t: "inSync api stored ?x ?i t" for t
    using i(2,3) t by (auto simp: reconcileInstance_def wp_bindG wp_readS wp_if intro!: wp_mono [OF fin [OF t]])
  then show ?thesis by (rule pass_sync [OF st s i(1)])
qed

text \<open>One round, at a time when at most the largest duration is left.\<close>

lemma round_kept:
  fixes refetch
  assumes k: "keptUntil api req stored i c e" and q: "waits api stored queue"
    and s: "stored (world s) = Some (i\<lparr>opFinalizers := fs\<rparr>)" "e - fst (timeNow api (world s)) < 2 ^ 63"
    and clean: "\<forall>s fs. inst s = i\<lparr>opFinalizers := fs\<rparr> \<longrightarrow> cleanup api s = handleTTL api s"
  defines "pass \<equiv> reconcilePass refetch cleanup runtime api req"
  obtains (deleted) t where "rounds (Suc n) pass queue s = Some t" "deletedOp stored t"
  | (again) u fs' where "rounds (Suc n) pass queue s = rounds n pass queue u"
      "stored (world u) = Some (i\<lparr>opFinalizers := fs'\<rparr>)" "fst (timeNow api (world s)) \<le> e"
      "max e (fst (timeNow api (world s)) + 1) \<le> fst (timeNow api (world u))"
proof -
  let ?x = "fst (timeNow api (world s))"
  obtain r t where rt: "pass s = (r, t)" by fastforce
  have "deletesOrWaits api stored i ?x e r t"
    using pass_kept [OF k s(1) clean, where refetch = refetch] rt by (simp add: wp_def pass_def)
  then consider "r = Returns (noRequeue, None)" "deletedOp stored t"
    | y fs' where "?x \<le> y" "y \<le> e" "y \<le> fst (timeNow api (world t))"
      "r = Returns (\<lparr>Requeue = True, RequeueAfter = min (2 ^ 63 - 1) (e - y)\<rparr>, None)"
      "stored (world t) = Some (i\<lparr>opFinalizers := fs'\<rparr>)"
    unfolding deletesOrWaits_def by blast
  then show ?thesis
  proof cases
    case 1
    with rt show ?thesis using deleted by (simp add: settled_def noRequeue_def)
  next
    case (2 y fs')
    let ?r = "(\<lparr>Requeue = True, RequeueAfter = e - y\<rparr>, None)"
    have r: "r = Returns ?r" using 2(1,2,4) s(2) by (simp add: min_def)
    have "stored (world (queue ?r t)) = stored (world t)"
      "fst (timeNow api (world t)) + max 1 (e - y) \<le> fst (timeNow api (world (queue ?r t)))"
      using waitsD [OF q, where r = "\<lparr>Requeue = True, RequeueAfter = e - y\<rparr>" and e = None and s = t] by simp_all
    moreover have "rounds (Suc n) pass queue s = rounds n pass queue (queue ?r t)"
      using rt r by (simp add: settled_def)
    ultimately show ?thesis using 2 by (intro again [of "queue ?r t" fs']) auto
  qed
qed

text \<open>Three rounds are enough: the first waits for the end of the time to live, the second may come at that very
  instant, the third comes after it.\<close>

lemma three_rounds:
  fixes refetch
  assumes k: "keptUntil api req stored i c e" and q: "waits api stored queue"
    and s: "stored (world s) = Some i" "c \<le> fst (timeNow api (world s))"
    and clean: "\<forall>s fs. inst s = i\<lparr>opFinalizers := fs\<rparr> \<longrightarrow> cleanup api s = handleTTL api s"
  defines "pass \<equiv> reconcilePass refetch cleanup runtime api req"
  shows "\<exists>t. rounds 3 pass queue s = Some t \<and> deletedOp stored t"
proof -
  have s': "stored (world s) = Some (i\<lparr>opFinalizers := opFinalizers i\<rparr>)" using s(1) by simp
  obtain n where "e = c + 1000000000 * sint (n :: int32)"
    using k by (auto simp: keptUntil_def split: option.splits)
  then have "e - c < 2 ^ 63" using sint_int32_bounds [of n] by simp
  then have e: "e - fst (timeNow api (world s)) < 2 ^ 63" using s(2) by simp
  note round = round_kept [OF k q _ _ clean, where refetch = refetch, folded pass_def]
  show ?thesis
  proof (cases rule: round [OF s' e, of 2])
    case (2 u fs)
    then have u: "e \<le> fst (timeNow api (world u))" "e - fst (timeNow api (world u)) < 2 ^ 63" by simp_all
    show ?thesis
    proof (cases rule: round [OF 2(2) u(2), of 1])
      case again: (2 v fs')
      then have v: "e < fst (timeNow api (world v))" "e - fst (timeNow api (world v)) < 2 ^ 63" using u by simp_all
      with \<open>rounds (Suc 2) pass queue s = rounds 2 pass queue u\<close> again(1) show ?thesis
        by (cases rule: round [OF again(2) v(2), of 0]) (auto simp: numeral_eq_Suc)
    qed (use 2(1) in \<open>auto simp: numeral_eq_Suc\<close>)
  qed (auto simp: numeral_eq_Suc)
qed

end

end
