(* ===== verification/Job_Controller.thy ===== *)
theory Job_Controller
  imports Requeue
begin

text \<open>
  The controller of jobs: \<^verbatim>\<open>internal/controller/job\<close>.

  Its copies of the common handlers are the instances of \<open>Reconcile\<close> at the type \<open>Job\<close>. The record
  \<open>jobEnv\<close> adds the client on batch jobs, and the address that the locals of \<open>GenerateJob\<close> get.
  The locale \<open>op_controller\<close> is interpreted on \<open>Job_cleanUpOperation\<close> and \<open>Job_reconcileOperation\<close>.
\<close>

record ('i, 'w) jobEnv = "('i, 'w) api" +
  jobObjs :: "('i, BatchJob, 'w) objApi"
  localAddr :: nat

section \<open>Job status\<close>

definition jobFailureReason :: "string \<Rightarrow> MainContainerExitStatus option \<Rightarrow> string" where
  "jobFailureReason reason exitStatus =
     (case exitStatus of
        None \<Rightarrow> reason
      | Some es \<Rightarrow> if reason = ''BackoffLimitExceeded'' \<and> esExitCode es \<noteq> 0
                  then FailureReason es else reason)"

text \<open>The three blocks of \<open>reconcileJobStatus\<close> under \<open>len(job.Status.Conditions) > 0\<close>.\<close>

definition jobOutcome ::
  "(Job, 'w) jobEnv \<Rightarrow> time \<Rightarrow> BatchJob \<Rightarrow> MainContainerExitStatus option \<Rightarrow> ((Job, 'w) pass, bool) go"
where
  "jobOutcome env t job exitStatus =
     (if length (bjConditions job) > 0 then
        let newJobCond = last (bjConditions job) in
        bindG (if bjActive job = 0 \<and> 0 <s bjSucceeded job \<and> IsJobSucceeded newJobCond
               then finishWith env t LogSucceeded else ret False) (\<lambda>updated.
        if updated then ret True else
        bindG (if bjCompletionTime job \<noteq> None \<and> 0 <s bjSucceeded job \<and> IsJobSucceeded newJobCond
               then finishWith env t LogSucceeded else ret False) (\<lambda>updated.
        if updated then ret True else
        if 0 <s bjFailed job \<and> IsJobFailed newJobCond then
          let failedAttempts = bjFailed job;
              attemptPtr = (if 0 <s failedAttempts then Some failedAttempts else None);
              newMessage = FormatMainContainerFailureMessage (jcMessage newJobCond) exitStatus attemptPtr;
              reason = jobFailureReason (jcReason newJobCond) exitStatus
          in finishWith env t (\<lambda>clk st. LogFailed clk st reason newMessage)
        else ret False))
      else ret False)"

text \<open>The rest of \<open>reconcileJobStatus\<close>, for a job that is not over.\<close>

definition jobProgress ::
  "(Job, 'w) jobEnv \<Rightarrow> BatchJob \<Rightarrow> Pod list \<Rightarrow> verdict \<Rightarrow> ((Job, 'w) pass, bool) go"
where
  "jobProgress env job pods v =
     (let (podStatus, reason, message) = v in
      if podStatus = OperationWarning then logM env (\<lambda>clk st. LogWarning clk st reason message)
      else if podStatus = OperationStarting \<and> bjCompletionTime job = None then ret False
      else if length (bjConditions job) = 0 then
        (if 0 <s bjFailed job \<and> bjActive job = 0 then logM env (\<lambda>clk st. LogWarning clk st '''' '''')
         else if 0 <s bjActive job \<and> IsMainContainerRunning pods then logM env LogRunning
         else ret False)
      else ret False)"

definition reconcileJobStatus :: "(Job, 'w) jobEnv \<Rightarrow> BatchJob \<Rightarrow> ((Job, 'w) pass, bool) go" where
  "reconcileJobStatus env job =
     bindG (now env) (\<lambda>t.
     bindG (readS inst) (\<lambda>i.
     bindG (ListInstancePods env (lookupZ (opLabels i) ''app.kubernetes.io/instance'')
              (opNamespace i)) (\<lambda>(pods, err).
       case GetInvalidImageName pods of
         Some message \<Rightarrow> finishWith env t (\<lambda>clk st. LogFailed clk st InvalidImageNameReason message)
       | None \<Rightarrow>
           bindG (jobOutcome env t job (GetMainContainerExitStatus pods)) (\<lambda>over.
             if over then ret True
             else jobProgress env job pods (HasUnschedulablePods pods)))))"

section \<open>The batch job\<close>

definition emptyBatchJob :: BatchJob where
  "emptyBatchJob =
     \<lparr>bjName = '''', bjNamespace = '''', bjLabels = [], bjAnnotations = [], bjOwnerReferences = [],
      bjBackoffLimit = NilPtr, bjActiveDeadlineSeconds = NilPtr, bjTTLSecondsAfterFinished = NilPtr,
      bjPodFailurePolicy = None,
      bjTemplate = \<lparr>ptLabels = [], ptAnnotations = [],
                    ptSpec = \<lparr>Containers = [], RestartPolicy = '''', psOther = ''''\<rparr>\<rparr>,
      bjActive = 0, bjSucceeded = 0, bjFailed = 0, bjCompletionTime = None, bjConditions = []\<rparr>"

definition generatedJob :: "(Job, 'w) jobEnv \<Rightarrow> Job \<Rightarrow> BatchJobSpec \<Rightarrow> BatchJob" where
  "generatedJob env i spec =
     GenerateJob (localAddr env) (opName i) (opNamespace i) (opLabels i) (opAnnotations i)
       (BackoffLimit (opTermination i)) (ActiveDeadlineSeconds (opTermination i))
       (TTLSecondsAfterFinished (opTermination i)) (PodFailurePolicy (opTermination i))
       (ptSpec (bjsTemplate spec))"

text \<open>The end of \<open>reconcileJob\<close>: update the found job when it differs, then its status.\<close>

definition updateJob :: "(Job, 'w) jobEnv \<Rightarrow> BatchJob \<Rightarrow> bool \<Rightarrow> BatchJob \<Rightarrow> ((Job, 'w) pass, error option) go" where
  "updateJob env job justCreated foundJob =
     bindG (readS inst) (\<lambda>i.
     bindG (if \<not> justCreated \<and> \<not> IsDone (opStatus i) \<and> \<not> IsOperationBeingDeleted i then
              (let (foundJob, requireUpdate) = CopyJobFields job foundJob in
               if requireUpdate then objUpdate (jobObjs env) KJob foundJob else ret (None, foundJob))
            else ret (None, foundJob)) (\<lambda>(err, foundJob).
       case err of
         Some e \<Rightarrow> ret (Some e)
       | None \<Rightarrow>
           bindG (reconcileJobStatus env foundJob) (\<lambda>condUpdated.
             if condUpdated then publishStatus env else ret None)))"

text \<open>The branch of \<open>reconcileJob\<close> for a job that does not exist.\<close>

definition missingJob :: "(Job, 'w) jobEnv \<Rightarrow> BatchJob \<Rightarrow> ((Job, 'w) pass, error option) go" where
  "missingJob env job =
     bindG (readS (\<lambda>s. ShouldMarkJobAsDeleted (opStatus (inst s)))) (\<lambda>(shouldMarkDeleted, isDone).
       if isDone then ret None
       else if shouldMarkDeleted then
         bindG (now env) (\<lambda>t.
         bindG (logM env (\<lambda>clk st. MarkJobAsDeleted t clk st ''Kubernetes Job'' False)) (\<lambda>updated.
           if updated then publishStatus env else ret None))
       else
         bindG (objCreate (jobObjs env) KJob job) (\<lambda>err.
           case err of
             Some e \<Rightarrow>
               bindG (logM env (\<lambda>clk st. LogWarning clk st ''OperatorCreateJob'' (errorText e))) (\<lambda>updated.
               bindG (if updated then publishStatus env else ret None) (\<lambda>statusErr.
                 if statusErr \<noteq> None then ret statusErr else ret (Some e)))
           | None \<Rightarrow>
               bindG (logM env LogStarting) (\<lambda>_.
               bindG (clientStatusUpdate env) (\<lambda>err.
               bindG (instanceSyncStatus env) (\<lambda>_.
                 if err \<noteq> None then ret err else updateJob env job True emptyBatchJob)))))"

definition reconcileJob :: "(Job, 'w) jobEnv \<Rightarrow> ((Job, 'w) pass, error option) go" where
  "reconcileJob env =
     bindG (readS inst) (\<lambda>i.
       case jobBatchJobSpec i of
         None \<Rightarrow> panic ''nil pointer dereference''
       | Some spec \<Rightarrow>
           (case setControllerReference (jobObjs env) i (generatedJob env i spec) of
              Inl e \<Rightarrow> ret (Some e)
            | Inr job \<Rightarrow>
                bindG (objGet (jobObjs env) (bjNamespace job, bjName job)) (\<lambda>found.
                  case found of
                    Inl e \<Rightarrow> if IsNotFound e then missingJob env job else ret (Some e)
                  | Inr foundJob \<Rightarrow> updateJob env job False foundJob)))"

definition reconcileJobOp :: "(Job, 'w) jobEnv \<Rightarrow> ((Job, 'w) pass, ctrlResult \<times> error option) go" where
  "reconcileJobOp env = bindG (reconcileJob env) (\<lambda>err. ret (noRequeue, err))"

section \<open>The controller\<close>

definition cleanUpJob :: "(Job, 'w) jobEnv \<Rightarrow> ((Job, 'w) pass, ctrlResult \<times> error option) go" where
  "cleanUpJob env = handleTTL env"

definition Job_reconcileOperation :: "(Job, 'w) jobEnv \<Rightarrow> ((Job, 'w) pass, ctrlResult \<times> error option) go" where
  "Job_reconcileOperation env = reconcileJobOp env"

definition Job_cleanUpOperation :: "(Job, 'w) jobEnv \<Rightarrow> ((Job, 'w) pass, ctrlResult \<times> error option) go" where
  "Job_cleanUpOperation env = cleanUpJob env"

definition Job_Reconcile :: "(Job, 'w) jobEnv \<Rightarrow> key \<Rightarrow> ((Job, 'w) pass, ctrlResult \<times> error option) go" where
  "Job_Reconcile env req = reconcilePass False Job_cleanUpOperation Job_reconcileOperation env req"

text \<open>\<open>metav1.GetControllerOf\<close> is the first argument.\<close>

definition Job_mapPodToRequest :: "(OwnerReference list \<Rightarrow> OwnerReference option) \<Rightarrow> Pod \<Rightarrow> key list" where
  "Job_mapPodToRequest getControllerOf object =
     (case getControllerOf (podOwnerReferences object) of
        None \<Rightarrow> []
      | Some owner \<Rightarrow>
          if orAPIVersion owner \<noteq> ''batch/v1'' \<or> orKind owner \<noteq> ''Job'' then []
          else [(podNamespace object, orName owner)])"

definition predPodHasWSLabel :: "Pod \<Rightarrow> bool" where
  "predPodHasWSLabel object = (map_of (podLabels object) PolyaxonRunIdLabel \<noteq> None)"


section \<open>The job controller keeps the contract\<close>

text \<open>The invariant of a job: it has a specification, and once it is done it has a completion time.\<close>

definition jobGood :: "Job \<Rightarrow> bool" where
  "jobGood i \<longleftrightarrow> jobBatchJobSpec i \<noteq> None \<and> timedDone (opStatus i)"

abbreviation readyIf :: "bool \<Rightarrow> (Job, 'w) pass \<Rightarrow> bool" where
  "readyIf \<equiv> ready jobGood timedSent"

abbreviation jobInv :: "(Job, 'w) pass \<Rightarrow> bool" where
  "jobInv \<equiv> inv jobGood timedSent"

lemma jobGood_sent [simp]: "jobGood i \<Longrightarrow> timedSent (CStatusUpdate (opStatus i) b)"
  by (simp add: timedSent_def jobGood_def)

interpretation job_status: status_inv jobGood timedSent
  by unfold_locales (auto simp: jobGood_def timedDone_def timedSent_def split: call.splits)

lemmas ready_rules = job_status.ready_ret job_status.ready_finishWith job_status.ready_logM job_status.ready_pass

lemma ready_jobOutcome: "hoare jobInv (jobOutcome env t job es) readyIf"
  unfolding jobOutcome_def Let_def
  by (intro hoare_if hoare_bindG [where Q = readyIf] ready_rules) simp_all

lemma ready_jobProgress: "hoare jobInv (jobProgress env job pods v) readyIf"
  unfolding jobProgress_def Let_def
  by (intro hoare_prod hoare_if ready_rules) simp_all

lemma ready_reconcileJobStatus: "hoare jobInv (reconcileJobStatus env job) readyIf"
  unfolding reconcileJobStatus_def
  by (intro hoare_bindG [OF hoare_now] hoare_bindG [OF hoare_readS] hoare_bindG [OF hoare_ListInstancePods]
      hoare_prod hoare_option hoare_bindG [OF ready_jobOutcome] ready_rules ready_jobProgress) simp_all

lemma updateJob_safe:
  assumes "serves jobGood env" "status_echo env"
  shows "hoare jobInv (updateJob env job jc found) (\<lambda>_. jobInv)"
  unfolding updateJob_def
  by (intro hoare_intros hoare_bindG [OF ready_reconcileJobStatus] job_status.publish_ready assms) simp_all

lemma missingJob_safe:
  assumes laws: "serves jobGood env" "status_echo env"
  shows "hoare jobInv (missingJob env job) (\<lambda>_. jobInv)"
proof -
  let ?K = "\<lambda>i. jobGood i \<and> Conditions (opStatus i) \<noteq> []"
  have start: "hoare jobInv (logM env LogStarting) (\<lambda>_. inv ?K timedSent)"
    by (rule hoare_logM) (simp add: jobGood_def timedDone_def)
  have upd: "hoare (inv ?K timedSent) (clientStatusUpdate env) (\<lambda>_. inv ?K timedSent)"
    by (auto simp: hoare_def inv_def wp_clientStatusUpdate split: prod.split sum.split
        dest: servesD(3) [OF laws(1)] status_echoD(2) [OF laws(2)] statusKept_conditions)
  show ?thesis
    unfolding missingJob_def
    by (intro hoare_bindG [OF hoare_readS] hoare_prod hoare_if hoare_ret hoare_bindG [OF hoare_now]
        hoare_bindG [OF job_status.ready_mark] job_status.publish_ready hoare_bindG [OF hoare_objCreate] hoare_option
        hoare_bindG [OF job_status.ready_logM] hoare_bindG [OF job_status.publish_ready]
        hoare_bindG [OF start]
        hoare_bindG [OF upd] hoare_bindG [OF hoare_instanceSyncStatus] updateJob_safe laws) simp_all
qed

lemma reconcileJob_safe:
  assumes "serves jobGood env" "status_echo env"
  shows "hoare jobInv (reconcileJob env) (\<lambda>_. jobInv)"
  unfolding reconcileJob_def
proof (rule hoare_bind_readS, rule hoare_option)
  fix i :: Job
  show "hoare (\<lambda>s. jobInv s \<and> i = inst s) (panic p) (\<lambda>_. jobInv)" if "jobBatchJobSpec i = None" for p
    using that by (auto simp: hoare_def inv_def jobGood_def)
  fix spec
  show "hoare (\<lambda>s. jobInv s \<and> i = inst s)
      (case setControllerReference (jobObjs env) i (generatedJob env i spec) of Inl e \<Rightarrow> ret (Some e)
       | Inr job \<Rightarrow> bindG (objGet (jobObjs env) (bjNamespace job, bjName job)) (\<lambda>found.
           case found of Inl e \<Rightarrow> if IsNotFound e then missingJob env job else ret (Some e)
           | Inr foundJob \<Rightarrow> updateJob env job False foundJob)) (\<lambda>_. jobInv)"
    by (rule hoare_pre [of jobInv]) (intro hoare_intros missingJob_safe updateJob_safe assms, simp)
qed

interpretation job_controller:
  op_controller Job_cleanUpOperation Job_reconcileOperation jobGood timedSent "\<lambda>_. True"
proof unfold_locales
  fix env :: "(Job, 'w) jobEnv" and i :: Job and c b t fs
  show "tracks (emits isDeleteCall) (Job_cleanUpOperation env)"
    unfolding Job_cleanUpOperation_def cleanUpJob_def by (intro track_intros) (simp add: isDeleteCall_def)
  show "tracks (emits (\<lambda>c. \<not> isUpdateCall c)) (Job_reconcileOperation env)"
    unfolding Job_reconcileOperation_def reconcileJobOp_def reconcileJob_def missingJob_def updateJob_def
      reconcileJobStatus_def jobOutcome_def jobProgress_def
    by (intro track_intros) (simp_all add: isUpdateCall_def)
  show "jobGood i \<Longrightarrow> timedSent (CStatusUpdate (opStatus i) b)" by simp
  show "isReleaseCall c \<Longrightarrow> timedSent c" by (simp add: isReleaseCall_def split: call.splits)
  show "jobGood i \<Longrightarrow> jobGood (i\<lparr>opFinalizers := fs\<rparr>)" by (simp add: jobGood_def)
  show "jobGood i \<Longrightarrow> jobGood (i\<lparr>opStatus := (opStatus i)\<lparr>StartTime := Some t\<rparr>\<rparr>)"
    by (simp add: jobGood_def timedDone_def)
  assume laws: "serves jobGood env" "status_echo env"
  show "hoare (inv (\<lambda>i. jobGood i \<and> IsDone (opStatus i)) timedSent) (Job_cleanUpOperation env)
      (\<lambda>_ s. list_all timedSent (calls s))"
    unfolding Job_cleanUpOperation_def cleanUpJob_def
    by (rule hoare_pre [OF handleTTL_safe]) (auto simp: inv_def jobGood_def)
  show "hoare jobInv (Job_reconcileOperation env) (\<lambda>_ s. list_all timedSent (calls s))"
    unfolding Job_reconcileOperation_def reconcileJobOp_def
    by (rule hoare_bindG [OF reconcileJob_safe [OF laws]]) (simp add: hoare_def wp_simps inv_def)
qed


section \<open>Properties\<close>

text \<open>C1: a pass of the job controller never panics and never writes a done status without a completion time,
  as long as the API server serves jobs that have a specification and that are done only with a
  completion time. Since the controller itself only sends such statuses, the time-to-live cleanup of a
  done job can always compute its expiry.\<close>

theorem Job_Reconcile_safe:
  assumes "serves jobGood env" and "status_echo env"
  shows "\<exists>res t. Job_Reconcile env req \<lparr>inst = i, world = w, calls = []\<rparr> = (Returns res, t) \<and>
           list_all timedSent (calls t)"
proof -
  have "wp (Job_Reconcile env req)
      (\<lambda>r t. case r of Returns a \<Rightarrow> list_all timedSent (calls t) | Panics p \<Rightarrow> False)
      \<lparr>inst = i, world = w, calls = []\<rparr>"
    using job_controller.pass_safe [OF TrueI assms, of False req]
    unfolding hoare_def Job_Reconcile_def by (elim allE impE) simp_all
  then show ?thesis by (auto simp: wp_def split: prod.splits outcome.splits)
qed

text \<open>C25: once a job is done or being deleted, a pass only releases it: after recording the start time, in the
  case that the job has none yet, it may update the finalizers, report, collect logs and delete, but it creates and
  changes no batch job and writes no status. The one status it may write is the status of the fetched job with the
  time of the pass as start time.\<close>

theorem Job_Reconcile_release:
  assumes "writesStatusOnly env" and "getInstance env req (world s) = (Inr i, w)"
    and "IsOperationBeingDeleted i \<or> IsDone (opStatus i)"
  shows "\<exists>first rest. calls (snd (Job_Reconcile env req s)) = calls s @ first @ rest \<and>
    startWrite (opStatus i) (fst (timeNow env w)) first \<and> list_all isReleaseCall rest"
  using job_controller.release_calls [OF assms(2,1,3)] by (simp add: Job_Reconcile_def wp_def case_prod_beta)

text \<open>C11: no pass of the job controller drops the logs finalizer before the Polyaxon API was asked for the logs. When the
  fetched job carries the finalizer and log collection applies, every update of the job that the pass sends either
  still carries the finalizer or comes after a request to collect the logs, in the same pass, that the API answered
  with success, or with 404 or 403, which the operator takes for success; any other answer keeps the finalizer. This
  holds whether or not the start time of the job is recorded yet.\<close>

theorem Job_Reconcile_logs_first:
  assumes "finalizer_laws env" and "writesStatusOnly env" and "getInstance env req (world s) = (Inr i, w)"
    and "OperationLogsFinalizer \<in> set (opFinalizers i)" and "mustCollect env i"
  shows "\<exists>new. calls (snd (Job_Reconcile env req s)) = calls s @ new \<and> logsSafe False new"
  using job_controller.logs_collected_first [OF assms] by (simp add: Job_Reconcile_def wp_def case_prod_beta)

text \<open>What the pods and the batch job call for: the type of the condition to log, if any.\<close>

definition jobSucceeded :: "BatchJob \<Rightarrow> bool" where
  "jobSucceeded job \<longleftrightarrow> bjConditions job \<noteq> [] \<and> IsJobSucceeded (last (bjConditions job)) \<and>
     0 <s bjSucceeded job \<and> (bjActive job = 0 \<or> bjCompletionTime job \<noteq> None)"

definition jobFailed :: "BatchJob \<Rightarrow> bool" where
  "jobFailed job \<longleftrightarrow> bjConditions job \<noteq> [] \<and> IsJobFailed (last (bjConditions job)) \<and> 0 <s bjFailed job"

definition jobNotOver :: "Pod list \<Rightarrow> BatchJob \<Rightarrow> OperationConditionType option" where
  "jobNotOver pods job =
     (if fst (HasUnschedulablePods pods) = OperationWarning then Some OperationWarning
      else if pods = [] \<and> bjCompletionTime job = None then None
      else if bjConditions job \<noteq> [] then None
      else if 0 <s bjFailed job \<and> bjActive job = 0 then Some OperationWarning
      else if 0 <s bjActive job \<and> IsMainContainerRunning pods then Some OperationRunning
      else None)"

definition jobNext :: "Pod list \<Rightarrow> BatchJob \<Rightarrow> OperationConditionType option" where
  "jobNext pods job =
     (if GetInvalidImageName pods \<noteq> None then Some OperationFailed
      else if jobSucceeded job then Some OperationSucceeded
      else if jobFailed job then Some OperationFailed
      else jobNotOver pods job)"


lemma wp_jobOutcome:
  assumes succ: "\<And>w j. jobSucceeded job \<Longrightarrow> logged t OperationSucceeded (inst s) True j \<Longrightarrow>
        Q (Returns True) (s\<lparr>world := w, inst := j\<rparr>)"
    and fail: "\<And>w j. \<not> jobSucceeded job \<Longrightarrow> jobFailed job \<Longrightarrow> logged t OperationFailed (inst s) True j \<Longrightarrow>
        Q (Returns True) (s\<lparr>world := w, inst := j\<rparr>)"
    and no: "\<not> jobSucceeded job \<Longrightarrow> \<not> jobFailed job \<Longrightarrow> Q (Returns False) s"
  shows "wp (jobOutcome env t job es) Q s"
proof -
  consider "jobSucceeded job" | "\<not> jobSucceeded job" "jobFailed job" | "\<not> jobSucceeded job" "\<not> jobFailed job"
    by blast
  then show ?thesis
  proof cases
    case 1
    with succ [OF 1] show ?thesis
      by (auto simp: jobOutcome_def jobSucceeded_def wp_simps intro!: wp_finish_LogSucceeded)
  next
    case 2
    with fail [OF 2] show ?thesis
      by (auto simp: jobOutcome_def jobSucceeded_def jobFailed_def wp_simps intro!: wp_finish_LogFailed)
  next
    case 3
    with no [OF 3] show ?thesis
      by (auto simp: jobOutcome_def jobSucceeded_def jobFailed_def wp_simps)
  qed
qed

lemma wp_jobProgress:
  assumes "\<And>b w j ty. jobNotOver pods job = Some ty \<Longrightarrow> logged t ty (inst s) b j \<Longrightarrow>
        Q (Returns b) (s\<lparr>world := w, inst := j\<rparr>)"
    and "jobNotOver pods job = None \<Longrightarrow> Q (Returns False) s"
  shows "wp (jobProgress env job pods (HasUnschedulablePods pods)) Q s"
proof -
  obtain ps r m where v: "HasUnschedulablePods pods = (ps, r, m)" by (metis surj_pair)
  have W: "wp (logM env (\<lambda>clk st. LogWarning clk st r m)) Q s"
    if "jobNotOver pods job = Some OperationWarning" for r m
    by (rule wp_LogWarning [where t = t]) (rule assms(1) [OF that])
  have R: "wp (logM env LogRunning) Q s" if "jobNotOver pods job = Some OperationRunning"
    by (rule wp_LogRunning [where t = t]) (rule assms(1) [OF that])
  show ?thesis
    using assms(2) verdict_starting [of pods] unfolding jobProgress_def v
    by (auto simp: wp_simps v jobNotOver_def intro!: W R)
qed

text \<open>C12: the decision table of \<open>reconcileJobStatus\<close>. For the pods listed at the time of the pass it does what
  the table \<open>jobNext\<close> says: nothing at all, or log a condition of that type. Pods or a job that call for
  a final condition always end the operation with the time of the pass.\<close>

theorem reconcileJobStatus_spec:
  fixes env :: "(Job, 'w) jobEnv"
  shows "let (t, w) = timeNow env (world s);
       ((pods, err), _) = listPods env (opNamespace (inst s))
          [(''app.kubernetes.io/instance'', lookupZ (opLabels (inst s)) ''app.kubernetes.io/instance'')] w
   in wp (reconcileJobStatus env job)
        (\<lambda>r u. calls u = calls s \<and>
           (case jobNext pods job of
              None \<Rightarrow> r = Returns False \<and> inst u = inst s
            | Some ty \<Rightarrow> \<exists>changed. r = Returns changed \<and> logged t ty (inst s) changed (inst u))) s"
proof -
  obtain t w where t: "timeNow env (world s) = (t, w)" by (cases "timeNow env (world s)")
  obtain pods err w' where l: "listPods env (opNamespace (inst s))
      [(''app.kubernetes.io/instance'', lookupZ (opLabels (inst s)) ''app.kubernetes.io/instance'')] w
      = ((pods, err), w')"
    by (metis surj_pair)
  define Q where "Q = (\<lambda>r (u :: (Job, 'w) pass). calls u = calls s \<and> (case jobNext pods job of
              None \<Rightarrow> r = Returns False \<and> inst u = inst s
            | Some ty \<Rightarrow> \<exists>changed. r = Returns changed \<and> logged t ty (inst s) changed (inst u)))"
  have image: "wp (finishWith env t (\<lambda>clk st. LogFailed clk st r m)) Q u"
    if "GetInvalidImageName pods \<noteq> None" "inst u = inst s" "calls u = calls s" for u r m
    by (rule wp_finish_LogFailed) (use that in \<open>auto simp: jobNext_def Q_def\<close>)
  have more: "wp (jobProgress env job pods (HasUnschedulablePods pods)) Q u"
    if "jobNext pods job = jobNotOver pods job" "inst u = inst s" "calls u = calls s" for u
    by (rule wp_jobProgress [where t = t]) (use that in \<open>auto simp: Q_def\<close>)
  have over: "Q (Returns True) v"
    if "jobNext pods job = Some ty" "logged t ty (inst s) True (inst v)" "calls v = calls s" for ty v
    using that by (auto simp: Q_def)
  have rest: "wp (bindG (jobOutcome env t job es) (\<lambda>over.
        if over then ret True else jobProgress env job pods (HasUnschedulablePods pods))) Q u"
    if "GetInvalidImageName pods = None" "inst u = inst s" "calls u = calls s" for u es
    unfolding wp_bindG
    by (rule wp_jobOutcome) (use that in \<open>auto simp: wp_ret jobNext_def intro!: over more\<close>)
  have "wp (reconcileJobStatus env job) Q s"
  proof (cases "GetInvalidImageName pods")
    case None
    then show ?thesis
      using rest [OF None] by (simp add: reconcileJobStatus_def wp_bindG [of "now env"] wp_bindG [of "readS inst"]
          wp_bindG [of "external x" for x] ListInstancePods_def ListPods_def wp_external
          wp_now wp_readS t l)
  next
    case (Some m)
    then show ?thesis
      by (simp add: reconcileJobStatus_def wp_simps ListInstancePods_def ListPods_def t l image)
  qed
  then show ?thesis by (simp add: t l Q_def)
qed


lemma wp_reconcileJob_missing:
  assumes "jobBatchJobSpec (inst s) = Some spec"
    and "setControllerReference (jobObjs env) (inst s) (generatedJob env (inst s) spec) = Inr job"
    and "oGet (jobObjs env) (bjNamespace job, bjName job) (world s) = (Inl (NotFound m), w)"
  shows "wp (reconcileJob env) Q s = wp (missingJob env job) Q (s\<lparr>world := w\<rparr>)"
  using assms by (simp add: reconcileJob_def objGet_def wp_simps)

lemma wp_missingJob_deleted:
  assumes "\<not> IsDone (opStatus (inst s))" "Conditions (opStatus (inst s)) \<noteq> []"
    and "cType (last (Conditions (opStatus (inst s)))) \<in> {OperationRunning, OperationWarning}"
    and pub: "\<And>st w. stoppedAsDeleted st \<Longrightarrow>
      wp (publishStatus env) Q (s\<lparr>world := w, inst := (inst s)\<lparr>opStatus := st\<rparr>\<rparr>)"
  shows "wp (missingJob env job) Q s"
proof -
  have "ShouldMarkJobAsDeleted (opStatus (inst s)) = (True, False)"
    using assms(1-3) by (auto simp: ShouldMarkJobAsDeleted_def Let_def)
  moreover have "snd (MarkJobAsDeleted t clk st kind False)" for t clk st kind
    by (simp add: MarkJobAsDeleted_eq)
  ultimately show ?thesis
    using pub MarkJobAsDeleted_stopped
    by (auto simp: missingJob_def wp_simps split: prod.split intro!: wp_logM)
qed

text \<open>C14: when the batch job of a running operation, or of one with a warning, is gone, the controller takes it
  as deleted by someone else: it never creates the job again, it publishes \<open>Stopped\<close> with reason
  \<open>JobDeleted\<close> and a completion time, and its result is the error of that status update, if it has one.\<close>

theorem reconcileJob_deleted:
  assumes "jobBatchJobSpec (inst s) = Some spec"
    and "setControllerReference (jobObjs env) (inst s) (generatedJob env (inst s) spec) = Inr job"
    and "oGet (jobObjs env) (bjNamespace job, bjName job) (world s) = (Inl (NotFound m), w)"
    and "\<not> IsDone (opStatus (inst s))" and "Conditions (opStatus (inst s)) \<noteq> []"
    and "cType (last (Conditions (opStatus (inst s)))) \<in> {OperationRunning, OperationWarning}"
    and "status_echo env"
  shows "wp (reconcileJob env) (\<lambda>r t. \<exists>st err report.
           calls t = calls s @ CStatusUpdate st err # report \<and> stoppedAsDeleted st \<and>
           list_all (\<lambda>c. \<not> isCreateCall c) report \<and> r = Returns err \<and> (err = None \<or> report = [])) s"
proof -
  have keep: "Conditions (opStatus j) \<noteq> []"
    if "updateInstanceStatus env ((inst s)\<lparr>opStatus := st\<rparr>) v = (Inr j, w')" "stoppedAsDeleted st" for j v w' st
    using status_echoD(2) [OF assms(7) that(1)] that(2) by (auto simp: stoppedAsDeleted_def statusKept_def)
  show ?thesis
    unfolding wp_reconcileJob_missing [OF assms(1-3)]
  proof (rule wp_missingJob_deleted)
    fix st v
    assume st: "stoppedAsDeleted st"
    show "wp (publishStatus env) (\<lambda>r t. \<exists>st err report.
           calls t = calls s @ CStatusUpdate st err # report \<and> stoppedAsDeleted st \<and>
           list_all (\<lambda>c. \<not> isCreateCall c) report \<and> r = Returns err \<and> (err = None \<or> report = []))
         (s\<lparr>world := w, world := v, inst := (inst (s\<lparr>world := w\<rparr>))\<lparr>opStatus := st\<rparr>\<rparr>)"
      by (rule wp_publishStatus) (use st in \<open>auto dest: keep\<close>)
  qed (use assms(4-6) in simp_all)
qed


text \<open>An environment in which the batch job is missing and cannot be created, and every status is accepted.\<close>

definition createFails :: "(Job, 'w) jobEnv \<Rightarrow> error \<Rightarrow> bool" where
  "createFails env e \<longleftrightarrow>
     (\<forall>i job. \<exists>job'. setControllerReference (jobObjs env) i job = Inr job') \<and>
     (\<forall>k w. \<exists>m w'. oGet (jobObjs env) k w = (Inl (NotFound m), w')) \<and>
     (\<forall>job w. \<exists>w'. oCreate (jobObjs env) job w = (Some e, w')) \<and>
     (\<forall>i w. \<exists>j w'. updateInstanceStatus env i w = (Inr j, w'))"

lemma wp_reconcileJob_createFails:
  assumes fails: "createFails env e" and spec: "jobBatchJobSpec (inst s) \<noteq> None"
    and Q: "\<And>job w. wp (missingJob env job) Q (s\<lparr>world := w\<rparr>)"
  shows "wp (reconcileJob env) Q s"
proof -
  obtain sp where sp: "jobBatchJobSpec (inst s) = Some sp" using spec by auto
  obtain job where job: "setControllerReference (jobObjs env) (inst s) (generatedJob env (inst s) sp) = Inr job"
    using fails unfolding createFails_def by blast
  obtain m w where "oGet (jobObjs env) (bjNamespace job, bjName job) (world s) = (Inl (NotFound m), w)"
    using fails unfolding createFails_def by blast
  with sp job Q show ?thesis by (simp add: wp_reconcileJob_missing)
qed

lemma wp_missingJob_createFails:
  assumes fails: "createFails env e" and s: "Conditions (opStatus (inst s)) = []"
    and pub: "\<And>clk v. wp (publishStatus env)
       (\<lambda>r t. case r of Returns a \<Rightarrow> (if a \<noteq> None then Q (Returns a) t else Q (Returns (Some e)) t)
             | Panics p \<Rightarrow> Q (Panics p) t)
       (s\<lparr>calls := calls s @ [CCreate KJob False], world := v, inst := (inst s)\<lparr>opStatus :=
          fst (LogWarning clk (opStatus (inst s)) ''OperatorCreateJob'' (errorText e))\<rparr>\<rparr>)"
  shows "wp (missingJob env job) Q s"
proof -
  obtain w where create: "oCreate (jobObjs env) job (world s) = (Some e, w)"
    using fails unfolding createFails_def by blast
  have "ShouldMarkJobAsDeleted (opStatus (inst s)) = (False, False)"
    using s by (simp add: ShouldMarkJobAsDeleted_def IsDone_holds holds_def)
  moreover have "snd (LogWarning clk (opStatus (inst s)) r m)" for clk r m
    using s by (simp add: log_methods logCondition_cases)
  ultimately show ?thesis
    by (simp add: missingJob_def objCreate_def wp_simps create)
       (rule wp_logM, simp add: wp_bindG, rule wp_mono [OF pub],
        auto simp: wp_ret split: outcome.splits if_splits)
qed

lemma createFails_first:
  assumes fails: "createFails env e" and echo: "status_echo env"
    and served: "serves (\<lambda>i. jobBatchJobSpec i \<noteq> None) env"
    and s: "jobBatchJobSpec (inst s) \<noteq> None" "Conditions (opStatus (inst s)) = []"
  shows "wp (reconcileJob env) (\<lambda>r t. r = Returns (Some e) \<and> jobBatchJobSpec (inst t) \<noteq> None \<and>
      \<not> IsDone (opStatus (inst t)) \<and> Conditions (opStatus (inst t)) \<noteq> [] \<and>
      cType (last (Conditions (opStatus (inst t)))) = OperationWarning \<and>
      (\<exists>st report. calls t = calls s @ CCreate KJob False # CStatusUpdate st None # report \<and>
         list_all (\<lambda>c. \<not> isCreateCall c) report)) s" 
proof (rule wp_reconcileJob_createFails [OF fails s(1)])
  fix job w
  let ?warn = "\<lambda>clk. fst (LogWarning clk (opStatus (inst s)) ''OperatorCreateJob'' (errorText e))"
  have notDone: "\<not> IsDone (opStatus (inst s))" using s(2) by (simp add: IsDone_holds holds_def)
  have last: "cType (last (Conditions (?warn clk))) = OperationWarning" for clk
    by (simp add: log_methods status.log_last)
  have accept: "updateInstanceStatus env i v \<noteq> (Inl e', v')" for i v e' v'
    using fails unfolding createFails_def by (metis Inl_Inr_False prod.inject)
  have kept: "\<not> IsDone (opStatus j) \<and> Conditions (opStatus j) \<noteq> [] \<and>
      cType (last (Conditions (opStatus j))) = OperationWarning \<and> jobBatchJobSpec j \<noteq> None"
    if "updateInstanceStatus env ((inst s)\<lparr>opStatus := ?warn clk\<rparr>) v = (Inr j, v')" for clk v j v'
    using status_echoD(2) [OF echo that] servesD(3) [OF served that] notDone last [of clk] s(1)
    by (auto dest: statusKept_IsDone statusKept_last statusKept_conditions)
  show "wp (missingJob env job) (\<lambda>r t. r = Returns (Some e) \<and> jobBatchJobSpec (inst t) \<noteq> None \<and>
      \<not> IsDone (opStatus (inst t)) \<and> Conditions (opStatus (inst t)) \<noteq> [] \<and>
      cType (last (Conditions (opStatus (inst t)))) = OperationWarning \<and>
      (\<exists>st report. calls t = calls s @ CCreate KJob False # CStatusUpdate st None # report \<and>
         list_all (\<lambda>c. \<not> isCreateCall c) report)) (s\<lparr>world := w\<rparr>)"
    by (rule wp_missingJob_createFails [OF fails], simp add: s, rule wp_publishStatus)
       (auto simp: accept dest!: kept)
qed

text \<open>C13: a batch job that cannot be created once is never created. The first failure is published as a
  warning, and a warning on a missing job is read as an external deletion: the retry that the returned
  error asks for sends no second create, but stops the operation with reason \<open>JobDeleted\<close>.\<close>

theorem create_failure_not_retried:
  assumes "createFails env e" and "status_echo env" and "serves (\<lambda>i. jobBatchJobSpec i \<noteq> None) env"
    and "jobBatchJobSpec (inst s) \<noteq> None" and "Conditions (opStatus (inst s)) = []"
  shows "wp (bindG (reconcileJob env) (\<lambda>err. reconcileJob env))
    (\<lambda>r t. r = Returns None \<and> IsStopped (opStatus (inst t)) \<and>
       (\<exists>new. calls t = calls s @ new \<and> filter isCreateCall new = [CCreate KJob False])) s"
proof -
  have none: "filter isCreateCall report = []" if "list_all (\<lambda>c. \<not> isCreateCall c) report" for report
    using that by (simp add: filter_empty_conv list_all_iff)
  have accept: "updateInstanceStatus env i v \<noteq> (Inl e', v')" for i v e' v'
    using assms(1) unfolding createFails_def by (metis Inl_Inr_False prod.inject)
  have kept: "IsStopped (opStatus j) \<and> Conditions (opStatus j) \<noteq> []"
    if "updateInstanceStatus env (i\<lparr>opStatus := st\<rparr>) v = (Inr j, v')" "stoppedAsDeleted st" for i st v j v'
    using status_echoD(2) [OF assms(2) that(1)] that(2)
    by (auto simp: stoppedAsDeleted_def dest: statusKept_IsStopped statusKept_conditions)
  have second: "wp (reconcileJob env) (\<lambda>r t. r = Returns None \<and> IsStopped (opStatus (inst t)) \<and>
      (\<exists>new. calls t = calls u @ new \<and> filter isCreateCall new = [])) u"
    if "jobBatchJobSpec (inst u) \<noteq> None" "\<not> IsDone (opStatus (inst u))" "Conditions (opStatus (inst u)) \<noteq> []"
      "cType (last (Conditions (opStatus (inst u)))) = OperationWarning" for u
  proof (rule wp_reconcileJob_createFails [OF assms(1) that(1)], rule wp_missingJob_deleted)
    fix st v w
    assume "stoppedAsDeleted st"
    then show "wp (publishStatus env) (\<lambda>r t. r = Returns None \<and> IsStopped (opStatus (inst t)) \<and>
        (\<exists>new. calls t = calls u @ new \<and> filter isCreateCall new = []))
        (u\<lparr>world := w, world := v, inst := (inst (u\<lparr>world := w\<rparr>))\<lparr>opStatus := st\<rparr>\<rparr>)"
      by (intro wp_publishStatus) (auto simp: accept none dest!: kept)
  qed (use that in simp_all)
  show ?thesis
    unfolding wp_bindG
    by (rule wp_mono [OF createFails_first [OF assms]])
       (clarsimp, rule wp_mono [OF second], auto simp: none)
qed


text \<open>the watch on pods finds its way back. A pod is mapped to the request of an operation exactly when it is
  in the operation's namespace and the first controller among its owners is the batch job that the
  job controller generates for the operation, whatever its other owners.\<close>

theorem Job_mapPodToRequest_roundtrip:
  assumes "controllerOf_law g"
  shows "Job_mapPodToRequest g pod = [(opNamespace i, opName i)] \<longleftrightarrow>
    podNamespace pod = opNamespace i \<and>
    (\<exists>us r vs. podOwnerReferences pod = us @ r # vs \<and> list_all (\<lambda>u. orController u \<noteq> Some True) us \<and>
       orController r = Some True \<and>
       (orAPIVersion r, orKind r, orName r) = (''batch/v1'', ''Job'', bjName (generatedJob env i spec)))"
proof -
  have name: "bjName (generatedJob env i spec) = opName i"
    by (simp add: generatedJob_def GenerateJob_def Let_def)
  have found: "g (podOwnerReferences pod) = Some r \<longleftrightarrow>
      (\<exists>us vs. podOwnerReferences pod = us @ r # vs \<and> orController r = Some True \<and>
         list_all (\<lambda>u. orController u \<noteq> Some True) us)" for r
    using assms by (simp add: controllerOf_law_def find_split)
  have "Job_mapPodToRequest g pod = [(opNamespace i, opName i)] \<longleftrightarrow>
      (\<exists>r. g (podOwnerReferences pod) = Some r \<and> orAPIVersion r = ''batch/v1'' \<and> orKind r = ''Job'' \<and>
         podNamespace pod = opNamespace i \<and> orName r = opName i)"
    by (auto simp: Job_mapPodToRequest_def split: option.splits)
  then show ?thesis by (auto simp: name found)
qed

section \<open>Witnesses\<close>

definition demoJob :: "OperationCondition list \<Rightarrow> time option \<Rightarrow> string list \<Rightarrow> Job" where
  "demoJob cs completion finalizers =
     \<lparr>opName = ''run'', opNamespace = ''ns'', opLabels = [(''app.kubernetes.io/instance'', ''uuid'')],
      opAnnotations = [(''operation.polyaxon.com/owner'', ''me''), (''operation.polyaxon.com/project'', ''p'')],
      opFinalizers = finalizers, opDeletionTimestamp = None,
      opTermination = \<lparr>BackoffLimit = NilPtr, ActiveDeadlineSeconds = NilPtr,
         TTLSecondsAfterFinished = Ptr 1 60, Culling = None, Probe = None, PodFailurePolicy = None\<rparr>,
      opCollectLogs = True, opSyncStatuses = True,
      opStatus = \<lparr>Conditions = cs, StartTime = Some 1, CompletionTime = completion, LastReconcileTime = None\<rparr>,
      jobBatchJobSpec = Some \<lparr>bjsTemplate = \<lparr>ptLabels = [], ptAnnotations = [],
         ptSpec = \<lparr>Containers = [], RestartPolicy = '''', psOther = ''''\<rparr>\<rparr>\<rparr>\<rparr>"

definition demoEnv :: "Job \<Rightarrow> BatchJob option \<Rightarrow> error option \<Rightarrow> (Job, int) jobEnv" where
  "demoEnv i found createErr = fixedApi (\<lambda>_. None) i (jobEnv.fields (fixedObjs found createErr) 100)"

definition demoCond :: "OperationConditionType \<Rightarrow> OperationCondition" where
  "demoCond t = \<lparr>cType = t, cStatus = ConditionTrue, cLastUpdateTime = 2, cLastTransitionTime = 2,
     cReason = ''OperatorController'', cMessage = ''''\<rparr>"

lemmas demo_simps = demoEnv_def fixedApi_def fixedObjs_def jobEnv.defs demoJob_def demoCond_def

lemma demo_laws [simp]:
  "finalizer_laws (demoEnv i found err)" "status_echo (demoEnv i found err)" "writesStatusOnly (demoEnv i found err)"
  "J i \<Longrightarrow> serves J (demoEnv i found err)"
  by (simp_all add: demoEnv_def)

lemma demo_fields [simp]:
  "getInstance (demoEnv i found err) k w = (Inr i, w)"
  "StartTime (opStatus (demoJob cs ct fs)) = Some 1" "Conditions (opStatus (demoJob cs ct fs)) = cs"
  "opFinalizers (demoJob cs ct fs) = fs" "cType (demoCond ty) = ty" "cStatus (demoCond ty) = ConditionTrue"
  by (simp_all add: demoEnv_def fixedApi_def demoJob_def demoCond_def)

lemma demo_objs:
  "oGet (jobObjs (demoEnv i None err)) k w = (Inl (NotFound ''not found''), w)"
  "setControllerReference (jobObjs (demoEnv i found err)) j obj = Inr obj"
  by (simp_all add: demoEnv_def fixedApi_def fixedObjs_def jobEnv.defs)

theorem Job_Reconcile_safe_witness:
  "let i = demoJob [demoCond OperationSucceeded] (Some 5) [] in
   serves jobGood (demoEnv i None None) \<and>
   (\<exists>res t. Job_Reconcile (demoEnv i None None) (''ns'', ''run'') \<lparr>inst = i, world = 10, calls = []\<rparr>
       = (Returns res, t) \<and> list_all timedSent (calls t))"
proof -
  let ?i = "demoJob [demoCond OperationSucceeded] (Some 5) []"
  have "serves jobGood (demoEnv ?i None None)"
    by (rule demo_laws) (simp add: jobGood_def timedDone_def demoJob_def)
  with Job_Reconcile_safe [OF this demo_laws(2), of "(''ns'', ''run'')" ?i 10] show ?thesis by (simp add: Let_def)
qed

theorem Job_Reconcile_release_witness:
  "let i = demoJob [demoCond OperationSucceeded] (Some 5) [] in IsDone (opStatus i) \<and>
   list_all isReleaseCall (calls (snd (Job_Reconcile (demoEnv i None None) (''ns'', ''run'') (startPass i 10))))"
proof -
  let ?i = "demoJob [demoCond OperationSucceeded] (Some 5) []"
  let ?t = "snd (Job_Reconcile (demoEnv ?i None None) (''ns'', ''run'') (startPass ?i 10))"
  have d: "IsDone (opStatus ?i)" by (simp add: IsDone_holds holds_def demoJob_def demoCond_def exI [of _ OperationSucceeded])
  have "\<exists>first rest. calls ?t = calls (startPass ?i 10) @ first @ rest \<and>
      startWrite (opStatus ?i) (fst (timeNow (demoEnv ?i None None) 10)) first \<and> list_all isReleaseCall rest"
    by (rule Job_Reconcile_release [where i = ?i and w = 10])
       (use d in \<open>simp_all add: startPass_def\<close>)
  with d show ?thesis by (auto simp: Let_def startPass_def startWrite_def)
qed

theorem Job_Reconcile_logs_first_witness:
  "let i = demoJob [demoCond OperationSucceeded] (Some 5) [OperationLogsFinalizer] in
   mustCollect (demoEnv i None None) i \<and>
   (\<exists>new. calls (snd (Job_Reconcile (demoEnv i None None) (''ns'', ''run'') (startPass i 10))) =
      calls (startPass i 10) @ new \<and> logsSafe False new)"
proof -
  let ?i = "demoJob [demoCond OperationSucceeded] (Some 5) [OperationLogsFinalizer]"
  have m: "mustCollect (demoEnv ?i None None) ?i"
    by (simp add: mustCollect_def demo_simps GetBoolEnv_def getInstanceInfo_def nonEmpty_def)
  have "\<exists>new. calls (snd (Job_Reconcile (demoEnv ?i None None) (''ns'', ''run'') (startPass ?i 10))) =
      calls (startPass ?i 10) @ new \<and> logsSafe False new"
    by (rule Job_Reconcile_logs_first [where i = ?i and w = 10])
       (use m in \<open>simp_all add: startPass_def\<close>)
  with m show ?thesis by (simp add: Let_def)
qed

theorem reconcileJob_deleted_witness:
  "let i = demoJob [demoCond OperationRunning] None [] in
   wp (reconcileJob (demoEnv i None None)) (\<lambda>r t. \<exists>st err report.
      calls t = CStatusUpdate st err # report \<and> stoppedAsDeleted st \<and>
      list_all (\<lambda>c. \<not> isCreateCall c) report \<and> r = Returns err \<and> (err = None \<or> report = [])) (startPass i 10)"
proof -
  let ?i = "demoJob [demoCond OperationRunning] None []"
  let ?E = "demoEnv ?i None None"
  obtain spec where spec: "jobBatchJobSpec ?i = Some spec" by (simp add: demoJob_def)
  have nd: "\<not> IsDone (opStatus ?i)" by (auto simp: IsDone_holds holds_def demoJob_def demoCond_def isFinal_def)
  have "wp (reconcileJob ?E) (\<lambda>r t. \<exists>st err report.
      calls t = calls (startPass ?i 10) @ CStatusUpdate st err # report \<and> stoppedAsDeleted st \<and>
      list_all (\<lambda>c. \<not> isCreateCall c) report \<and> r = Returns err \<and> (err = None \<or> report = [])) (startPass ?i 10)"
    by (rule reconcileJob_deleted [where spec = spec and job = "generatedJob ?E ?i spec"
          and m = "''not found''" and w = 10])
       (use spec nd in \<open>simp_all add: startPass_def demo_objs\<close>)
  then show ?thesis by (simp add: Let_def startPass_def)
qed

theorem create_failure_not_retried_witness:
  "let i = demoJob [] None []; env = demoEnv i None (Some (OtherError ''quota'')) in
   createFails env (OtherError ''quota'') \<and>
   wp (bindG (reconcileJob env) (\<lambda>err. reconcileJob env))
    (\<lambda>r t. r = Returns None \<and> IsStopped (opStatus (inst t)) \<and>
       (\<exists>new. calls t = calls (startPass i 10) @ new \<and> filter isCreateCall new = [CCreate KJob False])) (startPass i 10)"
proof -
  let ?i = "demoJob [] None []"
  let ?E = "demoEnv ?i None (Some (OtherError ''quota''))"
  have f: "createFails ?E (OtherError ''quota'')" by (simp add: createFails_def demo_simps)
  have sv: "serves (\<lambda>i. jobBatchJobSpec i \<noteq> None) ?E" by (rule demo_laws) (simp add: demoJob_def)
  show ?thesis
    using f create_failure_not_retried [OF f demo_laws(2) sv, of "startPass ?i 10"]
    by (simp add: Let_def startPass_def demoJob_def)
qed

theorem Job_mapPodToRequest_roundtrip_witness:
  "let g = List.find (\<lambda>r. orController r = Some True); i = demoJob [] None [];
       r = \<lparr>orAPIVersion = ''batch/v1'', orKind = ''Job'', orName = ''run'', orController = Some True\<rparr>;
       pod = \<lparr>podName = ''run-x'', podNamespace = ''ns'', podLabels = [], podOwnerReferences = [r],
              podCreationTimestamp = 0, podSpec = \<lparr>Containers = [], RestartPolicy = '''', psOther = ''''\<rparr>,
              podPhase = '''', podMessage = '''', podConditions = None, podInitContainerStatuses = [],
              podContainerStatuses = []\<rparr>
   in controllerOf_law g \<and> Job_mapPodToRequest g pod = [(''ns'', ''run'')]"
proof -
  let ?g = "List.find (\<lambda>r. orController r = Some True)"
  have law: "controllerOf_law ?g" by (simp add: controllerOf_law_def)
  show ?thesis
    using law Job_mapPodToRequest_roundtrip [OF law, of _ "demoJob [] None []" "demoEnv (demoJob [] None []) None None"]
    by (simp add: Let_def generatedJob_def GenerateJob_def)
       (simp add: demoJob_def exI [of _ "[]"])
qed

end
