(* ===== verification/Service_Controller.thy ===== *)
theory Service_Controller
  imports Requeue
begin

text \<open>
  The controller of services: \<^verbatim>\<open>internal/controller/service\<close>.

  Its copies of the common handlers are the instances of \<open>Reconcile\<close> at the type \<open>Service\<close>. The record
  \<open>svcEnv\<close> adds the clients on deployments and Kubernetes services and, for the activity probe, the
  HTTP client (the answer carries what the JSON decoder makes of the body) and the RFC 3339 parser.

  \<open>GenerateDeployment\<close> adds ports to the container it is given, which is the one of the instance: the
  change is written back to the instance here.
\<close>

record httpResponse =
  hrStatusCode :: int
  hrLastActivity :: "error + string"

record ('i, 'w) svcEnv = "('i, 'w) api" +
  deployObjs :: "('i, Deployment, 'w) objApi"
  serviceObjs :: "('i, CoreService, 'w) objApi"
  httpGet :: "string \<Rightarrow> 'w \<Rightarrow> (error + httpResponse) \<times> 'w"
  parseRFC3339 :: "string \<Rightarrow> error + time"

section \<open>Deployment\<close>

definition emptyDeployment :: Deployment where
  "emptyDeployment =
     \<lparr>dpName = '''', dpNamespace = '''', dpLabels = [], dpAnnotations = [], dpOwnerReferences = [],
      dpReplicas = None, dpSelector = [],
      dpTemplate = \<lparr>ptLabels = [], ptAnnotations = [],
                    ptSpec = \<lparr>Containers = [], RestartPolicy = '''', psOther = ''''\<rparr>\<rparr>,
      dpStatus = \<lparr>dsAvailableReplicas = 0, dsReadyReplicas = 0, dsUnavailableReplicas = 0, dsConditions = []\<rparr>\<rparr>"

definition reconcileDeploymentStatus :: "(Service, 'w) svcEnv \<Rightarrow> Deployment \<Rightarrow> ((Service, 'w) pass, bool) go" where
  "reconcileDeploymentStatus env deployment =
     bindG (readS inst) (\<lambda>i.
     bindG (ListInstancePods env (lookupZ (opLabels i) ''app.kubernetes.io/instance'')
              (opNamespace i)) (\<lambda>(pods, err).
       case GetInvalidImageName pods of
         Some message \<Rightarrow>
           bindG (logM env (\<lambda>clk st. LogFailed clk st InvalidImageNameReason message)) (\<lambda>updated.
             if updated then
               bindG (now env) (\<lambda>t.
               bindG (setStatus (\<lambda>st. st\<lparr>CompletionTime := Some t\<rparr>)) (\<lambda>_. ret True))
             else ret False)
       | None \<Rightarrow>
           (let (podStatus, reason, message) = HasUnschedulablePods pods in
            if podStatus = OperationWarning then logM env (\<lambda>clk st. LogWarning clk st reason message)
            else if length (dsConditions (dpStatus deployment)) = 0 then ret False
            else let newDeploymentCond = last (dsConditions (dpStatus deployment)) in
              if IsDeploymentWarning (dpStatus deployment) newDeploymentCond then
                bindG (logM env (\<lambda>clk st. LogWarning clk st (dcReason newDeploymentCond)
                         (dcMessage newDeploymentCond))) (\<lambda>_. ret True)
              else if IsDeploymentRunning (dpStatus deployment) newDeploymentCond then
                bindG (logM env LogRunning) (\<lambda>_. ret True)
              else ret False)))"

text \<open>The code after the deployment was found or created.\<close>

definition updateDeployment ::
  "(Service, 'w) svcEnv \<Rightarrow> Deployment \<Rightarrow> bool \<Rightarrow> Deployment \<Rightarrow> ((Service, 'w) pass, error option) go"
where
  "updateDeployment env deployment justCreated foundDeployment =
     bindG (readS inst) (\<lambda>i.
     bindG (if \<not> justCreated \<and> \<not> IsDone (opStatus i) then
              (let (foundDeployment, requireUpdate) = CopyDeploymentFields deployment foundDeployment in
               if requireUpdate then objUpdate (deployObjs env) KDeployment foundDeployment
               else ret (None, foundDeployment))
            else ret (None, foundDeployment)) (\<lambda>(err, foundDeployment).
       case err of
         Some e \<Rightarrow> ret (Some e)
       | None \<Rightarrow>
           bindG (reconcileDeploymentStatus env foundDeployment) (\<lambda>condUpdated.
             if condUpdated then publishStatus env else ret None)))"

text \<open>The create branches share the report of a failed creation.\<close>

definition warnCreate ::
  "(Service, 'w) svcEnv \<Rightarrow> string \<Rightarrow> error \<Rightarrow> ((Service, 'w) pass, error option) go"
where
  "warnCreate env reason e =
     bindG (logM env (\<lambda>clk st. LogWarning clk st reason (errorText e))) (\<lambda>updated.
     bindG (if updated then publishStatus env else ret None) (\<lambda>statusErr.
       if statusErr \<noteq> None then ret statusErr else ret (Some e)))"

definition setPodSpec :: "ServiceSpec \<Rightarrow> PodSpec \<Rightarrow> Service \<Rightarrow> Service" where
  "setPodSpec spec ps i = i\<lparr>svcServiceSpec := Some (spec\<lparr>ssTemplate := (ssTemplate spec)\<lparr>ptSpec := ps\<rparr>\<rparr>)\<rparr>"

definition reconcileDeployment ::
  "(Service, 'w) svcEnv \<Rightarrow> int32 list \<Rightarrow> ((Service, 'w) pass, error option) go"
where
  "reconcileDeployment env ports =
     bindG (readS inst) (\<lambda>i.
       case svcServiceSpec i of
         None \<Rightarrow> panic ''nil pointer dereference''
       | Some spec \<Rightarrow>
           (case GenerateDeployment (opName i) (opNamespace i) (opLabels i) (opAnnotations i) ports
                   (GetReplicas DefaultServiceReplicas (ssReplicas spec)) (ptSpec (ssTemplate spec)) of
              Inl e \<Rightarrow> ret (Some e)
            | Inr (generated, portedSpec) \<Rightarrow>
                bindG (modifyS (\<lambda>s. s\<lparr>inst := setPodSpec spec portedSpec (inst s)\<rparr>)) (\<lambda>_.
                bindG (readS inst) (\<lambda>i.
                case setControllerReference (deployObjs env) i generated of
                  Inl e \<Rightarrow> ret (Some e)
                | Inr deployment \<Rightarrow>
                    bindG (objGet (deployObjs env) (dpNamespace deployment, dpName deployment)) (\<lambda>found.
                      if IsDone (opStatus i) then ret None
                      else case found of
                        Inl e \<Rightarrow>
                          if IsNotFound e then
                            bindG (objCreate (deployObjs env) KDeployment deployment) (\<lambda>err.
                              case err of
                                Some e \<Rightarrow> warnCreate env ''OperatorCreateDeployment'' e
                              | None \<Rightarrow>
                                  bindG (logM env LogStarting) (\<lambda>_.
                                  bindG (publishStatus env) (\<lambda>err.
                                    if err \<noteq> None then ret err
                                    else updateDeployment env deployment True emptyDeployment)))
                          else ret (Some e)
                      | Inr foundDeployment \<Rightarrow> updateDeployment env deployment False foundDeployment)))))"

section \<open>Kubernetes service\<close>

definition baseServiceName :: "string \<Rightarrow> bool \<Rightarrow> string" where
  "baseServiceName name isExternal = (if isExternal then name @ ''-ext'' else name)"

definition reconcileBaseService ::
  "(Service, 'w) svcEnv \<Rightarrow> int32 list \<Rightarrow> bool \<Rightarrow> ((Service, 'w) pass, error option) go"
where
  "reconcileBaseService env ports isExternal =
     bindG (readS inst) (\<lambda>i.
       case setControllerReference (serviceObjs env) i
              (GenerateService (baseServiceName (opName i) isExternal) (opNamespace i) (opLabels i)
                 (opAnnotations i) ports) of
         Inl e \<Rightarrow> ret (Some e)
       | Inr service \<Rightarrow>
           bindG (objGet (serviceObjs env) (svNamespace service, svName service)) (\<lambda>found.
             case found of
               Inl e \<Rightarrow>
                 if IsNotFound e then
                   bindG (objCreate (serviceObjs env) KService service) (\<lambda>err.
                     case err of
                       Some e \<Rightarrow> warnCreate env ''OperatorCreateService'' e
                     | None \<Rightarrow> ret None)
                 else ret (Some e)
             | Inr foundService \<Rightarrow>
                 (let (foundService, requireUpdate) = CopyServiceFields service foundService in
                  if requireUpdate then
                    bindG (objUpdate (serviceObjs env) KService foundService) (\<lambda>(err, _). ret err)
                  else ret None)))"

section \<open>Exit of the main container\<close>

definition exitMessage :: "MainContainerExitStatus \<Rightarrow> int32 \<Rightarrow> string" where
  "exitMessage es backoffLimit =
     (let message = ''Main container '' @ quote (esContainerName es) @ '' in pod '' @ quote (esPodName es) @
            '' exited with code '' @ itoa (sint (esExitCode es)) @ '' after '' @
            itoa (sint (ContainerFailedAttempts es)) @ '' failed attempt(s), exceeding maxRetries '' @
            itoa (sint backoffLimit)
      in if esMessage es \<noteq> '''' then message @ '': '' @ esMessage es else message)"

text \<open>The sequence: log a final condition, and if that changed the status set its completion time and publish.\<close>

definition finishAndPublish ::
  "(Service, 'w) svcEnv \<Rightarrow> time \<Rightarrow> (clock \<Rightarrow> OperationStatus \<Rightarrow> OperationStatus \<times> bool) \<Rightarrow>
   ((Service, 'w) pass, bool \<times> error option) go"
where
  "finishAndPublish env t f =
     bindG (finishWith env t f) (\<lambda>updated.
     bindG (if updated then publishStatus env else ret None) (\<lambda>statusErr.
       if statusErr \<noteq> None then ret (False, statusErr) else ret (True, None)))"

definition handleServiceContainerExit ::
  "(Service, 'w) svcEnv \<Rightarrow> ((Service, 'w) pass, bool \<times> error option) go"
where
  "handleServiceContainerExit env =
     bindG (readS inst) (\<lambda>i.
       case map_of (opLabels i) ''app.kubernetes.io/instance'' of
         None \<Rightarrow> ret (False, None)
       | Some instanceID \<Rightarrow>
           bindG (ListInstancePods env instanceID (opNamespace i)) (\<lambda>(pods, err).
             if err \<noteq> None then ret (False, err)
             else case GetMainContainerExitStatus pods of
               None \<Rightarrow> ret (False, None)
             | Some exitStatus \<Rightarrow>
                 (let replicas = (case svcServiceSpec i of None \<Rightarrow> DefaultServiceReplicas
                        | Some spec \<Rightarrow> GetReplicas DefaultServiceReplicas (ssReplicas spec)) in
                  bindG (now env) (\<lambda>t.
                    if replicas = 1 \<and> esExitCode exitStatus = 0 then finishAndPublish env t LogSucceeded
                    else if esExitCode exitStatus = 0 then ret (False, None)
                    else let backoffLimit = (case deref (BackoffLimit (opTermination i)) of
                                               None \<Rightarrow> 0 | Some n \<Rightarrow> n) in
                      if backoffLimit <s 0 \<or> ContainerFailedAttempts exitStatus \<le>s backoffLimit
                      then ret (False, None)
                      else finishAndPublish env t (\<lambda>clk st.
                             LogFailed clk st (FailureReason exitStatus) (exitMessage exitStatus backoffLimit))))))"

section \<open>Culling\<close>

text \<open>The address the probe asks, from the name of the Kubernetes service, the port and the path.\<close>

definition probePath :: "string \<Rightarrow> string" where
  "probePath path = trimSuffix (if path = '''' then ''/api/status'' else path) ''/''"

definition probeURL :: "string \<Rightarrow> string \<Rightarrow> string \<Rightarrow> string \<Rightarrow> string \<Rightarrow> int32 \<Rightarrow> string \<Rightarrow> string" where
  "probeURL serviceName namespace owner project instanceID port path =
     (let host = serviceName @ ''.'' @ namespace @ ''.svc.cluster.local'';
          fullPath = ''/services/v1/'' @ namespace @ ''/'' @ owner @ ''/'' @ project @ ''/runs/'' @ instanceID @
            ''/'' @ itoa (sint port) @ path
      in ''http://'' @ host @ '':'' @ itoa (sint port) @ fullPath)"

text \<open>The port of the probe; \<open>Inl\<close> is the panic, \<open>Inr (Inl e)\<close> the error.\<close>

definition probePort :: "ActivityProbeHttp \<Rightarrow> ServiceSpec option \<Rightarrow> string + (error + int32)" where
  "probePort probe serviceSpec =
     (if phPort probe \<noteq> 0 then Inr (Inr (phPort probe))
      else case serviceSpec of
        None \<Rightarrow> Inl ''nil pointer dereference''
      | Some spec \<Rightarrow>
          (case GetPodPorts (ptSpec (ssTemplate spec)) DefaultTargetPort of
             Inl p \<Rightarrow> Inl p
           | Inr podPorts \<Rightarrow>
               (let ports = (case ssPorts spec of None \<Rightarrow> podPorts
                               | Some ps \<Rightarrow> if length ps > 0 then ps else podPorts)
                in Inr (case ports of [] \<Rightarrow> Inl (OtherError ''no ports defined for service'')
                        | port # _ \<Rightarrow> Inr port))))"

text \<open>The request itself, once its address is known.\<close>

definition askActivity :: "(Service, 'w) svcEnv \<Rightarrow> string \<Rightarrow> ((Service, 'w) pass, error + time) go" where
  "askActivity env url =
     bindG (external (httpGet env url)) (\<lambda>resp.
       case resp of
         Inl e \<Rightarrow> ret (Inl e)
       | Inr r \<Rightarrow>
           (if hrStatusCode r \<noteq> 200
           then ret (Inl (OtherError (''http api returned status: '' @ itoa (hrStatusCode r))))
           else case hrLastActivity r of
                  Inl e \<Rightarrow> ret (Inl e)
                | Inr lastActivity \<Rightarrow> ret (parseRFC3339 env lastActivity)))"

definition checkHttpActivity ::
  "(Service, 'w) svcEnv \<Rightarrow> ActivityProbeHttp \<Rightarrow> ((Service, 'w) pass, error + time) go"
where
  "checkHttpActivity env probe =
     bindG (readS inst) (\<lambda>i.
       let serviceName = baseServiceName (opName i)
             (case svcServiceSpec i of None \<Rightarrow> False | Some spec \<Rightarrow> ssIsExternal spec)
       in bindG (objGet (serviceObjs env) (opNamespace i, serviceName)) (\<lambda>found.
          case found of
            Inl e \<Rightarrow>
              if IsNotFound e
              then ret (Inl (OtherError (''service '' @ serviceName @ '' not found in namespace '' @ opNamespace i)))
              else ret (Inl e)
          | Inr foundService \<Rightarrow>
              (case probePort probe (svcServiceSpec i) of
                 Inl p \<Rightarrow> panic p
               | Inr (Inl e) \<Rightarrow> ret (Inl e)
               | Inr (Inr port) \<Rightarrow>
                   (let instanceID = lookupZ (opLabels i) ''app.kubernetes.io/instance'';
                        owner = lookupZ (opAnnotations i) ''operation.polyaxon.com/owner'';
                        project = lookupZ (opAnnotations i) ''operation.polyaxon.com/project''
                    in if instanceID = ''''
                       then ret (Inl (OtherError ''missing required label app.kubernetes.io/instance''))
                       else if owner = '''' \<or> project = ''''
                       then ret (Inl (OtherError
                         ''missing required annotations operation.polyaxon.com/owner or operation.polyaxon.com/project''))
                       else askActivity env (probeURL serviceName (opNamespace i) owner project instanceID port
                              (probePath (phPath probe)))))))"

definition handleCulling ::
  "(Service, 'w) svcEnv \<Rightarrow> ((Service, 'w) pass, duration option \<times> error option) go"
where
  "handleCulling env =
     bindG (readS inst) (\<lambda>i.
       case (case Culling (opTermination i) of None \<Rightarrow> None | Some c \<Rightarrow> cullTimeout c) of
         None \<Rightarrow> ret (None, None)
       | Some seconds \<Rightarrow>
           if \<not> IsRunning (opStatus i) then ret (None, None)
           else let timeout = secondsDuration (sint seconds) in
             (case (case Probe (opTermination i) of None \<Rightarrow> None | Some p \<Rightarrow> apHttp p) of
                None \<Rightarrow> ret (None, None)
              | Some http \<Rightarrow>
                  bindG (checkHttpActivity env http) (\<lambda>r.
                    case r of
                      Inl e \<Rightarrow> ret (Some timeout, None)
                    | Inr lastActivity \<Rightarrow>
                        bindG (now env) (\<lambda>t.
                          let elapsed = timeSub t lastActivity in
                          if elapsed < timeout then ret (Some (wrap64 (timeout - elapsed)), None)
                          else bindG (deleteOp env) (\<lambda>err. ret (None, err))))))"

section \<open>The controller\<close>

text \<open>The next check: the deadline or the culling check, whichever comes first.\<close>

definition earlier :: "duration option \<Rightarrow> duration option \<Rightarrow> duration option" where
  "earlier d c =
     (case c of
        None \<Rightarrow> d
      | Some x \<Rightarrow> (case d of None \<Rightarrow> c | Some y \<Rightarrow> if x < y then c else d))"

definition requeueAt :: "duration option \<Rightarrow> ctrlResult" where
  "requeueAt d = (case d of None \<Rightarrow> noRequeue | Some x \<Rightarrow> \<lparr>Requeue = False, RequeueAfter = x\<rparr>)"

text \<open>The part of \<open>reconcileService\<close> after the two objects are reconciled.\<close>

definition superviseService :: "(Service, 'w) svcEnv \<Rightarrow> ((Service, 'w) pass, ctrlResult \<times> error option) go" where
  "superviseService env =
     bindG (handlePastActiveDeadline env) (\<lambda>(d, err).
     bindG (readS (\<lambda>s. IsDone (opStatus (inst s)))) (\<lambda>isDone.
       if err \<noteq> None \<or> isDone then ret (noRequeue, err)
       else
         bindG (handleServiceContainerExit env) (\<lambda>(exited, err).
           if err \<noteq> None then ret (noRequeue, err)
           else if exited then ret (\<lparr>Requeue = True, RequeueAfter = 0\<rparr>, None)
           else
             bindG (handleCulling env) (\<lambda>(c, err).
               if err \<noteq> None then ret (noRequeue, err)
               else ret (requeueAt (earlier d c), None)))))"

definition reconcileService :: "(Service, 'w) svcEnv \<Rightarrow> ((Service, 'w) pass, ctrlResult \<times> error option) go" where
  "reconcileService env =
     bindG (readS inst) (\<lambda>i.
       case svcServiceSpec i of
         None \<Rightarrow> panic ''nil pointer dereference''
       | Some spec \<Rightarrow>
           (case GetPodPorts (ptSpec (ssTemplate spec)) DefaultTargetPort of
              Inl p \<Rightarrow> panic p
            | Inr podPorts \<Rightarrow>
                (let ports = (case ssPorts spec of None \<Rightarrow> podPorts | Some ps \<Rightarrow> ps) in
                 bindG (reconcileDeployment env ports) (\<lambda>err.
                   if err \<noteq> None then ret (noRequeue, err)
                   else bindG (readS inst) (\<lambda>i.
                     case svcServiceSpec i of
                       None \<Rightarrow> panic ''nil pointer dereference''
                     | Some spec \<Rightarrow>
                         bindG (reconcileBaseService env ports (ssIsExternal spec)) (\<lambda>err.
                           if err \<noteq> None then ret (noRequeue, err) else superviseService env))))))"

definition cleanUpService :: "(Service, 'w) svcEnv \<Rightarrow> ((Service, 'w) pass, ctrlResult \<times> error option) go" where
  "cleanUpService env = handleTTL env"

definition Service_Reconcile ::
  "(Service, 'w) svcEnv \<Rightarrow> key \<Rightarrow> ((Service, 'w) pass, ctrlResult \<times> error option) go"
where
  "Service_Reconcile env req = reconcilePass False cleanUpService reconcileService env req"

definition Service_mapPodToRequest :: "(OwnerReference list \<Rightarrow> OwnerReference option) \<Rightarrow> Pod \<Rightarrow> key list" where
  "Service_mapPodToRequest getControllerOf object =
     (case getControllerOf (podOwnerReferences object) of
        None \<Rightarrow> []
      | Some owner \<Rightarrow>
          if orAPIVersion owner \<noteq> ''apps/v1'' \<or> orKind owner \<noteq> ''ReplicaSet'' then []
          else let hash = lookupZ (podLabels object) ''pod-template-hash'' in
            if hash = '''' then []
            else (case cutSuffix (orName owner) (''-'' @ hash) of
                    None \<Rightarrow> []
                  | Some name \<Rightarrow> [(podNamespace object, name)]))"

text \<open>The copies of the common handlers in the service package.\<close>

definition Service_AddStartTime :: "(Service, 'w) svcEnv \<Rightarrow> ((Service, 'w) pass, error option) go" where
  "Service_AddStartTime env = AddStartTime env"

definition Service_AddLogsFinalizer :: "(Service, 'w) svcEnv \<Rightarrow> ((Service, 'w) pass, error option) go" where
  "Service_AddLogsFinalizer env = AddLogsFinalizer env"

definition Service_AddStatusFinalizer :: "(Service, 'w) svcEnv \<Rightarrow> ((Service, 'w) pass, error option) go" where
  "Service_AddStatusFinalizer env = AddStatusFinalizer env"

definition Service_handleFinalizers :: "(Service, 'w) svcEnv \<Rightarrow> ((Service, 'w) pass, error option) go" where
  "Service_handleFinalizers env = handleFinalizers env"

definition Service_instanceSyncStatus :: "(Service, 'w) svcEnv \<Rightarrow> ((Service, 'w) pass, sdkError option) go" where
  "Service_instanceSyncStatus env = instanceSyncStatus env"

definition Service_getInstanceInfo :: "Service \<Rightarrow> (string \<times> string \<times> string \<times> string) option" where
  "Service_getInstanceInfo i = getInstanceInfo i"

definition Service_syncStatus ::
  "(Service, 'w) svcEnv \<Rightarrow> OperationCondition \<Rightarrow> ((Service, 'w) pass, sdkError option) go"
where
  "Service_syncStatus env c = syncStatus env c"

definition Service_collectLogs :: "(Service, 'w) svcEnv \<Rightarrow> ((Service, 'w) pass, sdkError option) go" where
  "Service_collectLogs env = collectLogs env"

definition Service_delete :: "(Service, 'w) svcEnv \<Rightarrow> ((Service, 'w) pass, error option) go" where
  "Service_delete env = deleteOp env"

definition Service_handleTTL :: "(Service, 'w) svcEnv \<Rightarrow> ((Service, 'w) pass, ctrlResult \<times> error option) go" where
  "Service_handleTTL env = handleTTL env"

definition Service_handlePastActiveDeadline ::
  "(Service, 'w) svcEnv \<Rightarrow> ((Service, 'w) pass, duration option \<times> error option) go"
where
  "Service_handlePastActiveDeadline env = handlePastActiveDeadline env"


section \<open>The service controller keeps the contract\<close>

text \<open>The invariant of a service: it has a specification with a container, and when it has a time to live then it has
  no active deadline, and a completion time once it is done.\<close>

definition svcGood :: "Service \<Rightarrow> bool" where
  "svcGood i \<longleftrightarrow>
     (case svcServiceSpec i of None \<Rightarrow> False | Some spec \<Rightarrow> Containers (ptSpec (ssTemplate spec)) \<noteq> []) \<and>
     (deref (TTLSecondsAfterFinished (opTermination i)) = None \<or>
      deref (ActiveDeadlineSeconds (opTermination i)) = None \<and> timedDone (opStatus i))"

abbreviation anyCall :: "call \<Rightarrow> bool" where
  "anyCall \<equiv> \<lambda>_. True"

abbreviation svcInv :: "(Service, 'w) pass \<Rightarrow> bool" where
  "svcInv \<equiv> inv svcGood anyCall"

interpretation svc_status: status_inv svcGood anyCall
  by unfold_locales (auto simp: svcGood_def timedDone_def split: option.splits)

lemma svcGood_spec:
  assumes "svcGood i"
  obtains spec c cs where "svcServiceSpec i = Some spec" "Containers (ptSpec (ssTemplate spec)) = c # cs"
  using assms by (auto simp: svcGood_def neq_Nil_conv split: option.splits)

lemma ready_true: "hoare (ready svcGood anyCall True) (ret True) (ready svcGood anyCall)"
  by (simp add: hoare_def wp_simps)

lemma ready_reconcileDeploymentStatus:
  "hoare svcInv (reconcileDeploymentStatus env deployment) (ready svcGood anyCall)"
proof -
  have image: "hoare svcInv (bindG (logM env (\<lambda>clk st. LogFailed clk st r m)) (\<lambda>updated.
      if updated then bindG (now env) (\<lambda>t. bindG (setStatus (\<lambda>st. st\<lparr>CompletionTime := Some t\<rparr>)) (\<lambda>_. ret True))
      else ret False)) (ready svcGood anyCall)" for r m
    by (auto simp: hoare_def wp_simps inv_def ready_def svc_status.J_timed intro!: wp_logM split: prod.split)
  show ?thesis
    unfolding reconcileDeploymentStatus_def Let_def
    by (intro hoare_bindG [OF hoare_readS] hoare_bindG [OF hoare_ListInstancePods] hoare_prod hoare_option image
        hoare_if svc_status.ready_ret svc_status.ready_logM hoare_bindG [OF svc_status.ready_log_true] ready_true)
       simp_all
qed

lemma updateDeployment_safe:
  assumes "serves svcGood env" "status_echo env"
  shows "hoare svcInv (updateDeployment env d jc found) (\<lambda>_. svcInv)"
  unfolding updateDeployment_def
  by (intro hoare_bindG [OF ready_reconcileDeploymentStatus] svc_status.publish_ready hoare_intros assms) simp_all

lemma warnCreate_safe:
  assumes "serves svcGood env" "status_echo env"
  shows "hoare svcInv (warnCreate env r e) (\<lambda>_. svcInv)"
  unfolding warnCreate_def
  by (intro hoare_bindG [OF svc_status.ready_logM] hoare_bindG [OF svc_status.publish_ready] hoare_if hoare_ret assms)
     simp_all

lemma GenerateDeployment_spec_containers:
  "GenerateDeployment n ns ls an ports r spec = Inr (d, spec') \<Longrightarrow> Containers spec' \<noteq> []"
  by (auto simp: GenerateDeployment_def Let_def split: list.splits)

lemma setPodSpec_good:
  "svcGood i \<Longrightarrow> Containers ps \<noteq> [] \<Longrightarrow> svcGood (setPodSpec spec ps i)"
  by (auto simp: svcGood_def setPodSpec_def split: option.splits)

lemma reconcileDeployment_safe:
  assumes laws: "serves svcGood env" "status_echo env"
  shows "hoare svcInv (reconcileDeployment env ports) (\<lambda>_. svcInv)"
  unfolding reconcileDeployment_def
proof (rule hoare_bind_readS, rule hoare_option)
  fix i :: Service
  show "hoare (\<lambda>s. svcInv s \<and> i = inst s) (panic p) (\<lambda>_. svcInv)" if "svcServiceSpec i = None" for p
    using that by (auto simp: hoare_def inv_def svcGood_def)
next
  fix i :: Service and spec
  have set: "hoare svcInv (modifyS (\<lambda>s. s\<lparr>inst := setPodSpec spec ps (inst s)\<rparr>)) (\<lambda>_. svcInv)"
    if "Containers ps \<noteq> []" for ps
    using that by (intro hoare_modifyS) (simp add: inv_def setPodSpec_good)
  show "hoare (\<lambda>s. svcInv s \<and> i = inst s)
      (case GenerateDeployment (opName i) (opNamespace i) (opLabels i) (opAnnotations i) ports
          (GetReplicas DefaultServiceReplicas (ssReplicas spec)) (ptSpec (ssTemplate spec)) of
         Inl e \<Rightarrow> ret (Some e)
       | Inr (generated, portedSpec) \<Rightarrow>
           bindG (modifyS (\<lambda>s. s\<lparr>inst := setPodSpec spec portedSpec (inst s)\<rparr>)) (\<lambda>_.
           bindG (readS inst) (\<lambda>i.
           case setControllerReference (deployObjs env) i generated of
             Inl e \<Rightarrow> ret (Some e)
           | Inr deployment \<Rightarrow>
               bindG (objGet (deployObjs env) (dpNamespace deployment, dpName deployment)) (\<lambda>found.
                 if IsDone (opStatus i) then ret None
                 else case found of
                   Inl e \<Rightarrow>
                     if IsNotFound e then
                       bindG (objCreate (deployObjs env) KDeployment deployment) (\<lambda>err.
                         case err of
                           Some e \<Rightarrow> warnCreate env ''OperatorCreateDeployment'' e
                         | None \<Rightarrow>
                             bindG (logM env LogStarting) (\<lambda>_.
                             bindG (publishStatus env) (\<lambda>err.
                               if err \<noteq> None then ret err
                               else updateDeployment env deployment True emptyDeployment)))
                     else ret (Some e)
                 | Inr foundDeployment \<Rightarrow> updateDeployment env deployment False foundDeployment)))) (\<lambda>_. svcInv)"
    by (rule hoare_pre [of svcInv])
       (intro hoare_sum hoare_prod hoare_ret hoare_bindG [OF set] hoare_bindG [OF hoare_readS]
          hoare_bindG [OF hoare_objGet] hoare_if hoare_bindG [OF hoare_objCreate] hoare_option warnCreate_safe
          hoare_bindG [OF svc_status.ready_log_true] hoare_bindG [OF svc_status.publish_true]
          updateDeployment_safe laws,
        auto dest: GenerateDeployment_spec_containers)
qed

lemma reconcileBaseService_safe:
  assumes "serves svcGood env" "status_echo env"
  shows "hoare svcInv (reconcileBaseService env ports ext) (\<lambda>_. svcInv)"
  unfolding reconcileBaseService_def by (intro hoare_intros warnCreate_safe assms) simp_all

text \<open>A deadline only ends a service without a time to live.\<close>

lemma stopAtDeadline_safe:
  assumes laws: "serves svcGood env" "status_echo env"
  defines "K \<equiv> \<lambda>i. svcGood i \<and> deref (TTLSecondsAfterFinished (opTermination i)) = None"
  shows "hoare (inv K anyCall) (stopAtDeadline env) (\<lambda>_. svcInv)"
proof -
  have log: "hoare (inv K anyCall) (logM env (\<lambda>clk st. LogStopped clk st r m)) (ready svcGood anyCall)" for r m
    by (rule hoare_conseq [OF hoare_logM [where J = K and C = anyCall
          and J' = "\<lambda>i. svcGood i \<and> Conditions (opStatus i) \<noteq> []"]])
       (auto simp: K_def svcGood_def ready_def inv_def split: option.splits)
  show ?thesis
    unfolding stopAtDeadline_def
    by (intro hoare_bindG [OF log] hoare_bindG [OF svc_status.publish_ready] hoare_option hoare_ret
        hoare_bindG [OF hoare_deleteOp] laws) simp_all
qed

lemma handlePastActiveDeadline_safe:
  assumes laws: "serves svcGood env" "status_echo env"
  shows "hoare svcInv (handlePastActiveDeadline env) (\<lambda>_. svcInv)"
proof (unfold handlePastActiveDeadline_def, rule hoare_bind_readS, unfold prod.case, intro hoare_option hoare_if hoare_let)
  fix i :: Service and seconds startTime
  let ?K = "\<lambda>i. svcGood i \<and> deref (TTLSecondsAfterFinished (opTermination i)) = None"
  assume deadline: "deref (ActiveDeadlineSeconds (opTermination i)) = Some seconds"
  have "hoare (inv ?K anyCall) (bindG (now env) (\<lambda>currentTime.
      let elapsed = timeSub currentTime startTime; allowedDuration = secondsDuration seconds
      in if allowedDuration \<le> elapsed then stopAtDeadline env
         else ret (Some (timeSub (timeAdd startTime allowedDuration) currentTime), None))) (\<lambda>_. svcInv)"
    by (intro hoare_bindG [OF hoare_now] hoare_let hoare_if stopAtDeadline_safe laws)
       (simp add: hoare_def wp_simps inv_def)
  then show "hoare (\<lambda>s. svcInv s \<and> i = inst s) (bindG (now env) (\<lambda>currentTime.
      let elapsed = timeSub currentTime startTime; allowedDuration = secondsDuration seconds
      in if allowedDuration \<le> elapsed then stopAtDeadline env
         else ret (Some (timeSub (timeAdd startTime allowedDuration) currentTime), None))) (\<lambda>_. svcInv)"
    by (rule hoare_pre) (use deadline in \<open>auto simp: inv_def svcGood_def\<close>)
qed (auto simp: hoare_def wp_simps)

lemma finishAndPublish_safe:
  assumes "serves svcGood env" "status_echo env"
    and "\<And>clk st. snd (f clk st)" "\<And>clk st. Conditions (fst (f clk st)) \<noteq> []"
  shows "hoare svcInv (finishAndPublish env t f) (\<lambda>_. svcInv)"
  unfolding finishAndPublish_def
  by (intro hoare_bindG [OF svc_status.ready_finishWith] hoare_bindG [OF svc_status.publish_ready] hoare_if hoare_ret assms)

lemma handleServiceContainerExit_safe:
  assumes "serves svcGood env" "status_echo env"
  shows "hoare svcInv (handleServiceContainerExit env) (\<lambda>_. svcInv)"
  unfolding handleServiceContainerExit_def Let_def
  by (intro hoare_intros finishAndPublish_safe assms) simp_all

lemma probePort_safe: "svcGood i \<Longrightarrow> probePort probe (svcServiceSpec i) \<noteq> Inl p"
  by (erule svcGood_spec) (auto simp: probePort_def GetPodPorts_def Let_def split: list.splits)

lemma checkHttpActivity_safe: "hoare svcInv (checkHttpActivity env probe) (\<lambda>_. svcInv)"
  by (auto simp: hoare_def checkHttpActivity_def askActivity_def objGet_def Let_def wp_simps inv_def
      dest: probePort_safe split: prod.split sum.split)

lemma handleCulling_safe: "hoare svcInv (handleCulling env) (\<lambda>_. svcInv)"
  unfolding handleCulling_def Let_def
  by (intro hoare_bindG [OF hoare_readS] hoare_option hoare_if hoare_ret hoare_bindG [OF checkHttpActivity_safe]
      hoare_sum hoare_bindG [OF hoare_now] hoare_bindG [OF hoare_deleteOp]) simp

lemma superviseService_safe:
  assumes "serves svcGood env" "status_echo env"
  shows "hoare svcInv (superviseService env) (\<lambda>_. svcInv)"
  unfolding superviseService_def
  by (intro hoare_bindG [OF handlePastActiveDeadline_safe] hoare_prod hoare_bindG [OF hoare_readS] hoare_if hoare_ret
      hoare_bindG [OF handleServiceContainerExit_safe] hoare_bindG [OF handleCulling_safe] assms)

lemma reconcileService_safe:
  assumes laws: "serves svcGood env" "status_echo env"
  shows "hoare svcInv (reconcileService env) (\<lambda>_. svcInv)"
proof -
  let ?tail = "\<lambda>ports i. case svcServiceSpec i of None \<Rightarrow> panic ''nil pointer dereference''
      | Some spec \<Rightarrow> bindG (reconcileBaseService env ports (ssIsExternal spec)) (\<lambda>err.
          if err \<noteq> None then ret (noRequeue, err) else superviseService env)"
  have tail: "hoare svcInv (bindG (readS inst) (?tail ports)) (\<lambda>_. svcInv)" for ports
  proof (rule hoare_bind_readS)
    fix i :: Service
    have ok: "hoare svcInv (bindG (reconcileBaseService env ports b) (\<lambda>err.
          if err \<noteq> None then ret (noRequeue, err) else superviseService env)) (\<lambda>_. svcInv)" for b
      by (intro hoare_bindG [OF reconcileBaseService_safe] hoare_if hoare_ret superviseService_safe laws)
    show "hoare (\<lambda>s. svcInv s \<and> i = inst s) (?tail ports i) (\<lambda>_. svcInv)"
    proof (cases "svcServiceSpec i")
      case None
      then show ?thesis by (auto simp: hoare_def inv_def svcGood_def)
    next
      case (Some spec)
      show ?thesis unfolding Some option.case by (rule hoare_pre [OF ok]) simp
    qed
  qed
  have head: "hoare svcInv (bindG (reconcileDeployment env ports) (\<lambda>err.
      if err \<noteq> None then ret (noRequeue, err) else bindG (readS inst) (?tail ports))) (\<lambda>_. svcInv)" for ports
    by (intro hoare_bindG [OF reconcileDeployment_safe] hoare_if hoare_ret tail laws)
  show ?thesis
  proof (unfold reconcileService_def, rule hoare_bind_readS)
    fix i :: Service
    show "hoare (\<lambda>s. svcInv s \<and> i = inst s)
      (case svcServiceSpec i of None \<Rightarrow> panic ''nil pointer dereference''
       | Some spec \<Rightarrow> (case GetPodPorts (ptSpec (ssTemplate spec)) DefaultTargetPort of Inl p \<Rightarrow> panic p
         | Inr podPorts \<Rightarrow> (let ports = case ssPorts spec of None \<Rightarrow> podPorts | Some ps \<Rightarrow> ps in
             bindG (reconcileDeployment env ports) (\<lambda>err.
               if err \<noteq> None then ret (noRequeue, err) else bindG (readS inst) (?tail ports))))) (\<lambda>_. svcInv)"
    proof (cases "svcGood i")
      case True
      then obtain spec c cs where "svcServiceSpec i = Some spec" "Containers (ptSpec (ssTemplate spec)) = c # cs"
        by (rule svcGood_spec)
      moreover from this obtain podPorts where "GetPodPorts (ptSpec (ssTemplate spec)) DefaultTargetPort = Inr podPorts"
        by (simp add: GetPodPorts_def)
      ultimately show ?thesis by (simp only: option.case sum.case Let_def) (rule hoare_pre [OF head], simp)
    next
      case False
      then show ?thesis by (auto simp: hoare_def inv_def)
    qed
  qed
qed

lemma tracks_setPodSpec: "tracks (emits P) (modifyS (\<lambda>s. s\<lparr>inst := setPodSpec spec ps (inst s)\<rparr>))"
  by (rule tracks_modifyS) (simp add: emits_def)

interpretation service_controller:
  op_controller cleanUpService reconcileService svcGood anyCall "\<lambda>_. True"
proof unfold_locales
  fix env :: "(Service, 'w) svcEnv" and i :: Service and c b t fs
  show "tracks (emits isDeleteCall) (cleanUpService env)"
    unfolding cleanUpService_def by (intro track_intros) (simp add: isDeleteCall_def)
  show "tracks (emits (\<lambda>c. \<not> isUpdateCall c)) (reconcileService env)"
    unfolding reconcileService_def superviseService_def reconcileDeployment_def updateDeployment_def
      reconcileDeploymentStatus_def warnCreate_def reconcileBaseService_def handleServiceContainerExit_def
      finishAndPublish_def handleCulling_def checkHttpActivity_def askActivity_def
    by (intro track_intros tracks_setPodSpec) (simp_all add: isUpdateCall_def)
  show "svcGood i \<Longrightarrow> svcGood (i\<lparr>opFinalizers := fs\<rparr>)" by (simp add: svcGood_def)
  show "svcGood i \<Longrightarrow> svcGood (i\<lparr>opStatus := (opStatus i)\<lparr>StartTime := Some t\<rparr>\<rparr>)"
    by (simp add: svcGood_def timedDone_def)
  assume laws: "serves svcGood env" "status_echo env"
  show "hoare (inv (\<lambda>i. svcGood i \<and> IsDone (opStatus i)) anyCall) (cleanUpService env)
      (\<lambda>_ s. list_all anyCall (calls s))"
    by (auto simp: cleanUpService_def hoare_def wp_def handleTTL_eq inv_def svcGood_def timedDone_def Let_def
        split: option.splits prod.splits)
  show "hoare svcInv (reconcileService env) (\<lambda>_ s. list_all anyCall (calls s))"
    by (rule hoare_conseq [OF reconcileService_safe [OF laws]]) (auto simp: list_all_iff)
qed simp_all


section \<open>Properties\<close>

text \<open>C15: a pass of the service controller never panics, as long as the API server serves services that have a
  specification with a container and that do not combine a time to live with an active deadline
  (or a done status without completion time).\<close>

theorem Service_Reconcile_safe:
  assumes "serves svcGood env" and "status_echo env"
  shows "\<exists>res t. Service_Reconcile env req \<lparr>inst = i, world = w, calls = []\<rparr> = (Returns res, t)"
proof -
  have "wp (Service_Reconcile env req) (\<lambda>r t. case r of Returns a \<Rightarrow> True | Panics p \<Rightarrow> False)
      \<lparr>inst = i, world = w, calls = []\<rparr>"
    using service_controller.pass_safe [OF TrueI assms, of False req]
    unfolding hoare_def Service_Reconcile_def by (elim allE impE) (auto elim!: wp_mono split: outcome.splits)
  then show ?thesis by (auto simp: wp_def split: prod.splits outcome.splits)
qed

text \<open>once a service whose start time is recorded is done or being deleted, a pass only releases it: no deployment and no Kubernetes service
  is created or changed and no status is written.\<close>

theorem Service_Reconcile_release:
  assumes "getInstance env req (world s) = (Inr i, w)" and "StartTime (opStatus i) \<noteq> None"
    and "IsOperationBeingDeleted i \<or> IsDone (opStatus i)"
  shows "emits isReleaseCall s (snd (Service_Reconcile env req s))"
  using service_controller.release_calls_started [OF assms] by (simp add: Service_Reconcile_def wp_def case_prod_beta)

text \<open>no pass of the service controller drops the logs finalizer, once the start time is
  recorded, before the logs were collected or taken for collected.\<close>

theorem Service_Reconcile_logs_first:
  assumes "finalizer_laws env" and "getInstance env req (world s) = (Inr i, w)"
    and "StartTime (opStatus i) \<noteq> None"
    and "OperationLogsFinalizer \<in> set (opFinalizers i)" and "mustCollect env i"
  shows "\<exists>new. calls (snd (Service_Reconcile env req s)) = calls s @ new \<and> logsSafe False new"
  using service_controller.logs_collected_started [OF assms]
  by (simp add: Service_Reconcile_def wp_def case_prod_beta)

lemma wp_handleTTL_untimed:
  assumes "refusesDelete env req stored" "inst s = i" "stored (world s) = Some i"
    and "TTLSecondsAfterFinished (opTermination i) = Ptr a n" "CompletionTime (opStatus i) = None"
  shows "wp (handleTTL env) (\<lambda>r u. r = Panics ''nil pointer dereference'' \<and> stored (world u) = Some i) s"
  using assms refusesDeleteD(4) [OF assms(1), of "world s"]
  by (simp add: wp_def handleTTL_eq case_prod_beta)

lemma Service_Reconcile_stuck:
  assumes "finalizer_laws env" and ref: "refusesDelete env req stored" and i: "stored (world s) = Some i"
    and "StartTime (opStatus i) \<noteq> None" "\<not> IsOperationBeingDeleted i" "IsDone (opStatus i)" "opFinalizers i = []"
    and ttl: "TTLSecondsAfterFinished (opTermination i) = Ptr a n" "CompletionTime (opStatus i) = None"
  defines "pass \<equiv> Service_Reconcile env req"
  shows "fst (pass (((\<lambda>s. snd (pass s)) ^^ m) s)) = Panics ''nil pointer dereference''"
proof -
  let ?P = "\<lambda>r u. r = Panics ''nil pointer dereference'' \<and> stored (world u) = Some i"
  have "wp (cleanUpService env) ?P t" if "inst t = i" "stored (world t) = Some i" for t
    unfolding cleanUpService_def by (rule wp_handleTTL_untimed [OF ref that ttl])
  then have "wp (reconcilePass False cleanUpService reconcileService env req) ?P t" if "stored (world t) = Some i" for t
    by (intro service_controller.done_untimed_stuck [OF assms(1) ref that assms(4-7)])
  then have step: "fst (pass t) = Panics ''nil pointer dereference'' \<and> stored (world (snd (pass t))) = Some i"
    if "stored (world t) = Some i" for t
    using that by (simp add: pass_def Service_Reconcile_def wp_def case_prod_beta)
  have "stored (world (((\<lambda>s. snd (pass s)) ^^ m) s)) = Some i"
    by (induction m) (simp_all add: i step)
  with step show ?thesis by blast
qed

text \<open>C16: a service with a time to live whose deletion at its active deadline is refused makes the operator panic for good.
  Take a service without finalizers that has passed its deadline, on an API server that stores it and refuses to
  delete it. The handler publishes \<open>Stopped\<close> without setting the completion time, and returns the error of the deletion,
  for which the work queue calls again. That pass and, however many there are, every one after it takes the service for
  done and dereferences the missing completion time, so that the deletion is never tried again. (When the deletion
  succeeds the service is gone and no such pass follows.)\<close>

theorem deadline_then_cleanup_panics:
  fixes env :: "(Service, 'w) svcEnv"
  assumes "finalizer_laws env" and "refusesDelete env req stored" and "stored (world s) = Some (inst s)"
    and "TTLSecondsAfterFinished (opTermination (inst s)) = Ptr a n"
    and "CompletionTime (opStatus (inst s)) = None"
    and "ActiveDeadlineSeconds (opTermination (inst s)) = Ptr b secs"
    and "StartTime (opStatus (inst s)) = Some began" and "\<not> IsDone (opStatus (inst s))"
    and "secondsDuration secs \<le> timeSub (fst (timeNow env (world s))) began"
    and "\<not> IsOperationBeingDeleted (inst s)" and "opFinalizers (inst s) = []"
  defines "pass \<equiv> Service_Reconcile env req"
  shows "wp (Service_handlePastActiveDeadline env) (\<lambda>r u. (\<exists>e. r = Returns (None, Some e)) \<and>
    IsStopped (opStatus (inst u)) \<and> stored (world u) = Some (inst u) \<and>
    (\<forall>m. fst (pass (((\<lambda>s. snd (pass s)) ^^ m) u)) = Panics ''nil pointer dereference'')) s"
proof -
  have stuck: "fst (pass (((\<lambda>s. snd (pass s)) ^^ m) t)) = Panics ''nil pointer dereference''"
    if t: "stored (world t) = Some (inst t)" "inst t = (inst s)\<lparr>opStatus := opStatus (inst t)\<rparr>" "IsStopped (opStatus (inst t))"
      "StartTime (opStatus (inst t)) = StartTime (opStatus (inst s))"
      "CompletionTime (opStatus (inst t)) = CompletionTime (opStatus (inst s))" for t m
  proof -
    have "opTermination (inst t) = opTermination (inst s)" "opFinalizers (inst t) = []" "\<not> IsOperationBeingDeleted (inst t)"
      using assms(10,11) by (subst t(2), simp add: IsOperationBeingDeleted_def)+
    with t assms(4,5,7) show ?thesis
      unfolding pass_def
      by (intro Service_Reconcile_stuck [OF assms(1,2) t(1), where a = a and n = n]) (simp_all add: IsDone_def)
  qed
  have "wp (stopAtDeadline env) (\<lambda>r u. (\<exists>e. r = Returns (None, Some e)) \<and> IsStopped (opStatus (inst u)) \<and>
      stored (world u) = Some (inst u) \<and>
      (\<forall>m. fst (pass (((\<lambda>s. snd (pass s)) ^^ m) u)) = Panics ''nil pointer dereference'')) t"
    if "inst t = inst s" "stored (world t) = Some (inst s)" for t
    by (rule wp_mono [OF wp_stopAtDeadline_refused [OF assms(2)]]) (use that stuck in auto)
  moreover have "stored (snd (timeNow env (world s))) = Some (inst s)"
    using refusesDeleteD(4) [OF assms(2), of "world s"] assms(3) by simp
  ultimately show ?thesis
    using assms(6-9)
    by (auto simp: Service_handlePastActiveDeadline_def handlePastActiveDeadline_def wp_simps split: prod.split)
qed

text \<open>A running service that is set up for culling: its timeout and its HTTP probe.\<close>

definition cullingSetup :: "Service \<Rightarrow> (int32 \<times> ActivityProbeHttp) option" where
  "cullingSetup i =
     (case (Culling (opTermination i), Probe (opTermination i)) of
        (Some c, Some p) \<Rightarrow>
          (case (cullTimeout c, apHttp p) of
             (Some n, Some http) \<Rightarrow> if IsRunning (opStatus i) then Some (n, http) else None
           | _ \<Rightarrow> None)
      | _ \<Rightarrow> None)"

lemma checkHttpActivity_calls: "checkHttpActivity env http s = (r, u) \<Longrightarrow> calls u = calls s"
proof -
  have "tracks (emits (\<lambda>_. False)) (checkHttpActivity env http)"
    unfolding checkHttpActivity_def askActivity_def by (intro track_intros)
  then show "checkHttpActivity env http s = (r, u) \<Longrightarrow> calls u = calls s"
    by (auto simp: tracks_def emits_def list_all_iff dest!: spec [of _ s])
qed

lemma bind_readS: "bindG (readS g) f s = f (g s) s"
  by (simp add: bindG_def readS_def)

lemma handleCulling_setup:
  "handleCulling env s =
     (case cullingSetup (inst s) of
        None \<Rightarrow> (Returns (None, None), s)
      | Some (n, http) \<Rightarrow>
          bindG (checkHttpActivity env http) (\<lambda>r.
            case r of
              Inl e \<Rightarrow> ret (Some (1000000000 * sint n), None)
            | Inr lastActivity \<Rightarrow>
                bindG (now env) (\<lambda>t.
                  if timeSub t lastActivity < 1000000000 * sint n
                  then ret (Some (wrap64 (1000000000 * sint n - timeSub t lastActivity)), None)
                  else bindG (deleteOp env) (\<lambda>err. ret (None, err)))) s)"
  by (simp add: handleCulling_def cullingSetup_def bind_readS secondsDuration_int32 Let_def ret_def
      split: option.split)

text \<open>C29: culling never removes a service on a guess. Unless the service is running and has a culling timeout and an
  HTTP probe, nothing happens. When the probe fails, for whatever reason, the pass asks to be called again
  after the timeout and sends nothing. When it answers, the service is deleted exactly when its last
  activity is at least the timeout ago; otherwise nothing is sent and the next check comes within the
  timeout, unless the clocks disagree.\<close>

theorem handleCulling_spec:
  "case cullingSetup (inst s) of
     None \<Rightarrow> handleCulling env s = (Returns (None, None), s)
   | Some (n, http) \<Rightarrow>
       (case checkHttpActivity env http s of
          (Panics p, u) \<Rightarrow> handleCulling env s = (Panics p, u)
        | (Returns (Inl e), u) \<Rightarrow>
            handleCulling env s = (Returns (Some (1000000000 * sint n), None), u) \<and> calls u = calls s
        | (Returns (Inr lastActivity), u) \<Rightarrow>
            (let idle = timeSub (fst (timeNow env (world u))) lastActivity; timeout = 1000000000 * sint n
             in if timeout \<le> idle
                then (\<exists>err t. handleCulling env s = (Returns (None, err), t) \<and> calls t = calls s @ [CDelete err])
                else (\<exists>d t. handleCulling env s = (Returns (Some d, None), t) \<and> calls t = calls s \<and> inst t = inst u \<and>
                        (if 0 \<le> idle then 0 < d \<and> d \<le> timeout else True))))"
proof (cases "cullingSetup (inst s)")
  case None
  then show ?thesis by (simp add: handleCulling_setup)
next
  case (Some p)
  obtain n http where p: "p = (n, http)" by (cases p)
  obtain r u where r: "checkHttpActivity env http s = (r, u)" by (cases "checkHttpActivity env http s")
  note same = checkHttpActivity_calls [OF r]
  obtain t w where t: "timeNow env (world u) = (t, w)" by (cases "timeNow env (world u)")
  have remaining: "0 < wrap64 (1000000000 * sint n - idle) \<and> wrap64 (1000000000 * sint n - idle) \<le> 1000000000 * sint n"
    if "0 \<le> idle" "\<not> 1000000000 * sint n \<le> idle" for idle
    using that sint_int32_bounds [of n] by (subst (1 2) wrap64_id) (auto simp: int64_range_def)
  show ?thesis
    by (auto simp: Some p r t same remaining handleCulling_setup bindG_def ret_def now_def external_def deleteOp_def
        clientDelete_def readS_def logCall_def modifyS_def Let_def split: outcome.split sum.split prod.split)
qed

text \<open>What the exit of the main container calls for.\<close>

definition exitVerdict :: "Service \<Rightarrow> MainContainerExitStatus option \<Rightarrow> OperationConditionType option" where
  "exitVerdict i exitStatus =
     (case exitStatus of
        None \<Rightarrow> None
      | Some es \<Rightarrow>
          if esExitCode es = 0 then
            (case svcServiceSpec i of
               None \<Rightarrow> Some OperationSucceeded
             | Some spec \<Rightarrow> (case ssReplicas spec of
                                None \<Rightarrow> Some OperationSucceeded
                              | Some n \<Rightarrow> if n = 1 then Some OperationSucceeded else None))
          else
            (let limit = (case deref (BackoffLimit (opTermination i)) of None \<Rightarrow> 0 | Some n \<Rightarrow> sint n) in
             if 0 \<le> limit \<and> limit < sint (ContainerFailedAttempts es) then Some OperationFailed else None))"

lemma exitVerdict_cases:
  "exitVerdict i (Some es) =
     (let replicas = (case svcServiceSpec i of None \<Rightarrow> DefaultServiceReplicas
                        | Some spec \<Rightarrow> GetReplicas DefaultServiceReplicas (ssReplicas spec));
          backoffLimit = (case deref (BackoffLimit (opTermination i)) of None \<Rightarrow> 0 | Some n \<Rightarrow> n)
      in if replicas = 1 \<and> esExitCode es = 0 then Some OperationSucceeded
         else if esExitCode es = 0 then None
         else if backoffLimit <s 0 \<or> ContainerFailedAttempts es \<le>s backoffLimit then None
         else Some OperationFailed)"
  by (auto simp: exitVerdict_def GetReplicas_def DefaultServiceReplicas_def word_sless_alt word_sle_eq Let_def
      split: option.splits)

lemma wp_finishAndPublish:
  assumes "\<And>clk st. f clk st = logCondition clk st ty r m" "isFinal ty"
    and "\<And>st ok rest r u. Conditions st \<noteq> [] \<Longrightarrow> cType (last (Conditions st)) = ty \<Longrightarrow> CompletionTime st = Some t \<Longrightarrow>
      calls u = calls s @ CStatusUpdate st ok # rest \<Longrightarrow> Q r u"
  shows "wp (finishAndPublish env t f) Q s"
proof -
  have pub: "wp (publishStatus env) (\<lambda>r u. case r of
        Returns e \<Rightarrow> wp (if e \<noteq> None then ret (False, e) else ret (True, None)) Q u
      | Panics p \<Rightarrow> Q (Panics p) u) (s\<lparr>world := w, inst := j\<rparr>)" if "logged t ty (inst s) True j" for w j
    using that assms(2)
    by (intro wp_publishStatus) (auto simp: wp_simps logged_def intro!: assms(3) [of "opStatus j"])
  show ?thesis
    unfolding finishAndPublish_def wp_bindG
    by (rule wp_finish_logged [where ty = ty]) (use assms pub in \<open>auto simp: wp_simps\<close>)
qed

text \<open>C28: when the exit of the main container ends a service. The handler publishes a final status exactly when the
  exit calls for one: success for exit code 0 of a service with one replica, failure for another exit
  code after strictly more failed attempts than the backoff limit, which counts as 0 when it is missing and
  as unlimited when it is negative. The published status has the time of the pass as completion time.
  In every other case nothing is sent and the instance is untouched.\<close>

theorem handleServiceContainerExit_spec:
  fixes env :: "(Service, 'a) svcEnv"
  shows "let i = inst s;
       labelled = map_of (opLabels i) ''app.kubernetes.io/instance'';
       ((pods, err), w) = listPods env (opNamespace i) [(''app.kubernetes.io/instance'', the labelled)] (world s)
   in wp (handleServiceContainerExit env) (\<lambda>r u.
        if labelled = None then r = Returns (False, None) \<and> u = s
        else if err \<noteq> None then r = Returns (False, err) \<and> calls u = calls s \<and> inst u = i
        else case exitVerdict i (GetMainContainerExitStatus pods) of
          None \<Rightarrow> r = Returns (False, None) \<and> calls u = calls s \<and> inst u = i
        | Some ty \<Rightarrow> \<exists>st ok rest. calls u = calls s @ CStatusUpdate st ok # rest \<and> Conditions st \<noteq> [] \<and>
            cType (last (Conditions st)) = ty \<and> CompletionTime st = Some (fst (timeNow env w))) s"
proof (cases "map_of (opLabels (inst s)) ''app.kubernetes.io/instance''")
  case None
  then show ?thesis by (simp add: handleServiceContainerExit_def wp_simps Let_def split: prod.split)
next
  case (Some uid)
  obtain pods err w where l: "listPods env (opNamespace (inst s)) [(''app.kubernetes.io/instance'', uid)] (world s)
      = ((pods, err), w)" by (metis surj_pair)
  obtain t w' where t: "timeNow env w = (t, w')" by (cases "timeNow env w")
  define Q where "Q = (\<lambda>ty (r :: (bool \<times> error option) outcome) (u :: (Service, 'a) pass). case ty of
          None \<Rightarrow> r = Returns (False, None) \<and> calls u = calls s \<and> inst u = inst s
        | Some ty \<Rightarrow> \<exists>st ok rest. calls u = calls s @ CStatusUpdate st ok # rest \<and> Conditions st \<noteq> [] \<and>
            cType (last (Conditions st)) = ty \<and> CompletionTime st = Some t)"
  have none: "Q None (Returns (False, None)) u" if "calls u = calls s" "inst u = inst s" for u
    using that by (simp add: Q_def)
  have succ: "wp (finishAndPublish env t LogSucceeded) (Q (Some OperationSucceeded)) u" if "calls u = calls s" for u
    by (rule wp_finishAndPublish [where ty = OperationSucceeded]) (use that in \<open>auto simp: log_methods Q_def\<close>)
  have fail: "wp (finishAndPublish env t (\<lambda>clk st. LogFailed clk st r m)) (Q (Some OperationFailed)) u"
    if "calls u = calls s" for u r m
    by (rule wp_finishAndPublish [where ty = OperationFailed]) (use that in \<open>auto simp: log_methods Q_def\<close>)
  have exits: "wp (handleServiceContainerExit env) (Q (exitVerdict (inst s) (GetMainContainerExitStatus pods))) s"
    if "err = None"
  proof (cases "GetMainContainerExitStatus pods")
    case None
    then show ?thesis
      by (simp add: Some l that handleServiceContainerExit_def ListInstancePods_def ListPods_def wp_simps
          exitVerdict_def none)
  next
    case (Some es)
    note uid = \<open>map_of (opLabels (inst s)) ''app.kubernetes.io/instance'' = Some uid\<close>
    show ?thesis
      by (simp add: uid Some l t that handleServiceContainerExit_def ListInstancePods_def ListPods_def wp_simps Let_def)
         (simp add: exitVerdict_cases Let_def none succ fail)
  qed
  have "wp (handleServiceContainerExit env) (\<lambda>r u. r = Returns (False, err) \<and> calls u = calls s \<and> inst u = inst s) s"
    if "err \<noteq> None"
    using that by (auto simp: Some l handleServiceContainerExit_def ListInstancePods_def ListPods_def wp_simps)
  moreover have "t = fst (timeNow env w)" by (simp add: t)
  ultimately show ?thesis
    using exits unfolding Q_def Some l Let_def option.sel prod.case by (cases "err = None") auto
qed


text \<open>C40: the watch on pods finds its way back through the replica set. With a non-empty template hash, a pod is mapped
  to the request of a service exactly when it is in the service's namespace and its first controller
  is the replica set that Kubernetes names after the service's deployment and this hash; without the hash
  label it is mapped to nothing.\<close>

theorem Service_mapPodToRequest_roundtrip:
  assumes "controllerOf_law g"
    and "GenerateDeployment (opName i) (opNamespace i) ls an ports r spec = Inr (deployment, spec')"
  shows "Service_mapPodToRequest g pod = [(opNamespace i, opName i)] \<longleftrightarrow>
    podNamespace pod = opNamespace i \<and> lookupZ (podLabels pod) ''pod-template-hash'' \<noteq> '''' \<and>
    (\<exists>us r vs. podOwnerReferences pod = us @ r # vs \<and> list_all (\<lambda>u. orController u \<noteq> Some True) us \<and>
       orController r = Some True \<and> orAPIVersion r = ''apps/v1'' \<and> orKind r = ''ReplicaSet'' \<and>
       orName r = dpName deployment @ ''-'' @ lookupZ (podLabels pod) ''pod-template-hash'')"
proof -
  have name: "dpName deployment = opName i"
    using assms(2) by (auto simp: GenerateDeployment_def Let_def split: list.splits)
  have found: "g (podOwnerReferences pod) = Some r \<longleftrightarrow>
      (\<exists>us vs. podOwnerReferences pod = us @ r # vs \<and> orController r = Some True \<and>
         list_all (\<lambda>u. orController u \<noteq> Some True) us)" for r
    using assms(1) by (simp add: controllerOf_law_def find_split)
  have "Service_mapPodToRequest g pod = [(opNamespace i, opName i)] \<longleftrightarrow>
      (\<exists>r. g (podOwnerReferences pod) = Some r \<and> orAPIVersion r = ''apps/v1'' \<and> orKind r = ''ReplicaSet'' \<and>
         podNamespace pod = opNamespace i \<and> lookupZ (podLabels pod) ''pod-template-hash'' \<noteq> '''' \<and>
         orName r = opName i @ ''-'' @ lookupZ (podLabels pod) ''pod-template-hash'')"
    by (auto simp: Service_mapPodToRequest_def Let_def cutSuffix_Some split: option.splits if_splits)
  then show ?thesis by (auto simp: name found)
qed

section \<open>Witnesses\<close>

definition demoService :: "OperationCondition list \<Rightarrow> time option \<Rightarrow> string list \<Rightarrow> int ptr \<Rightarrow> Service" where
  "demoService cs completion finalizers deadline =
     \<lparr>opName = ''run'', opNamespace = ''ns'', opLabels = [(''app.kubernetes.io/instance'', ''uuid'')],
      opAnnotations = [(''operation.polyaxon.com/owner'', ''me''), (''operation.polyaxon.com/project'', ''p'')],
      opFinalizers = finalizers, opDeletionTimestamp = None,
      opTermination = \<lparr>BackoffLimit = NilPtr, ActiveDeadlineSeconds = deadline,
         TTLSecondsAfterFinished = Ptr 1 60, Culling = None, Probe = None, PodFailurePolicy = None\<rparr>,
      opCollectLogs = True, opSyncStatuses = True,
      opStatus = \<lparr>Conditions = cs, StartTime = Some 1, CompletionTime = completion, LastReconcileTime = None\<rparr>,
      svcBatchJobSpec = None,
      svcServiceSpec = Some \<lparr>ssReplicas = None, ssPorts = None, ssIsExternal = False,
        ssTemplate = \<lparr>ptLabels = [], ptAnnotations = [],
          ptSpec = \<lparr>Containers = [\<lparr>ctName = ''main'', ctPorts = None, ctOther = ''''\<rparr>],
                    RestartPolicy = '''', psOther = ''''\<rparr>\<rparr>\<rparr>\<rparr>"

definition demoSvcEnv :: "Service \<Rightarrow> (Service, int) svcEnv" where
  "demoSvcEnv i = fixedApi (\<lambda>_. None) i (svcEnv.fields (fixedObjs None None) (fixedObjs None None)
     (\<lambda>url w. (Inl (OtherError ''timeout''), w)) (\<lambda>s. Inl (OtherError s)))"

definition doneCond :: OperationCondition where
  "doneCond = \<lparr>cType = OperationSucceeded, cStatus = ConditionTrue, cLastUpdateTime = 2, cLastTransitionTime = 2,
     cReason = ''OperatorController'', cMessage = ''''\<rparr>"

lemma demoSvc_laws [simp]:
  "finalizer_laws (demoSvcEnv i)" "status_echo (demoSvcEnv i)" "J i \<Longrightarrow> serves J (demoSvcEnv i)"
  "getInstance (demoSvcEnv i) k w = (Inr i, w)" "updateInstanceStatus (demoSvcEnv i) j w = (Inr j, w)"
  "timeNow (demoSvcEnv i) w = (w, w + 1)"
  by (simp_all add: demoSvcEnv_def) (simp_all add: fixedApi_def)

lemma demoService_fields [simp]:
  "StartTime (opStatus (demoService cs ct fs dl)) = Some 1" "Conditions (opStatus (demoService cs ct fs dl)) = cs"
  "CompletionTime (opStatus (demoService cs ct fs dl)) = ct" "opFinalizers (demoService cs ct fs dl) = fs"
  "TTLSecondsAfterFinished (opTermination (demoService cs ct fs dl)) = Ptr 1 60"
  "ActiveDeadlineSeconds (opTermination (demoService cs ct fs dl)) = dl"
  by (simp_all add: demoService_def)

lemma demoService_done: "IsDone (opStatus (demoService [doneCond] ct fs dl))"
  by (simp add: IsDone_holds holds_def doneCond_def exI [of _ OperationSucceeded])

theorem Service_Reconcile_safe_witness:
  "let i = demoService [] None [] NilPtr in serves svcGood (demoSvcEnv i) \<and>
   (\<exists>res t. Service_Reconcile (demoSvcEnv i) (''ns'', ''run'') \<lparr>inst = i, world = 10, calls = []\<rparr> = (Returns res, t))"
proof -
  let ?i = "demoService [] None [] NilPtr"
  have sv: "serves svcGood (demoSvcEnv ?i)"
    by (rule demoSvc_laws) (simp add: svcGood_def timedDone_def IsDone_holds holds_def, simp add: demoService_def)
  with Service_Reconcile_safe [OF sv demoSvc_laws(2), of "(''ns'', ''run'')" ?i 10] show ?thesis by (simp add: Let_def)
qed

theorem Service_Reconcile_release_witness:
  "let i = demoService [doneCond] (Some 5) [] NilPtr in IsDone (opStatus i) \<and>
   emits isReleaseCall (startPass i 10) (snd (Service_Reconcile (demoSvcEnv i) (''ns'', ''run'') (startPass i 10)))"
proof -
  let ?i = "demoService [doneCond] (Some 5) [] NilPtr"
  have "emits isReleaseCall (startPass ?i 10)
      (snd (Service_Reconcile (demoSvcEnv ?i) (''ns'', ''run'') (startPass ?i 10)))"
    by (rule Service_Reconcile_release [where i = ?i and w = 10])
       (use demoService_done in \<open>simp_all add: startPass_def\<close>)
  then show ?thesis using demoService_done by (simp add: Let_def)
qed

theorem Service_Reconcile_logs_first_witness:
  "let i = demoService [doneCond] (Some 5) [OperationLogsFinalizer] NilPtr in
   mustCollect (demoSvcEnv i) i \<and>
   (\<exists>new. calls (snd (Service_Reconcile (demoSvcEnv i) (''ns'', ''run'') (startPass i 10))) =
      calls (startPass i 10) @ new \<and> logsSafe False new)"
proof -
  let ?i = "demoService [doneCond] (Some 5) [OperationLogsFinalizer] NilPtr"
  have m: "mustCollect (demoSvcEnv ?i) ?i"
    by (simp add: mustCollect_def demoSvcEnv_def fixedApi_def demoService_def GetBoolEnv_def getInstanceInfo_def
        nonEmpty_def)
  have "\<exists>new. calls (snd (Service_Reconcile (demoSvcEnv ?i) (''ns'', ''run'') (startPass ?i 10))) =
      calls (startPass ?i 10) @ new \<and> logsSafe False new"
    by (rule Service_Reconcile_logs_first [where i = ?i and w = 10]) (use m in \<open>simp_all add: startPass_def\<close>)
  with m show ?thesis by (simp add: Let_def)
qed

text \<open>A server that refuses to delete.\<close>

definition refusingSvcEnv :: "(Service, Service option \<times> int) svcEnv" where
  "refusingSvcEnv = (storeApi (\<lambda>_. None) None (svcEnv.fields (fixedObjs None None) (fixedObjs None None)
     (\<lambda>url w. (Inl (OtherError ''timeout''), w)) (\<lambda>s. Inl (OtherError s))))
     \<lparr>deleteInstance := \<lambda>i w. (Some (OtherError ''forbidden''), w)\<rparr>"

theorem deadline_then_cleanup_panics_witness:
  "let i = demoService [] None [] (Ptr 7 30);
       u = snd (Service_handlePastActiveDeadline refusingSvcEnv \<lparr>inst = i, world = (Some i, 60000000000), calls = []\<rparr>)
   in fst (Service_Reconcile refusingSvcEnv (''ns'', ''run'') u) = Panics ''nil pointer dereference''"
proof -
  let ?i = "demoService [] None [] (Ptr 7 30)" and ?pass = "Service_Reconcile refusingSvcEnv (''ns'', ''run'')"
  let ?s = "\<lparr>inst = ?i, world = (Some ?i, 60000000000), calls = []\<rparr> :: (Service, Service option \<times> int) pass"
  have laws: "finalizer_laws refusingSvcEnv"
    by (auto simp: refusingSvcEnv_def storeApi_def finalizer_laws_def)
  have refuses: "refusesDelete refusingSvcEnv (''ns'', ''run'') fst"
    unfolding refusingSvcEnv_def by (rule storeApi_refuses)
  have now: "fst (timeNow refusingSvcEnv (j, t)) = t" for j t by (simp add: refusingSvcEnv_def storeApi_def)
  have "wp (Service_handlePastActiveDeadline refusingSvcEnv) (\<lambda>r u. (\<exists>e. r = Returns (None, Some e)) \<and>
      IsStopped (opStatus (inst u)) \<and> fst (world u) = Some (inst u) \<and>
      (\<forall>m. fst (?pass (((\<lambda>s. snd (?pass s)) ^^ m) u)) = Panics ''nil pointer dereference'')) ?s"
    by (rule deadline_then_cleanup_panics [OF laws refuses, where began = 1 and secs = 30 and a = 1 and n = 60 and b = 7])
       (simp_all add: now IsDone_holds holds_def secondsDuration_def timeSub_def int64_range_def
          IsOperationBeingDeleted_def isZeroTime_def demoService_def)
  then show ?thesis by (auto simp: wp_def Let_def case_prod_beta dest!: spec [of _ 0])
qed

theorem Service_mapPodToRequest_roundtrip_witness:
  "let g = List.find (\<lambda>r. orController r = Some True); i = demoService [] None [] NilPtr;
       spec = \<lparr>Containers = [\<lparr>ctName = ''main'', ctPorts = None, ctOther = ''''\<rparr>], RestartPolicy = '''', psOther = ''''\<rparr>;
       r = \<lparr>orAPIVersion = ''apps/v1'', orKind = ''ReplicaSet'', orName = ''run-7d4b'', orController = Some True\<rparr>;
       pod = \<lparr>podName = ''run-7d4b-x'', podNamespace = ''ns'', podLabels = [(''pod-template-hash'', ''7d4b'')],
              podOwnerReferences = [r], podCreationTimestamp = 0, podSpec = spec,
              podPhase = '''', podMessage = '''', podConditions = None, podInitContainerStatuses = [],
              podContainerStatuses = []\<rparr>
   in controllerOf_law g \<and> Service_mapPodToRequest g pod = [(''ns'', ''run'')]"
proof -
  let ?g = "List.find (\<lambda>r. orController r = Some True)"
  let ?spec = "\<lparr>Containers = [\<lparr>ctName = ''main'', ctPorts = None, ctOther = ''''\<rparr>], RestartPolicy = '''', psOther = ''''\<rparr>"
  let ?i = "demoService [] None [] NilPtr"
  have law: "controllerOf_law ?g" by (simp add: controllerOf_law_def)
  obtain d sp where gen: "GenerateDeployment (opName ?i) (opNamespace ?i) [] [] [] 1 ?spec = Inr (d, sp)"
    by (simp add: GenerateDeployment_def Let_def)
  then have d: "dpName d = ''run''" "opName ?i = ''run''" "opNamespace ?i = ''ns''"
    by (auto simp: GenerateDeployment_def Let_def demoService_def)
  show ?thesis
    using law Service_mapPodToRequest_roundtrip [OF law gen]
    by (simp add: Let_def d lookupZ_def exI [of _ "[]"])
qed

end
