(* ===== verification/Unstructured.thy ===== *)
theory Unstructured
  imports Operations Managers
begin

text \<open>
  Unstructured objects and their field copier (\<^verbatim>\<open>internal/helpers/managers/unstructured.go\<close>).

  The package \<open>unstructured\<close> of \<open>apimachinery\<close> is the record \<open>unsApi\<close>, and \<open>unstructured_laws\<close> is what is
  documented of it on a single field.
\<close>

section \<open>Unstructured objects\<close>

record unsApi =
  nestedMap :: "jobject \<Rightarrow> string \<Rightarrow> jobject \<times> bool \<times> error option"
  setNestedMap :: "jobject \<Rightarrow> jobject \<Rightarrow> string \<Rightarrow> jobject \<times> error option"
  nestedFieldCopy :: "jobject \<Rightarrow> string \<Rightarrow> json \<times> bool \<times> error option"
  setNestedField :: "jobject \<Rightarrow> json \<Rightarrow> string \<Rightarrow> jobject \<times> error option"
  setAPIVersion :: "jobject \<Rightarrow> string \<Rightarrow> jobject"
  setKind :: "jobject \<Rightarrow> string \<Rightarrow> jobject"
  setLabels :: "jobject \<Rightarrow> dict \<Rightarrow> jobject"
  setAnnotations :: "jobject \<Rightarrow> dict \<Rightarrow> jobject"
  setName :: "jobject \<Rightarrow> string \<Rightarrow> jobject"
  setNamespace :: "jobject \<Rightarrow> string \<Rightarrow> jobject"

definition CopyUnstructuredField :: "unsApi \<Rightarrow> jobject \<Rightarrow> jobject \<Rightarrow> string \<Rightarrow> jobject \<times> bool" where
  "CopyUnstructuredField u from to field =
     (let (fromSpec, found, err) = nestedMap u from field in
      if \<not> found then (to, False)
      else if err \<noteq> None then (to, False)
      else
        let (toSpec, found, err) = nestedMap u to field in
        if \<not> found \<or> err \<noteq> None then (fst (setNestedMap u to fromSpec field), True)
        else
          let requiresUpdate = (fromSpec \<noteq> toSpec) in
          (if requiresUpdate then fst (setNestedMap u to fromSpec field) else to, requiresUpdate))"

definition CopyUnstructuredSpec :: "unsApi \<Rightarrow> jobject \<Rightarrow> jobject \<Rightarrow> string list \<Rightarrow> jobject \<times> bool" where
  "CopyUnstructuredSpec u from to fieldNames =
     fold (\<lambda>field (to, requireUpdate).
       let (to, updated) = CopyUnstructuredField u from to field in (to, updated \<or> requireUpdate))
     fieldNames (to, False)"

definition CopyUnstructuredFields :: "unsApi \<Rightarrow> jobject \<Rightarrow> jobject \<Rightarrow> jobject \<times> bool" where
  "CopyUnstructuredFields u from to = CopyUnstructuredSpec u from to [''labels'', ''spec'']"

section \<open>Laws and lemmas\<close>

definition isMetaField :: "string \<Rightarrow> bool" where
  "isMetaField f \<longleftrightarrow> f \<in> {''apiVersion'', ''kind'', ''metadata''}"

text \<open>What the package \<open>unstructured\<close> documents: the nested functions, called with one field, read and
  write that member of the object, with an error for a member of another type; the setters of the
  metadata change no other member.\<close>

definition unstructured_laws :: "unsApi \<Rightarrow> bool" where
  "unstructured_laws u \<longleftrightarrow>
     (\<forall>obj f. fmlookup obj f = None \<longrightarrow> nestedMap u obj f = (fmempty, False, None)) \<and>
     (\<forall>obj f m. fmlookup obj f = Some (JMap m) \<longrightarrow> nestedMap u obj f = (m, True, None)) \<and>
     (\<forall>obj f v. fmlookup obj f = Some v \<longrightarrow> (\<forall>m. v \<noteq> JMap m) \<longrightarrow> (\<exists>e. nestedMap u obj f = (fmempty, False, Some e))) \<and>
     (\<forall>obj m f. setNestedMap u obj m f = (fmupd f (JMap m) obj, None)) \<and>
     (\<forall>obj f. nestedFieldCopy u obj f =
        (case fmlookup obj f of None \<Rightarrow> (JNull, False, None) | Some v \<Rightarrow> (v, True, None))) \<and>
     (\<forall>obj v f. setNestedField u obj v f = (fmupd f v obj, None)) \<and>
     (\<forall>obj x f. \<not> isMetaField f \<longrightarrow> fmlookup (setAPIVersion u obj x) f = fmlookup obj f \<and>
        fmlookup (setKind u obj x) f = fmlookup obj f \<and> fmlookup (setName u obj x) f = fmlookup obj f \<and>
        fmlookup (setNamespace u obj x) f = fmlookup obj f) \<and>
     (\<forall>obj ls f. \<not> isMetaField f \<longrightarrow> fmlookup (setLabels u obj ls) f = fmlookup obj f \<and>
        fmlookup (setAnnotations u obj ls) f = fmlookup obj f)"

lemma fmupd_same: "fmlookup m k = Some v \<Longrightarrow> fmupd k v m = m"
  by (rule fmap_ext) auto

lemma CopyUnstructuredField_absent:
  "unstructured_laws u \<Longrightarrow> fmlookup from f = None \<Longrightarrow> CopyUnstructuredField u from to f = (to, False)"
  by (simp add: unstructured_laws_def CopyUnstructuredField_def)

lemma CopyUnstructuredField_map:
  assumes laws: "unstructured_laws u" and src: "fmlookup from f = Some (JMap m)"
  shows "CopyUnstructuredField u from to f = (fmupd f (JMap m) to, fmlookup to f \<noteq> Some (JMap m))"
proof -
  have f: "nestedMap u from f = (m, True, None)" and set: "setNestedMap u to m f = (fmupd f (JMap m) to, None)"
    using laws src unfolding unstructured_laws_def by blast+
  have to: "nestedMap u to f = (m', True, None)" if "fmlookup to f = Some (JMap m')" for m'
    using laws that unfolding unstructured_laws_def by blast
  have other: "\<not> fst (snd (nestedMap u to f))" if "\<And>m'. fmlookup to f \<noteq> Some (JMap m')"
  proof (cases "fmlookup to f")
    case None
    then show ?thesis using laws unfolding unstructured_laws_def by simp
  next
    case (Some v)
    have "(\<forall>m. v \<noteq> JMap m) \<longrightarrow> (\<exists>e. nestedMap u to f = (fmempty, False, Some e))"
      using laws Some unfolding unstructured_laws_def by blast
    with that Some show ?thesis by auto
  qed
  show ?thesis
  proof (cases "\<exists>m'. fmlookup to f = Some (JMap m')")
    case True
    then obtain m' where m': "fmlookup to f = Some (JMap m')" ..
    then show ?thesis by (auto simp: CopyUnstructuredField_def f set to [OF m'] fmupd_same Let_def)
  next
    case False
    then have no: "\<not> fst (snd (nestedMap u to f))" by (intro other) blast
    then show ?thesis
      using False by (cases "nestedMap u to f") (auto simp: CopyUnstructuredField_def f set Let_def)
  qed
qed

lemma CopyUnstructuredField_unchanged:
  "\<not> snd (CopyUnstructuredField u from to f) \<Longrightarrow> fst (CopyUnstructuredField u from to f) = to"
  by (auto simp: CopyUnstructuredField_def Let_def split: prod.splits if_splits)

lemma CopyUnstructuredFields_unchanged:
  assumes "\<not> snd (CopyUnstructuredFields u from to)"
  shows "fst (CopyUnstructuredFields u from to) = to"
proof -
  obtain a x where a: "CopyUnstructuredField u from to ''labels'' = (a, x)" by fastforce
  obtain b y where b: "CopyUnstructuredField u from a ''spec'' = (b, y)" by fastforce
  have eq: "CopyUnstructuredFields u from to = (b, y \<or> x)"
    by (simp add: CopyUnstructuredFields_def CopyUnstructuredSpec_def a b)
  with assms have "\<not> x" "\<not> y" by auto
  with CopyUnstructuredField_unchanged [of u "from" to "''labels''"]
    CopyUnstructuredField_unchanged [of u "from" a "''spec''"] a b have "b = to" by simp
  with eq show ?thesis by simp
qed

lemma CopyUnstructuredFields_shape:
  assumes "unstructured_laws u" "fmlookup job ''labels'' = None" "fmlookup job ''spec'' = Some (JMap m)"
  shows "CopyUnstructuredFields u job to = (fmupd ''spec'' (JMap m) to, fmlookup to ''spec'' \<noteq> Some (JMap m))"
  using assms
  by (simp add: CopyUnstructuredFields_def CopyUnstructuredSpec_def CopyUnstructuredField_absent CopyUnstructuredField_map)

text \<open>An object whose \<open>status\<close>, if any, is an object itself.\<close>

definition statusOk :: "jobject \<Rightarrow> bool" where
  "statusOk job = (case fmlookup job ''status'' of None \<Rightarrow> True | Some (JMap _) \<Rightarrow> True | Some _ \<Rightarrow> False)"

section \<open>A concrete library\<close>

text \<open>Functions on single fields that satisfy the laws, with the metadata as an object of strings.\<close>

definition setMeta :: "jobject \<Rightarrow> string \<Rightarrow> json \<Rightarrow> jobject" where
  "setMeta obj f v =
     fmupd ''metadata'' (JMap (fmupd f v
       (case fmlookup obj ''metadata'' of Some (JMap m) \<Rightarrow> m | _ \<Rightarrow> fmempty))) obj"

definition strMap :: "dict \<Rightarrow> json" where
  "strMap m = JMap (fold (\<lambda>(k, v). fmupd k (JStr v)) m fmempty)"

definition plainUns :: unsApi where
  "plainUns =
     \<lparr>nestedMap = (\<lambda>obj f. case fmlookup obj f of None \<Rightarrow> (fmempty, False, None)
         | Some (JMap m) \<Rightarrow> (m, True, None) | Some _ \<Rightarrow> (fmempty, False, Some (OtherError ''not a map''))),
      setNestedMap = (\<lambda>obj m f. (fmupd f (JMap m) obj, None)),
      nestedFieldCopy = (\<lambda>obj f. case fmlookup obj f of None \<Rightarrow> (JNull, False, None) | Some v \<Rightarrow> (v, True, None)),
      setNestedField = (\<lambda>obj v f. (fmupd f v obj, None)),
      setAPIVersion = (\<lambda>obj x. fmupd ''apiVersion'' (JStr x) obj),
      setKind = (\<lambda>obj x. fmupd ''kind'' (JStr x) obj),
      setLabels = (\<lambda>obj ls. setMeta obj ''labels'' (strMap ls)),
      setAnnotations = (\<lambda>obj ls. setMeta obj ''annotations'' (strMap ls)),
      setName = (\<lambda>obj x. setMeta obj ''name'' (JStr x)),
      setNamespace = (\<lambda>obj x. setMeta obj ''namespace'' (JStr x))\<rparr>"

lemma plainUns_laws: "unstructured_laws plainUns"
  unfolding unstructured_laws_def plainUns_def
  by (auto simp: isMetaField_def setMeta_def split: json.splits)

definition demoTermination :: TerminationSpec where
  "demoTermination = \<lparr>BackoffLimit = NilPtr, ActiveDeadlineSeconds = NilPtr, TTLSecondsAfterFinished = NilPtr,
     Culling = None, Probe = None, PodFailurePolicy = None\<rparr>"

end
