(* ===== verification/Owned.thy ===== *)
theory Owned
  imports Requeue Unstructured
begin

text \<open>
  What the Kubeflow and the cluster controllers do with the unstructured object they own: the end of
  \<open>reconcileTFJob\<close>, \<open>reconcileDaskCluster\<close> and of their copies, which updates the found object when it differs
  from the generated one and then publishes the status it calls for.
\<close>

definition syncOwned ::
  "('a operation_scheme, 'w, 'm) api_scheme \<Rightarrow> unsApi \<Rightarrow> ('a operation_scheme, jobject, 'w) objApi \<Rightarrow> string \<Rightarrow>
   (jobject \<Rightarrow> bool) \<Rightarrow> (jobject \<Rightarrow> (('a operation_scheme, 'w) pass, bool \<times> error option) go) \<Rightarrow>
   jobject \<Rightarrow> bool \<Rightarrow> jobject \<Rightarrow> (('a operation_scheme, 'w) pass, error option) go"
where
  "syncOwned env u objs kind terminal status job justCreated foundJob =
     bindG (readS inst) (\<lambda>i.
     bindG (if \<not> justCreated \<and> \<not> IsDone (opStatus i) \<and> \<not> terminal foundJob then
              (let (foundJob, requireUpdate) = CopyUnstructuredFields u job foundJob in
               if requireUpdate then objUpdate objs (KUnstructured kind) foundJob
               else ret (None, foundJob))
            else ret (None, foundJob)) (\<lambda>(err, foundJob).
       case err of
         Some e \<Rightarrow> ret (Some e)
       | None \<Rightarrow>
           bindG (status foundJob) (\<lambda>(condUpdated, err).
             if err \<noteq> None then ret err
             else if condUpdated then publishStatus env else ret None)))"

text \<open>The beginning of their status handlers: an image name that cannot be parsed ends the operation, whatever else
  the pods and the object say; \<open>rest\<close> is what follows.\<close>

definition statusOfPods ::
  "('a operation_scheme, 'w, 'm) api_scheme \<Rightarrow>
   (time \<Rightarrow> Pod list \<Rightarrow> (('a operation_scheme, 'w) pass, bool \<times> error option) go) \<Rightarrow>
   (('a operation_scheme, 'w) pass, bool \<times> error option) go"
where
  "statusOfPods env rest =
     bindG (now env) (\<lambda>t.
     bindG (readS inst) (\<lambda>i.
     bindG (ListInstancePods env (lookupZ (opLabels i) ''app.kubernetes.io/instance'')
              (opNamespace i)) (\<lambda>(pods, err).
       case GetInvalidImageName pods of
         Some message \<Rightarrow>
           bindG (finishWith env t (\<lambda>clk st. LogFailed clk st InvalidImageNameReason message)) (\<lambda>updated.
             ret (updated, None))
       | None \<Rightarrow> rest t pods)))"

section \<open>Calls\<close>

lemma tracks_statusOfPods [track_intros]:
  "(\<And>t pods. tracks (emits P) (rest t pods)) \<Longrightarrow> tracks (emits P) (statusOfPods env rest)"
  unfolding statusOfPods_def by (intro track_intros)

lemma tracks_syncOwned [track_intros]:
  "(\<And>b. P (CObjUpdate (KUnstructured kind) b)) \<Longrightarrow> (\<And>st b. P (CStatusUpdate st b)) \<Longrightarrow>
   (\<And>c b. P (CRunStatus c b)) \<Longrightarrow> (\<And>found. tracks (emits P) (status found)) \<Longrightarrow>
   tracks (emits P) (syncOwned env u objs kind terminal status job jc found)"
  unfolding syncOwned_def by (intro track_intros)

lemma tracks_syncOwned_terminal:
  assumes "terminal found" "\<And>found. tracks (emits isReportCall) (status found)"
  shows "tracks (emits isReportCall) (syncOwned env u objs kind terminal status job jc found)"
  unfolding syncOwned_def using assms(1)
  by (simp only: simp_thms if_False) (intro track_intros assms(2); simp add: isReportCall_def)

section \<open>Behaviour\<close>

text \<open>Logging that is reported as a change whether it made one or not.\<close>

lemma wp_start_true:
  assumes "\<And>w j. logged t OperationStarting (inst s) True j \<Longrightarrow> Q (Returns True) (s\<lparr>world := w, inst := j\<rparr>)"
  shows "wp (bindG (logM env LogStarting) (\<lambda>_. ret True)) Q s"
  unfolding wp_bindG
  by (rule wp_log_logged [where ty = OperationStarting and t = t], rule LogStarting_def, simp, drule logged_weaken)
     (simp_all add: wp_ret assms)

lemma wp_run_true:
  assumes "\<And>w j. logged t OperationRunning (inst s) True j \<Longrightarrow> Q (Returns True) (s\<lparr>world := w, inst := j\<rparr>)"
  shows "wp (bindG (logM env LogRunning) (\<lambda>_. ret True)) Q s"
  unfolding wp_bindG by (rule wp_LogRunning [where t = t], drule logged_weaken) (simp_all add: wp_ret assms)

lemma wp_succeed_true:
  assumes "\<And>w j. logged t OperationSucceeded (inst s) True j \<Longrightarrow> Q (Returns True) (s\<lparr>world := w, inst := j\<rparr>)"
  shows "wp (bindG (logM env LogSucceeded) (\<lambda>_. bindG (setStatus (\<lambda>st. st\<lparr>CompletionTime := Some t\<rparr>)) (\<lambda>_. ret True))) Q s"
  unfolding wp_bindG [of "logM env f" for f]
proof (rule wp_logM)
  have "logged t OperationSucceeded (inst s) True
      ((inst s)\<lparr>opStatus := (fst (LogSucceeded clk (opStatus (inst s))))\<lparr>CompletionTime := Some t\<rparr>\<rparr>)" for clk
    unfolding LogSucceeded_def by (rule logged_logCondition_final) simp
  from assms [OF this]
  show "case Returns (snd (LogSucceeded clk (opStatus (inst s)))) of
      Returns _ \<Rightarrow> wp (bindG (setStatus (\<lambda>st. st\<lparr>CompletionTime := Some t\<rparr>)) (\<lambda>_. ret True)) Q
        (s\<lparr>world := w, inst := (inst s)\<lparr>opStatus := fst (LogSucceeded clk (opStatus (inst s)))\<rparr>\<rparr>)
    | Panics p \<Rightarrow> Q (Panics p)
        (s\<lparr>world := w, inst := (inst s)\<lparr>opStatus := fst (LogSucceeded clk (opStatus (inst s)))\<rparr>\<rparr>)" for clk w
    by (simp add: wp_simps)
qed

text \<open>A handler's answer, paired with no error.\<close>

lemma wp_pair:
  assumes "wp m (\<lambda>r u. calls u = c \<and> statusOutcome t next i r (inst u)) s"
  shows "wp (bindG m (\<lambda>updated. ret (updated, None)))
    (\<lambda>r u. calls u = c \<and> (\<exists>b. r = Returns (b, None) \<and> statusOutcome t next i (Returns b) (inst u))) s"
  unfolding wp_bindG by (rule wp_mono [OF assms]) (auto simp: statusOutcome_def wp_ret split: option.splits)

text \<open>The status that a handler reads of an object: none when it has none.\<close>

definition readsStatus :: "unsApi \<Rightarrow> (jobject \<Rightarrow> error + 'st) \<Rightarrow> jobject \<Rightarrow> 'st option \<Rightarrow> bool" where
  "readsStatus u conv job st \<longleftrightarrow>
     (case nestedFieldCopy u job ''status'' of
        (status, ok, err) \<Rightarrow>
          if ok then (case status of
                       JMap m \<Rightarrow> (case conv m of Inl e \<Rightarrow> False | Inr x \<Rightarrow> st = Some x)
                     | _ \<Rightarrow> False)
          else st = None)"

lemma readsStatusE:
  assumes "readsStatus u conv job st"
  obtains status err where "nestedFieldCopy u job ''status'' = (status, False, err)" "st = None"
    | m err x where "nestedFieldCopy u job ''status'' = (JMap m, True, err)" "conv m = Inr x" "st = Some x"
proof (cases "nestedFieldCopy u job ''status''")
  case (fields status ok err)
  with assms that show ?thesis
    by (cases status; cases ok) (auto simp: readsStatus_def split: sum.splits)
qed

definition podsOf ::
  "('a operation_scheme, 'w, 'm) api_scheme \<Rightarrow> ('a operation_scheme, 'w) pass \<Rightarrow> time \<times> Pod list \<times> 'w"
where
  "podsOf env s =
     (let (t, w) = timeNow env (world s);
          ((pods, err), w) = listPods env (opNamespace (inst s))
             [(''app.kubernetes.io/instance'', lookupZ (opLabels (inst s)) ''app.kubernetes.io/instance'')] w
      in (t, pods, w))"

lemma wp_statusOfPods:
  assumes "podsOf env s = (t, pods, w)"
    and "\<And>w j. GetInvalidImageName pods \<noteq> None \<Longrightarrow> logged t OperationFailed (inst s) True j \<Longrightarrow>
      Q (Returns (True, None)) (s\<lparr>world := w, inst := j\<rparr>)"
    and "GetInvalidImageName pods = None \<Longrightarrow> wp (rest t pods) Q (s\<lparr>world := w\<rparr>)"
  shows "wp (statusOfPods env rest) Q s"
proof -
  obtain w1 err where t: "timeNow env (world s) = (t, w1)" and l: "listPods env (opNamespace (inst s))
      [(''app.kubernetes.io/instance'', lookupZ (opLabels (inst s)) ''app.kubernetes.io/instance'')] w1 = ((pods, err), w)"
    using assms(1) by (auto simp: podsOf_def Let_def split: prod.splits)
  have image: "wp (bindG (finishWith env t (\<lambda>clk st. LogFailed clk st r m)) (\<lambda>updated. ret (updated, None))) Q (s\<lparr>world := w\<rparr>)"
    if "GetInvalidImageName pods \<noteq> None" for r m
    unfolding wp_bindG by (rule wp_finish_LogFailed) (use assms(2) that in \<open>simp add: wp_ret\<close>)
  show ?thesis
    using image assms(3)
    by (simp add: statusOfPods_def wp_bindG [of "now env"] wp_bindG [of "readS inst"]
        wp_bindG [of "external x" for x] ListInstancePods_def ListPods_def wp_external wp_now wp_readS t l
        split: option.split)
qed

section \<open>Safety\<close>

text \<open>The objects served have a \<open>status\<close> that is an object, if any.\<close>

definition servesObjs :: "('i, jobject, 'w) objApi \<Rightarrow> bool" where
  "servesObjs objs \<longleftrightarrow>
     (\<forall>k w job w'. oGet objs k w = (Inr job, w') \<longrightarrow> statusOk job) \<and>
     (\<forall>obj w job w'. oUpdate objs obj w = (Inr job, w') \<longrightarrow> statusOk job)"

lemma servesObjsD:
  assumes "servesObjs objs"
  shows "oGet objs k w = (Inr job, w') \<Longrightarrow> statusOk job" "oUpdate objs obj w = (Inr job, w') \<Longrightarrow> statusOk job"
  using assms unfolding servesObjs_def by blast+

lemma hoare_objGet_status:
  "servesObjs objs \<Longrightarrow> hoare (inv J C) (objGet objs k)
     (\<lambda>r s. inv J C s \<and> (case r of Inl e \<Rightarrow> True | Inr job \<Rightarrow> statusOk job))"
  by (auto simp: hoare_def objGet_def wp_simps inv_def split: prod.split sum.split dest: servesObjsD(1))

lemma statusOk_read:
  assumes "unstructured_laws u" "statusOk job"
  obtains "nestedFieldCopy u job ''status'' = (JNull, False, None)"
    | m where "nestedFieldCopy u job ''status'' = (JMap m, True, None)"
proof -
  have eq: "nestedFieldCopy u job ''status'' =
      (case fmlookup job ''status'' of None \<Rightarrow> (JNull, False, None) | Some v \<Rightarrow> (v, True, None))"
    using assms(1) by (simp add: unstructured_laws_def)
  show ?thesis
  proof (cases "fmlookup job ''status''")
    case None
    with eq that(1) show ?thesis by simp
  next
    case (Some v)
    with assms(2) obtain m where "v = JMap m" by (auto simp: statusOk_def split: json.splits)
    with eq Some that(2) show ?thesis by simp
  qed
qed

text \<open>A blank object, on which the call of \<open>Get\<close> is made.\<close>

lemma blank_statusOk:
  "unstructured_laws u \<Longrightarrow> statusOk (setKind u (setAPIVersion u fmempty v) kind)"
  by (simp add: unstructured_laws_def statusOk_def isMetaField_def)

context status_inv
begin

lemma ready_pair: "hoare P m (ready J C) \<Longrightarrow> hoare P (bindG m (\<lambda>updated. ret (updated, e))) (\<lambda>r. ready J C (fst r))"
  by (erule hoare_bindG) (simp add: hoare_def wp_simps)

lemma ready_false: "hoare (inv J C) (ret (False, e)) (\<lambda>r. ready J C (fst r))"
  by (simp add: hoare_def wp_simps inv_def ready_def)

lemma ready_then_true:
  "(\<And>clk st. IsDone (fst (f clk st)) = IsDone st) \<Longrightarrow>
   (\<And>clk st. CompletionTime (fst (f clk st)) = CompletionTime st) \<Longrightarrow>
   (\<And>clk st. Conditions (fst (f clk st)) \<noteq> []) \<Longrightarrow>
   hoare (inv J C) (bindG (logM env f) (\<lambda>_. ret True)) (ready J C)"
  by (rule hoare_bindG [OF ready_log_true]) (auto simp: hoare_def wp_simps)

lemma ready_succeeded:
  "hoare (inv J C) (bindG (logM env LogSucceeded) (\<lambda>_.
     bindG (setStatus (\<lambda>st. st\<lparr>CompletionTime := Some t\<rparr>)) (\<lambda>_. ret True))) (ready J C)"
  by (auto simp: hoare_def wp_simps inv_def ready_def J_timed log_methods status.log_not_empty intro!: wp_logM)

lemma ready_statusOfPods:
  "(\<And>t pods. hoare (inv J C) (rest t pods) (\<lambda>r. ready J C (fst r))) \<Longrightarrow>
   hoare (inv J C) (statusOfPods env rest) (\<lambda>r. ready J C (fst r))"
  unfolding statusOfPods_def
  by (intro hoare_bindG [OF hoare_now] hoare_bindG [OF hoare_readS] hoare_bindG [OF hoare_ListInstancePods]
      hoare_prod hoare_option ready_pair ready_finishWith) simp_all

lemma syncOwned_safe:
  assumes u: "unstructured_laws u" and objs: "servesObjs objs" and api: "serves J env" "status_echo env"
    and found: "statusOk found"
    and status: "\<And>obj. statusOk obj \<Longrightarrow> hoare (inv J C) (status obj) (\<lambda>r. ready J C (fst r))"
  shows "hoare (inv J C) (syncOwned env u objs kind terminal status job jc found) (\<lambda>_. inv J C)"
proof -
  let ?R = "\<lambda>r :: error option \<times> jobject. fst r = None \<longrightarrow> statusOk (snd r)"
  have upd: "hoare (inv J C) (objUpdate objs (KUnstructured kind) obj) (\<lambda>r s. inv J C s \<and> ?R r)" for obj
    by (auto simp: hoare_def objUpdate_def wp_simps inv_def C_simps split: prod.split sum.split
        dest: servesObjsD(2) [OF objs])
  have keep: "hoare (inv J C) (ret (None, found)) (\<lambda>r s. inv J C s \<and> ?R r)"
    using found by (simp add: hoare_def wp_simps)
  have copy: "hoare (inv J C)
      (let (foundJob, requireUpdate) = CopyUnstructuredFields u job found in
       if requireUpdate then objUpdate objs (KUnstructured kind) foundJob else ret (None, foundJob))
      (\<lambda>r s. inv J C s \<and> ?R r)"
    using upd keep CopyUnstructuredFields_unchanged [of u job found]
    by (cases "CopyUnstructuredFields u job found") auto
  have publish: "hoare (ready J C b) (if err \<noteq> None then ret err else if b then publishStatus env else ret None)
      (\<lambda>_. inv J C)" for b err
    using publish_ready [OF api] by (auto simp: hoare_def wp_simps ready_def inv_def)
  have after: "hoare (inv J C) (case r of (err, foundJob) \<Rightarrow> (case err of Some e \<Rightarrow> ret (Some e)
       | None \<Rightarrow> bindG (status foundJob) (\<lambda>(condUpdated, err).
             if err \<noteq> None then ret err else if condUpdated then publishStatus env else ret None))) (\<lambda>_. inv J C)"
    if "?R r" for r
    using that publish
    by (cases r; cases "fst r") (auto simp: hoare_ret intro!: hoare_bindG [OF status] hoare_prod)
  show ?thesis
    unfolding syncOwned_def
    by (intro hoare_bindG [OF hoare_readS] hoare_bind_value [where R = ?R and Q = "inv J C"] hoare_if copy keep after)
qed

end

end
