(* ===== verification/Kubeflow.thy ===== *)
theory Kubeflow
  imports Unstructured
begin

text \<open>
  Kubeflow jobs: the resource \<open>KfJob\<close> (\<^verbatim>\<open>api/v1/kfjob_types.go\<close>, \<^verbatim>\<open>kubeflow.go\<close>, \<^verbatim>\<open>tfjob.go\<close>,
  \<^verbatim>\<open>pytorchjob.go\<close>, \<^verbatim>\<open>mpijob.go\<close>), the types sent to the training operator
  (\<^verbatim>\<open>internal/controller/kfjob/kfapi\<close>) and the builders of its unstructured objects
  (\<^verbatim>\<open>internal/helpers/managers/kfcommon.go\<close>, \<^verbatim>\<open>tfjob.go\<close>, \<^verbatim>\<open>pytorchjob.go\<close>, \<^verbatim>\<open>mpijob.go\<close>).

  The converter of \<open>apimachinery\<close> is the argument \<open>toUnstructured\<close>.
\<close>

section \<open>The resource\<close>

text \<open>\<open>CleanPodPolicy\<close>, \<open>TFSuccessPolicy\<close>, \<open>RDZVBackend\<close> and the replica types are strings in the source.
  Quantities and HPA metrics, which the code passes on unread, are kept as text.\<close>

record SchedulingPolicy =
  MinAvailable :: "int32 option"
  Queue :: string
  MinResources :: "dict option"
  PriorityClass :: string
  ScheduleTimeoutSeconds :: "int32 option"

record KFReplicaSpec =
  kfReplicas :: "int32 option"
  kfTemplate :: PodTemplateSpec
  kfRestartPolicy :: string

text \<open>A map from replica types to pointers.\<close>

type_synonym replicaSpecs = "(string \<times> KFReplicaSpec option) list"

record RDZVConf =
  rdzvKey :: string
  rdzvValue :: string

record PytorchElasticPolicy =
  MinReplicas :: "int32 option"
  MaxReplicas :: "int32 option"
  RDZVBackend :: "string option"
  RDZVPort :: "int32 option"
  RDZVHost :: "string option"
  RDZVID :: "string option"
  RDZVConfs :: "RDZVConf list"
  Standalone :: "bool option"
  NProcPerNode :: "int32 option"
  MaxRestarts :: "int32 option"
  Metrics :: "string list"

record TFJobSpec =
  tfCleanPodPolicy :: "string option"
  tfSchedulingPolicy :: "SchedulingPolicy option"
  tfSuccessPolicy :: "string option"
  tfEnableDynamicWorker :: bool
  tfReplicaSpecs :: replicaSpecs

record PytorchJobSpec =
  pyCleanPodPolicy :: "string option"
  pySchedulingPolicy :: "SchedulingPolicy option"
  pyElasticPolicy :: "PytorchElasticPolicy option"
  pyReplicaSpecs :: replicaSpecs
  pyNprocPerNode :: "string option"

record MPIJobSpec =
  mpiCleanPodPolicy :: "string option"
  mpiSchedulingPolicy :: "SchedulingPolicy option"
  mpiSlotsPerWorker :: "int32 option"
  mpiReplicaSpecs :: replicaSpecs

record KfJob = operation +
  kjTFJobSpec :: "TFJobSpec option"
  kjPytorchJobSpec :: "PytorchJobSpec option"
  kjMPIJobSpec :: "MPIJobSpec option"

section \<open>The training operator's types\<close>

record RunPolicy =
  rpCleanPodPolicy :: "string option"
  rpTTLSecondsAfterFinished :: "int32 ptr"
  rpActiveDeadlineSeconds :: "int ptr"
  rpBackoffLimit :: "int32 ptr"
  rpSchedulingPolicy :: "SchedulingPolicy option"

record kfapi_TFJobSpec =
  ktRunPolicy :: RunPolicy
  ktEnableDynamicWorker :: bool
  ktSuccessPolicy :: "string option"
  ktReplicaSpecs :: "(string \<times> KFReplicaSpec) list"

record kfapi_PyTorchJobSpec =
  kpRunPolicy :: RunPolicy
  kpElasticPolicy :: "PytorchElasticPolicy option"
  kpNprocPerNode :: "string option"
  kpReplicaSpecs :: "(string \<times> KFReplicaSpec) list"

record kfapi_MPIJobSpec =
  kmSlotsPerWorker :: "int32 option"
  kmRunPolicy :: RunPolicy
  kmMainContainer :: string
  kmReplicaSpecs :: "(string \<times> KFReplicaSpec) list"

record kfapi_JobCondition =
  kcType :: string
  kcStatus :: ConditionStatus
  kcReason :: string
  kcMessage :: string

record kfapi_ReplicaStatus =
  krActive :: int32
  krSucceeded :: int32
  krFailed :: int32

record kfapi_JobStatus =
  kjConditions :: "kfapi_JobCondition list"
  kjReplicaStatuses :: "(string \<times> kfapi_ReplicaStatus option) list"
  kjStartTime :: "time option"
  kjCompletionTime :: "time option"
  kjLastReconcileTime :: "time option"

section \<open>Builders\<close>

definition KFAPIVersion :: string where "KFAPIVersion = ''kubeflow.org/v1''"

definition TFJobKind :: string where "TFJobKind = ''TFJob''"

definition PytorchJobKind :: string where "PytorchJobKind = ''PyTorchJob''"

definition MPIJobKind :: string where "MPIJobKind = ''MPIJob''"

definition generateKFReplica :: "KFReplicaSpec \<Rightarrow> dict \<Rightarrow> dict \<Rightarrow> KFReplicaSpec" where
  "generateKFReplica replicaSpec labels annotations =
     (let l = dictCopy labels (dictCopy (ptLabels (kfTemplate replicaSpec)) []);
          a = dictCopy annotations (dictCopy (ptAnnotations (kfTemplate replicaSpec)) [])
      in \<lparr>kfReplicas = kfReplicas replicaSpec,
          kfTemplate = \<lparr>ptLabels = l, ptAnnotations = a, ptSpec = ptSpec (kfTemplate replicaSpec)\<rparr>,
          kfRestartPolicy = kfRestartPolicy replicaSpec\<rparr>)"

text \<open>The loop over the replicas, which dereferences each of them: \<open>None\<close> is the panic.\<close>

fun generateReplicas :: "dict \<Rightarrow> dict \<Rightarrow> replicaSpecs \<Rightarrow> (string \<times> KFReplicaSpec) list option" where
  "generateReplicas labels annotations [] = Some []"
| "generateReplicas labels annotations ((k, None) # rest) = None"
| "generateReplicas labels annotations ((k, Some v) # rest) =
     map_option (\<lambda>rs. (k, generateKFReplica v labels annotations) # rs)
       (generateReplicas labels annotations rest)"

definition kfRunPolicy ::
  "nat \<Rightarrow> TerminationSpec \<Rightarrow> string option \<Rightarrow> SchedulingPolicy option \<Rightarrow> RunPolicy"
where
  "kfRunPolicy addr termination cleanPodPolicy schedulingPolicy =
     \<lparr>rpCleanPodPolicy = cleanPodPolicy,
      rpTTLSecondsAfterFinished = GetTTL (Suc addr) (TTLSecondsAfterFinished termination),
      rpActiveDeadlineSeconds = ActiveDeadlineSeconds termination,
      rpBackoffLimit = GetBackoffLimit addr (BackoffLimit termination),
      rpSchedulingPolicy = schedulingPolicy\<rparr>"

text \<open>The end of each builder: the object with its metadata, and the converted specification as its
  \<open>spec\<close>.\<close>

definition kfObject ::
  "unsApi \<Rightarrow> string \<Rightarrow> string \<Rightarrow> dict \<Rightarrow> string \<Rightarrow> string \<Rightarrow> error + jobject \<Rightarrow> error + jobject"
where
  "kfObject u kind what labels name namespace manifest =
     (let job = setAPIVersion u fmempty KFAPIVersion;
          job = setKind u job kind;
          job = setLabels u job labels;
          job = setName u job name;
          job = setNamespace u job namespace
      in case manifest of
           Inl e \<Rightarrow> Inl (OtherError (''convert '' @ what @ '' to unstructured error: '' @ errorText e))
         | Inr jobManifest \<Rightarrow>
             (case setNestedField u job (JMap jobManifest) ''spec'' of
                (job, Some e) \<Rightarrow> Inl (OtherError (''set .spec.hosts error: '' @ errorText e))
              | (job, None) \<Rightarrow> Inr job))"

text \<open>The result of a builder: \<open>None\<close> is the panic, \<open>Some (Inl e)\<close> the error.\<close>

definition GenerateTFJob ::
  "unsApi \<Rightarrow> (kfapi_TFJobSpec \<Rightarrow> error + jobject) \<Rightarrow> nat \<Rightarrow> string \<Rightarrow> string \<Rightarrow> dict \<Rightarrow> dict \<Rightarrow>
   TerminationSpec \<Rightarrow> TFJobSpec \<Rightarrow> (error + jobject) option"
where
  "GenerateTFJob u toUnstructured addr name namespace labels annotations termination spec =
     (case generateReplicas labels annotations (tfReplicaSpecs spec) of
        None \<Rightarrow> None
      | Some replicaSpecs \<Rightarrow>
          let jobSpec =
            \<lparr>ktRunPolicy = kfRunPolicy addr termination (tfCleanPodPolicy spec) (tfSchedulingPolicy spec),
             ktEnableDynamicWorker = tfEnableDynamicWorker spec,
             ktSuccessPolicy = tfSuccessPolicy spec,
             ktReplicaSpecs = replicaSpecs\<rparr>
          in Some (kfObject u TFJobKind ''tfjob'' labels name namespace (toUnstructured jobSpec)))"

definition GeneratePytorchJob ::
  "unsApi \<Rightarrow> (kfapi_PyTorchJobSpec \<Rightarrow> error + jobject) \<Rightarrow> nat \<Rightarrow> string \<Rightarrow> string \<Rightarrow> dict \<Rightarrow> dict \<Rightarrow>
   TerminationSpec \<Rightarrow> PytorchJobSpec \<Rightarrow> (error + jobject) option"
where
  "GeneratePytorchJob u toUnstructured addr name namespace labels annotations termination spec =
     (case generateReplicas labels annotations (pyReplicaSpecs spec) of
        None \<Rightarrow> None
      | Some replicaSpecs \<Rightarrow>
          let jobSpec =
            \<lparr>kpRunPolicy = kfRunPolicy addr termination (pyCleanPodPolicy spec) (pySchedulingPolicy spec),
             kpElasticPolicy = pyElasticPolicy spec,
             kpNprocPerNode = None,
             kpReplicaSpecs = replicaSpecs\<rparr>
          in Some (kfObject u PytorchJobKind ''pytorchjob'' labels name namespace (toUnstructured jobSpec)))"

definition MainJobContainer :: string where "MainJobContainer = ''polyaxon-main''"

definition GenerateMPIJob ::
  "unsApi \<Rightarrow> (kfapi_MPIJobSpec \<Rightarrow> error + jobject) \<Rightarrow> nat \<Rightarrow> string \<Rightarrow> string \<Rightarrow> dict \<Rightarrow> dict \<Rightarrow>
   TerminationSpec \<Rightarrow> MPIJobSpec \<Rightarrow> (error + jobject) option"
where
  "GenerateMPIJob u toUnstructured addr name namespace labels annotations termination spec =
     (case generateReplicas labels annotations (mpiReplicaSpecs spec) of
        None \<Rightarrow> None
      | Some replicaSpecs \<Rightarrow>
          let jobSpec =
            \<lparr>kmSlotsPerWorker = mpiSlotsPerWorker spec,
             kmRunPolicy = kfRunPolicy addr termination (mpiCleanPodPolicy spec) (mpiSchedulingPolicy spec),
             kmMainContainer = MainJobContainer,
             kmReplicaSpecs = replicaSpecs\<rparr>
          in Some (kfObject u MPIJobKind ''mpijob'' labels name namespace (toUnstructured jobSpec)))"

section \<open>Lemmas\<close>

text \<open>The members of the objects that the builders make.\<close>

definition kfShape :: "jobject \<Rightarrow> bool" where
  "kfShape job \<longleftrightarrow> fmlookup job ''labels'' = None \<and> fmlookup job ''status'' = None \<and>
     (\<exists>m. fmlookup job ''spec'' = Some (JMap m))"

lemma kfObject_spec:
  assumes "unstructured_laws u" "kfObject u kind what labels name namespace (Inr m) = Inr job"
  shows "fmlookup job ''spec'' = Some (JMap m)" "fmlookup job ''labels'' = None" "fmlookup job ''status'' = None"
  using assms by (auto simp: kfObject_def unstructured_laws_def isMetaField_def)

lemma kfObject_shape:
  assumes "unstructured_laws u" "kfObject u kind what labels name namespace manifest = Inr job"
  shows "kfShape job"
proof (cases manifest)
  case (Inl e)
  with assms(2) show ?thesis by (simp add: kfObject_def)
next
  case (Inr m)
  with kfObject_spec [OF assms(1), of kind what labels name namespace m job] assms(2)
  show ?thesis by (simp add: kfShape_def)
qed

lemma map_of_generateReplicas:
  "generateReplicas labels annotations specs = Some rs \<Longrightarrow>
   map_of rs k = (case map_of specs k of Some (Some v) \<Rightarrow> Some (generateKFReplica v labels annotations) | _ \<Rightarrow> None)"
proof (induction labels annotations specs arbitrary: rs rule: generateReplicas.induct)
  case (3 labels annotations j v rest)
  then show ?case by (cases "generateReplicas labels annotations rest") auto
qed simp_all

lemma generateReplicas_total:
  "(\<exists>rs. generateReplicas labels annotations specs = Some rs) \<longleftrightarrow> None \<notin> snd ` set specs"
  by (induction labels annotations specs rule: generateReplicas.induct) auto

section \<open>Properties\<close>

lemma GenerateTFJob_SomeD:
  assumes "GenerateTFJob u conv addr name namespace labels annotations termination spec = Some r"
  shows "\<exists>kind what manifest. r = kfObject u kind what labels name namespace manifest"
  using assms unfolding GenerateTFJob_def Let_def by (auto split: option.splits)

lemma GeneratePytorchJob_SomeD:
  assumes "GeneratePytorchJob u conv addr name namespace labels annotations termination spec = Some r"
  shows "\<exists>kind what manifest. r = kfObject u kind what labels name namespace manifest"
  using assms unfolding GeneratePytorchJob_def Let_def by (auto split: option.splits)

lemma GenerateMPIJob_SomeD:
  assumes "GenerateMPIJob u conv addr name namespace labels annotations termination spec = Some r"
  shows "\<exists>kind what manifest. r = kfObject u kind what labels name namespace manifest"
  using assms unfolding GenerateMPIJob_def Let_def by (auto split: option.splits)

text \<open>C30: an update of a Kubeflow job carries over its specification and nothing else. The copier asks for the
  members \<open>labels\<close> and \<open>spec\<close> of the generated object, but the builders put the labels under \<open>metadata\<close>: a
  changed label of the operation never reaches the existing job. An update is asked for exactly when the
  specifications differ, so a second copy asks for none.\<close>

theorem kf_copy_spec_only:
  assumes "unstructured_laws u"
    and "Some (Inr job) \<in>
      {GenerateTFJob u tf addr name namespace labels annotations termination tfSpec,
       GeneratePytorchJob u py addr name namespace labels annotations termination pySpec,
       GenerateMPIJob u mpi addr name namespace labels annotations termination mpiSpec}"
  shows "\<exists>m. fmlookup job ''spec'' = Some (JMap m) \<and>
    CopyUnstructuredFields u job to = (fmupd ''spec'' (JMap m) to, fmlookup to ''spec'' \<noteq> Some (JMap m)) \<and>
    \<not> snd (CopyUnstructuredFields u job (fst (CopyUnstructuredFields u job to)))"
proof -
  obtain kind what manifest where "kfObject u kind what labels name namespace manifest = Inr job"
    using assms(2)
    by (auto dest!: sym [of "Some (Inr job)"] GenerateTFJob_SomeD GeneratePytorchJob_SomeD GenerateMPIJob_SomeD)
  from kfObject_shape [OF assms(1) this] obtain m
    where m: "fmlookup job ''labels'' = None" "fmlookup job ''spec'' = Some (JMap m)"
    by (auto simp: kfShape_def)
  then show ?thesis
    by (auto simp: CopyUnstructuredFields_shape [OF assms(1) m])
qed

text \<open>the pods of every replica carry the labels and annotations of its template and those of the operation,
  the latter winning, so that the controller's selector on the instance label finds them; replica
  count, restart policy and pod specification are those of the template.\<close>

theorem generateReplicas_labels:
  assumes "generateReplicas labels annotations specs = Some rs" and "map_of specs k = Some (Some v)"
    and "distinct (map fst labels)" and "distinct (map fst annotations)"
    and "distinct (map fst (ptLabels (kfTemplate v)))" and "distinct (map fst (ptAnnotations (kfTemplate v)))"
  shows "\<exists>r. map_of rs k = Some r \<and>
    map_of (ptLabels (kfTemplate r)) = map_of (ptLabels (kfTemplate v)) ++ map_of labels \<and>
    map_of (ptAnnotations (kfTemplate r)) = map_of (ptAnnotations (kfTemplate v)) ++ map_of annotations \<and>
    ptSpec (kfTemplate r) = ptSpec (kfTemplate v) \<and> kfReplicas r = kfReplicas v \<and>
    kfRestartPolicy r = kfRestartPolicy v"
  using assms map_of_generateReplicas [OF assms(1), of k]
  by (simp add: generateKFReplica_def map_of_dictCopy)

text \<open>the number of processes per node that a PyTorch job asks for has no effect: whatever the field of the
  resource says, the same object is generated.\<close>

theorem GeneratePytorchJob_ignores_nproc:
  "GeneratePytorchJob u conv addr name namespace labels annotations termination (spec\<lparr>pyNprocPerNode := n\<rparr>) =
   GeneratePytorchJob u conv addr name namespace labels annotations termination spec"
  by (simp add: GeneratePytorchJob_def cong: option.case_cong)

section \<open>Witnesses\<close>

definition demoReplica :: KFReplicaSpec where
  "demoReplica = \<lparr>kfReplicas = Some 2,
     kfTemplate = \<lparr>ptLabels = [(''app'', ''x''), (''tier'', ''a'')], ptAnnotations = [],
       ptSpec = \<lparr>Containers = [], RestartPolicy = '''', psOther = ''''\<rparr>\<rparr>, kfRestartPolicy = ''Never''\<rparr>"

definition demoTFSpec :: TFJobSpec where
  "demoTFSpec = \<lparr>tfCleanPodPolicy = None, tfSchedulingPolicy = None, tfSuccessPolicy = None,
     tfEnableDynamicWorker = False, tfReplicaSpecs = [(''Worker'', Some demoReplica)]\<rparr>"

theorem kf_copy_spec_only_witness:
  "\<exists>job. GenerateTFJob plainUns (\<lambda>_. Inr (fmupd ''x'' (JInt 1) fmempty)) 0 ''run'' ''ns'' [] [] demoTermination demoTFSpec =
       Some (Inr job) \<and>
     CopyUnstructuredFields plainUns job (fmupd ''spec'' (JMap fmempty) fmempty) =
       (fmupd ''spec'' (JMap (fmupd ''x'' (JInt 1) fmempty)) fmempty, True)"
proof -
  let ?m = "fmupd ''x'' (JInt 1) fmempty"
  let ?job = "fmupd ''spec'' (JMap ?m) (setMeta (setMeta (setMeta (fmupd ''kind'' (JStr TFJobKind)
      (fmupd ''apiVersion'' (JStr KFAPIVersion) fmempty)) ''labels'' (strMap [])) ''name'' (JStr ''run''))
      ''namespace'' (JStr ''ns''))"
  have g: "GenerateTFJob plainUns (\<lambda>_. Inr ?m) 0 ''run'' ''ns'' [] [] demoTermination demoTFSpec = Some (Inr ?job)"
    by (simp add: GenerateTFJob_def demoTFSpec_def kfObject_def plainUns_def)
  have "Some (Inr ?job) \<in>
      {GenerateTFJob plainUns (\<lambda>_. Inr ?m) 0 ''run'' ''ns'' [] [] demoTermination demoTFSpec,
       GeneratePytorchJob plainUns undefined 0 ''run'' ''ns'' [] [] demoTermination undefined,
       GenerateMPIJob plainUns undefined 0 ''run'' ''ns'' [] [] demoTermination undefined}"
    unfolding g by simp
  from kf_copy_spec_only [OF plainUns_laws this, of "fmupd ''spec'' (JMap fmempty) fmempty"] g
  show ?thesis by auto
qed

theorem generateReplicas_labels_witness:
  "\<exists>rs r. generateReplicas [(''app'', ''run'')] [] [(''Worker'', Some demoReplica)] = Some rs \<and>
     map_of rs ''Worker'' = Some r \<and> map_of (ptLabels (kfTemplate r)) ''app'' = Some ''run'' \<and>
     map_of (ptLabels (kfTemplate r)) ''tier'' = Some ''a''"
  using generateReplicas_labels [of "[(''app'', ''run'')]" "[]" "[(''Worker'', Some demoReplica)]"
      "[(''Worker'', generateKFReplica demoReplica [(''app'', ''run'')] [])]" "''Worker''" demoReplica]
  by (simp add: demoReplica_def)

end
