(* ===== verification/KfJob_Controller.thy ===== *)
theory KfJob_Controller
  imports Owned Kubeflow
begin

text \<open>
  The controller of Kubeflow jobs: \<^verbatim>\<open>internal/controller/kfjob\<close>.

  Its copies of the common handlers are the instances of \<open>Reconcile\<close> at the type \<open>KfJob\<close>. The files
  \<^verbatim>\<open>tfjob.go\<close>, \<^verbatim>\<open>pytorchjob.go\<close> and \<^verbatim>\<open>mpijob.go\<close> are equal up to the builder, the kind and two texts:
  their bodies are \<open>reconcileKf\<close>. The record \<open>kfEnv\<close> adds the client on the objects of each kind and the
  functions of \<open>apimachinery\<close>; \<open>kfLawful\<close> is what the controller relies on of them.
\<close>

record ('i, 'w) kfEnv = "('i, 'w) api" +
  kfObjs :: "string \<Rightarrow> ('i, jobject, 'w) objApi"
  uns :: unsApi
  tfToUnstructured :: "kfapi_TFJobSpec \<Rightarrow> error + jobject"
  pytorchToUnstructured :: "kfapi_PyTorchJobSpec \<Rightarrow> error + jobject"
  mpiToUnstructured :: "kfapi_MPIJobSpec \<Rightarrow> error + jobject"
  fromUnstructured :: "jobject \<Rightarrow> error + kfapi_JobStatus"
  kfLocalAddr :: nat

section \<open>Status\<close>

definition JobCreated :: string where "JobCreated = ''Created''"

definition JobRunning :: string where "JobRunning = ''Running''"

definition JobRestarting :: string where "JobRestarting = ''Restarting''"

definition JobSucceeded :: string where "JobSucceeded = ''Succeeded''"

definition JobFailed :: string where "JobFailed = ''Failed''"

definition isKfJobInTerminalState :: "(KfJob, 'w) kfEnv \<Rightarrow> jobject \<Rightarrow> bool" where
  "isKfJobInTerminalState env job =
     (let (status, ok, err) = nestedFieldCopy (uns env) job ''status'' in
      if \<not> ok \<or> err \<noteq> None then False
      else case status of
        JMap statusMap \<Rightarrow>
          (case fromUnstructured env statusMap of
             Inl e \<Rightarrow> False
           | Inr jobStatus \<Rightarrow>
               if length (kjConditions jobStatus) = 0 then False
               else let cond = last (kjConditions jobStatus) in
                 (kcType cond = JobSucceeded \<and> kcStatus cond = ConditionTrue) \<or>
                 (kcType cond = JobFailed \<and> kcStatus cond = ConditionTrue))
      | _ \<Rightarrow> False)"

definition logPodWarning :: "(KfJob, 'w) kfEnv \<Rightarrow> verdict \<Rightarrow> ((KfJob, 'w) pass, bool) go" where
  "logPodWarning env v =
     (let (podStatus, reason, message) = v in
      if podStatus \<noteq> OperationWarning then ret False
      else logM env (\<lambda>clk st. LogWarning clk st reason message))"

definition failedAttemptsPtr :: "MainContainerExitStatus option \<Rightarrow> int32 option" where
  "failedAttemptsPtr exitStatus =
     (case exitStatus of
        None \<Rightarrow> None
      | Some es \<Rightarrow>
          let failedAttempts = ContainerFailedAttempts es
          in if 0 <s failedAttempts then Some failedAttempts else None)"

text \<open>The end of \<open>reconcileKfJobStatus\<close>, from the last condition on.\<close>

definition kfConditionStatus ::
  "(KfJob, 'w) kfEnv \<Rightarrow> time \<Rightarrow> verdict \<Rightarrow> MainContainerExitStatus option \<Rightarrow> kfapi_JobCondition \<Rightarrow>
   ((KfJob, 'w) pass, bool) go"
where
  "kfConditionStatus env t v exitStatus cond =
     (if kcType cond = JobRunning \<or> kcType cond = JobCreated then
        bindG (logM env LogRunning) (\<lambda>_. ret True)
      else if kcType cond = JobSucceeded then
        bindG (logM env LogSucceeded) (\<lambda>_.
        bindG (setStatus (\<lambda>st. st\<lparr>CompletionTime := Some t\<rparr>)) (\<lambda>_. ret True))
      else
        bindG (if kcType cond = JobFailed then
                 (let newMessage = FormatMainContainerFailureMessage (kcMessage cond) exitStatus
                        (failedAttemptsPtr exitStatus)
                  in finishWith env t (\<lambda>clk st. LogFailed clk st (kcReason cond) newMessage))
               else ret False) (\<lambda>updated.
        if updated then ret True
        else
          bindG (logPodWarning env v) (\<lambda>updated.
          if updated then ret True
          else if kcType cond = JobRestarting then
            bindG (logM env (\<lambda>clk st. LogWarning clk st (kcReason cond) (kcMessage cond))) (\<lambda>_. ret True)
          else ret False)))"

text \<open>The part of \<open>reconcileKfJobStatus\<close> after the check of the image names.\<close>

definition kfJobStatus ::
  "(KfJob, 'w) kfEnv \<Rightarrow> time \<Rightarrow> Pod list \<Rightarrow> jobject \<Rightarrow> ((KfJob, 'w) pass, bool \<times> error option) go"
where
  "kfJobStatus env t pods job =
     (let v = HasUnschedulablePods pods;
          exitStatus = GetMainContainerExitStatus pods;
          (status, ok, unerr) = nestedFieldCopy (uns env) job ''status''
      in if \<not> ok then
           (if unerr \<noteq> None then ret (False, None)
            else bindG (logPodWarning env v) (\<lambda>updated. ret (updated, None)))
         else case status of
           JMap statusMap \<Rightarrow>
             (case fromUnstructured env statusMap of
                Inl e \<Rightarrow> ret (False, Some e)
              | Inr jobStatus \<Rightarrow>
                  bindG (if length (kjConditions jobStatus) = 0 then logPodWarning env v
                         else kfConditionStatus env t v exitStatus (last (kjConditions jobStatus)))
                    (\<lambda>updated. ret (updated, None)))
         | _ \<Rightarrow> panic ''interface conversion'')"

definition reconcileKfJobStatus ::
  "(KfJob, 'w) kfEnv \<Rightarrow> jobject \<Rightarrow> ((KfJob, 'w) pass, bool \<times> error option) go"
where
  "reconcileKfJobStatus env job = statusOfPods env (\<lambda>t pods. kfJobStatus env t pods job)"

section \<open>The Kubeflow job\<close>

text \<open>The end of \<open>reconcileTFJob\<close> and of its copies.\<close>

definition updateKf ::
  "(KfJob, 'w) kfEnv \<Rightarrow> string \<Rightarrow> jobject \<Rightarrow> bool \<Rightarrow> jobject \<Rightarrow> ((KfJob, 'w) pass, error option) go"
where
  "updateKf env kind =
     syncOwned env (uns env) (kfObjs env kind) kind (isKfJobInTerminalState env) (reconcileKfJobStatus env)"

text \<open>The object \<open>foundJob\<close> before the call of \<open>Get\<close>.\<close>

definition blankKf :: "(KfJob, 'w) kfEnv \<Rightarrow> string \<Rightarrow> jobject" where
  "blankKf env kind = setKind (uns env) (setAPIVersion (uns env) fmempty KFAPIVersion) kind"

text \<open>The branch for a Kubeflow job that does not exist.\<close>

definition missingKf ::
  "(KfJob, 'w) kfEnv \<Rightarrow> string \<Rightarrow> string \<Rightarrow> string \<Rightarrow> jobject \<Rightarrow> ((KfJob, 'w) pass, error option) go"
where
  "missingKf env kind what createReason job =
     bindG (readS (\<lambda>s. ShouldMarkJobAsDeleted (opStatus (inst s)))) (\<lambda>(shouldMarkDeleted, isDone).
       if isDone then ret None
       else if shouldMarkDeleted then
         bindG (now env) (\<lambda>t.
         bindG (logM env (\<lambda>clk st. MarkJobAsDeleted t clk st what False)) (\<lambda>updated.
           if updated then publishStatus env else ret None))
       else
         bindG (objCreate (kfObjs env kind) (KUnstructured kind) job) (\<lambda>err.
           case err of
             Some e \<Rightarrow>
               bindG (logM env (\<lambda>clk st. LogWarning clk st createReason (errorText e))) (\<lambda>updated.
               bindG (if updated then publishStatus env else ret None) (\<lambda>statusErr.
                 if statusErr \<noteq> None then ret statusErr else ret (Some e)))
           | None \<Rightarrow>
               bindG (logM env LogStarting) (\<lambda>_.
               bindG (publishStatus env) (\<lambda>err.
                 if err \<noteq> None then ret err else updateKf env kind job True (blankKf env kind)))))"

definition reconcileKf ::
  "(KfJob, 'w) kfEnv \<Rightarrow> string \<Rightarrow> string \<Rightarrow> string \<Rightarrow> (KfJob \<Rightarrow> (error + jobject) option) \<Rightarrow>
   ((KfJob, 'w) pass, error option) go"
where
  "reconcileKf env kind what createReason generate =
     bindG (readS inst) (\<lambda>i.
       case generate i of
         None \<Rightarrow> panic ''nil pointer dereference''
       | Some (Inl e) \<Rightarrow> ret (Some e)
       | Some (Inr job) \<Rightarrow>
           (case setControllerReference (kfObjs env kind) i job of
              Inl e \<Rightarrow> ret (Some e)
            | Inr job \<Rightarrow>
                bindG (objGet (kfObjs env kind) (opNamespace i, opName i)) (\<lambda>found.
                  case found of
                    Inl e \<Rightarrow> if IsNotFound e then missingKf env kind what createReason job else ret (Some e)
                  | Inr foundJob \<Rightarrow> updateKf env kind job False foundJob)))"

text \<open>\<open>*instance.TFJobSpec\<close> and its copies panic on nil.\<close>

definition generatedTFJob :: "(KfJob, 'w) kfEnv \<Rightarrow> KfJob \<Rightarrow> (error + jobject) option" where
  "generatedTFJob env i =
     Option.bind (kjTFJobSpec i) (GenerateTFJob (uns env) (tfToUnstructured env) (kfLocalAddr env) (opName i)
       (opNamespace i) (opLabels i) (opAnnotations i) (opTermination i))"

definition generatedPytorchJob :: "(KfJob, 'w) kfEnv \<Rightarrow> KfJob \<Rightarrow> (error + jobject) option" where
  "generatedPytorchJob env i =
     Option.bind (kjPytorchJobSpec i) (GeneratePytorchJob (uns env) (pytorchToUnstructured env) (kfLocalAddr env)
       (opName i) (opNamespace i) (opLabels i) (opAnnotations i) (opTermination i))"

definition generatedMPIJob :: "(KfJob, 'w) kfEnv \<Rightarrow> KfJob \<Rightarrow> (error + jobject) option" where
  "generatedMPIJob env i =
     Option.bind (kjMPIJobSpec i) (GenerateMPIJob (uns env) (mpiToUnstructured env) (kfLocalAddr env) (opName i)
       (opNamespace i) (opLabels i) (opAnnotations i) (opTermination i))"

definition reconcileTFJob :: "(KfJob, 'w) kfEnv \<Rightarrow> ((KfJob, 'w) pass, error option) go" where
  "reconcileTFJob env =
     reconcileKf env TFJobKind ''TFJob'' ''OperatorCreateTFJob'' (generatedTFJob env)"

definition reconcilePytorchJob :: "(KfJob, 'w) kfEnv \<Rightarrow> ((KfJob, 'w) pass, error option) go" where
  "reconcilePytorchJob env =
     reconcileKf env PytorchJobKind ''PyTorchJob'' ''OperatorCreatePytorchJob'' (generatedPytorchJob env)"

definition reconcileMPIJob :: "(KfJob, 'w) kfEnv \<Rightarrow> ((KfJob, 'w) pass, error option) go" where
  "reconcileMPIJob env =
     reconcileKf env MPIJobKind ''MPIJob'' ''OperatorCreateMPIJob'' (generatedMPIJob env)"

definition reconcileTFJobOp :: "(KfJob, 'w) kfEnv \<Rightarrow> ((KfJob, 'w) pass, ctrlResult \<times> error option) go" where
  "reconcileTFJobOp env = bindG (reconcileTFJob env) (\<lambda>err. ret (noRequeue, err))"

definition reconcilePytorchJobOp :: "(KfJob, 'w) kfEnv \<Rightarrow> ((KfJob, 'w) pass, ctrlResult \<times> error option) go" where
  "reconcilePytorchJobOp env = bindG (reconcilePytorchJob env) (\<lambda>err. ret (noRequeue, err))"

definition reconcileMPIJobOp :: "(KfJob, 'w) kfEnv \<Rightarrow> ((KfJob, 'w) pass, ctrlResult \<times> error option) go" where
  "reconcileMPIJobOp env = bindG (reconcileMPIJob env) (\<lambda>err. ret (noRequeue, err))"

definition cleanUpTFJob :: "(KfJob, 'w) kfEnv \<Rightarrow> ((KfJob, 'w) pass, ctrlResult \<times> error option) go" where
  "cleanUpTFJob env = handleTTL env"

definition cleanUpPytorchJob :: "(KfJob, 'w) kfEnv \<Rightarrow> ((KfJob, 'w) pass, ctrlResult \<times> error option) go" where
  "cleanUpPytorchJob env = handleTTL env"

definition cleanUpMPIJob :: "(KfJob, 'w) kfEnv \<Rightarrow> ((KfJob, 'w) pass, ctrlResult \<times> error option) go" where
  "cleanUpMPIJob env = handleTTL env"

section \<open>The controller\<close>

definition KfJob_reconcileOperation :: "(KfJob, 'w) kfEnv \<Rightarrow> ((KfJob, 'w) pass, ctrlResult \<times> error option) go" where
  "KfJob_reconcileOperation env =
     bindG (readS inst) (\<lambda>i.
       if kjTFJobSpec i \<noteq> None then reconcileTFJobOp env
       else if kjPytorchJobSpec i \<noteq> None then reconcilePytorchJobOp env
       else if kjMPIJobSpec i \<noteq> None then reconcileMPIJobOp env
       else ret (noRequeue, None))"

definition KfJob_cleanUpOperation :: "(KfJob, 'w) kfEnv \<Rightarrow> ((KfJob, 'w) pass, ctrlResult \<times> error option) go" where
  "KfJob_cleanUpOperation env =
     bindG (readS inst) (\<lambda>i.
       if kjTFJobSpec i \<noteq> None then cleanUpTFJob env
       else if kjPytorchJobSpec i \<noteq> None then cleanUpPytorchJob env
       else if kjMPIJobSpec i \<noteq> None then cleanUpMPIJob env
       else ret (noRequeue, None))"

definition KfJob_Reconcile :: "(KfJob, 'w) kfEnv \<Rightarrow> key \<Rightarrow> ((KfJob, 'w) pass, ctrlResult \<times> error option) go" where
  "KfJob_Reconcile env req = reconcilePass False KfJob_cleanUpOperation KfJob_reconcileOperation env req"

text \<open>The two loops over the owners of a pod, and the test they share.\<close>

definition ownedByKf :: "OwnerReference \<Rightarrow> bool" where
  "ownedByKf ownerRef \<longleftrightarrow> orAPIVersion ownerRef = KFAPIVersion \<and>
     (orKind ownerRef = TFJobKind \<or> orKind ownerRef = PytorchJobKind \<or> orKind ownerRef = MPIJobKind)"

fun firstKfOwner :: "string \<Rightarrow> OwnerReference list \<Rightarrow> key list" where
  "firstKfOwner namespace [] = []"
| "firstKfOwner namespace (ownerRef # rest) =
     (if ownedByKf ownerRef then [(namespace, orName ownerRef)] else firstKfOwner namespace rest)"

definition mapKfPodToRequest :: "Pod \<Rightarrow> key list" where
  "mapKfPodToRequest pod = firstKfOwner (podNamespace pod) (podOwnerReferences pod)"

definition predKfPod :: "Pod \<Rightarrow> bool" where
  "predKfPod object = list_ex ownedByKf (podOwnerReferences object)"

section \<open>The controller's copies of the common handlers\<close>

definition KfJob_AddStartTime :: "(KfJob, 'w) kfEnv \<Rightarrow> ((KfJob, 'w) pass, error option) go" where
  "KfJob_AddStartTime env = AddStartTime env"

definition KfJob_instanceSyncStatus :: "(KfJob, 'w) kfEnv \<Rightarrow> ((KfJob, 'w) pass, sdkError option) go" where
  "KfJob_instanceSyncStatus env = instanceSyncStatus env"

definition KfJob_getInstanceInfo :: "KfJob \<Rightarrow> (string \<times> string \<times> string \<times> string) option" where
  "KfJob_getInstanceInfo i = getInstanceInfo i"

definition KfJob_syncStatus :: "(KfJob, 'w) kfEnv \<Rightarrow> OperationCondition \<Rightarrow> ((KfJob, 'w) pass, sdkError option) go" where
  "KfJob_syncStatus env cond = syncStatus env cond"

definition KfJob_collectLogs :: "(KfJob, 'w) kfEnv \<Rightarrow> ((KfJob, 'w) pass, sdkError option) go" where
  "KfJob_collectLogs env = collectLogs env"

definition KfJob_AddLogsFinalizer :: "(KfJob, 'w) kfEnv \<Rightarrow> ((KfJob, 'w) pass, error option) go" where
  "KfJob_AddLogsFinalizer env = AddLogsFinalizer env"

definition KfJob_AddStatusFinalizer :: "(KfJob, 'w) kfEnv \<Rightarrow> ((KfJob, 'w) pass, error option) go" where
  "KfJob_AddStatusFinalizer env = AddStatusFinalizer env"

definition KfJob_handleFinalizers :: "(KfJob, 'w) kfEnv \<Rightarrow> ((KfJob, 'w) pass, error option) go" where
  "KfJob_handleFinalizers env = handleFinalizers env"

definition KfJob_delete :: "(KfJob, 'w) kfEnv \<Rightarrow> ((KfJob, 'w) pass, error option) go" where
  "KfJob_delete env = deleteOp env"

definition KfJob_handleTTL :: "(KfJob, 'w) kfEnv \<Rightarrow> ((KfJob, 'w) pass, ctrlResult \<times> error option) go" where
  "KfJob_handleTTL env = handleTTL env"

definition KfJob_handlePastActiveDeadline ::
  "(KfJob, 'w) kfEnv \<Rightarrow> ((KfJob, 'w) pass, duration option \<times> error option) go"
where
  "KfJob_handlePastActiveDeadline env = handlePastActiveDeadlineJob env"

definition KfJob_getBackOff :: "int32 \<Rightarrow> duration option" where
  "KfJob_getBackOff backOff = getBackOff backOff"

section \<open>The Kubeflow controller keeps the contract\<close>

text \<open>What the controller relies on: the functions on unstructured objects, and that the API server serves
  Kubeflow jobs whose \<open>status\<close>, if any, is an object.\<close>

definition kfLawful :: "(KfJob, 'w) kfEnv \<Rightarrow> bool" where
  "kfLawful env \<longleftrightarrow> unstructured_laws (uns env) \<and> (\<forall>kind. servesObjs (kfObjs env kind))"

text \<open>The invariant of a Kubeflow job: its replica specifications are set, and once it is done it has a
  completion time.\<close>

definition replicasSet :: "replicaSpecs \<Rightarrow> bool" where
  "replicasSet specs = list_all (\<lambda>(_, r). r \<noteq> None) specs"

definition kfGood :: "KfJob \<Rightarrow> bool" where
  "kfGood i \<longleftrightarrow> timedDone (opStatus i) \<and>
     (case kjTFJobSpec i of None \<Rightarrow> True | Some spec \<Rightarrow> replicasSet (tfReplicaSpecs spec)) \<and>
     (case kjPytorchJobSpec i of None \<Rightarrow> True | Some spec \<Rightarrow> replicasSet (pyReplicaSpecs spec)) \<and>
     (case kjMPIJobSpec i of None \<Rightarrow> True | Some spec \<Rightarrow> replicasSet (mpiReplicaSpecs spec))"

abbreviation kfInv :: "(KfJob, 'w) pass \<Rightarrow> bool" where
  "kfInv \<equiv> inv kfGood timedSent"

abbreviation kfReady :: "bool \<Rightarrow> (KfJob, 'w) pass \<Rightarrow> bool" where
  "kfReady \<equiv> ready kfGood timedSent"

interpretation kf_status: status_inv kfGood timedSent
  by unfold_locales (auto simp: kfGood_def timedDone_def timedSent_def split: call.splits)

lemma replicas_generated: "replicasSet specs \<Longrightarrow> \<exists>rs. generateReplicas labels annotations specs = Some rs"
  by (force simp: generateReplicas_total replicasSet_def list_all_iff)

lemma generated_not_nil:
  assumes "kfGood i"
  shows "kjTFJobSpec i \<noteq> None \<Longrightarrow> generatedTFJob env i \<noteq> None"
    and "kjPytorchJobSpec i \<noteq> None \<Longrightarrow> generatedPytorchJob env i \<noteq> None"
    and "kjMPIJobSpec i \<noteq> None \<Longrightarrow> generatedMPIJob env i \<noteq> None"
  using assms
  by (auto simp: kfGood_def generatedTFJob_def generatedPytorchJob_def generatedMPIJob_def GenerateTFJob_def
      GeneratePytorchJob_def GenerateMPIJob_def Let_def split: option.splits
      dest!: replicas_generated [where labels = "opLabels i" and annotations = "opAnnotations i"])

lemmas kf_ready_rules = kf_status.ready_ret kf_status.ready_finishWith kf_status.ready_logM kf_status.ready_pass

lemma ready_logPodWarning: "hoare kfInv (logPodWarning env v) kfReady"
  unfolding logPodWarning_def Let_def by (intro hoare_prod hoare_if kf_ready_rules) simp_all

lemma ready_kfConditionStatus: "hoare kfInv (kfConditionStatus env t v es cond) kfReady"
  unfolding kfConditionStatus_def Let_def
  by (intro hoare_if hoare_bindG [where Q = kfReady] kf_status.ready_succeeded
      kf_status.ready_then_true ready_logPodWarning kf_ready_rules)
     simp_all

lemma ready_reconcileKfJobStatus:
  assumes "unstructured_laws (uns env)" "statusOk job"
  shows "hoare kfInv (reconcileKfJobStatus env job) (\<lambda>r. kfReady (fst r))"
proof -
  have rest: "hoare kfInv (kfJobStatus env t pods job) (\<lambda>r. kfReady (fst r))" for pods t
    by (rule statusOk_read [OF assms]; simp add: kfJobStatus_def Let_def)
       (intro hoare_sum kf_status.ready_pair hoare_if kf_status.ready_false ready_logPodWarning ready_kfConditionStatus)+
  show ?thesis
    unfolding reconcileKfJobStatus_def by (rule kf_status.ready_statusOfPods) (rule rest)
qed

lemma updateKf_safe:
  assumes laws: "kfLawful env" "serves kfGood env" "status_echo env" and "statusOk found"
  shows "hoare kfInv (updateKf env kind job jc found) (\<lambda>_. kfInv)"
  unfolding updateKf_def using assms
  by (intro kf_status.syncOwned_safe ready_reconcileKfJobStatus) (simp_all add: kfLawful_def)

lemma blankKf_ok: "kfLawful env \<Longrightarrow> statusOk (blankKf env kind)"
  by (simp add: kfLawful_def blankKf_def blank_statusOk)

lemma missingKf_safe:
  assumes laws: "kfLawful env" "serves kfGood env" "status_echo env"
  shows "hoare kfInv (missingKf env kind what reason job) (\<lambda>_. kfInv)"
  unfolding missingKf_def
  by (intro hoare_bindG [OF hoare_readS] hoare_prod hoare_if hoare_ret hoare_bindG [OF hoare_now]
      hoare_bindG [OF kf_status.ready_mark] kf_status.publish_ready hoare_bindG [OF hoare_objCreate] hoare_option
      hoare_bindG [OF kf_status.ready_logM] hoare_bindG [OF kf_status.publish_ready]
      hoare_bindG [OF kf_status.ready_log_true] hoare_bindG [OF kf_status.publish_true]
      updateKf_safe blankKf_ok laws) simp_all

lemma reconcileKf_safe:
  assumes laws: "kfLawful env" "serves kfGood env" "status_echo env"
  shows "hoare (\<lambda>s. kfInv s \<and> generate (inst s) \<noteq> None) (reconcileKf env kind what reason generate) (\<lambda>_. kfInv)"
proof -
  have objs: "servesObjs (kfObjs env kind)" using laws(1) by (simp add: kfLawful_def)
  have found: "hoare kfInv
      (case setControllerReference (kfObjs env kind) i job of Inl e \<Rightarrow> ret (Some e)
       | Inr job \<Rightarrow> bindG (objGet (kfObjs env kind) (opNamespace i, opName i)) (\<lambda>found.
           case found of Inl e \<Rightarrow> if IsNotFound e then missingKf env kind what reason job else ret (Some e)
           | Inr foundJob \<Rightarrow> updateKf env kind job False foundJob)) (\<lambda>_. kfInv)" for i job
    by (intro hoare_sum hoare_ret hoare_bind_value [OF hoare_objGet_status [OF objs]] hoare_if missingKf_safe updateKf_safe laws) simp
  have "wp (reconcileKf env kind what reason generate) (\<lambda>r t. case r of Returns a \<Rightarrow> kfInv t | Panics p \<Rightarrow> False) s"
    if s: "kfInv s" "generate (inst s) \<noteq> None" for s
  proof -
    from s(2) obtain r where r: "generate (inst s) = Some r" by auto
    show ?thesis
      using s(1) found [of "inst s"] unfolding hoare_def reconcileKf_def wp_bindG [of "readS inst"] wp_readS
      by (cases r) (simp_all add: r wp_ret)
  qed
  then show ?thesis by (simp add: hoare_def)
qed

lemma tracks_kf_status:
  "tracks (emits P) (logPodWarning env v)" "tracks (emits P) (kfConditionStatus env t v es cond)"
  unfolding kfConditionStatus_def logPodWarning_def by (intro track_intros)+

lemma tracks_reconcileKfJobStatus [track_intros]: "tracks (emits P) (reconcileKfJobStatus env job)"
  unfolding reconcileKfJobStatus_def kfJobStatus_def by (intro track_intros tracks_kf_status)

lemma tracks_updateKf [track_intros]:
  "(\<And>b. P (CObjUpdate (KUnstructured kind) b)) \<Longrightarrow> (\<And>st b. P (CStatusUpdate st b)) \<Longrightarrow>
   (\<And>c b. P (CRunStatus c b)) \<Longrightarrow> tracks (emits P) (updateKf env kind job jc found)"
  unfolding updateKf_def by (intro track_intros)

lemma tracks_reconcileKf [track_intros]:
  "(\<And>b. P (CCreate (KUnstructured kind) b)) \<Longrightarrow> (\<And>b. P (CObjUpdate (KUnstructured kind) b)) \<Longrightarrow>
   (\<And>st b. P (CStatusUpdate st b)) \<Longrightarrow> (\<And>c b. P (CRunStatus c b)) \<Longrightarrow>
   tracks (emits P) (reconcileKf env kind what reason generate)"
  unfolding reconcileKf_def missingKf_def by (intro track_intros)

lemmas kf_runtime_defs = KfJob_reconcileOperation_def reconcileTFJobOp_def reconcilePytorchJobOp_def
  reconcileMPIJobOp_def reconcileTFJob_def reconcilePytorchJob_def reconcileMPIJob_def

lemmas kf_cleanup_defs = KfJob_cleanUpOperation_def cleanUpTFJob_def cleanUpPytorchJob_def cleanUpMPIJob_def

lemma KfJob_reconcileOperation_safe:
  assumes "kfLawful env" "serves kfGood env" "status_echo env"
  shows "hoare kfInv (KfJob_reconcileOperation env) (\<lambda>_. kfInv)"
proof -
  have run: "hoare (\<lambda>s. kfInv s \<and> i = inst s) (bindG (reconcileKf env kind what reason generate) (\<lambda>err. ret (noRequeue, err)))
      (\<lambda>_. kfInv)" if "kfGood i \<Longrightarrow> generate i \<noteq> None" for i kind what reason generate
    by (rule hoare_bindG [OF hoare_pre [OF reconcileKf_safe [OF assms]]]) (use that in \<open>auto simp: inv_def hoare_ret\<close>)
  show ?thesis
    unfolding kf_runtime_defs
    by (intro hoare_bind_readS hoare_if run generated_not_nil hoare_pre [OF hoare_ret]) simp_all
qed

interpretation kfjob_controller:
  op_controller KfJob_cleanUpOperation KfJob_reconcileOperation kfGood timedSent kfLawful
proof unfold_locales
  fix env :: "(KfJob, 'w) kfEnv" and i :: KfJob and c b t fs
  show "tracks (emits isDeleteCall) (KfJob_cleanUpOperation env)"
    unfolding kf_cleanup_defs by (intro track_intros) (simp_all add: isDeleteCall_def)
  show "tracks (emits (\<lambda>c. \<not> isUpdateCall c)) (KfJob_reconcileOperation env)"
    unfolding kf_runtime_defs by (intro track_intros) (simp_all add: isUpdateCall_def)
  show "kfGood i \<Longrightarrow> timedSent (CStatusUpdate (opStatus i) b)" by (rule kf_status.J_sent)
  show "isReleaseCall c \<Longrightarrow> timedSent c" by (simp add: isReleaseCall_def split: call.splits)
  show "kfGood i \<Longrightarrow> kfGood (i\<lparr>opFinalizers := fs\<rparr>)" by (simp add: kfGood_def)
  show "kfGood i \<Longrightarrow> kfGood (i\<lparr>opStatus := (opStatus i)\<lparr>StartTime := Some t\<rparr>\<rparr>)"
    by (simp add: kfGood_def timedDone_def)
  assume laws: "kfLawful env" "serves kfGood env" "status_echo env"
  show "hoare (inv (\<lambda>i. kfGood i \<and> IsDone (opStatus i)) timedSent) (KfJob_cleanUpOperation env)
      (\<lambda>_ s. list_all timedSent (calls s))"
    unfolding kf_cleanup_defs
    by (intro hoare_bindG [OF hoare_readS] hoare_if hoare_pre [OF handleTTL_safe] hoare_conseq [OF hoare_ret [of kfInv]])
       (auto simp: inv_def kfGood_def)
  show "hoare kfInv (KfJob_reconcileOperation env) (\<lambda>_ s. list_all timedSent (calls s))"
    by (rule hoare_conseq [OF KfJob_reconcileOperation_safe [OF laws]]) (auto simp: inv_def)
qed

section \<open>Properties\<close>

text \<open>C17: a pass of the Kubeflow controller never panics and never writes a done status without a completion time,
  as long as the API server serves operations whose replica specifications are set and that are done only
  with a completion time, and training jobs whose status, if any, is an object.\<close>

theorem KfJob_Reconcile_safe:
  assumes "kfLawful env" and "serves kfGood env" and "status_echo env"
  shows "\<exists>res t. KfJob_Reconcile env req \<lparr>inst = i, world = w, calls = []\<rparr> = (Returns res, t) \<and>
           list_all timedSent (calls t)"
proof -
  have "wp (KfJob_Reconcile env req)
      (\<lambda>r t. case r of Returns a \<Rightarrow> list_all timedSent (calls t) | Panics p \<Rightarrow> False)
      \<lparr>inst = i, world = w, calls = []\<rparr>"
    using kfjob_controller.pass_safe [OF assms, of False req]
    unfolding hoare_def KfJob_Reconcile_def by (elim allE impE) simp_all
  then show ?thesis by (auto simp: wp_def split: prod.splits outcome.splits)
qed

text \<open>once a Kubeflow operation whose start time is recorded is done or being deleted, a pass only releases it: no training job is created or
  changed and no status is written.\<close>

theorem KfJob_Reconcile_release:
  assumes "getInstance env req (world s) = (Inr i, w)" and "StartTime (opStatus i) \<noteq> None"
    and "IsOperationBeingDeleted i \<or> IsDone (opStatus i)"
  shows "emits isReleaseCall s (snd (KfJob_Reconcile env req s))"
  using kfjob_controller.release_calls_started [OF assms] by (simp add: KfJob_Reconcile_def wp_def case_prod_beta)

text \<open>no pass of the Kubeflow controller drops the logs finalizer, once the start time is
  recorded, before the logs were collected or taken for collected.\<close>

theorem KfJob_Reconcile_logs_first:
  assumes "finalizer_laws env" and "getInstance env req (world s) = (Inr i, w)"
    and "StartTime (opStatus i) \<noteq> None"
    and "OperationLogsFinalizer \<in> set (opFinalizers i)" and "mustCollect env i"
  shows "\<exists>new. calls (snd (KfJob_Reconcile env req s)) = calls s @ new \<and> logsSafe False new"
  using kfjob_controller.logs_collected_started [OF assms] by (simp add: KfJob_Reconcile_def wp_def case_prod_beta)

text \<open>The conditions of a training job as the controller reads them: none when it has no status.\<close>

definition kfReads :: "(KfJob, 'w) kfEnv \<Rightarrow> jobject \<Rightarrow> kfapi_JobCondition list \<Rightarrow> bool" where
  "kfReads env job cs \<longleftrightarrow>
     (case nestedFieldCopy (uns env) job ''status'' of
        (status, ok, err) \<Rightarrow>
          if ok then (case status of
                       JMap m \<Rightarrow> (case fromUnstructured env m of Inl e \<Rightarrow> False | Inr st \<Rightarrow> kjConditions st = cs)
                     | _ \<Rightarrow> False)
          else err = None \<and> cs = [])"

text \<open>What the pods and the training job call for: the type of the condition to log, if any.\<close>

definition kfPodWarning :: "Pod list \<Rightarrow> OperationConditionType option" where
  "kfPodWarning pods =
     (if fst (HasUnschedulablePods pods) = OperationWarning then Some OperationWarning else None)"

definition kfCondNext :: "Pod list \<Rightarrow> kfapi_JobCondition \<Rightarrow> OperationConditionType option" where
  "kfCondNext pods cond =
     (if kcType cond = JobRunning \<or> kcType cond = JobCreated then Some OperationRunning
      else if kcType cond = JobSucceeded then Some OperationSucceeded
      else if kcType cond = JobFailed then Some OperationFailed
      else if kcType cond = JobRestarting then Some OperationWarning
      else kfPodWarning pods)"

definition kfNext :: "Pod list \<Rightarrow> kfapi_JobCondition list \<Rightarrow> OperationConditionType option" where
  "kfNext pods cs =
     (if GetInvalidImageName pods \<noteq> None then Some OperationFailed
      else if cs = [] then kfPodWarning pods
      else kfCondNext pods (last cs))"

lemma wp_logPodWarning:
  assumes "\<And>b w j. fst (HasUnschedulablePods pods) = OperationWarning \<Longrightarrow>
      logged t OperationWarning (inst s) b j \<Longrightarrow> Q (Returns b) (s\<lparr>world := w, inst := j\<rparr>)"
    and "fst (HasUnschedulablePods pods) \<noteq> OperationWarning \<Longrightarrow> Q (Returns False) s"
  shows "wp (logPodWarning env (HasUnschedulablePods pods)) Q s"
proof -
  obtain ps r m where v: "HasUnschedulablePods pods = (ps, r, m)" by (metis surj_pair)
  have "wp (logM env (\<lambda>clk st. LogWarning clk st r m)) Q s" if "ps = OperationWarning"
    by (rule wp_LogWarning [where t = t], rule assms(1)) (simp add: v that)
  with assms(2) v show ?thesis by (simp add: logPodWarning_def wp_simps)
qed

lemma wp_kfConditionStatus:
  assumes s: "inst s = i" "calls s = cs"
  shows "wp (kfConditionStatus env t (HasUnschedulablePods pods) es cond)
     (\<lambda>r u. calls u = cs \<and> statusOutcome t (kfCondNext pods cond) i r (inst u)) s"
proof -
  let ?Q = "\<lambda>r u. calls u = cs \<and> statusOutcome t (kfCondNext pods cond) i r (inst u)"
  let ?R = "\<lambda>ty r u. calls u = cs \<and> statusOutcome t (Some ty) i r (inst u)"
  have run: "wp (bindG (logM env LogRunning) (\<lambda>_. ret True)) (?R OperationRunning) s"
    by (rule wp_run_true [where t = t]) (simp add: s)
  have warn: "wp (bindG (logM env (\<lambda>clk st. LogWarning clk st r m)) (\<lambda>_. ret True)) (?R OperationWarning) u"
    if "calls u = cs" "inst u = i \<or> logged t OperationWarning i False (inst u)" for u r m
    unfolding wp_bindG
    by (rule wp_LogWarning [where t = t], drule logged_weaken)
       (use that(2) in \<open>auto simp: wp_ret that(1) dest: logged_after\<close>)
  have succ: "wp (bindG (logM env LogSucceeded) (\<lambda>_.
      bindG (setStatus (\<lambda>st. st\<lparr>CompletionTime := Some t\<rparr>)) (\<lambda>_. ret True))) (?R OperationSucceeded) s"
    by (rule wp_succeed_true) (simp add: s)
  have rest: "wp (bindG (logPodWarning env (HasUnschedulablePods pods)) (\<lambda>updated.
      if updated then ret True
      else if kcType cond = JobRestarting then
        bindG (logM env (\<lambda>clk st. LogWarning clk st (kcReason cond) (kcMessage cond))) (\<lambda>_. ret True)
      else ret False)) ?Q s"
    if "kcType cond \<notin> {JobRunning, JobCreated, JobSucceeded, JobFailed}"
  proof (cases "kcType cond = JobRestarting")
    case True
    with that have "kfCondNext pods cond = Some OperationWarning" by (simp add: kfCondNext_def)
    with True show ?thesis
      unfolding wp_bindG [of "logPodWarning env v" for v]
      by (intro wp_logPodWarning [where t = t]) (auto simp: wp_ret s intro!: warn)
  next
    case False
    with that have "kfCondNext pods cond = kfPodWarning pods" by (simp add: kfCondNext_def)
    with False show ?thesis
      unfolding wp_bindG [of "logPodWarning env v" for v]
      by (intro wp_logPodWarning [where t = t]) (use s in \<open>auto simp: wp_ret kfPodWarning_def statusOutcome_def\<close>)
  qed
  consider "kcType cond \<in> {JobRunning, JobCreated}" | "kcType cond = JobSucceeded" | "kcType cond = JobFailed"
    | "kcType cond \<notin> {JobRunning, JobCreated, JobSucceeded, JobFailed}"
    by blast
  then show ?thesis
  proof cases
    case 1
    then show ?thesis by (auto simp: kfConditionStatus_def kfCondNext_def intro!: run)
  next
    case 2
    then show ?thesis
      by (auto simp: kfConditionStatus_def kfCondNext_def JobRunning_def JobCreated_def JobSucceeded_def intro!: succ)
  next
    case 3
    then have fails: "kfCondNext pods cond = Some OperationFailed"
      by (simp add: kfCondNext_def JobRunning_def JobCreated_def JobSucceeded_def JobFailed_def)
    have "wp (finishWith env t (\<lambda>clk st. LogFailed clk st r m)) (\<lambda>r u. r = Returns True \<and> ?Q r u) s" for r m
      by (rule wp_finish_LogFailed) (use fails s in \<open>auto simp: statusOutcome_def\<close>)
    from wp_mono [OF this] 3 show ?thesis
      by (auto simp: kfConditionStatus_def wp_simps JobRunning_def JobCreated_def JobSucceeded_def JobFailed_def)
  next
    case 4
    with rest show ?thesis by (simp add: kfConditionStatus_def wp_simps)
  qed
qed

lemma wp_kfJobStatus:
  assumes reads: "kfReads env job cs" and s: "inst s = i" "calls s = c"
    and image: "GetInvalidImageName pods = None"
  shows "wp (kfJobStatus env t pods job) (\<lambda>r u. calls u = c \<and>
     (\<exists>b. (r = Returns (b, None)) \<and> statusOutcome t (kfNext pods cs) i (Returns b) (inst u))) s"
proof -
  let ?Q = "\<lambda>r u. calls u = c \<and> (\<exists>b. (r = Returns (b, None)) \<and> statusOutcome t (kfNext pods cs) i (Returns b) (inst u))"
  have warn: "wp (bindG (logPodWarning env (HasUnschedulablePods pods)) (\<lambda>updated. ret (updated, None))) ?Q s"
    if "cs = []"
    by (rule wp_pair, rule wp_logPodWarning [where t = t])
       (use s image that in \<open>auto simp: kfNext_def statusOutcome_def kfPodWarning_def\<close>)
  have cond: "wp (bindG (kfConditionStatus env t (HasUnschedulablePods pods) es (last cs)) (\<lambda>updated. ret (updated, None))) ?Q s"
    if "cs \<noteq> []" for es
    by (rule wp_pair) (use wp_kfConditionStatus [OF s] image that in \<open>simp add: kfNext_def\<close>)
  obtain status ok err where f: "nestedFieldCopy (uns env) job ''status'' = (status, ok, err)"
    by (metis surj_pair)
  show ?thesis
  proof (cases ok)
    case False
    with reads warn show ?thesis by (simp add: kfReads_def kfJobStatus_def f)
  next
    case True
    with reads f obtain m st where m: "status = JMap m" "fromUnstructured env m = Inr st" "kjConditions st = cs"
      by (cases status) (auto simp: kfReads_def split: sum.splits)
    with True warn cond show ?thesis by (cases "cs = []") (simp_all add: kfJobStatus_def f Let_def)
  qed
qed

text \<open>C24: the decision table of \<open>reconcileKfJobStatus\<close>. For the pods listed at the time of the pass and the conditions
  of the training job, it does what the table \<open>kfNext\<close> says: nothing at all, or log a condition of that
  type; a final condition always ends the operation with the time of the pass. Only the type of the job's
  last condition counts: one of type \<open>Created\<close> makes the operation running before any pod has started, and one of
  type \<open>Succeeded\<close> or \<open>Failed\<close> ends it whatever its status field says.\<close>

theorem reconcileKfJobStatus_spec:
  fixes env :: "(KfJob, 'w) kfEnv"
  assumes reads: "kfReads env job cs"
  shows "let (t, pods, _) = podsOf env s
   in wp (reconcileKfJobStatus env job)
        (\<lambda>r u. calls u = calls s \<and>
           (\<exists>b. r = Returns (b, None) \<and> statusOutcome t (kfNext pods cs) (inst s) (Returns b) (inst u))) s"
proof -
  obtain t pods w where p: "podsOf env s = (t, pods, w)" by (metis surj_pair)
  have "wp (reconcileKfJobStatus env job) (\<lambda>r u. calls u = calls s \<and>
      (\<exists>b. r = Returns (b, None) \<and> statusOutcome t (kfNext pods cs) (inst s) (Returns b) (inst u))) s"
    unfolding reconcileKfJobStatus_def
  proof (rule wp_statusOfPods [OF p])
    assume "GetInvalidImageName pods = None"
    from wp_kfJobStatus [OF reads _ _ this, of "s\<lparr>world := w\<rparr>" "inst s" "calls s" t]
    show "wp (kfJobStatus env t pods job) (\<lambda>r u. calls u = calls s \<and>
        (\<exists>b. r = Returns (b, None) \<and> statusOutcome t (kfNext pods cs) (inst s) (Returns b) (inst u))) (s\<lparr>world := w\<rparr>)"
      by simp
  qed (auto simp: kfNext_def)
  then show ?thesis by (simp add: p)
qed

lemma tracks_updateKf_terminal:
  assumes "isKfJobInTerminalState env found"
  shows "tracks (emits isReportCall) (updateKf env kind job jc found)"
  unfolding updateKf_def using assms by (intro tracks_syncOwned_terminal tracks_reconcileKfJobStatus)

text \<open>a training job that has reached a terminal state is never changed again: reconciling the operation only
  publishes its status.\<close>

theorem kf_terminal_untouched:
  assumes "oGet (kfObjs env kind) (opNamespace (inst s), opName (inst s)) (world s) = (Inr found, w)"
    and "isKfJobInTerminalState env found"
  shows "emits isReportCall s (snd (reconcileKf env kind what createReason generate s))"
proof -
  have upd: "wp (updateKf env kind job False found) (\<lambda>_ t. emits isReportCall s t) (s\<lparr>world := w\<rparr>)" for job
    by (rule wp_mono [OF tracks_wp [OF tracks_updateKf_terminal [OF assms(2)]]]) (simp add: emits_def)
  have "wp (reconcileKf env kind what createReason generate) (\<lambda>_ t. emits isReportCall s t) s"
    using upd
    by (auto simp: reconcileKf_def objGet_def wp_simps assms(1) emission.R_refl split: option.split sum.split)
  then show ?thesis by (simp add: wp_def case_prod_beta)
qed

lemma wp_missingKf_deleted:
  assumes "\<not> IsDone (opStatus (inst s))" "Conditions (opStatus (inst s)) \<noteq> []"
    and "cType (last (Conditions (opStatus (inst s)))) \<in> {OperationRunning, OperationWarning}"
    and pub: "\<And>st w. stoppedAsDeleted st \<Longrightarrow>
      wp (publishStatus env) Q (s\<lparr>world := w, inst := (inst s)\<lparr>opStatus := st\<rparr>\<rparr>)"
  shows "wp (missingKf env kind what createReason job) Q s"
proof -
  have "ShouldMarkJobAsDeleted (opStatus (inst s)) = (True, False)"
    using assms(1-3) by (auto simp: ShouldMarkJobAsDeleted_def Let_def)
  moreover have "snd (MarkJobAsDeleted t clk st kind False)" for t clk st kind
    by (simp add: MarkJobAsDeleted_eq)
  ultimately show ?thesis
    using pub MarkJobAsDeleted_stopped
    by (auto simp: missingKf_def wp_simps split: prod.split intro!: wp_logM)
qed

text \<open>when the training job of a running operation, or of one with a warning, is gone, the controller never
  creates it again: it publishes \<open>Stopped\<close> with reason \<open>JobDeleted\<close> and a completion time, and its error is only
  ever that of the status update. The same holds for the three kinds of training job.\<close>

theorem reconcileKf_deleted:
  assumes "generate (inst s) = Some (Inr generated)"
    and "setControllerReference (kfObjs env kind) (inst s) generated = Inr job"
    and "oGet (kfObjs env kind) (opNamespace (inst s), opName (inst s)) (world s) = (Inl (NotFound m), w)"
    and "\<not> IsDone (opStatus (inst s))" and "Conditions (opStatus (inst s)) \<noteq> []"
    and "cType (last (Conditions (opStatus (inst s)))) \<in> {OperationRunning, OperationWarning}"
    and "status_echo env"
  shows "wp (reconcileKf env kind what createReason generate) (\<lambda>r t. \<exists>st err report.
           calls t = calls s @ CStatusUpdate st err # report \<and> stoppedAsDeleted st \<and>
           list_all (\<lambda>c. \<not> isCreateCall c) report \<and> r = Returns err \<and> (err = None \<or> report = [])) s"
proof -
  have keep: "Conditions (opStatus j) \<noteq> []"
    if "updateInstanceStatus env ((inst s)\<lparr>opStatus := st\<rparr>) v = (Inr j, w')" "stoppedAsDeleted st" for j v w' st
    using status_echoD(2) [OF assms(7) that(1)] that(2) by (auto simp: stoppedAsDeleted_def statusKept_def)
  have "wp (missingKf env kind what createReason job) (\<lambda>r t. \<exists>st err report.
           calls t = calls s @ CStatusUpdate st err # report \<and> stoppedAsDeleted st \<and>
           list_all (\<lambda>c. \<not> isCreateCall c) report \<and> r = Returns err \<and> (err = None \<or> report = [])) (s\<lparr>world := w\<rparr>)"
  proof (rule wp_missingKf_deleted)
    fix st v
    assume st: "stoppedAsDeleted st"
    show "wp (publishStatus env) (\<lambda>r t. \<exists>st err report.
           calls t = calls s @ CStatusUpdate st err # report \<and> stoppedAsDeleted st \<and>
           list_all (\<lambda>c. \<not> isCreateCall c) report \<and> r = Returns err \<and> (err = None \<or> report = []))
         (s\<lparr>world := w, world := v, inst := (inst (s\<lparr>world := w\<rparr>))\<lparr>opStatus := st\<rparr>\<rparr>)"
      by (rule wp_publishStatus) (use st in \<open>auto dest: keep\<close>)
  qed (use assms(4-6) in simp_all)
  then show ?thesis
    by (simp add: reconcileKf_def objGet_def wp_simps assms(1-3))
qed

text \<open>the watch on the pods of training jobs. A pod passes the predicate exactly when it is mapped to a request;
  it is mapped to at most one, in its own namespace, with the name of the first owner that is one of
  the three kinds of \<open>kubeflow.org/v1\<close>, whether or not that owner is its controller.\<close>

theorem mapKfPodToRequest_spec:
  "(predKfPod pod \<longleftrightarrow> mapKfPodToRequest pod \<noteq> []) \<and>
   (k \<in> set (mapKfPodToRequest pod) \<longleftrightarrow> mapKfPodToRequest pod = [k]) \<and>
   (mapKfPodToRequest pod = [(ns, name)] \<longleftrightarrow> podNamespace pod = ns \<and>
      (\<exists>us r vs. podOwnerReferences pod = us @ r # vs \<and> list_all (\<lambda>u. \<not> ownedByKf u) us \<and> ownedByKf r \<and>
         orName r = name))"
proof -
  have first: "firstKfOwner n refs = (case List.find ownedByKf refs of None \<Rightarrow> [] | Some r \<Rightarrow> [(n, orName r)])" for n refs
    by (induction n refs rule: firstKfOwner.induct) simp_all
  have "list_ex ownedByKf refs \<longleftrightarrow> List.find ownedByKf refs \<noteq> None" for refs
    by (auto simp: list_ex_iff find_None_iff)
  then have "predKfPod pod \<longleftrightarrow> mapKfPodToRequest pod \<noteq> []"
    and "k \<in> set (mapKfPodToRequest pod) \<longleftrightarrow> mapKfPodToRequest pod = [k]"
    and "mapKfPodToRequest pod = [(ns, name)] \<longleftrightarrow> podNamespace pod = ns \<and>
      (\<exists>r. List.find ownedByKf (podOwnerReferences pod) = Some r \<and> orName r = name)"
    by (auto simp: predKfPod_def mapKfPodToRequest_def first split: option.splits)
  then show ?thesis by (auto simp: find_split)
qed

section \<open>Witnesses\<close>

definition demoKf :: "OperationCondition list \<Rightarrow> time option \<Rightarrow> string list \<Rightarrow> KfJob" where
  "demoKf cs completion finalizers =
     \<lparr>opName = ''run'', opNamespace = ''ns'', opLabels = [(''app.kubernetes.io/instance'', ''uuid'')],
      opAnnotations = [(''operation.polyaxon.com/owner'', ''me''), (''operation.polyaxon.com/project'', ''p'')],
      opFinalizers = finalizers, opDeletionTimestamp = None, opTermination = demoTermination,
      opCollectLogs = True, opSyncStatuses = True,
      opStatus = \<lparr>Conditions = cs, StartTime = Some 1, CompletionTime = completion, LastReconcileTime = None\<rparr>,
      kjTFJobSpec = Some demoTFSpec, kjPytorchJobSpec = None, kjMPIJobSpec = None\<rparr>"

definition demoKfCond :: "OperationConditionType \<Rightarrow> OperationCondition" where
  "demoKfCond t = \<lparr>cType = t, cStatus = ConditionTrue, cLastUpdateTime = 2, cLastTransitionTime = 2,
     cReason = ''OperatorController'', cMessage = ''''\<rparr>"

definition demoKfStatus :: "string \<Rightarrow> kfapi_JobStatus" where
  "demoKfStatus ty = \<lparr>kjConditions = [\<lparr>kcType = ty, kcStatus = ConditionTrue, kcReason = '''', kcMessage = ''''\<rparr>],
     kjReplicaStatuses = [], kjStartTime = None, kjCompletionTime = None, kjLastReconcileTime = None\<rparr>"

text \<open>An API server that refuses a training job whose status is not an object.\<close>

definition demoKfObjs :: "jobject option \<Rightarrow> (KfJob, jobject, int) objApi" where
  "demoKfObjs found = (fixedObjs found None)\<lparr>oUpdate :=
     (\<lambda>obj w. (if statusOk obj then Inr obj else Inl (OtherError ''invalid''), w))\<rparr>"

definition demoKfEnv :: "KfJob \<Rightarrow> jobject option \<Rightarrow> string \<Rightarrow> (KfJob, int) kfEnv" where
  "demoKfEnv i found ty = fixedApi (\<lambda>_. None) i (kfEnv.fields (\<lambda>_. demoKfObjs found) plainUns
     (\<lambda>_. Inr fmempty) (\<lambda>_. Inr fmempty) (\<lambda>_. Inr fmempty) (\<lambda>_. Inr (demoKfStatus ty)) 100)"

lemma demoKf_laws [simp]:
  "finalizer_laws (demoKfEnv i found ty)" "status_echo (demoKfEnv i found ty)"
  "J i \<Longrightarrow> serves J (demoKfEnv i found ty)"
  by (simp_all add: demoKfEnv_def)

lemma demoKf_fields [simp]:
  "getInstance (demoKfEnv i found ty) k w = (Inr i, w)" "uns (demoKfEnv i found ty) = plainUns"
  "kfObjs (demoKfEnv i found ty) kind = demoKfObjs found"
  "fromUnstructured (demoKfEnv i found ty) m = Inr (demoKfStatus ty)"
  "StartTime (opStatus (demoKf cs ct fs)) = Some 1" "Conditions (opStatus (demoKf cs ct fs)) = cs"
  "opFinalizers (demoKf cs ct fs) = fs" "cType (demoKfCond t) = t" "cStatus (demoKfCond t) = ConditionTrue"
  by (simp_all add: demoKfEnv_def fixedApi_def kfEnv.defs demoKf_def demoKfCond_def)

lemma demoKf_done [simp]: "IsDone (opStatus (demoKf [demoKfCond OperationSucceeded] ct fs))"
  by (simp add: IsDone_holds holds_def exI [of _ OperationSucceeded])

lemma demoKf_objs [simp]:
  "oGet (demoKfObjs None) k w = (Inl (NotFound ''not found''), w)" "oGet (demoKfObjs (Some job)) k w = (Inr job, w)"
  "setControllerReference (demoKfObjs found) i obj = Inr obj"
  by (simp_all add: demoKfObjs_def fixedObjs_def)

lemma demoKf_lawful: "kfLawful (demoKfEnv i None ty)"
  by (auto simp: kfLawful_def servesObjs_def plainUns_laws demoKfObjs_def fixedObjs_def split: if_splits)

theorem KfJob_Reconcile_safe_witness:
  "let i = demoKf [demoKfCond OperationRunning] None [] in kfGood i \<and>
   (\<exists>res t. KfJob_Reconcile (demoKfEnv i None JobRunning) (''ns'', ''run'') \<lparr>inst = i, world = 10, calls = []\<rparr>
       = (Returns res, t) \<and> list_all timedSent (calls t))"
proof -
  let ?i = "demoKf [demoKfCond OperationRunning] None []"
  have "\<not> IsDone (opStatus ?i)" by (auto simp: IsDone_holds holds_def isFinal_def)
  then have g: "kfGood ?i"
    unfolding kfGood_def timedDone_def by (simp add: demoKf_def demoTFSpec_def replicasSet_def)
  then show ?thesis
    using KfJob_Reconcile_safe [OF demoKf_lawful demoKf_laws(3) [of kfGood, OF g] demoKf_laws(2), where req = "(''ns'', ''run'')" and i = ?i and w = 10]
    by (simp add: Let_def)
qed

theorem KfJob_Reconcile_release_witness:
  "let i = demoKf [demoKfCond OperationSucceeded] (Some 5) [] in IsDone (opStatus i) \<and>
   emits isReleaseCall (startPass i 10)
     (snd (KfJob_Reconcile (demoKfEnv i None JobSucceeded) (''ns'', ''run'') (startPass i 10)))"
proof -
  let ?i = "demoKf [demoKfCond OperationSucceeded] (Some 5) []"
  have "emits isReleaseCall (startPass ?i 10)
      (snd (KfJob_Reconcile (demoKfEnv ?i None JobSucceeded) (''ns'', ''run'') (startPass ?i 10)))"
    by (rule KfJob_Reconcile_release [where i = ?i and w = 10]) (simp_all add: startPass_def)
  then show ?thesis by (simp add: Let_def)
qed

theorem KfJob_Reconcile_logs_first_witness:
  "let i = demoKf [demoKfCond OperationSucceeded] (Some 5) [OperationLogsFinalizer];
       env = demoKfEnv i None JobSucceeded in
   mustCollect env i \<and>
   (\<exists>new. calls (snd (KfJob_Reconcile env (''ns'', ''run'') (startPass i 10))) = calls (startPass i 10) @ new \<and>
      logsSafe False new)"
proof -
  let ?i = "demoKf [demoKfCond OperationSucceeded] (Some 5) [OperationLogsFinalizer]"
  let ?E = "demoKfEnv ?i None JobSucceeded"
  have m: "mustCollect ?E ?i"
    by (simp add: mustCollect_def demoKfEnv_def fixedApi_def demoKf_def GetBoolEnv_def getInstanceInfo_def nonEmpty_def)
  have "\<exists>new. calls (snd (KfJob_Reconcile ?E (''ns'', ''run'') (startPass ?i 10))) =
      calls (startPass ?i 10) @ new \<and> logsSafe False new"
    by (rule KfJob_Reconcile_logs_first [where i = ?i and w = 10]) (use m in \<open>simp_all add: startPass_def\<close>)
  with m show ?thesis by (simp add: Let_def)
qed

text \<open>A training job with a status, and its conditions as read.\<close>

definition demoKfFound :: jobject where
  "demoKfFound = fmupd ''status'' (JMap fmempty) fmempty"

lemma demoKf_reads: "kfReads (demoKfEnv i found ty) demoKfFound (kjConditions (demoKfStatus ty))"
  by (simp add: kfReads_def demoKfFound_def plainUns_def)

theorem reconcileKfJobStatus_spec_witness:
  "let i = demoKf [] None [] in
   wp (reconcileKfJobStatus (demoKfEnv i None JobSucceeded) demoKfFound)
     (\<lambda>r u. r = Returns (True, None) \<and> logged 10 OperationSucceeded i True (inst u)) (startPass i 10)"
proof -
  let ?i = "demoKf [] None []"
  have "podsOf (demoKfEnv ?i None JobSucceeded) (startPass ?i 10) = (10, [], 11)"
    by (simp add: podsOf_def startPass_def demoKfEnv_def fixedApi_def)
  moreover have "kfNext [] (kjConditions (demoKfStatus JobSucceeded)) = Some OperationSucceeded"
    by (simp add: kfNext_def kfCondNext_def demoKfStatus_def JobSucceeded_def JobRunning_def
        JobCreated_def)
  ultimately have "wp (reconcileKfJobStatus (demoKfEnv ?i None JobSucceeded) demoKfFound)
      (\<lambda>r u. calls u = [] \<and> (\<exists>b. r = Returns (b, None) \<and> logged 10 OperationSucceeded ?i b (inst u))) (startPass ?i 10)"
    using reconcileKfJobStatus_spec [OF demoKf_reads, of ?i None JobSucceeded "startPass ?i 10"]
    by (simp add: startPass_def)
  then have "wp (reconcileKfJobStatus (demoKfEnv ?i None JobSucceeded) demoKfFound)
     (\<lambda>r u. r = Returns (True, None) \<and> logged 10 OperationSucceeded ?i True (inst u)) (startPass ?i 10)"
    by (rule wp_mono) (auto simp: logged_def)
  then show ?thesis by (simp add: Let_def)
qed

theorem kf_terminal_untouched_witness:
  "let i = demoKf [] None []; env = demoKfEnv i (Some demoKfFound) JobFailed in
   isKfJobInTerminalState env demoKfFound \<and>
   emits isReportCall (startPass i 10)
     (snd (reconcileKf env TFJobKind ''TFJob'' ''OperatorCreateTFJob'' (generatedTFJob env) (startPass i 10)))"
proof -
  let ?i = "demoKf [] None []"
  let ?E = "demoKfEnv ?i (Some demoKfFound) JobFailed"
  have t: "isKfJobInTerminalState ?E demoKfFound"
    by (simp add: isKfJobInTerminalState_def demoKfFound_def plainUns_def demoKfStatus_def JobFailed_def)
  have "emits isReportCall (startPass ?i 10)
     (snd (reconcileKf ?E TFJobKind ''TFJob'' ''OperatorCreateTFJob'' (generatedTFJob ?E) (startPass ?i 10)))"
    by (rule kf_terminal_untouched [OF _ t]) simp
  with t show ?thesis by (simp add: Let_def)
qed

theorem reconcileKf_deleted_witness:
  "let i = demoKf [demoKfCond OperationRunning] None []; env = demoKfEnv i None JobRunning in
   wp (reconcileKf env TFJobKind ''TFJob'' ''OperatorCreateTFJob'' (generatedTFJob env)) (\<lambda>r t. \<exists>st err report.
      calls t = CStatusUpdate st err # report \<and> stoppedAsDeleted st \<and>
      list_all (\<lambda>c. \<not> isCreateCall c) report \<and> r = Returns err \<and> (err = None \<or> report = [])) (startPass i 10)"
proof -
  let ?i = "demoKf [demoKfCond OperationRunning] None []"
  let ?E = "demoKfEnv ?i None JobRunning"
  have "\<not> IsDone (opStatus ?i)" by (auto simp: IsDone_holds holds_def isFinal_def)
  moreover obtain job where "generatedTFJob ?E ?i = Some (Inr job)"
    by (simp add: generatedTFJob_def demoKf_def GenerateTFJob_def demoTFSpec_def demoKfEnv_def fixedApi_def kfEnv.defs
        kfObject_def plainUns_def)
  ultimately show ?thesis
    using reconcileKf_deleted [where s = "startPass ?i 10" and env = ?E and generate = "generatedTFJob ?E"
        and generated = job and job = job and kind = TFJobKind and m = "''not found''" and w = 10
        and what = "''TFJob''" and createReason = "''OperatorCreateTFJob''"]
    by (simp add: Let_def startPass_def)
qed

end
