(* ===== verification/Dask_Ray.thy ===== *)
theory Dask_Ray
  imports Unstructured
begin

text \<open>
  Dask and Ray clusters: the resource \<open>Cluster\<close> (\<^verbatim>\<open>api/v1/cluster_types.go\<close>, \<^verbatim>\<open>daskcluster.go\<close>,
  \<^verbatim>\<open>raycluster.go\<close>), the types sent to and read from the two operators
  (\<^verbatim>\<open>internal/controller/cluster/daskapi\<close>, \<^verbatim>\<open>rayapi\<close>, \<^verbatim>\<open>kinds\<close>) and the builders of their objects
  (\<^verbatim>\<open>internal/helpers/managers/daskcluster.go\<close>, \<^verbatim>\<open>raycluster.go\<close>).

  The converter of \<open>apimachinery\<close> is the argument \<open>toUnstructured\<close>.
\<close>

section \<open>The resource\<close>

text \<open>Kubernetes values that the code passes on unread or never sets, such as the specification of a service, are kept
  as text. A map whose nil-ness matters is a \<open>dict option\<close>.\<close>

record DaskReplicaSpec =
  dkReplicas :: int
  dkTemplate :: PodTemplateSpec
  dkRestartPolicy :: string

record DaskClusterSpec =
  dkIdleTimeout :: "int32 option"
  dkReplicaSpecs :: "(string \<times> DaskReplicaSpec) list"
  dkService :: string
  dkMinReplicas :: "int32 option"
  dkMaxReplicas :: "int32 option"

definition DaskReplicaTypeJob :: string where "DaskReplicaTypeJob = ''Job''"

definition DaskReplicaTypeWorker :: string where "DaskReplicaTypeWorker = ''Worker''"

definition DaskReplicaTypeScheduler :: string where "DaskReplicaTypeScheduler = ''Scheduler''"

record RayReplicaSpec =
  rrGroupName :: string
  rrReplicas :: "int32 option"
  rrMinReplicas :: "int32 option"
  rrMaxReplicas :: "int32 option"
  rrRayStartParams :: "dict option"
  rrTemplate :: PodTemplateSpec
  rrRestartPolicy :: string

record RayAutoscalerOptions =
  raUpscalingMode :: string
  raImagePullPolicy :: string

record RayClusterSpec =
  ryEntrypoint :: string
  ryMetadata :: dict
  rySuspend :: "bool option"
  ryRuntimeEnv :: string
  ryRayVersion :: string
  ryHead :: RayReplicaSpec
  ryWorkers :: "RayReplicaSpec list"
  ryEnableInTreeAutoscaling :: "bool option"
  ryAutoscalerOptions :: "RayAutoscalerOptions option"

record Cluster = operation +
  clDaskClusterSpec :: "DaskClusterSpec option"
  clRayClusterSpec :: "RayClusterSpec option"

section \<open>Versions and kinds\<close>

definition DaskAPIVersion :: string where "DaskAPIVersion = ''kubernetes.dask.org/v1''"

definition DaskClusterKind :: string where "DaskClusterKind = ''DaskCluster''"

definition DaskAutoscalerKind :: string where "DaskAutoscalerKind = ''DaskAutoscaler''"

definition RayAPIVersion :: string where "RayAPIVersion = ''ray.io/v1''"

definition RayClusterKind :: string where "RayClusterKind = ''RayCluster''"

section \<open>The Dask operator's types\<close>

definition DaskClusterCreated :: string where "DaskClusterCreated = ''Created''"

definition DaskClusterPending :: string where "DaskClusterPending = ''Pending''"

definition DaskClusterHealthChecking :: string where "DaskClusterHealthChecking = ''Health Checking''"

definition DaskClusterRunning :: string where "DaskClusterRunning = ''Running''"

definition DaskClusterCrashLoopBackOff :: string where "DaskClusterCrashLoopBackOff = ''CrashLoopBackOff''"

definition DaskClusterSuccessful :: string where "DaskClusterSuccessful = ''Successful''"

definition DaskClusterError :: string where "DaskClusterError = ''Error''"

lemmas dask_phases = DaskClusterCreated_def DaskClusterPending_def DaskClusterHealthChecking_def DaskClusterRunning_def
  DaskClusterCrashLoopBackOff_def DaskClusterSuccessful_def DaskClusterError_def

record ObjectMeta =
  omName :: string
  omLabels :: dict
  omAnnotations :: dict

record daskapi_WorkerSpec =
  dwMetadata :: "ObjectMeta option"
  dwReplicas :: int
  dwSpec :: PodSpec

record daskapi_SchedulerSpec =
  dsMetadata :: "ObjectMeta option"
  dsSpec :: PodSpec
  dsService :: string

record daskapi_DaskClusterSpec =
  dcWorker :: daskapi_WorkerSpec
  dcScheduler :: daskapi_SchedulerSpec

record daskapi_DaskClusterStatus =
  dkPhase :: string

record daskapi_DaskAutoscalerSpec =
  daCluster :: string
  daMinimum :: int
  daMaximum :: int

section \<open>The Ray operator's types\<close>

definition RayFailed :: string where "RayFailed = ''failed''"

record metav1_Condition =
  mcType :: string
  mcStatus :: ConditionStatus
  mcReason :: string
  mcMessage :: string

record HeadInfo =
  hiPodIP :: string
  hiServiceIP :: string

record RayClusterStatus =
  rsState :: string
  rsAvailableWorkerReplicas :: int32
  rsDesiredWorkerReplicas :: int32
  rsMinWorkerReplicas :: int32
  rsMaxWorkerReplicas :: int32
  rsLastUpdateTime :: "time option"
  rsEndpoints :: dict
  rsHead :: HeadInfo
  rsReason :: string
  rsObservedGeneration :: int
  rsConditions :: "metav1_Condition list"

fun getConditionStatus :: "metav1_Condition list \<Rightarrow> string \<Rightarrow> ConditionStatus" where
  "getConditionStatus [] conditionType = ConditionUnknown"
| "getConditionStatus (cond # conds) conditionType =
     (if mcType cond = conditionType then mcStatus cond else getConditionStatus conds conditionType)"

definition IsSuspended :: "RayClusterStatus \<Rightarrow> bool" where
  "IsSuspended s = (getConditionStatus (rsConditions s) ''RayClusterSuspended'' = ConditionTrue)"

definition IsProvisioned :: "RayClusterStatus \<Rightarrow> bool" where
  "IsProvisioned s = (getConditionStatus (rsConditions s) ''RayClusterProvisioned'' = ConditionTrue)"

definition IsHeadPodReady :: "RayClusterStatus \<Rightarrow> bool" where
  "IsHeadPodReady s = (getConditionStatus (rsConditions s) ''HeadPodReady'' = ConditionTrue)"

definition HasReplicaFailure :: "RayClusterStatus \<Rightarrow> bool" where
  "HasReplicaFailure s = (getConditionStatus (rsConditions s) ''ReplicaFailure'' = ConditionTrue)"

fun replicaFailureInfo :: "metav1_Condition list \<Rightarrow> string \<times> string" where
  "replicaFailureInfo [] = (''ReplicaFailure'', ''Replica failure occurred'')"
| "replicaFailureInfo (cond # conds) =
     (if mcType cond = ''ReplicaFailure'' \<and> mcStatus cond = ConditionTrue
      then (mcReason cond, mcMessage cond) else replicaFailureInfo conds)"

definition GetReplicaFailureInfo :: "RayClusterStatus \<Rightarrow> string \<times> string" where
  "GetReplicaFailureInfo s = replicaFailureInfo (rsConditions s)"

text \<open>The head service has metadata only.\<close>

record rayapi_Template =
  rtMetadata :: ObjectMeta
  rtSpec :: PodSpec

record rayapi_HeadGroupSpec =
  hgServiceType :: string
  hgEnableIngress :: "bool option"
  hgHeadService :: "ObjectMeta option"
  hgRayStartParams :: "dict option"
  hgTemplate :: rayapi_Template

record ScaleStrategy =
  ssWorkersToDelete :: "string list"

record rayapi_AutoscalerOptions =
  aoResources :: "string option"
  aoImage :: "string option"
  aoImagePullPolicy :: "string option"
  aoEnv :: "string list"
  aoEnvFrom :: "string list"
  aoVolumeMounts :: "string list"
  aoSecurityContext :: "string option"
  aoIdleTimeoutSeconds :: "int32 option"
  aoUpscalingMode :: "string option"

record rayapi_WorkerGroupSpec =
  wgGroupName :: string
  wgReplicas :: "int32 option"
  wgMinReplicas :: "int32 option"
  wgMaxReplicas :: "int32 option"
  wgNumOfHosts :: int32
  wgRayStartParams :: "dict option"
  wgTemplate :: rayapi_Template
  wgScaleStrategy :: ScaleStrategy

record rayapi_RayClusterSpec =
  rcHeadGroupSpec :: rayapi_HeadGroupSpec
  rcWorkerGroupSpecs :: "rayapi_WorkerGroupSpec list"
  rcRayVersion :: string
  rcEnableInTreeAutoscaling :: "bool option"
  rcAutoscalerOptions :: "rayapi_AutoscalerOptions option"
  rcHeadServiceAnnotations :: dict
  rcSuspend :: "bool option"

section \<open>The Dask builder\<close>

text \<open>The value of a missing key of the map of replicas.\<close>

definition zeroDaskReplica :: DaskReplicaSpec where
  "zeroDaskReplica = \<lparr>dkReplicas = 0,
     dkTemplate = \<lparr>ptLabels = [], ptAnnotations = [],
       ptSpec = \<lparr>Containers = [], RestartPolicy = '''', psOther = ''''\<rparr>\<rparr>,
     dkRestartPolicy = ''''\<rparr>"

definition daskReplica :: "DaskClusterSpec \<Rightarrow> string \<Rightarrow> DaskReplicaSpec" where
  "daskReplica spec replicaType =
     (case map_of (dkReplicaSpecs spec) replicaType of Some r \<Rightarrow> r | None \<Rightarrow> zeroDaskReplica)"

definition generateClusterSpec ::
  "DaskReplicaSpec \<Rightarrow> DaskReplicaSpec \<Rightarrow> string \<Rightarrow> dict \<Rightarrow> dict \<Rightarrow> daskapi_DaskClusterSpec"
where
  "generateClusterSpec worker scheduler service labels annotations =
     (let workerLabels = dictCopy (ptLabels (dkTemplate worker)) (dictCopy labels []);
          schedulerLabels = dictCopy (ptLabels (dkTemplate scheduler)) (dictCopy labels []);
          workerAnnotations = dictCopy (ptAnnotations (dkTemplate worker)) (dictCopy annotations []);
          schedulerAnnotations = dictCopy (ptAnnotations (dkTemplate scheduler)) (dictCopy annotations [])
      in \<lparr>dcWorker =
            \<lparr>dwMetadata = Some \<lparr>omName = '''', omLabels = workerLabels, omAnnotations = workerAnnotations\<rparr>,
             dwReplicas = dkReplicas worker,
             dwSpec = ptSpec (dkTemplate worker)\<rparr>,
          dcScheduler =
            \<lparr>dsMetadata = Some \<lparr>omName = '''', omLabels = schedulerLabels, omAnnotations = schedulerAnnotations\<rparr>,
             dsSpec = ptSpec (dkTemplate scheduler),
             dsService = service\<rparr>\<rparr>)"

text \<open>The end of each builder: the object with its metadata, and the converted specification as its
  \<open>spec\<close>; \<open>what\<close> begins the text of a conversion error.\<close>

definition clusterObject ::
  "unsApi \<Rightarrow> string \<Rightarrow> string \<Rightarrow> string \<Rightarrow> dict \<Rightarrow> dict \<Rightarrow> string \<Rightarrow> string \<Rightarrow> error + jobject \<Rightarrow> error + jobject"
where
  "clusterObject u apiVersion kind what labels annotations name namespace manifest =
     (let cluster = setAPIVersion u fmempty apiVersion;
          cluster = setKind u cluster kind;
          cluster = setLabels u cluster labels;
          cluster = setAnnotations u cluster annotations;
          cluster = setName u cluster name;
          cluster = setNamespace u cluster namespace
      in case manifest of
           Inl e \<Rightarrow> Inl (OtherError (what @ '' to unstructured error: '' @ errorText e))
         | Inr clusterManifest \<Rightarrow>
             (case setNestedField u cluster (JMap clusterManifest) ''spec'' of
                (cluster, Some e) \<Rightarrow> Inl (OtherError (''set .spec error: '' @ errorText e))
              | (cluster, None) \<Rightarrow> Inr cluster))"

definition GenerateDaskCluster ::
  "unsApi \<Rightarrow> (daskapi_DaskClusterSpec \<Rightarrow> error + jobject) \<Rightarrow> string \<Rightarrow> string \<Rightarrow> dict \<Rightarrow> dict \<Rightarrow>
   TerminationSpec \<Rightarrow> DaskClusterSpec \<Rightarrow> error + jobject"
where
  "GenerateDaskCluster u toUnstructured name namespace labels annotations termination spec =
     (let cluster = generateClusterSpec (daskReplica spec DaskReplicaTypeWorker)
            (daskReplica spec DaskReplicaTypeScheduler) (dkService spec) labels annotations
      in clusterObject u DaskAPIVersion DaskClusterKind ''convert DaskCluster'' labels annotations name namespace
           (toUnstructured cluster))"

text \<open>\<open>None\<close> is the result \<open>nil, nil\<close>.\<close>

definition GenerateDaskAutoscaler ::
  "unsApi \<Rightarrow> (daskapi_DaskAutoscalerSpec \<Rightarrow> error + jobject) \<Rightarrow> string \<Rightarrow> string \<Rightarrow> dict \<Rightarrow> dict \<Rightarrow>
   DaskClusterSpec \<Rightarrow> (error + jobject) option"
where
  "GenerateDaskAutoscaler u toUnstructured name namespace labels annotations spec =
     (case (dkMinReplicas spec, dkMaxReplicas spec) of
        (Some minReplicas, Some maxReplicas) \<Rightarrow>
          let autoscaler = \<lparr>daCluster = name, daMinimum = sint minReplicas, daMaximum = sint maxReplicas\<rparr>
          in Some (clusterObject u DaskAPIVersion DaskAutoscalerKind ''sonvert DaskAutoscaler'' labels annotations
                     name namespace (toUnstructured autoscaler))
      | _ \<Rightarrow> None)"

section \<open>The Ray builder\<close>

definition appKubernetesNameLabel :: string where
  "appKubernetesNameLabel = ''app.kubernetes.io/name''"

definition GetRayStartParams :: "dict option \<Rightarrow> dict option" where
  "GetRayStartParams rayStartParams =
     (case rayStartParams of
        Some m \<Rightarrow> if 0 < length m then Some m else Some []
      | None \<Rightarrow> Some [])"

text \<open>The loop that copies the labels of a map but the name label.\<close>

definition copyUnnamed :: "dict \<Rightarrow> dict \<Rightarrow> dict" where
  "copyUnnamed src l = fold (\<lambda>(k, v) l. if k \<noteq> appKubernetesNameLabel then dictPut k v l else l) src l"

definition generateHeadGroupSpec :: "RayReplicaSpec \<Rightarrow> string \<Rightarrow> dict \<Rightarrow> dict \<Rightarrow> rayapi_HeadGroupSpec" where
  "generateHeadGroupSpec replicaSpec name labels annotations =
     (let l = copyUnnamed labels (copyUnnamed (ptLabels (rrTemplate replicaSpec)) []);
          a = dictCopy annotations (dictCopy (ptAnnotations (rrTemplate replicaSpec)) []);
          meta = \<lparr>omName = name @ ''-svc'', omLabels = l, omAnnotations = a\<rparr>
      in \<lparr>hgServiceType = '''', hgEnableIngress = None, hgHeadService = Some meta,
          hgRayStartParams = GetRayStartParams (rrRayStartParams replicaSpec),
          hgTemplate = \<lparr>rtMetadata = meta, rtSpec = ptSpec (rrTemplate replicaSpec)\<rparr>\<rparr>)"

definition generateWorkerGroupSpec :: "RayReplicaSpec \<Rightarrow> dict \<Rightarrow> dict \<Rightarrow> nat \<Rightarrow> rayapi_WorkerGroupSpec" where
  "generateWorkerGroupSpec replicaSpec labels annotations idx =
     (let l = copyUnnamed labels [];
          a = dictCopy annotations [];
          groupName = (if rrGroupName replicaSpec \<noteq> '''' then rrGroupName replicaSpec
                       else ''worker-'' @ itoa (int idx))
      in \<lparr>wgGroupName = groupName,
          wgReplicas = GetNumReplicas (rrReplicas replicaSpec) [],
          wgMinReplicas = GetNumReplicas (rrMinReplicas replicaSpec) [],
          wgMaxReplicas = GetNumReplicas (rrMaxReplicas replicaSpec) [],
          wgNumOfHosts = 0,
          wgRayStartParams = GetRayStartParams (rrRayStartParams replicaSpec),
          wgTemplate = \<lparr>rtMetadata = \<lparr>omName = '''', omLabels = l, omAnnotations = a\<rparr>,
                        rtSpec = ptSpec (rrTemplate replicaSpec)\<rparr>,
          wgScaleStrategy = \<lparr>ssWorkersToDelete = []\<rparr>\<rparr>)"

definition noAutoscalerOptions :: rayapi_AutoscalerOptions where
  "noAutoscalerOptions = \<lparr>aoResources = None, aoImage = None, aoImagePullPolicy = None, aoEnv = [], aoEnvFrom = [],
     aoVolumeMounts = [], aoSecurityContext = None, aoIdleTimeoutSeconds = None, aoUpscalingMode = None\<rparr>"

definition generateAutoscalerOptions ::
  "RayAutoscalerOptions option \<Rightarrow> TerminationSpec \<Rightarrow> rayapi_AutoscalerOptions option"
where
  "generateAutoscalerOptions opts termination =
     (let result = noAutoscalerOptions;
          hasConfig = False;
          (result, hasConfig) =
            (case Option.bind (Culling termination) cullTimeout of
               Some timeout \<Rightarrow> (result\<lparr>aoIdleTimeoutSeconds := Some timeout\<rparr>, True)
             | None \<Rightarrow> (result, hasConfig));
          (result, hasConfig) =
            (case opts of
               None \<Rightarrow> (result, hasConfig)
             | Some opts \<Rightarrow>
                 let (result, hasConfig) =
                       (if raUpscalingMode opts \<noteq> ''''
                        then (result\<lparr>aoUpscalingMode := Some (raUpscalingMode opts)\<rparr>, True) else (result, hasConfig))
                 in if raImagePullPolicy opts \<noteq> ''''
                    then (result\<lparr>aoImagePullPolicy := Some (raImagePullPolicy opts)\<rparr>, True) else (result, hasConfig))
      in if \<not> hasConfig then None else Some result)"

definition rayClusterSpec ::
  "string \<Rightarrow> dict \<Rightarrow> dict \<Rightarrow> TerminationSpec \<Rightarrow> RayClusterSpec \<Rightarrow> rayapi_RayClusterSpec"
where
  "rayClusterSpec name labels annotations termination spec =
     (let head = generateHeadGroupSpec (ryHead spec) name labels annotations;
          workers = map (\<lambda>(i, w). generateWorkerGroupSpec w labels annotations i) (enumerate 0 (ryWorkers spec))
      in \<lparr>rcHeadGroupSpec = head,
          rcWorkerGroupSpecs = workers,
          rcRayVersion = ryRayVersion spec,
          rcEnableInTreeAutoscaling = ryEnableInTreeAutoscaling spec,
          rcAutoscalerOptions = generateAutoscalerOptions (ryAutoscalerOptions spec) termination,
          rcHeadServiceAnnotations = [],
          rcSuspend = rySuspend spec\<rparr>)"

definition GenerateRayCluster ::
  "unsApi \<Rightarrow> (rayapi_RayClusterSpec \<Rightarrow> error + jobject) \<Rightarrow> string \<Rightarrow> string \<Rightarrow> dict \<Rightarrow> dict \<Rightarrow>
   TerminationSpec \<Rightarrow> RayClusterSpec \<Rightarrow> error + jobject"
where
  "GenerateRayCluster u toUnstructured name namespace labels annotations termination spec =
     (let clusterSpec = rayClusterSpec name labels annotations termination spec
      in clusterObject u RayAPIVersion RayClusterKind ''convert raycluster'' labels annotations name namespace
           (toUnstructured clusterSpec))"

section \<open>Lemmas\<close>

lemma copyUnnamed_eq: "copyUnnamed src l = dictCopy (filter (\<lambda>(k, _). k \<noteq> appKubernetesNameLabel) src) l"
  unfolding copyUnnamed_def dictCopy_def by (induction src arbitrary: l) auto

lemma map_of_filter_key: "map_of (filter (\<lambda>(k, _). k \<noteq> x) m) = (map_of m)(x := None)"
  by (induction m) auto

lemma map_of_copyUnnamed:
  "distinct (map fst src) \<Longrightarrow> map_of (copyUnnamed src l) = map_of l ++ (map_of src)(appKubernetesNameLabel := None)"
  by (simp add: copyUnnamed_eq map_of_dictCopy distinct_map_filter map_of_filter_key)

lemma clusterObject_shape:
  assumes "unstructured_laws u"
    and "clusterObject u apiVersion kind what labels annotations name namespace manifest = Inr cluster"
  obtains m where "manifest = Inr m" "fmlookup cluster ''spec'' = Some (JMap m)" "fmlookup cluster ''labels'' = None"
    "fmlookup cluster ''status'' = None"
  using assms by (cases manifest) (auto simp: clusterObject_def unstructured_laws_def isMetaField_def Let_def)

text \<open>The condition that the failure of a replica is reported from is the one that was found.\<close>

lemma HasReplicaFailure_info:
  assumes "HasReplicaFailure s"
  shows "\<exists>c\<in>set (rsConditions s). mcType c = ''ReplicaFailure'' \<and> mcStatus c = ConditionTrue \<and>
     GetReplicaFailureInfo s = (mcReason c, mcMessage c)"
proof -
  have "getConditionStatus cs ''ReplicaFailure'' = ConditionTrue \<Longrightarrow>
    \<exists>c\<in>set cs. mcType c = ''ReplicaFailure'' \<and> mcStatus c = ConditionTrue \<and> replicaFailureInfo cs = (mcReason c, mcMessage c)" for cs
    by (induction cs) (auto split: if_splits)
  with assms show ?thesis by (simp add: HasReplicaFailure_def GetReplicaFailureInfo_def)
qed

section \<open>Properties\<close>

text \<open>the pods of a Dask cluster carry the labels and annotations of the operation and of their template. Where both
  set one, that of the template wins, unlike for training jobs: a template with an instance label of its own
  hides the pods from the controller. A role without an entry in the map of replicas is generated with zero
  replicas and an empty pod specification.\<close>

theorem generateClusterSpec_labels:
  assumes "distinct (map fst labels)" and "distinct (map fst annotations)"
    and "\<And>role. distinct (map fst (ptLabels (dkTemplate (daskReplica spec role)))) \<and>
       distinct (map fst (ptAnnotations (dkTemplate (daskReplica spec role))))"
  shows "let c = generateClusterSpec (daskReplica spec DaskReplicaTypeWorker)
               (daskReplica spec DaskReplicaTypeScheduler) service labels annotations;
             roles = [(dwMetadata (dcWorker c), dwSpec (dcWorker c), ''Worker''),
                      (dsMetadata (dcScheduler c), dsSpec (dcScheduler c), ''Scheduler'')]
         in (\<forall>(meta, ps, role) \<in> set roles. \<exists>m. meta = Some m \<and>
               map_of (omLabels m) = map_of labels ++ map_of (ptLabels (dkTemplate (daskReplica spec role))) \<and>
               map_of (omAnnotations m) = map_of annotations ++ map_of (ptAnnotations (dkTemplate (daskReplica spec role))) \<and>
               ps = ptSpec (dkTemplate (daskReplica spec role))) \<and>
            dwReplicas (dcWorker c) =
              (case map_of (dkReplicaSpecs spec) ''Worker'' of None \<Rightarrow> 0 | Some r \<Rightarrow> dkReplicas r) \<and>
            dsService (dcScheduler c) = service"
proof -
  have "dkReplicas (daskReplica spec ''Worker'') =
      (case map_of (dkReplicaSpecs spec) ''Worker'' of None \<Rightarrow> 0 | Some r \<Rightarrow> dkReplicas r)"
    by (simp add: daskReplica_def zeroDaskReplica_def split: option.split)
  then show ?thesis
    using assms
    by (simp add: Let_def generateClusterSpec_def map_of_dictCopy DaskReplicaTypeWorker_def DaskReplicaTypeScheduler_def)
qed


text \<open>Nothing is configured exactly when there is nothing to configure.\<close>

lemma generateAutoscalerOptions_eq:
  "generateAutoscalerOptions opts termination =
     (let timeout = Option.bind (Culling termination) cullTimeout;
          given = (\<lambda>f. Option.bind opts (\<lambda>o'. if f o' = '''' then None else Some (f o')));
          result = noAutoscalerOptions\<lparr>aoImagePullPolicy := given raImagePullPolicy, aoIdleTimeoutSeconds := timeout,
            aoUpscalingMode := given raUpscalingMode\<rparr>
      in if timeout = None \<and> given raImagePullPolicy = None \<and> given raUpscalingMode = None then None else Some result)"
  by (auto simp: generateAutoscalerOptions_def noAutoscalerOptions_def Let_def split: option.split)

text \<open>The head group, its template and its service carry the labels of the template and of the operation, the
  latter winning, but no name label.\<close>

lemma generateHeadGroupSpec_labels:
  assumes "distinct (map fst labels)" "distinct (map fst (ptLabels (rrTemplate r)))"
  shows "let h = generateHeadGroupSpec r name labels annotations in
    map_of (omLabels (rtMetadata (hgTemplate h))) =
      (map_of (ptLabels (rrTemplate r)) ++ map_of labels)(appKubernetesNameLabel := None) \<and>
    hgHeadService h = Some (rtMetadata (hgTemplate h)) \<and> hgRayStartParams h \<noteq> None"
  using assms
  by (auto simp: generateHeadGroupSpec_def Let_def map_of_copyUnnamed GetRayStartParams_def map_add_def
      split: option.split)

section \<open>Witnesses\<close>

definition demoPodTemplate :: PodTemplateSpec where
  "demoPodTemplate = \<lparr>ptLabels = [(''app'', ''x''), (''tier'', ''a'')], ptAnnotations = [],
     ptSpec = \<lparr>Containers = [], RestartPolicy = '''', psOther = ''''\<rparr>\<rparr>"

definition demoDaskSpec :: DaskClusterSpec where
  "demoDaskSpec = \<lparr>dkIdleTimeout = None,
     dkReplicaSpecs = [(''Worker'', \<lparr>dkReplicas = 3, dkTemplate = demoPodTemplate, dkRestartPolicy = ''Never''\<rparr>)],
     dkService = ''ClusterIP'', dkMinReplicas = None, dkMaxReplicas = None\<rparr>"

definition demoRayReplica :: "string \<Rightarrow> RayReplicaSpec" where
  "demoRayReplica name = \<lparr>rrGroupName = name, rrReplicas = Some 3, rrMinReplicas = None, rrMaxReplicas = None,
     rrRayStartParams = None, rrTemplate = demoPodTemplate, rrRestartPolicy = ''Never''\<rparr>"

definition demoRaySpec :: RayClusterSpec where
  "demoRaySpec = \<lparr>ryEntrypoint = '''', ryMetadata = [], rySuspend = None, ryRuntimeEnv = '''', ryRayVersion = ''2'',
     ryHead = demoRayReplica ''head'', ryWorkers = [demoRayReplica '''', demoRayReplica ''''],
     ryEnableInTreeAutoscaling = None, ryAutoscalerOptions = None\<rparr>"

theorem generateClusterSpec_labels_witness:
  "let labels = [(''app'', ''run''), (''app.kubernetes.io/instance'', ''uuid'')];
       c = generateClusterSpec (daskReplica demoDaskSpec DaskReplicaTypeWorker)
             (daskReplica demoDaskSpec DaskReplicaTypeScheduler) ''ClusterIP'' labels []
   in (\<exists>m. dwMetadata (dcWorker c) = Some m \<and> map_of (omLabels m) ''app'' = Some ''x'' \<and>
        map_of (omLabels m) ''app.kubernetes.io/instance'' = Some ''uuid'') \<and>
      dwReplicas (dcWorker c) = 3"
proof -
  have "distinct (map fst (ptLabels (dkTemplate (daskReplica demoDaskSpec role)))) \<and>
      distinct (map fst (ptAnnotations (dkTemplate (daskReplica demoDaskSpec role))))" for role
    by (simp add: daskReplica_def demoDaskSpec_def demoPodTemplate_def zeroDaskReplica_def)
  moreover have "ptLabels (dkTemplate (daskReplica demoDaskSpec ''Worker'')) = [(''app'', ''x''), (''tier'', ''a'')]"
    "map_of (dkReplicaSpecs demoDaskSpec) ''Worker'' =
       Some \<lparr>dkReplicas = 3, dkTemplate = demoPodTemplate, dkRestartPolicy = ''Never''\<rparr>"
    by (simp_all add: daskReplica_def demoDaskSpec_def demoPodTemplate_def)
  ultimately show ?thesis
    using generateClusterSpec_labels [of "[(''app'', ''run''), (''app.kubernetes.io/instance'', ''uuid'')]" "[]"
      demoDaskSpec "''ClusterIP''"]
    by (auto simp: Let_def)
qed


end
