(* ===== verification/Cluster_Controller.thy ===== *)
theory Cluster_Controller
  imports Owned Dask_Ray
begin

text \<open>
  The controller of Dask and Ray clusters: \<^verbatim>\<open>internal/controller/cluster\<close>.

  Its copies of the common handlers are the instances of \<open>Reconcile\<close> at the type \<open>Cluster\<close>. The functions
  \<open>reconcileDaskCluster\<close> and \<open>reconcileRayCluster\<close> are equal up to the builder, the kind, the status handler and
  three texts: their bodies are \<open>reconcileCl\<close>. The record \<open>clEnv\<close> adds the client on the objects of each kind, the
  list of deployments and the functions of \<open>apimachinery\<close>; \<open>clLawful\<close> is what the controller relies on of them.
\<close>

record ('i, 'w) clEnv = "('i, 'w) api" +
  clObjs :: "string \<Rightarrow> ('i, jobject, 'w) objApi"
  listDeployments :: "string \<Rightarrow> dict \<Rightarrow> 'w \<Rightarrow> (Deployment list \<times> error option) \<times> 'w"
  clUns :: unsApi
  daskToUnstructured :: "daskapi_DaskClusterSpec \<Rightarrow> error + jobject"
  rayToUnstructured :: "rayapi_RayClusterSpec \<Rightarrow> error + jobject"
  daskFromUnstructured :: "jobject \<Rightarrow> error + daskapi_DaskClusterStatus"
  rayFromUnstructured :: "jobject \<Rightarrow> error + RayClusterStatus"

section \<open>Terminal states\<close>

definition isRayClusterInTerminalState :: "(Cluster, 'w) clEnv \<Rightarrow> jobject \<Rightarrow> bool" where
  "isRayClusterInTerminalState env job =
     (let (status, ok, err) = nestedFieldCopy (clUns env) job ''status'' in
      if \<not> ok \<or> err \<noteq> None then False
      else case status of
        JMap statusMap \<Rightarrow>
          (case rayFromUnstructured env statusMap of
             Inl e \<Rightarrow> False
           | Inr clusterStatus \<Rightarrow> rsState clusterStatus = RayFailed)
      | _ \<Rightarrow> False)"

definition isDaskClusterInTerminalState :: "(Cluster, 'w) clEnv \<Rightarrow> jobject \<Rightarrow> bool" where
  "isDaskClusterInTerminalState env cluster =
     (let (status, ok, err) = nestedFieldCopy (clUns env) cluster ''status'' in
      if \<not> ok \<or> err \<noteq> None then False
      else case status of
        JMap statusMap \<Rightarrow>
          (case daskFromUnstructured env statusMap of
             Inl e \<Rightarrow> False
           | Inr clusterStatus \<Rightarrow>
               dkPhase clusterStatus = DaskClusterSuccessful \<or> dkPhase clusterStatus = DaskClusterError)
      | _ \<Rightarrow> False)"

section \<open>The status of a Dask cluster\<close>

definition daskClusterNameLabel :: string where
  "daskClusterNameLabel = ''dask.org/cluster-name''"

definition daskComponentLabel :: string where
  "daskComponentLabel = ''dask.org/component''"

definition isReplicaFailure :: "DeploymentCondition \<Rightarrow> bool" where
  "isReplicaFailure cond \<longleftrightarrow> dcType cond = ''ReplicaFailure'' \<and> dcStatus cond = ConditionTrue"

text \<open>The two nested loops; \<open>None\<close> is the result with \<open>false\<close>.\<close>

fun firstReplicaFailure :: "Deployment list \<Rightarrow> DeploymentCondition option" where
  "firstReplicaFailure [] = None"
| "firstReplicaFailure (deployment # rest) =
     (case List.find isReplicaFailure (dsConditions (dpStatus deployment)) of
        Some cond \<Rightarrow> Some cond
      | None \<Rightarrow> firstReplicaFailure rest)"

definition getDaskReplicaFailure :: "(Cluster, 'w) clEnv \<Rightarrow> ((Cluster, 'w) pass, DeploymentCondition option) go" where
  "getDaskReplicaFailure env =
     bindG (readS inst) (\<lambda>i.
     bindG (external (listDeployments env (opNamespace i) [(daskClusterNameLabel, opName i)])) (\<lambda>(deployments, err).
       if err \<noteq> None then ret None else ret (firstReplicaFailure deployments)))"

definition isDaskSchedulerRunning :: "Pod list \<Rightarrow> bool" where
  "isDaskSchedulerRunning pods =
     list_ex (\<lambda>pod. lookupZ (podLabels pod) daskComponentLabel = ''scheduler'' \<and> IsMainContainerRunning [pod]) pods"

text \<open>The switch over the phase of the cluster.\<close>

definition daskPhaseStatus ::
  "(Cluster, 'w) clEnv \<Rightarrow> time \<Rightarrow> Pod list \<Rightarrow> verdict \<Rightarrow> string \<Rightarrow> ((Cluster, 'w) pass, bool) go"
where
  "daskPhaseStatus env t pods v phase =
     (let (podStatus, reason, message) = v in
      if phase = DaskClusterCreated then
        bindG (logM env LogStarting) (\<lambda>_. ret True)
      else if phase = DaskClusterPending then
        logM env (\<lambda>clk st. LogWarning clk st ''Cluster pending'' ''Waiting for scheduler and workers to start'')
      else if phase = DaskClusterHealthChecking then
        logM env (\<lambda>clk st. LogWarning clk st ''Health checking'' ''Cluster is performing health checks'')
      else if phase = DaskClusterRunning then
        bindG (getDaskReplicaFailure env) (\<lambda>failure.
          case failure of
            Some cond \<Rightarrow> logM env (\<lambda>clk st. LogWarning clk st (dcReason cond) (dcMessage cond))
          | None \<Rightarrow>
              if \<not> isDaskSchedulerRunning pods then
                (if podStatus = OperationWarning then logM env (\<lambda>clk st. LogWarning clk st reason message)
                 else ret False)
              else bindG (logM env LogRunning) (\<lambda>_. ret True))
      else if phase = DaskClusterCrashLoopBackOff then
        (let newMessage = GetFailureMessage ''Cluster in CrashLoopBackOff'' podStatus reason message
         in logM env (\<lambda>clk st. LogWarning clk st ''CrashLoopBackOff'' newMessage))
      else if phase = DaskClusterSuccessful then
        bindG (logM env LogSucceeded) (\<lambda>_.
        bindG (setStatus (\<lambda>st. st\<lparr>CompletionTime := Some t\<rparr>)) (\<lambda>_. ret True))
      else if phase = DaskClusterError then
        (let newMessage = GetFailureMessage ''Cluster failed'' podStatus reason message
         in finishWith env t (\<lambda>clk st. LogFailed clk st reason newMessage))
      else if podStatus = OperationWarning \<and> reason \<noteq> '''' \<and> reason \<noteq> ''ContainersNotReady'' \<and> reason \<noteq> ''PodInitializing'' then
        logM env (\<lambda>clk st. LogWarning clk st reason message)
      else ret False)"

text \<open>The part of \<open>reconcileDaskClusterStatus\<close> after the check of the image names.\<close>

definition daskClusterStatus ::
  "(Cluster, 'w) clEnv \<Rightarrow> time \<Rightarrow> Pod list \<Rightarrow> jobject \<Rightarrow> ((Cluster, 'w) pass, bool \<times> error option) go"
where
  "daskClusterStatus env t pods cluster =
     (let v = HasUnschedulablePods pods;
          (status, ok, unerr) = nestedFieldCopy (clUns env) cluster ''status''
      in if \<not> ok then ret (False, None)
         else case status of
           JMap statusMap \<Rightarrow>
             (case daskFromUnstructured env statusMap of
                Inl e \<Rightarrow> ret (False, Some e)
              | Inr clusterStatus \<Rightarrow>
                  bindG (daskPhaseStatus env t pods v (dkPhase clusterStatus)) (\<lambda>updated. ret (updated, None)))
         | _ \<Rightarrow> panic ''interface conversion'')"

definition reconcileDaskClusterStatus ::
  "(Cluster, 'w) clEnv \<Rightarrow> jobject \<Rightarrow> ((Cluster, 'w) pass, bool \<times> error option) go"
where
  "reconcileDaskClusterStatus env cluster = statusOfPods env (\<lambda>t pods. daskClusterStatus env t pods cluster)"

section \<open>The status of a Ray cluster\<close>

text \<open>The part of \<open>reconcileRayClusterStatus\<close> after the conversion.\<close>

definition rayConditionsStatus ::
  "(Cluster, 'w) clEnv \<Rightarrow> time \<Rightarrow> verdict \<Rightarrow> RayClusterStatus \<Rightarrow> ((Cluster, 'w) pass, bool) go"
where
  "rayConditionsStatus env t v clusterStatus =
     (let (podStatus, reason, message) = v in
      if IsSuspended clusterStatus then
        logM env (\<lambda>clk st. LogWarning clk st ''Suspended'' ''RayCluster is suspended'')
      else if HasReplicaFailure clusterStatus then
        (let (failureReason, failureMessage) = GetReplicaFailureInfo clusterStatus;
             newMessage = GetFailureMessage failureMessage podStatus reason message
         in finishWith env t (\<lambda>clk st. LogFailed clk st failureReason newMessage))
      else if IsHeadPodReady clusterStatus \<and> IsProvisioned clusterStatus then
        bindG (logM env LogRunning) (\<lambda>_. ret True)
      else if IsHeadPodReady clusterStatus then
        logM env (\<lambda>clk st. LogWarning clk st ''Provisioning'' ''Head pod is ready, waiting for workers'')
      else ret False)"

text \<open>The part of \<open>reconcileRayClusterStatus\<close> after the check of the image names.\<close>

definition rayClusterStatus ::
  "(Cluster, 'w) clEnv \<Rightarrow> time \<Rightarrow> Pod list \<Rightarrow> jobject \<Rightarrow> ((Cluster, 'w) pass, bool \<times> error option) go"
where
  "rayClusterStatus env t pods job =
     (let v = HasUnschedulablePods pods;
          (podStatus, reason, message) = v;
          (status, ok, unerr) = nestedFieldCopy (clUns env) job ''status''
      in if podStatus = OperationWarning then
           bindG (logM env (\<lambda>clk st. LogWarning clk st reason message)) (\<lambda>updated. ret (updated, None))
         else if \<not> ok then ret (False, None)
         else case status of
           JMap statusMap \<Rightarrow>
             (case rayFromUnstructured env statusMap of
                Inl e \<Rightarrow> ret (False, Some e)
              | Inr clusterStatus \<Rightarrow>
                  bindG (rayConditionsStatus env t v clusterStatus) (\<lambda>updated. ret (updated, None)))
         | _ \<Rightarrow> panic ''interface conversion'')"

definition reconcileRayClusterStatus ::
  "(Cluster, 'w) clEnv \<Rightarrow> jobject \<Rightarrow> ((Cluster, 'w) pass, bool \<times> error option) go"
where
  "reconcileRayClusterStatus env job = statusOfPods env (\<lambda>t pods. rayClusterStatus env t pods job)"

section \<open>The cluster\<close>

text \<open>The branch for a cluster that does not exist; \<open>update\<close> is what follows the creation.\<close>

definition missingCl ::
  "(Cluster, 'w) clEnv \<Rightarrow> string \<Rightarrow> string \<Rightarrow> string \<Rightarrow> string \<Rightarrow> jobject \<Rightarrow>
   ((Cluster, 'w) pass, error option) go \<Rightarrow> ((Cluster, 'w) pass, error option) go"
where
  "missingCl env kind goneReason gone createReason job update =
     bindG (readS inst) (\<lambda>i.
       if IsDone (opStatus i) then ret None
       else if 0 < length (Conditions (opStatus i)) then
         (if \<not> IsDone (opStatus i) then
            bindG (logM env (\<lambda>clk st. LogStopped clk st goneReason gone)) (\<lambda>updated.
              if updated then publishStatus env else ret None)
          else ret None)
       else
         bindG (objCreate (clObjs env kind) (KUnstructured kind) job) (\<lambda>err.
           case err of
             Some e \<Rightarrow>
               bindG (logM env (\<lambda>clk st. LogWarning clk st createReason (errorText e))) (\<lambda>updated.
               bindG (if updated then publishStatus env else ret None) (\<lambda>statusErr.
                 if statusErr \<noteq> None then ret statusErr else ret (Some e)))
           | None \<Rightarrow>
               bindG (clientGet env (opNamespace i, opName i)) (\<lambda>err.
                 if err \<noteq> None then ret err
                 else
                   bindG (logM env LogStarting) (\<lambda>_.
                   bindG (publishStatus env) (\<lambda>err.
                     if err \<noteq> None then ret err else update)))))"

text \<open>The object on which the call of \<open>Get\<close> is made.\<close>

definition blankCl :: "(Cluster, 'w) clEnv \<Rightarrow> string \<Rightarrow> string \<Rightarrow> jobject" where
  "blankCl env apiVersion kind = setKind (clUns env) (setAPIVersion (clUns env) fmempty apiVersion) kind"

definition reconcileCl ::
  "(Cluster, 'w) clEnv \<Rightarrow> string \<Rightarrow> string \<Rightarrow> string \<Rightarrow> string \<Rightarrow> string \<Rightarrow>
   (jobject \<Rightarrow> bool) \<Rightarrow> (jobject \<Rightarrow> ((Cluster, 'w) pass, bool \<times> error option) go) \<Rightarrow>
   (Cluster \<Rightarrow> (error + jobject) option) \<Rightarrow> ((Cluster, 'w) pass, error option) go"
where
  "reconcileCl env apiVersion kind goneReason gone createReason terminal status generate =
     bindG (readS inst) (\<lambda>i.
       case generate i of
         None \<Rightarrow> panic ''nil pointer dereference''
       | Some (Inl e) \<Rightarrow> ret (Some e)
       | Some (Inr job) \<Rightarrow>
           (case setControllerReference (clObjs env kind) i job of
              Inl e \<Rightarrow> ret (Some e)
            | Inr job \<Rightarrow>
                let sync = syncOwned env (clUns env) (clObjs env kind) kind terminal status job in
                bindG (objGet (clObjs env kind) (opNamespace i, opName i)) (\<lambda>found.
                  case found of
                    Inl e \<Rightarrow>
                      if IsNotFound e
                      then missingCl env kind goneReason gone createReason job
                             (sync True (blankCl env apiVersion kind))
                      else ret (Some e)
                  | Inr foundJob \<Rightarrow> sync False foundJob)))"

text \<open>\<open>*instance.DaskClusterSpec\<close> and \<open>*instance.RayClusterSpec\<close> panic on nil.\<close>

definition generatedDaskCluster :: "(Cluster, 'w) clEnv \<Rightarrow> Cluster \<Rightarrow> (error + jobject) option" where
  "generatedDaskCluster env i =
     map_option (GenerateDaskCluster (clUns env) (daskToUnstructured env) (opName i) (opNamespace i) (opLabels i)
       (opAnnotations i) (opTermination i)) (clDaskClusterSpec i)"

definition generatedRayCluster :: "(Cluster, 'w) clEnv \<Rightarrow> Cluster \<Rightarrow> (error + jobject) option" where
  "generatedRayCluster env i =
     map_option (GenerateRayCluster (clUns env) (rayToUnstructured env) (opName i) (opNamespace i) (opLabels i)
       (opAnnotations i) (opTermination i)) (clRayClusterSpec i)"

definition reconcileDaskCluster :: "(Cluster, 'w) clEnv \<Rightarrow> ((Cluster, 'w) pass, error option) go" where
  "reconcileDaskCluster env =
     reconcileCl env DaskAPIVersion DaskClusterKind ''ClusterDeleted'' ''The underlying DaskCluster was deleted''
       ''OperatorCreateDaskCluster'' (isDaskClusterInTerminalState env) (reconcileDaskClusterStatus env)
       (generatedDaskCluster env)"

definition reconcileRayCluster :: "(Cluster, 'w) clEnv \<Rightarrow> ((Cluster, 'w) pass, error option) go" where
  "reconcileRayCluster env =
     reconcileCl env RayAPIVersion RayClusterKind ''JobDeleted'' ''The underlying RayCluster was deleted''
       ''OperatorCreateRayCluster'' (isRayClusterInTerminalState env) (reconcileRayClusterStatus env)
       (generatedRayCluster env)"

text \<open>The body of \<open>reconcileDaskClusterOp\<close> and \<open>reconcileRayClusterOp\<close>.\<close>

definition thenDeadline ::
  "(Cluster, 'w) clEnv \<Rightarrow> ((Cluster, 'w) pass, error option) go \<Rightarrow> ((Cluster, 'w) pass, ctrlResult \<times> error option) go"
where
  "thenDeadline env reconcile =
     bindG reconcile (\<lambda>err.
       if err \<noteq> None then ret (noRequeue, err)
       else
         bindG (handlePastActiveDeadline env) (\<lambda>(duration, err).
           case duration of
             Some d \<Rightarrow> if err \<noteq> None then ret (noRequeue, err) else ret (\<lparr>Requeue = False, RequeueAfter = d\<rparr>, None)
           | None \<Rightarrow> ret (noRequeue, err)))"

definition reconcileDaskClusterOp :: "(Cluster, 'w) clEnv \<Rightarrow> ((Cluster, 'w) pass, ctrlResult \<times> error option) go" where
  "reconcileDaskClusterOp env = thenDeadline env (reconcileDaskCluster env)"

definition reconcileRayClusterOp :: "(Cluster, 'w) clEnv \<Rightarrow> ((Cluster, 'w) pass, ctrlResult \<times> error option) go" where
  "reconcileRayClusterOp env = thenDeadline env (reconcileRayCluster env)"

definition cleanUpDaskCluster :: "(Cluster, 'w) clEnv \<Rightarrow> ((Cluster, 'w) pass, ctrlResult \<times> error option) go" where
  "cleanUpDaskCluster env = handleTTL env"

definition cleanUpRayCluster :: "(Cluster, 'w) clEnv \<Rightarrow> ((Cluster, 'w) pass, ctrlResult \<times> error option) go" where
  "cleanUpRayCluster env = handleTTL env"

section \<open>The controller\<close>

definition Cluster_reconcileOperation :: "(Cluster, 'w) clEnv \<Rightarrow> ((Cluster, 'w) pass, ctrlResult \<times> error option) go" where
  "Cluster_reconcileOperation env =
     bindG (readS inst) (\<lambda>i.
       if clDaskClusterSpec i \<noteq> None then reconcileDaskClusterOp env
       else if clRayClusterSpec i \<noteq> None then reconcileRayClusterOp env
       else ret (noRequeue, None))"

definition Cluster_cleanUpOperation :: "(Cluster, 'w) clEnv \<Rightarrow> ((Cluster, 'w) pass, ctrlResult \<times> error option) go" where
  "Cluster_cleanUpOperation env =
     bindG (readS inst) (\<lambda>i.
       if clDaskClusterSpec i \<noteq> None then cleanUpDaskCluster env
       else if clRayClusterSpec i \<noteq> None then cleanUpRayCluster env
       else ret (noRequeue, None))"

definition Cluster_Reconcile :: "(Cluster, 'w) clEnv \<Rightarrow> key \<Rightarrow> ((Cluster, 'w) pass, ctrlResult \<times> error option) go" where
  "Cluster_Reconcile env req = reconcilePass True Cluster_cleanUpOperation Cluster_reconcileOperation env req"

section \<open>Watches\<close>

text \<open>What the handlers and predicates read of an object; \<open>coContent\<close> is set for unstructured ones.\<close>

record clientObject =
  coNamespace :: string
  coLabels :: dict
  coOwnerReferences :: "OwnerReference list"
  coGeneration :: int
  coDeletionTimestamp :: "time option"
  coContent :: "jobject option"

definition isClusterOwner :: "OwnerReference \<Rightarrow> bool" where
  "isClusterOwner ownerRef \<longleftrightarrow>
     (orAPIVersion ownerRef = RayAPIVersion \<and> orKind ownerRef = RayClusterKind) \<or>
     (orAPIVersion ownerRef = DaskAPIVersion \<and> orKind ownerRef = DaskClusterKind)"

fun firstClusterOwner :: "OwnerReference list \<Rightarrow> string option" where
  "firstClusterOwner [] = None"
| "firstClusterOwner (ownerRef # rest) =
     (if isClusterOwner ownerRef then Some (orName ownerRef) else firstClusterOwner rest)"

definition clusterObjectName :: "clientObject \<Rightarrow> string" where
  "clusterObjectName object =
     (case firstClusterOwner (coOwnerReferences object) of
        Some name \<Rightarrow> name
      | None \<Rightarrow> lookupZ (coLabels object) daskClusterNameLabel)"

definition mapClusterObjectToRequest :: "clientObject \<Rightarrow> key list" where
  "mapClusterObjectToRequest object =
     (let name = clusterObjectName object
      in if name = '''' then [] else [(coNamespace object, name)])"

definition predClusterObject :: "clientObject \<Rightarrow> bool" where
  "predClusterObject object \<longleftrightarrow> clusterObjectName object \<noteq> ''''"

fun firstPolyaxonOwner :: "string \<Rightarrow> OwnerReference list \<Rightarrow> key list" where
  "firstPolyaxonOwner namespace [] = []"
| "firstPolyaxonOwner namespace (ownerRef # rest) =
     (if orAPIVersion ownerRef = ''polyaxon.com/v1'' \<and> orKind ownerRef = ''Cluster'' \<and> orController ownerRef = Some True
      then [(namespace, orName ownerRef)] else firstPolyaxonOwner namespace rest)"

definition mapClusterToRequestFunc :: "clientObject \<Rightarrow> key list" where
  "mapClusterToRequestFunc obj = firstPolyaxonOwner (coNamespace obj) (coOwnerReferences obj)"

text \<open>\<open>UpdateFunc\<close> of \<open>clusterResourcePredicate\<close>; \<open>nestedString\<close> is the function of the package \<open>unstructured\<close>.\<close>

definition clusterUpdateFunc ::
  "(jobject \<Rightarrow> string list \<Rightarrow> string \<times> bool \<times> error option) \<Rightarrow> clientObject \<Rightarrow> clientObject \<Rightarrow> bool"
where
  "clusterUpdateFunc nestedString objectOld objectNew =
     (if coGeneration objectOld \<noteq> coGeneration objectNew then True
      else if \<not> isZeroTime (coDeletionTimestamp objectNew) then True
      else case (coContent objectOld, coContent objectNew) of
        (Some oldUnstructured, Some newUnstructured) \<Rightarrow>
          let oldPhase = fst (nestedString oldUnstructured [''status'', ''phase'']);
              newPhase = fst (nestedString newUnstructured [''status'', ''phase''])
          in if oldPhase \<noteq> newPhase \<and> newPhase \<noteq> '''' then True
             else
               let oldState = fst (nestedString oldUnstructured [''status'', ''state'']);
                   newState = fst (nestedString newUnstructured [''status'', ''state''])
               in oldState \<noteq> newState \<and> newState \<noteq> ''''
      | _ \<Rightarrow> False)"

section \<open>The controller's copies of the common handlers\<close>

definition Cluster_AddStartTime :: "(Cluster, 'w) clEnv \<Rightarrow> ((Cluster, 'w) pass, error option) go" where
  "Cluster_AddStartTime env = AddStartTime env"

definition Cluster_instanceSyncStatus :: "(Cluster, 'w) clEnv \<Rightarrow> ((Cluster, 'w) pass, sdkError option) go" where
  "Cluster_instanceSyncStatus env = instanceSyncStatus env"

definition Cluster_getInstanceInfo :: "Cluster \<Rightarrow> (string \<times> string \<times> string \<times> string) option" where
  "Cluster_getInstanceInfo i = getInstanceInfo i"

definition Cluster_syncStatus :: "(Cluster, 'w) clEnv \<Rightarrow> OperationCondition \<Rightarrow> ((Cluster, 'w) pass, sdkError option) go" where
  "Cluster_syncStatus env cond = syncStatus env cond"

definition Cluster_collectLogs :: "(Cluster, 'w) clEnv \<Rightarrow> ((Cluster, 'w) pass, sdkError option) go" where
  "Cluster_collectLogs env = collectLogs env"

definition Cluster_AddLogsFinalizer :: "(Cluster, 'w) clEnv \<Rightarrow> ((Cluster, 'w) pass, error option) go" where
  "Cluster_AddLogsFinalizer env = AddLogsFinalizer env"

definition Cluster_AddStatusFinalizer :: "(Cluster, 'w) clEnv \<Rightarrow> ((Cluster, 'w) pass, error option) go" where
  "Cluster_AddStatusFinalizer env = AddStatusFinalizer env"

definition Cluster_handleFinalizers :: "(Cluster, 'w) clEnv \<Rightarrow> ((Cluster, 'w) pass, error option) go" where
  "Cluster_handleFinalizers env = handleFinalizers env"

definition Cluster_delete :: "(Cluster, 'w) clEnv \<Rightarrow> ((Cluster, 'w) pass, error option) go" where
  "Cluster_delete env = deleteOp env"

definition Cluster_handleTTL :: "(Cluster, 'w) clEnv \<Rightarrow> ((Cluster, 'w) pass, ctrlResult \<times> error option) go" where
  "Cluster_handleTTL env = handleTTL env"

definition Cluster_handlePastActiveDeadline ::
  "(Cluster, 'w) clEnv \<Rightarrow> ((Cluster, 'w) pass, duration option \<times> error option) go"
where
  "Cluster_handlePastActiveDeadline env = handlePastActiveDeadline env"

definition Cluster_getBackOff :: "int32 \<Rightarrow> duration option" where
  "Cluster_getBackOff backOff = getBackOff backOff"

section \<open>The cluster controller keeps the contract\<close>

text \<open>What the controller relies on: the functions on unstructured objects, and that the API server serves
  clusters whose \<open>status\<close>, if any, is an object.\<close>

definition clLawful :: "(Cluster, 'w) clEnv \<Rightarrow> bool" where
  "clLawful env \<longleftrightarrow> unstructured_laws (clUns env) \<and> (\<forall>kind. servesObjs (clObjs env kind))"

text \<open>The cluster operations that a pass is safe on: with a time to live, they are done only with a completion
  time. The runtime does not keep this; it is itself safe on every operation.\<close>

definition clGood :: "Cluster \<Rightarrow> bool" where
  "clGood i \<longleftrightarrow> deref (TTLSecondsAfterFinished (opTermination i)) = None \<or> timedDone (opStatus i)"

abbreviation anyCluster :: "(Cluster, 'w) pass \<Rightarrow> bool" where
  "anyCluster \<equiv> inv (\<lambda>_. True) (\<lambda>_. True)"

abbreviation clReady :: "bool \<Rightarrow> (Cluster, 'w) pass \<Rightarrow> bool" where
  "clReady \<equiv> ready (\<lambda>_. True) (\<lambda>_. True)"

interpretation cl_status: status_inv "\<lambda>_ :: Cluster. True" "\<lambda>_. True"
  by unfold_locales simp_all

lemma serves_any: "serves (\<lambda>_. True) api"
  by (simp add: serves_def)

lemma ready_stop:
  "(\<And>clk st. Conditions (fst (f clk st)) \<noteq> []) \<Longrightarrow> hoare anyCluster (logM env f) clReady"
  by (rule hoare_conseq [OF hoare_logM [where J = "\<lambda>_. True" and C = "\<lambda>_. True" and J' = "\<lambda>i. Conditions (opStatus i) \<noteq> []"]])
     (auto simp: inv_def ready_def)

lemmas cl_ready_rules = cl_status.ready_ret cl_status.ready_finishWith cl_status.ready_logM cl_status.ready_then_true
  cl_status.ready_succeeded

lemma hoare_getDaskReplicaFailure: "hoare anyCluster (getDaskReplicaFailure env) (\<lambda>_. anyCluster)"
  unfolding getDaskReplicaFailure_def by (intro hoare_intros)

lemma ready_daskPhaseStatus: "hoare anyCluster (daskPhaseStatus env t pods v phase) clReady"
  unfolding daskPhaseStatus_def Let_def
  by (intro hoare_prod hoare_if hoare_bindG [OF hoare_getDaskReplicaFailure] hoare_option cl_ready_rules) simp_all

lemma ready_rayConditionsStatus: "hoare anyCluster (rayConditionsStatus env t v st) clReady"
  unfolding rayConditionsStatus_def Let_def
  by (intro hoare_prod hoare_if cl_ready_rules) simp_all

lemma ready_reconcileDaskClusterStatus:
  assumes "unstructured_laws (clUns env)" "statusOk cluster"
  shows "hoare anyCluster (reconcileDaskClusterStatus env cluster) (\<lambda>r. clReady (fst r))"
  unfolding reconcileDaskClusterStatus_def
  by (rule cl_status.ready_statusOfPods, rule statusOk_read [OF assms]; simp add: daskClusterStatus_def)
     (intro hoare_sum cl_status.ready_pair cl_status.ready_false ready_daskPhaseStatus)+

lemma ready_reconcileRayClusterStatus:
  assumes "unstructured_laws (clUns env)" "statusOk cluster"
  shows "hoare anyCluster (reconcileRayClusterStatus env cluster) (\<lambda>r. clReady (fst r))"
  unfolding reconcileRayClusterStatus_def
  by (rule cl_status.ready_statusOfPods, rule statusOk_read [OF assms]; simp add: rayClusterStatus_def Let_def)
     (intro hoare_prod hoare_if hoare_sum cl_status.ready_pair cl_status.ready_false ready_rayConditionsStatus
        cl_ready_rules; simp)+

lemma missingCl_safe:
  assumes "status_echo env" "hoare anyCluster update (\<lambda>_. anyCluster)"
  shows "hoare anyCluster (missingCl env kind r m reason job update) (\<lambda>_. anyCluster)"
  unfolding missingCl_def
  by (intro hoare_bindG [OF hoare_readS] hoare_if hoare_ret hoare_bindG [OF ready_stop] cl_status.publish_ready
      hoare_bindG [OF hoare_objCreate] hoare_option hoare_bindG [OF cl_status.publish_ready]
      hoare_bindG [OF hoare_refetch] hoare_bindG [OF cl_status.ready_log_true]
      hoare_bindG [OF cl_status.publish_true] serves_any assms) simp_all

lemma reconcileCl_safe:
  assumes laws: "clLawful env" "status_echo env"
    and status: "\<And>obj. statusOk obj \<Longrightarrow> hoare anyCluster (status obj) (\<lambda>r. clReady (fst r))"
  shows "hoare (\<lambda>s. anyCluster s \<and> generate (inst s) \<noteq> None)
     (reconcileCl env apiVersion kind r m reason terminal status generate) (\<lambda>_. anyCluster)"
proof -
  have u: "unstructured_laws (clUns env)" and objs: "servesObjs (clObjs env kind)"
    using laws(1) by (simp_all add: clLawful_def)
  note sync = cl_status.syncOwned_safe [OF u objs serves_any laws(2)]
  have found: "hoare anyCluster
      (case setControllerReference (clObjs env kind) i job of Inl e \<Rightarrow> ret (Some e)
       | Inr job \<Rightarrow>
           let sync = syncOwned env (clUns env) (clObjs env kind) kind terminal status job in
           bindG (objGet (clObjs env kind) (opNamespace i, opName i)) (\<lambda>found.
             case found of
               Inl e \<Rightarrow> if IsNotFound e then missingCl env kind r m reason job (sync True (blankCl env apiVersion kind))
                 else ret (Some e)
             | Inr foundJob \<Rightarrow> sync False foundJob)) (\<lambda>_. anyCluster)" for i job
    unfolding Let_def blankCl_def
    by (intro hoare_sum hoare_ret hoare_bind_value [OF hoare_objGet_status [OF objs]] hoare_if missingCl_safe laws sync
        status blank_statusOk u) simp_all
  have "wp (reconcileCl env apiVersion kind r m reason terminal status generate)
      (\<lambda>r t. case r of Returns a \<Rightarrow> anyCluster t | Panics p \<Rightarrow> False) s"
    if s: "anyCluster s" "generate (inst s) \<noteq> None" for s
  proof -
    from s(2) obtain x where x: "generate (inst s) = Some x" by auto
    show ?thesis
      using s(1) found [of "inst s"] unfolding hoare_def reconcileCl_def wp_bindG [of "readS inst"] wp_readS
      by (cases x) (simp_all add: x wp_ret)
  qed
  then show ?thesis by (simp add: hoare_def)
qed

lemma deadline_safe:
  assumes "status_echo env"
  shows "hoare anyCluster (handlePastActiveDeadline env) (\<lambda>_. anyCluster)"
  unfolding handlePastActiveDeadline_def stopAtDeadline_def Let_def
  by (intro hoare_bindG [OF hoare_readS] hoare_prod hoare_option hoare_if hoare_ret hoare_bindG [OF hoare_now]
      hoare_bindG [OF ready_stop] hoare_bindG [OF cl_status.publish_ready] hoare_bindG [OF hoare_deleteOp]
      serves_any assms) simp_all

lemma Cluster_reconcileOperation_safe:
  assumes "clLawful env" "status_echo env"
  shows "hoare anyCluster (Cluster_reconcileOperation env) (\<lambda>_. anyCluster)"
proof -
  have u: "unstructured_laws (clUns env)" using assms(1) by (simp add: clLawful_def)
  have run: "hoare (\<lambda>s. anyCluster s \<and> i = inst s)
      (thenDeadline env (reconcileCl env apiVersion kind r m reason terminal status generate)) (\<lambda>_. anyCluster)"
    if "generate i \<noteq> None" "\<And>obj. statusOk obj \<Longrightarrow> hoare anyCluster (status obj) (\<lambda>r. clReady (fst r))"
    for i apiVersion kind r m reason terminal status generate
    unfolding thenDeadline_def
    by (intro hoare_bindG [OF hoare_pre [OF reconcileCl_safe [OF assms that(2)]]] hoare_if hoare_ret
        hoare_bindG [OF deadline_safe [OF assms(2)]] hoare_prod hoare_option) (use that(1) in auto)
  show ?thesis
    unfolding Cluster_reconcileOperation_def reconcileDaskClusterOp_def reconcileRayClusterOp_def
      reconcileDaskCluster_def reconcileRayCluster_def
    by (intro hoare_bind_readS hoare_if run hoare_pre [OF hoare_ret] ready_reconcileDaskClusterStatus
        ready_reconcileRayClusterStatus u) (auto simp: generatedDaskCluster_def generatedRayCluster_def)
qed

lemma tracks_getDaskReplicaFailure [track_intros]: "tracks (emits P) (getDaskReplicaFailure env)"
  unfolding getDaskReplicaFailure_def by (intro track_intros)

lemma tracks_cluster_status [track_intros]:
  "tracks (emits P) (reconcileDaskClusterStatus env cluster)" "tracks (emits P) (reconcileRayClusterStatus env cluster)"
  unfolding reconcileDaskClusterStatus_def daskClusterStatus_def daskPhaseStatus_def
    reconcileRayClusterStatus_def rayClusterStatus_def rayConditionsStatus_def
  by (intro track_intros)+

lemma tracks_reconcileCl [track_intros]:
  "(\<And>b. P (CCreate (KUnstructured kind) b)) \<Longrightarrow> (\<And>b. P (CObjUpdate (KUnstructured kind) b)) \<Longrightarrow>
   (\<And>st b. P (CStatusUpdate st b)) \<Longrightarrow> (\<And>c b. P (CRunStatus c b)) \<Longrightarrow>
   (\<And>obj. tracks (emits P) (status obj)) \<Longrightarrow>
   tracks (emits P) (reconcileCl env apiVersion kind r m reason terminal status generate)"
  unfolding reconcileCl_def missingCl_def by (intro track_intros)

lemmas cl_runtime_defs = Cluster_reconcileOperation_def reconcileDaskClusterOp_def reconcileRayClusterOp_def
  thenDeadline_def reconcileDaskCluster_def reconcileRayCluster_def

lemmas cl_cleanup_defs = Cluster_cleanUpOperation_def cleanUpDaskCluster_def cleanUpRayCluster_def

interpretation cluster_controller:
  op_controller Cluster_cleanUpOperation Cluster_reconcileOperation clGood "\<lambda>_. True" clLawful
proof unfold_locales
  fix env :: "(Cluster, 'w) clEnv" and i :: Cluster and c b t fs
  show "tracks (emits isDeleteCall) (Cluster_cleanUpOperation env)"
    unfolding cl_cleanup_defs by (intro track_intros) (simp_all add: isDeleteCall_def)
  show "tracks (emits (\<lambda>c. \<not> isUpdateCall c)) (Cluster_reconcileOperation env)"
    unfolding cl_runtime_defs by (intro track_intros) (simp_all add: isUpdateCall_def)
  show "clGood i \<Longrightarrow> clGood (i\<lparr>opFinalizers := fs\<rparr>)" by (simp add: clGood_def)
  show "clGood i \<Longrightarrow> clGood (i\<lparr>opStatus := (opStatus i)\<lparr>StartTime := Some t\<rparr>\<rparr>)"
    by (simp add: clGood_def timedDone_def)
  assume laws: "clLawful env" "serves clGood env" "status_echo env"
  show "hoare (inv (\<lambda>i. clGood i \<and> IsDone (opStatus i)) (\<lambda>_. True)) (Cluster_cleanUpOperation env)
      (\<lambda>_ s. list_all (\<lambda>_. True) (calls s))"
    by (auto simp: cl_cleanup_defs hoare_def inv_def wp_simps clGood_def timedDone_def)
       (auto simp: wp_def handleTTL_eq Let_def split: option.splits prod.splits)
  show "hoare (inv clGood (\<lambda>_. True)) (Cluster_reconcileOperation env) (\<lambda>_ s. list_all (\<lambda>_. True) (calls s))"
    by (rule hoare_conseq [OF Cluster_reconcileOperation_safe [OF laws(1,3)]]) (auto simp: inv_def)
qed simp_all

section \<open>Properties\<close>

text \<open>C18: a pass of the cluster controller never panics, as long as the API server serves operations that, with a time
  to live, are done only with a completion time, and clusters whose status, if any, is an object.\<close>

theorem Cluster_Reconcile_safe:
  assumes "clLawful env" and "serves clGood env" and "status_echo env"
  shows "\<exists>res t. Cluster_Reconcile env req \<lparr>inst = i, world = w, calls = []\<rparr> = (Returns res, t)"
proof -
  have "wp (Cluster_Reconcile env req) (\<lambda>r t. case r of Returns a \<Rightarrow> True | Panics p \<Rightarrow> False)
      \<lparr>inst = i, world = w, calls = []\<rparr>"
    using cluster_controller.pass_safe [OF assms, of True req]
    unfolding hoare_def Cluster_Reconcile_def by (elim allE impE) (auto elim!: wp_mono split: outcome.splits)
  then show ?thesis by (auto simp: wp_def split: prod.splits outcome.splits)
qed

text \<open>once a cluster operation whose start time is recorded is done or being deleted, a pass only releases it: no cluster is created or changed and
  no status is written.\<close>

theorem Cluster_Reconcile_release:
  assumes "getInstance env req (world s) = (Inr i, w)" and "StartTime (opStatus i) \<noteq> None"
    and "IsOperationBeingDeleted i \<or> IsDone (opStatus i)"
  shows "emits isReleaseCall s (snd (Cluster_Reconcile env req s))"
  using cluster_controller.release_calls_started [OF assms] by (simp add: Cluster_Reconcile_def wp_def case_prod_beta)

text \<open>no pass of the cluster controller drops the logs finalizer, once the start time is
  recorded, before the logs were collected or taken for collected.\<close>

theorem Cluster_Reconcile_logs_first:
  assumes "finalizer_laws env" and "getInstance env req (world s) = (Inr i, w)"
    and "StartTime (opStatus i) \<noteq> None"
    and "OperationLogsFinalizer \<in> set (opFinalizers i)" and "mustCollect env i"
  shows "\<exists>new. calls (snd (Cluster_Reconcile env req s)) = calls s @ new \<and> logsSafe False new"
  using cluster_controller.logs_collected_started [OF assms] by (simp add: Cluster_Reconcile_def wp_def case_prod_beta)

text \<open>What the pods, the deployments and the phase of a Dask cluster call for: the type of the condition to log, if any.\<close>

definition podWarning :: "Pod list \<Rightarrow> bool" where
  "podWarning pods \<longleftrightarrow> fst (HasUnschedulablePods pods) = OperationWarning"

definition severeReason :: "Pod list \<Rightarrow> bool" where
  "severeReason pods \<longleftrightarrow> fst (snd (HasUnschedulablePods pods)) \<notin> {'''', ''ContainersNotReady'', ''PodInitializing''}"

definition daskPhaseNext :: "Pod list \<Rightarrow> bool \<Rightarrow> string \<Rightarrow> OperationConditionType option" where
  "daskPhaseNext pods failing phase =
     (if phase = DaskClusterCreated then Some OperationStarting
      else if phase \<in> {DaskClusterPending, DaskClusterHealthChecking, DaskClusterCrashLoopBackOff} then Some OperationWarning
      else if phase = DaskClusterRunning then
        (if failing then Some OperationWarning
         else if isDaskSchedulerRunning pods then Some OperationRunning
         else if podWarning pods then Some OperationWarning else None)
      else if phase = DaskClusterSuccessful then Some OperationSucceeded
      else if phase = DaskClusterError then Some OperationFailed
      else if podWarning pods \<and> severeReason pods then Some OperationWarning
      else None)"

definition daskNext :: "Pod list \<Rightarrow> bool \<Rightarrow> daskapi_DaskClusterStatus option \<Rightarrow> OperationConditionType option" where
  "daskNext pods failing status =
     (if GetInvalidImageName pods \<noteq> None then Some OperationFailed
      else Option.bind status (\<lambda>st. daskPhaseNext pods failing (dkPhase st)))"

definition failing :: "(Cluster, 'w) clEnv \<Rightarrow> Cluster \<Rightarrow> 'w \<Rightarrow> bool" where
  "failing env i w =
     (let ((deployments, err), _) = listDeployments env (opNamespace i) [(daskClusterNameLabel, opName i)] w
      in err = None \<and> firstReplicaFailure deployments \<noteq> None)"

lemma wp_getDaskReplicaFailure:
  assumes "\<And>r w. (r \<noteq> None \<longleftrightarrow> failing env (inst s) (world s)) \<Longrightarrow> Q (Returns r) (s\<lparr>world := w\<rparr>)"
  shows "wp (getDaskReplicaFailure env) Q s"
  using assms by (auto simp: getDaskReplicaFailure_def failing_def wp_simps split: prod.splits)

lemma firstReplicaFailure_iff:
  "firstReplicaFailure ds \<noteq> None \<longleftrightarrow> (\<exists>d\<in>set ds. \<exists>c\<in>set (dsConditions (dpStatus d)). isReplicaFailure c)"
  by (induction ds) (auto simp: find_None_iff split: option.splits, metis find_Some_iff nth_mem)

text \<open>What is done about a cluster that the Dask operator reports as running.\<close>

lemma wp_daskRunning:
  assumes s: "inst s = i" "calls s = c" and v: "HasUnschedulablePods pods = (ps, reason, message)"
  shows "wp (bindG (getDaskReplicaFailure env) (\<lambda>failure.
        case failure of
          Some cond \<Rightarrow> logM env (\<lambda>clk st. LogWarning clk st (dcReason cond) (dcMessage cond))
        | None \<Rightarrow>
            if \<not> isDaskSchedulerRunning pods then
              (if ps = OperationWarning then logM env (\<lambda>clk st. LogWarning clk st reason message) else ret False)
            else bindG (logM env LogRunning) (\<lambda>_. ret True)))
     (\<lambda>r u. calls u = c \<and> statusOutcome t (daskPhaseNext pods (failing env i (world s)) DaskClusterRunning) i r (inst u)) s"
  unfolding wp_bindG [of "getDaskReplicaFailure env"]
proof (rule wp_getDaskReplicaFailure)
  have warn: "wp (logM env (\<lambda>clk st. LogWarning clk st r m)) (\<lambda>r u. calls u = c \<and> statusOutcome t (Some OperationWarning) i r (inst u))
      (s\<lparr>world := w\<rparr>)" for r m w
    by (rule wp_LogWarning [where t = t]) (simp add: s)
  have run: "wp (bindG (logM env LogRunning) (\<lambda>_. ret True)) (\<lambda>r u. calls u = c \<and> statusOutcome t (Some OperationRunning) i r (inst u))
      (s\<lparr>world := w\<rparr>)" for w
    by (rule wp_run_true [where t = t]) (simp add: s)
  fix r :: "DeploymentCondition option" and w
  assume r: "r \<noteq> None \<longleftrightarrow> failing env (inst s) (world s)"
  have "daskPhaseNext pods (failing env i (world s)) DaskClusterRunning =
      (if r \<noteq> None then Some OperationWarning else if isDaskSchedulerRunning pods then Some OperationRunning
       else if ps = OperationWarning then Some OperationWarning else None)"
    using r s by (auto simp: daskPhaseNext_def dask_phases podWarning_def v)
  then show "case Returns r of
      Returns failure \<Rightarrow> wp (case failure of
        Some cond \<Rightarrow> logM env (\<lambda>clk st. LogWarning clk st (dcReason cond) (dcMessage cond))
      | None \<Rightarrow>
          if \<not> isDaskSchedulerRunning pods then
            (if ps = OperationWarning then logM env (\<lambda>clk st. LogWarning clk st reason message) else ret False)
          else bindG (logM env LogRunning) (\<lambda>_. ret True))
        (\<lambda>r u. calls u = c \<and> statusOutcome t (daskPhaseNext pods (failing env i (world s)) DaskClusterRunning) i r (inst u))
        (s\<lparr>world := w\<rparr>)
    | Panics p \<Rightarrow> calls (s\<lparr>world := w\<rparr>) = c \<and>
        statusOutcome t (daskPhaseNext pods (failing env i (world s)) DaskClusterRunning) i (Panics p) (inst (s\<lparr>world := w\<rparr>))"
    using warn run by (auto simp: wp_ret s statusOutcome_def [of t None] split: option.split)
qed

lemma wp_daskPhaseStatus:
  assumes s: "inst s = i" "calls s = c"
  shows "wp (daskPhaseStatus env t pods (HasUnschedulablePods pods) phase)
     (\<lambda>r u. calls u = c \<and> statusOutcome t (daskPhaseNext pods (failing env i (world s)) phase) i r (inst u)) s"
proof -
  obtain ps reason message where v: "HasUnschedulablePods pods = (ps, reason, message)" by (metis surj_pair)
  let ?R = "\<lambda>ty r u. calls u = c \<and> statusOutcome t (Some ty) i r (inst u)"
  have warn': "wp (logM env (\<lambda>clk st. LogWarning clk st r m)) (?R OperationWarning) s" for r m
    by (rule wp_LogWarning [where t = t]) (simp add: s)
  have start: "wp (bindG (logM env LogStarting) (\<lambda>_. ret True)) (?R OperationStarting) s"
    by (rule wp_start_true [where t = t]) (simp add: s)
  have succ: "wp (bindG (logM env LogSucceeded) (\<lambda>_.
      bindG (setStatus (\<lambda>st. st\<lparr>CompletionTime := Some t\<rparr>)) (\<lambda>_. ret True))) (?R OperationSucceeded) s"
    by (rule wp_succeed_true) (simp add: s)
  have fail: "wp (finishWith env t (\<lambda>clk st. LogFailed clk st r m)) (?R OperationFailed) s" for r m
    by (rule wp_finish_LogFailed) (simp add: s)
  consider "phase = DaskClusterCreated" | "phase = DaskClusterPending" | "phase = DaskClusterHealthChecking"
    | "phase = DaskClusterRunning" | "phase = DaskClusterCrashLoopBackOff" | "phase = DaskClusterSuccessful"
    | "phase = DaskClusterError"
    | "phase \<notin> {DaskClusterCreated, DaskClusterPending, DaskClusterHealthChecking, DaskClusterRunning,
         DaskClusterCrashLoopBackOff, DaskClusterSuccessful, DaskClusterError}"
    by blast
  then show ?thesis
  proof cases
    case 4
    with wp_daskRunning [OF s v] show ?thesis by (simp add: daskPhaseStatus_def v dask_phases)
  next
    case 8
    then show ?thesis
      using warn' by (auto simp: daskPhaseStatus_def v daskPhaseNext_def podWarning_def severeReason_def wp_ret s
          statusOutcome_def [of t None])
  qed (use start warn' succ fail in \<open>simp_all add: daskPhaseStatus_def v daskPhaseNext_def dask_phases Let_def\<close>)
qed

text \<open>C20: the decision table of \<open>reconcileDaskClusterStatus\<close>. For the pods and deployments listed at the time of the pass
  and the status of the Dask cluster, it does what the table \<open>daskNext\<close> says: nothing at all, or log a condition of that
  type; a final condition always ends the operation with the time of the pass. In particular a cluster that the Dask
  operator reports as running is running for the operation only when no deployment fails to create pods and the
  scheduler's container runs.\<close>

theorem reconcileDaskClusterStatus_spec:
  fixes env :: "(Cluster, 'w) clEnv"
  assumes reads: "readsStatus (clUns env) (daskFromUnstructured env) cluster status"
  shows "let (t, pods, w) = podsOf env s
   in wp (reconcileDaskClusterStatus env cluster)
        (\<lambda>r u. calls u = calls s \<and> (\<exists>b. r = Returns (b, None) \<and>
           statusOutcome t (daskNext pods (failing env (inst s) w) status) (inst s) (Returns b) (inst u))) s"
proof -
  obtain t pods w where p: "podsOf env s = (t, pods, w)" by (metis surj_pair)
  let ?Q = "\<lambda>r u. calls u = calls s \<and> (\<exists>b. r = Returns (b, None) \<and>
           statusOutcome t (daskNext pods (failing env (inst s) w) status) (inst s) (Returns b) (inst u))"
  have "wp (daskClusterStatus env t pods cluster) ?Q (s\<lparr>world := w\<rparr>)" if image: "GetInvalidImageName pods = None"
    using reads
  proof (cases rule: readsStatusE)
    case (2 m err x)
    have "wp (bindG (daskPhaseStatus env t pods (HasUnschedulablePods pods) (dkPhase x)) (\<lambda>updated. ret (updated, None))) ?Q (s\<lparr>world := w\<rparr>)"
      by (rule wp_pair) (use image 2 wp_daskPhaseStatus [of "s\<lparr>world := w\<rparr>" "inst s" "calls s"] in \<open>simp add: daskNext_def\<close>)
    with 2 show ?thesis by (simp add: daskClusterStatus_def)
  qed (use image in \<open>simp add: daskClusterStatus_def daskNext_def wp_ret statusOutcome_def ex_bool_eq\<close>)
  then have "wp (reconcileDaskClusterStatus env cluster) ?Q s"
    unfolding reconcileDaskClusterStatus_def by (intro wp_statusOfPods [OF p]) (simp_all add: daskNext_def ex_bool_eq)
  then show ?thesis by (simp add: p)
qed

definition rayNext :: "Pod list \<Rightarrow> RayClusterStatus option \<Rightarrow> OperationConditionType option" where
  "rayNext pods status =
     (if GetInvalidImageName pods \<noteq> None then Some OperationFailed
      else if podWarning pods then Some OperationWarning
      else Option.bind status (\<lambda>st.
        if IsSuspended st then Some OperationWarning
        else if HasReplicaFailure st then Some OperationFailed
        else if IsHeadPodReady st then Some (if IsProvisioned st then OperationRunning else OperationWarning)
        else None))"

lemma wp_rayConditionsStatus:
  assumes s: "inst s = i" "calls s = c" and pods: "GetInvalidImageName pods = None" "\<not> podWarning pods"
  shows "wp (rayConditionsStatus env t (HasUnschedulablePods pods) st)
     (\<lambda>r u. calls u = c \<and> statusOutcome t (rayNext pods (Some st)) i r (inst u)) s"
proof -
  let ?R = "\<lambda>ty r u. calls u = c \<and> statusOutcome t (Some ty) i r (inst u)"
  have warn: "wp (logM env (\<lambda>clk st. LogWarning clk st r m)) (?R OperationWarning) s" for r m
    by (rule wp_LogWarning [where t = t]) (simp add: s)
  have run: "wp (bindG (logM env LogRunning) (\<lambda>_. ret True)) (?R OperationRunning) s"
    by (rule wp_run_true [where t = t]) (simp add: s)
  have fail: "wp (finishWith env t (\<lambda>clk st. LogFailed clk st r m)) (?R OperationFailed) s" for r m
    by (rule wp_finish_LogFailed) (simp add: s)
  from warn run fail show ?thesis
    by (auto simp: rayConditionsStatus_def rayNext_def pods wp_ret s statusOutcome_def [of t None] Let_def split: prod.split)
qed

text \<open>C21: the decision table of \<open>reconcileRayClusterStatus\<close>, as for Dask. A pod with a problem comes before everything the
  Ray operator says, and of what it says only the four conditions count, never the state.\<close>

theorem reconcileRayClusterStatus_spec:
  fixes env :: "(Cluster, 'w) clEnv"
  assumes reads: "readsStatus (clUns env) (rayFromUnstructured env) job status"
  shows "let (t, pods, w) = podsOf env s
   in wp (reconcileRayClusterStatus env job)
        (\<lambda>r u. calls u = calls s \<and> (\<exists>b. r = Returns (b, None) \<and>
           statusOutcome t (rayNext pods status) (inst s) (Returns b) (inst u))) s"
proof -
  obtain t pods w where p: "podsOf env s = (t, pods, w)" by (metis surj_pair)
  obtain ps reason message where v: "HasUnschedulablePods pods = (ps, reason, message)" by (metis surj_pair)
  let ?Q = "\<lambda>r u. calls u = calls s \<and> (\<exists>b. r = Returns (b, None) \<and>
           statusOutcome t (rayNext pods status) (inst s) (Returns b) (inst u))"
  have "wp (rayClusterStatus env t pods job) ?Q (s\<lparr>world := w\<rparr>)" if image: "GetInvalidImageName pods = None"
  proof (cases "podWarning pods")
    case True
    have "wp (bindG (logM env (\<lambda>clk st. LogWarning clk st reason message)) (\<lambda>updated. ret (updated, None))) ?Q (s\<lparr>world := w\<rparr>)"
      by (rule wp_pair, rule wp_LogWarning [where t = t]) (simp add: rayNext_def image True)
    with True show ?thesis by (simp add: rayClusterStatus_def v podWarning_def Let_def split: prod.split)
  next
    case False
    with v have ps: "ps \<noteq> OperationWarning" by (simp add: podWarning_def)
    from reads show ?thesis
    proof (cases rule: readsStatusE)
      case (2 m err x)
      have "wp (bindG (rayConditionsStatus env t (HasUnschedulablePods pods) x) (\<lambda>updated. ret (updated, None))) ?Q (s\<lparr>world := w\<rparr>)"
        by (rule wp_pair) (use 2 wp_rayConditionsStatus [of "s\<lparr>world := w\<rparr>" "inst s" "calls s", OF _ _ image False] in simp)
      with 2 ps show ?thesis by (simp add: rayClusterStatus_def v)
    qed (use image ps False in \<open>simp add: rayClusterStatus_def v rayNext_def wp_ret statusOutcome_def ex_bool_eq\<close>)
  qed
  then have "wp (reconcileRayClusterStatus env job) ?Q s"
    unfolding reconcileRayClusterStatus_def by (intro wp_statusOfPods [OF p]) (simp_all add: rayNext_def ex_bool_eq)
  then show ?thesis by (simp add: p)
qed

section \<open>Clusters that are gone\<close>

lemma wp_reconcileCl_missing:
  assumes "generate (inst s) = Some (Inr g)" "setControllerReference (clObjs env kind) (inst s) g = Inr job"
    and "oGet (clObjs env kind) (opNamespace (inst s), opName (inst s)) (world s) = (Inl (NotFound m), w)"
    and "\<And>update. wp (missingCl env kind goneReason gone createReason job update) Q (s\<lparr>world := w\<rparr>)"
  shows "wp (reconcileCl env apiVersion kind goneReason gone createReason terminal status generate) Q s"
  using assms by (simp add: reconcileCl_def objGet_def wp_simps Let_def)

lemma wp_missingCl_stopped:
  assumes "\<not> IsDone (opStatus (inst s))" "Conditions (opStatus (inst s)) \<noteq> []"
    and "\<And>clk w. wp (publishStatus env) Q
       (s\<lparr>world := w, inst := (inst s)\<lparr>opStatus := fst (LogStopped clk (opStatus (inst s)) goneReason gone)\<rparr>\<rparr>)"
  shows "wp (missingCl env kind goneReason gone createReason job update) Q s"
  using assms by (auto simp: missingCl_def wp_simps log_methods logCondition_final intro!: wp_logM)

lemma Cluster_Reconcile_done_untimed:
  assumes "finalizer_laws env" "getInstance env req (world s) = (Inr i, w)" "StartTime (opStatus i) \<noteq> None"
    and "\<not> IsOperationBeingDeleted i" "IsDone (opStatus i)" "opFinalizers i = []"
    and "TTLSecondsAfterFinished (opTermination i) = Ptr a n" "CompletionTime (opStatus i) = None"
    and "clDaskClusterSpec i \<noteq> None \<or> clRayClusterSpec i \<noteq> None"
  shows "fst (Cluster_Reconcile env req s) = Panics ''nil pointer dereference''"
  unfolding Cluster_Reconcile_def
  by (rule cluster_controller.done_untimed [OF assms(1-6)])
     (use assms(7-9) in \<open>auto simp: cl_cleanup_defs bindG_def readS_def handleTTL_untimed\<close>)

text \<open>The calls that a pass makes for a cluster that is gone.\<close>

definition publishOnly :: "call list \<Rightarrow> bool" where
  "publishOnly cs \<longleftrightarrow> (\<exists>st report. cs = CStatusUpdate st None # report \<and> list_all (\<lambda>c. \<not> isCreateCall c) report)"

text \<open>C19: a Dask or Ray cluster that is deleted under an operation with a time to live makes the operator panic for good. The
  pass that misses the cluster never creates it again; it publishes \<open>Stopped\<close> and leaves the completion time unset, where
  the other controllers set it. Every later pass takes the operation for done and dereferences the missing completion
  time, so that it is never cleaned up.\<close>

theorem cluster_deleted_then_cleanup_panics:
  fixes env :: "(Cluster, 'w) clEnv"
  assumes accepts: "\<And>i w. \<exists>w'. updateInstanceStatus env i w = (Inr i, w')"
    and generated: "generate (inst s) = Some (Inr g)" "setControllerReference (clObjs env kind) (inst s) g = Inr job"
    and missing: "oGet (clObjs env kind) (opNamespace (inst s), opName (inst s)) (world s) = (Inl (NotFound m), w)"
    and running: "\<not> IsDone (opStatus (inst s))" "Conditions (opStatus (inst s)) \<noteq> []"
      "StartTime (opStatus (inst s)) \<noteq> None" "CompletionTime (opStatus (inst s)) = None"
    and ttl: "TTLSecondsAfterFinished (opTermination (inst s)) = Ptr a n"
    and free: "\<not> IsOperationBeingDeleted (inst s)" "opFinalizers (inst s) = []"
    and spec: "clDaskClusterSpec (inst s) \<noteq> None \<or> clRayClusterSpec (inst s) \<noteq> None"
  shows "wp (reconcileCl env apiVersion kind goneReason gone createReason terminal status generate)
    (\<lambda>r u. r = Returns None \<and> IsStopped (opStatus (inst u)) \<and> (\<exists>new. calls u = calls s @ new \<and> publishOnly new) \<and>
      (\<forall>(env' :: (Cluster, 'w) clEnv) req s' w'. finalizer_laws env' \<longrightarrow>
         getInstance env' req (world s') = (Inr (inst u), w') \<longrightarrow>
         fst (Cluster_Reconcile env' req s') = Panics ''nil pointer dereference'')) s"
proof (rule wp_reconcileCl_missing [where s = s and generate = generate, OF generated missing], rule wp_missingCl_stopped)
  define L where "L j \<longleftrightarrow> (\<forall>(env' :: (Cluster, 'w) clEnv) req s' w'. finalizer_laws env' \<longrightarrow>
      getInstance env' req (world s') = (Inr j, w') \<longrightarrow>
      fst (Cluster_Reconcile env' req s') = Panics ''nil pointer dereference'')" for j
  fix update clk v
  let ?j = "(inst s)\<lparr>opStatus := fst (LogStopped clk (opStatus (inst s)) goneReason gone)\<rparr>"
  have later: "L ?j"
    unfolding L_def
    by (intro allI impI, rule Cluster_Reconcile_done_untimed [where a = a and n = n], assumption, assumption)
       (use running ttl free spec in \<open>simp_all add: IsOperationBeingDeleted_def\<close>)
  have no: "updateInstanceStatus env i x \<noteq> (Inl e, x')" for i x e x' using accepts [of i x] by auto
  have yes: "j = i" if "updateInstanceStatus env i x = (Inr j, x')" for i j x x' using accepts [of i x] that by auto
  show "wp (publishStatus env)
     (\<lambda>r u. r = Returns None \<and> IsStopped (opStatus (inst u)) \<and> (\<exists>new. calls u = calls s @ new \<and> publishOnly new) \<and>
        (\<forall>(env' :: (Cluster, 'w) clEnv) req s' w'. finalizer_laws env' \<longrightarrow>
         getInstance env' req (world s') = (Inr (inst u), w') \<longrightarrow>
         fst (Cluster_Reconcile env' req s') = Panics ''nil pointer dereference''))
     (s\<lparr>world := w, world := v, inst := (inst (s\<lparr>world := w\<rparr>))\<lparr>opStatus :=
        fst (LogStopped clk (opStatus (inst (s\<lparr>world := w\<rparr>))) goneReason gone)\<rparr>\<rparr>)"
    using later unfolding L_def [symmetric]
    by (intro wp_publishStatus) (auto simp: no publishOnly_def LogStopped_stopped dest!: yes)
qed (use running in simp_all)

text \<open>An environment in which no Dask cluster exists and none can be created.\<close>

definition daskCreateFails :: "(Cluster, 'w) clEnv \<Rightarrow> error \<Rightarrow> bool" where
  "daskCreateFails env e \<longleftrightarrow>
     unstructured_laws (clUns env) \<and> (\<forall>spec. \<exists>m. daskToUnstructured env spec = Inr m) \<and>
     (\<forall>i job. \<exists>job'. setControllerReference (clObjs env DaskClusterKind) i job = Inr job') \<and>
     (\<forall>k w. \<exists>m w'. oGet (clObjs env DaskClusterKind) k w = (Inl (NotFound m), w')) \<and>
     (\<forall>job w. \<exists>w'. oCreate (clObjs env DaskClusterKind) job w = (Some e, w')) \<and>
     (\<forall>i w. \<exists>w'. updateInstanceStatus env i w = (Inr i, w'))"

lemma daskCreateFails_generates:
  assumes "daskCreateFails env e" "clDaskClusterSpec i \<noteq> None"
  obtains g where "generatedDaskCluster env i = Some (Inr g)"
proof -
  obtain spec where spec: "clDaskClusterSpec i = Some spec" using assms(2) by auto
  let ?spec = "generateClusterSpec (daskReplica spec DaskReplicaTypeWorker) (daskReplica spec DaskReplicaTypeScheduler)
      (dkService spec) (opLabels i) (opAnnotations i)"
  obtain m where "daskToUnstructured env ?spec = Inr m" using assms(1) unfolding daskCreateFails_def by blast
  moreover have "setNestedField (clUns env) obj v f = (fmupd f v obj, None)" for obj v f
    using assms(1) by (simp add: daskCreateFails_def unstructured_laws_def)
  ultimately show ?thesis
    using spec that by (simp add: generatedDaskCluster_def GenerateDaskCluster_def clusterObject_def Let_def)
qed

lemma wp_reconcileDaskCluster_missing:
  assumes fails: "daskCreateFails env e" and spec: "clDaskClusterSpec (inst s) \<noteq> None"
    and Q: "\<And>job w update. wp (missingCl env DaskClusterKind ''ClusterDeleted'' ''The underlying DaskCluster was deleted''
       ''OperatorCreateDaskCluster'' job update) Q (s\<lparr>world := w\<rparr>)"
  shows "wp (reconcileDaskCluster env) Q s"
proof -
  obtain g where g: "generatedDaskCluster env (inst s) = Some (Inr g)"
    by (rule daskCreateFails_generates [OF fails spec])
  obtain job where job: "setControllerReference (clObjs env DaskClusterKind) (inst s) g = Inr job"
    using fails unfolding daskCreateFails_def by blast
  obtain m w where "oGet (clObjs env DaskClusterKind) (opNamespace (inst s), opName (inst s)) (world s) = (Inl (NotFound m), w)"
    using fails unfolding daskCreateFails_def by blast
  from wp_reconcileCl_missing [where s = s and generate = "generatedDaskCluster env", OF g job this Q]
  show ?thesis by (simp add: reconcileDaskCluster_def)
qed

lemma wp_missingCl_createFails:
  assumes fails: "daskCreateFails env e" and s: "Conditions (opStatus (inst s)) = []"
    and Q: "\<And>clk w report. list_all (\<lambda>c. \<not> isCreateCall c) report \<Longrightarrow>
       Q (Returns (Some e)) (s\<lparr>inst := (inst s)\<lparr>opStatus := fst (LogWarning clk (opStatus (inst s)) reason (errorText e))\<rparr>,
          world := w, calls := calls s @ CCreate (KUnstructured DaskClusterKind) False # report\<rparr>)"
  shows "wp (missingCl env DaskClusterKind goneReason gone reason job update) Q s"
proof -
  obtain w where create: "oCreate (clObjs env DaskClusterKind) job (world s) = (Some e, w)"
    using fails unfolding daskCreateFails_def by blast
  have notDone: "\<not> IsDone (opStatus (inst s))" using s by (simp add: IsDone_holds holds_def)
  have changed: "snd (LogWarning clk (opStatus (inst s)) r m)" for clk r m
    using s by (simp add: log_methods logCondition_cases)
  have accepts: "\<exists>x'. updateInstanceStatus env i x = (Inr i, x')" for i x
    using fails unfolding daskCreateFails_def by blast
  have no: "updateInstanceStatus env i x \<noteq> (Inl e', x')" for i x e' x' using accepts [of i x] by auto
  have yes: "j = i" if "updateInstanceStatus env i x = (Inr j, x')" for i j x x' using accepts [of i x] that by auto
  have pub: "wp (publishStatus env) (\<lambda>r t. case r of
        Returns statusErr \<Rightarrow> wp (if statusErr \<noteq> None then ret statusErr else ret (Some e)) Q t
      | Panics p \<Rightarrow> Q (Panics p) t)
      (s\<lparr>calls := calls s @ [CCreate (KUnstructured DaskClusterKind) False], world := v,
         inst := (inst s)\<lparr>opStatus := fst (LogWarning clk (opStatus (inst s)) reason (errorText e))\<rparr>\<rparr>)" for clk v
    by (rule wp_publishStatus) (auto simp: no wp_simps dest!: yes intro: Q)
  show ?thesis
    by (simp add: missingCl_def objCreate_def wp_simps s notDone create)
       (rule wp_logM, simp add: changed wp_bindG, rule wp_mono [OF pub],
        auto simp: wp_ret split: outcome.splits if_splits)
qed

text \<open>a Dask cluster that cannot be created once is never created. The first failure is published as a warning; since
  every condition is taken for a sign that the cluster existed, the retry that the returned error asks for sends no
  second create but stops the operation as if its cluster had been deleted, again without a completion time.\<close>

theorem cluster_create_failure_not_retried:
  assumes "daskCreateFails env e" and "clDaskClusterSpec (inst s) \<noteq> None"
    and "Conditions (opStatus (inst s)) = []" and "CompletionTime (opStatus (inst s)) = None"
  shows "wp (bindG (reconcileDaskCluster env) (\<lambda>err. reconcileDaskCluster env))
    (\<lambda>r t. r = Returns None \<and> IsStopped (opStatus (inst t)) \<and> CompletionTime (opStatus (inst t)) = None \<and>
       cReason (last (Conditions (opStatus (inst t)))) = ''ClusterDeleted'' \<and>
       (\<exists>new. calls t = calls s @ new \<and> filter isCreateCall new = [CCreate (KUnstructured DaskClusterKind) False])) s"
proof -
  define Q where "Q = (\<lambda>r (t :: (Cluster, 'a) pass). r = Returns (None :: error option) \<and> IsStopped (opStatus (inst t)) \<and>
       CompletionTime (opStatus (inst t)) = None \<and>
       cReason (last (Conditions (opStatus (inst t)))) = ''ClusterDeleted'' \<and>
       (\<exists>new. calls t = calls s @ new \<and> filter isCreateCall new = [CCreate (KUnstructured DaskClusterKind) False]))"
  have none: "filter isCreateCall report = []" if "list_all (\<lambda>c. \<not> isCreateCall c) report" for report
    using that by (simp add: filter_empty_conv list_all_iff)
  have accepts: "\<exists>x'. updateInstanceStatus env i x = (Inr i, x')" for i x
    using assms(1) unfolding daskCreateFails_def by blast
  have no: "updateInstanceStatus env i x \<noteq> (Inl e', x')" for i x e' x' using accepts [of i x] by auto
  have yes: "j = i" if "updateInstanceStatus env i x = (Inr j, x')" for i j x x' using accepts [of i x] that by auto
  have reason: "cReason (last (Conditions (fst (LogStopped clk st r m)))) = r" for clk st r m
    using logCondition_final [of OperationStopped clk st r m]
    by (simp add: log_methods logCondition_cases split: if_splits)
  have second: "wp (reconcileDaskCluster env) Q u"
    if u: "clDaskClusterSpec (inst u) \<noteq> None" "\<not> IsDone (opStatus (inst u))" "Conditions (opStatus (inst u)) \<noteq> []"
      "CompletionTime (opStatus (inst u)) = None"
      "calls u = calls s @ CCreate (KUnstructured DaskClusterKind) False # report" "list_all (\<lambda>c. \<not> isCreateCall c) report"
    for u report
    by (rule wp_reconcileDaskCluster_missing [OF assms(1) u(1)], rule wp_missingCl_stopped, simp add: u, simp add: u,
        rule wp_publishStatus)
       (use u(4-6) in \<open>auto simp: no Q_def LogStopped_stopped reason none dest!: yes\<close>)
  have "\<not> IsDone (opStatus (inst s))" using assms(3) by (simp add: IsDone_holds holds_def)
  then have "wp (bindG (reconcileDaskCluster env) (\<lambda>err. reconcileDaskCluster env)) Q s"
    unfolding wp_bindG
    by (intro wp_reconcileDaskCluster_missing [OF assms(1,2)] wp_missingCl_createFails [OF assms(1)])
       (use assms(2-4) in \<open>auto intro!: second\<close>)
  then show ?thesis by (simp add: Q_def)
qed

section \<open>Watches\<close>

lemma firstClusterOwner_find:
  "firstClusterOwner refs = map_option orName (List.find isClusterOwner refs)"
  by (induction refs) simp_all

text \<open>A member of the status has a new value, and not the empty one.\<close>

definition turned ::
  "(jobject \<Rightarrow> string list \<Rightarrow> string \<times> bool \<times> error option) \<Rightarrow> string \<Rightarrow> jobject \<Rightarrow> jobject \<Rightarrow> bool"
where
  "turned nestedString f a b \<longleftrightarrow>
     fst (nestedString a [''status'', f]) \<noteq> fst (nestedString b [''status'', f]) \<and> fst (nestedString b [''status'', f]) \<noteq> ''''"

lemma firstPolyaxonOwner_find:
  "firstPolyaxonOwner ns refs =
     (case List.find (\<lambda>r. orAPIVersion r = ''polyaxon.com/v1'' \<and> orKind r = ''Cluster'' \<and> orController r = Some True) refs of
        None \<Rightarrow> [] | Some r \<Rightarrow> [(ns, orName r)])"
  by (induction refs) simp_all

lemma mapClusterToRequestFunc_iff:
  "k \<in> set (mapClusterToRequestFunc obj) \<longleftrightarrow>
     (\<exists>r. List.find (\<lambda>r. orAPIVersion r = ''polyaxon.com/v1'' \<and> orKind r = ''Cluster'' \<and> orController r = Some True)
            (coOwnerReferences obj) = Some r \<and> k = (coNamespace obj, orName r))"
  by (cases "List.find (\<lambda>r. orAPIVersion r = ''polyaxon.com/v1'' \<and> orKind r = ''Cluster'' \<and> orController r = Some True)
      (coOwnerReferences obj)") (simp_all add: mapClusterToRequestFunc_def firstPolyaxonOwner_find)

lemma mapClusterObjectToRequest_iff:
  "(ns, name) \<in> set (mapClusterObjectToRequest obj) \<longleftrightarrow> name \<noteq> [] \<and> coNamespace obj = ns \<and>
     (case List.find isClusterOwner (coOwnerReferences obj) of
        Some r \<Rightarrow> orName r = name | None \<Rightarrow> map_of (coLabels obj) ''dask.org/cluster-name'' = Some name)"
  by (auto simp: mapClusterObjectToRequest_def clusterObjectName_def firstClusterOwner_find lookupZ_def Let_def
      daskClusterNameLabel_def split: option.splits if_splits)

lemma predClusterObject_iff: "predClusterObject obj \<longleftrightarrow> (\<exists>k. k \<in> set (mapClusterObjectToRequest obj))"
  by (auto simp: predClusterObject_def mapClusterObjectToRequest_def Let_def)

lemma clusterUpdateFunc_iff:
  "clusterUpdateFunc nestedString old new \<longleftrightarrow>
     coGeneration old \<noteq> coGeneration new \<or> \<not> isZeroTime (coDeletionTimestamp new) \<or>
     (\<exists>a b. coContent old = Some a \<and> coContent new = Some b \<and>
        (turned nestedString ''phase'' a b \<or> turned nestedString ''state'' a b))"
  by (cases "coContent old"; cases "coContent new") (simp_all add: clusterUpdateFunc_def turned_def Let_def)

section \<open>Witnesses\<close>

definition demoCluster :: "OperationCondition list \<Rightarrow> int32 ptr \<Rightarrow> Cluster" where
  "demoCluster cs ttl =
     \<lparr>opName = ''run'', opNamespace = ''ns'', opLabels = [(''app.kubernetes.io/instance'', ''uuid'')], opAnnotations = [],
      opFinalizers = [], opDeletionTimestamp = None,
      opTermination = demoTermination\<lparr>TTLSecondsAfterFinished := ttl\<rparr>,
      opCollectLogs = True, opSyncStatuses = True,
      opStatus = \<lparr>Conditions = cs, StartTime = Some 1, CompletionTime = None, LastReconcileTime = None\<rparr>,
      clDaskClusterSpec = Some demoDaskSpec, clRayClusterSpec = None\<rparr>"

definition demoClCond :: "OperationConditionType \<Rightarrow> OperationCondition" where
  "demoClCond t = \<lparr>cType = t, cStatus = ConditionTrue, cLastUpdateTime = 2, cLastTransitionTime = 2,
     cReason = ''OperatorController'', cMessage = ''''\<rparr>"

text \<open>A scheduler pod that runs.\<close>

definition demoScheduler :: Pod where
  "demoScheduler = \<lparr>podName = ''s'', podNamespace = ''ns'', podLabels = [(''dask.org/component'', ''scheduler'')],
     podOwnerReferences = [], podCreationTimestamp = 1,
     podSpec = \<lparr>Containers = [\<lparr>ctName = ''scheduler'', ctPorts = None, ctOther = ''''\<rparr>], RestartPolicy = '''', psOther = ''''\<rparr>,
     podPhase = ''Running'', podMessage = '''', podConditions = None, podInitContainerStatuses = [],
     podContainerStatuses = [\<lparr>csName = ''scheduler'',
       csState = \<lparr>stWaiting = None, stRunning = True, stTerminated = None\<rparr>,
       csLastTerminationState = \<lparr>stWaiting = None, stRunning = False, stTerminated = None\<rparr>,
       csReady = True, csRestartCount = 0\<rparr>]\<rparr>"

definition demoRayStatus :: "metav1_Condition list \<Rightarrow> RayClusterStatus" where
  "demoRayStatus cs = \<lparr>rsState = ''ready'', rsAvailableWorkerReplicas = 0, rsDesiredWorkerReplicas = 0,
     rsMinWorkerReplicas = 0, rsMaxWorkerReplicas = 0, rsLastUpdateTime = None, rsEndpoints = [],
     rsHead = \<lparr>hiPodIP = '''', hiServiceIP = ''''\<rparr>, rsReason = '''', rsObservedGeneration = 1, rsConditions = cs\<rparr>"

definition demoClEnv ::
  "Cluster \<Rightarrow> error option \<Rightarrow> string \<Rightarrow> metav1_Condition list \<Rightarrow> (Cluster, int) clEnv"
where
  "demoClEnv i createErr phase cs =
     (fixedApi (\<lambda>_. None) i (clEnv.fields (\<lambda>_. (fixedObjs None createErr)\<lparr>oUpdate := \<lambda>obj w. (Inl (OtherError ''refused''), w)\<rparr>)
        (\<lambda>ns sel w. (([], None), w)) plainUns (\<lambda>_. Inr fmempty) (\<lambda>_. Inr fmempty)
        (\<lambda>_. Inr \<lparr>dkPhase = phase\<rparr>) (\<lambda>_. Inr (demoRayStatus cs))))
     \<lparr>listPods := \<lambda>ns sel w. (([demoScheduler], None), w)\<rparr>"

lemma demoCl_laws [simp]:
  "finalizer_laws (demoClEnv i e phase cs)" "status_echo (demoClEnv i e phase cs)"
  "J i \<Longrightarrow> serves J (demoClEnv i e phase cs)"
  by (auto simp: demoClEnv_def finalizer_laws_def status_echo_def serves_def statusKept_def fixedApi_def)

lemma demoCl_fields [simp]:
  "getInstance (demoClEnv i e phase cs) k w = (Inr i, w)" "clUns (demoClEnv i e phase cs) = plainUns"
  "timeNow (demoClEnv i e phase cs) v = (v, v + 1)"
  "updateInstanceStatus (demoClEnv i e phase cs) j w = (Inr j, w)"
  "listPods (demoClEnv i e phase cs) ns sel w = (([demoScheduler], None), w)"
  "listDeployments (demoClEnv i e phase cs) ns sel w = (([], None), w)"
  "oGet (clObjs (demoClEnv i e phase cs) kind) k w = (Inl (NotFound ''not found''), w)"
  "oCreate (clObjs (demoClEnv i e phase cs) kind) obj w = (e, w)"
  "oUpdate (clObjs (demoClEnv i e phase cs) kind) obj w = (Inl (OtherError ''refused''), w)"
  "setControllerReference (clObjs (demoClEnv i e phase cs) kind) j obj = Inr obj"
  "daskToUnstructured (demoClEnv i e phase cs) spec = Inr fmempty"
  "daskFromUnstructured (demoClEnv i e phase cs) m = Inr \<lparr>dkPhase = phase\<rparr>"
  "rayFromUnstructured (demoClEnv i e phase cs) m = Inr (demoRayStatus cs)"
  by (simp_all add: demoClEnv_def fixedApi_def clEnv.defs fixedObjs_def)

lemma demoCluster_fields [simp]:
  "opNamespace (demoCluster cs ttl) = ''ns''" "opName (demoCluster cs ttl) = ''run''"
  "Conditions (opStatus (demoCluster cs ttl)) = cs" "CompletionTime (opStatus (demoCluster cs ttl)) = None"
  "StartTime (opStatus (demoCluster cs ttl)) = Some 1" "opFinalizers (demoCluster cs ttl) = []"
  "TTLSecondsAfterFinished (opTermination (demoCluster cs ttl)) = ttl"
  "clDaskClusterSpec (demoCluster cs ttl) = Some demoDaskSpec" "\<not> IsOperationBeingDeleted (demoCluster cs ttl)"
  by (simp_all add: demoCluster_def IsOperationBeingDeleted_def isZeroTime_def)

lemma demoCl_running [simp]:
  "\<not> IsDone (opStatus (demoCluster [] ttl))" "\<not> IsDone (opStatus (demoCluster [demoClCond OperationRunning] ttl))"
  by (auto simp: IsDone_holds holds_def isFinal_def demoClCond_def)

lemma demoCl_lawful: "clLawful (demoClEnv i e phase cs)"
  by (simp add: clLawful_def servesObjs_def plainUns_laws)

text \<open>A cluster with a status.\<close>

definition demoClFound :: jobject where
  "demoClFound = fmupd ''status'' (JMap fmempty) fmempty"

lemma demoCl_reads:
  "readsStatus (clUns (demoClEnv i e phase cs)) (daskFromUnstructured (demoClEnv i e phase cs)) demoClFound (Some \<lparr>dkPhase = phase\<rparr>)"
  "readsStatus (clUns (demoClEnv i e phase cs)) (rayFromUnstructured (demoClEnv i e phase cs)) demoClFound
     (Some (demoRayStatus cs))"
  by (simp_all add: readsStatus_def demoClFound_def plainUns_def)

lemma demoCl_pods: "podsOf (demoClEnv i e phase cs) (startPass i 10) = (10, [demoScheduler], 11)"
  by (simp add: podsOf_def startPass_def)

lemma demoScheduler_ok [simp]:
  "GetInvalidImageName [demoScheduler] = None" "isDaskSchedulerRunning [demoScheduler]" "\<not> podWarning [demoScheduler]"
  by code_simp+

theorem Cluster_Reconcile_safe_witness:
  "let i = demoCluster [demoClCond OperationRunning] NilPtr in clGood i \<and>
   (\<exists>res t. Cluster_Reconcile (demoClEnv i None ''Running'' []) (''ns'', ''run'') \<lparr>inst = i, world = 10, calls = []\<rparr> = (Returns res, t))"
proof -
  let ?i = "demoCluster [demoClCond OperationRunning] NilPtr"
  have g: "clGood ?i" by (simp add: clGood_def)
  from g Cluster_Reconcile_safe [OF demoCl_lawful demoCl_laws(3) [of clGood, OF g] demoCl_laws(2)]
  show ?thesis by (simp add: Let_def)
qed

theorem reconcileDaskClusterStatus_spec_witness:
  "let i = demoCluster [] NilPtr in
   wp (reconcileDaskClusterStatus (demoClEnv i None ''Running'' []) demoClFound)
     (\<lambda>r u. \<exists>b. r = Returns (b, None) \<and> logged 10 OperationRunning i b (inst u)) (startPass i 10)"
proof -
  let ?i = "demoCluster [] NilPtr"
  have "\<not> failing (demoClEnv ?i None ''Running'' []) ?i 11" by (simp add: failing_def)
  then have "daskNext [demoScheduler] (failing (demoClEnv ?i None ''Running'' []) ?i 11) (Some \<lparr>dkPhase = ''Running''\<rparr>) = Some OperationRunning"
    by (simp add: daskNext_def daskPhaseNext_def dask_phases del: GetInvalidImageName.simps)
  then show ?thesis
    using reconcileDaskClusterStatus_spec [OF demoCl_reads(1), of ?i None "''Running''" "[]" "startPass ?i 10"]
    by (simp add: demoCl_pods Let_def) (erule wp_mono, auto simp: startPass_def)
qed

theorem reconcileRayClusterStatus_spec_witness:
  "let i = demoCluster [] NilPtr;
       cs = [\<lparr>mcType = ''ReplicaFailure'', mcStatus = ConditionTrue, mcReason = ''FailedCreate'', mcMessage = ''quota''\<rparr>] in
   wp (reconcileRayClusterStatus (demoClEnv i None '''' cs) demoClFound)
     (\<lambda>r u. \<exists>b. r = Returns (b, None) \<and> logged 10 OperationFailed i b (inst u)) (startPass i 10)"
proof -
  let ?i = "demoCluster [] NilPtr"
  let ?cs = "[\<lparr>mcType = ''ReplicaFailure'', mcStatus = ConditionTrue, mcReason = ''FailedCreate'', mcMessage = ''quota''\<rparr>]"
  have "rayNext [demoScheduler] (Some (demoRayStatus ?cs)) = Some OperationFailed"
    by (simp add: rayNext_def IsSuspended_def HasReplicaFailure_def demoRayStatus_def del: GetInvalidImageName.simps)
  then show ?thesis
    using reconcileRayClusterStatus_spec [OF demoCl_reads(2), of ?i None "''''" ?cs "startPass ?i 10"]
    by (simp add: demoCl_pods Let_def) (erule wp_mono, auto simp: startPass_def)
qed

lemma demoCl_generates:
  assumes "clDaskClusterSpec j = Some spec"
  obtains g where "generatedDaskCluster (demoClEnv i e phase cs) j = Some (Inr g)"
  using assms that
  by (simp add: generatedDaskCluster_def GenerateDaskCluster_def clusterObject_def plainUns_def Let_def)

theorem cluster_deleted_then_cleanup_panics_witness:
  "let i = demoCluster [demoClCond OperationRunning] (Ptr 1 60); env = demoClEnv i None ''Running'' [] in
   \<exists>r u. reconcileDaskCluster env (startPass i 10) = (r, u) \<and>
     fst (Cluster_Reconcile (demoClEnv (inst u) None ''Running'' []) (''ns'', ''run'') (startPass (inst u) 20))
       = Panics ''nil pointer dereference''"
proof -
  let ?i = "demoCluster [demoClCond OperationRunning] (Ptr 1 60)"
  let ?E = "demoClEnv ?i None ''Running'' []"
  obtain g where g: "generatedDaskCluster ?E ?i = Some (Inr g)"
    by (rule demoCl_generates [OF demoCluster_fields(8)])
  obtain r u where u: "reconcileDaskCluster ?E (startPass ?i 10) = (r, u)" by (metis surj_pair)
  note th = cluster_deleted_then_cleanup_panics [where s = "startPass ?i 10" and env = ?E and
      generate = "generatedDaskCluster ?E" and g = g and job = g and kind = DaskClusterKind and m = "''not found''" and w = 10
      and a = 1 and n = 60 and apiVersion = DaskAPIVersion and goneReason = "''ClusterDeleted''"
      and gone = "''The underlying DaskCluster was deleted''" and createReason = "''OperatorCreateDaskCluster''"
      and terminal = "isDaskClusterInTerminalState ?E" and status = "reconcileDaskClusterStatus ?E"]
  have "wp (reconcileDaskCluster ?E) (\<lambda>r u. \<forall>(env' :: (Cluster, int) clEnv) req s' w'. finalizer_laws env' \<longrightarrow>
         getInstance env' req (world s') = (Inr (inst u), w') \<longrightarrow>
         fst (Cluster_Reconcile env' req s') = Panics ''nil pointer dereference'') (startPass ?i 10)"
    unfolding reconcileDaskCluster_def
    by (rule wp_mono [OF th]) (use g in \<open>simp_all add: startPass_def, blast?\<close>)
  from wpD [OF this u] have "fst (Cluster_Reconcile (demoClEnv (inst u) None ''Running'' []) (''ns'', ''run'') (startPass (inst u) 20))
      = Panics ''nil pointer dereference''"
    using demoCl_laws(1) demoCl_fields(1) by blast
  with u show ?thesis by (simp add: Let_def)
qed

theorem cluster_create_failure_not_retried_witness:
  "let i = demoCluster [] NilPtr; env = demoClEnv i (Some (OtherError ''quota'')) '''' [] in
   wp (bindG (reconcileDaskCluster env) (\<lambda>err. reconcileDaskCluster env))
    (\<lambda>r t. r = Returns None \<and> IsStopped (opStatus (inst t)) \<and> CompletionTime (opStatus (inst t)) = None \<and>
       cReason (last (Conditions (opStatus (inst t)))) = ''ClusterDeleted'' \<and>
       (\<exists>new. calls t = new \<and> filter isCreateCall new = [CCreate (KUnstructured DaskClusterKind) False])) (startPass i 10)"
proof -
  let ?i = "demoCluster [] NilPtr"
  let ?E = "demoClEnv ?i (Some (OtherError ''quota'')) '''' []"
  have f: "daskCreateFails ?E (OtherError ''quota'')" by (simp add: daskCreateFails_def plainUns_laws)
  show ?thesis
    using cluster_create_failure_not_retried [OF f, of "startPass ?i 10"] by (simp add: Let_def startPass_def)
qed

text \<open>Nested strings of a two-part path.\<close>

definition plainNestedString :: "jobject \<Rightarrow> string list \<Rightarrow> string \<times> bool \<times> error option" where
  "plainNestedString obj path =
     (case path of
        [f, g] \<Rightarrow>
          (case fmlookup obj f of
             Some (JMap m) \<Rightarrow> (case fmlookup m g of Some (JStr x) \<Rightarrow> (x, True, None) | _ \<Rightarrow> ('''', False, None))
           | _ \<Rightarrow> ('''', False, None))
      | _ \<Rightarrow> ('''', False, None))"

end
