(* ===== verification/Status_Machine.thy ===== *)
theory Status_Machine
  imports Conditions
begin

text \<open>
  The abstract specification of a status, and that \<^verbatim>\<open>api/v1/condition.go\<close> implements it.

  All that the controllers ever ask of a status is a function of its \<open>history\<close>: the condition types in the order in
  which they were last logged. The specification \<open>spec_step\<close> says how a history may change: one of the six types moves
  to the end. The refinement maps a status to the types of its conditions; reasons, messages and times are hidden.
\<close>

section \<open>Specification\<close>

type_synonym history = "OperationConditionType list"

definition recordType :: "OperationConditionType \<Rightarrow> history \<Rightarrow> history" where
  "recordType t h = filter (\<lambda>u. u \<noteq> t) h @ [t]"

inductive spec_step :: "history \<Rightarrow> history \<Rightarrow> bool" where
  record_type: "t \<in> set loggedTypes \<Longrightarrow> spec_step h (recordType t h)"
| hidden: "spec_step h h"

inductive_simps spec_step_iff: "spec_step h h'"

definition current :: "history \<Rightarrow> OperationConditionType option" where
  "current h = (if h = [] then None else Some (last h))"

definition specDone :: "history \<Rightarrow> bool" where
  "specDone h \<longleftrightarrow> list_ex isFinal h"

text \<open>What a controller does about an object that no longer exists: whether it counts as deleted, and whether the
  operation is done.\<close>

definition specDeleted :: "history \<Rightarrow> bool \<times> bool" where
  "specDeleted h =
     (\<not> specDone h \<and> current h \<in> {Some OperationRunning, Some OperationWarning}, specDone h)"

section \<open>Abstraction\<close>

definition historyOf :: "OperationStatus \<Rightarrow> history" where
  "historyOf s = condTypes (Conditions s)"

lemma condTypes_simps [simp]: "condTypes [] = []" "condTypes (cs @ ds) = condTypes cs @ condTypes ds"
  "condTypes (c # cs) = cType c # condTypes cs" "condTypes cs = [] \<longleftrightarrow> cs = []"
  by (simp_all add: condTypes_def)

lemma condTypes_filter: "condTypes (filter (\<lambda>c. cType c \<noteq> t) cs) = filter (\<lambda>u. u \<noteq> t) (condTypes cs)"
  by (induction cs) simp_all

lemma last_condTypes: "cs \<noteq> [] \<Longrightarrow> last (condTypes cs) = cType (last cs)"
  by (simp add: condTypes_def last_map)

lemma recordType_last:
  assumes "distinct h" "h \<noteq> []" "last h = t"
  shows "recordType t h = h"
proof -
  obtain ts where h: "h = ts @ [t]" using assms(2,3) by (metis append_butlast_last_id)
  with assms(1) have "filter (\<lambda>u. u \<noteq> t) ts = ts" by (intro filter_True) auto
  then show ?thesis by (simp add: recordType_def h)
qed

lemma recordType_new: "t \<notin> set h \<Longrightarrow> recordType t h = h @ [t]"
  by (auto simp: recordType_def intro!: filter_True)

text \<open>The functional refinement, once for all methods.\<close>

lemma abs_logCondition:
  assumes "distinct (historyOf s)"
  shows "historyOf (fst (logCondition clk s t r m)) = recordType t (historyOf s)"
proof (cases "snd (logCondition clk s t r m)")
  case True
  then show ?thesis
    by (auto simp: logCondition_cases historyOf_def recordType_def condTypes_filter split: if_splits)
next
  case False
  then have "fst (logCondition clk s t r m) = s" "Conditions s \<noteq> []" "cType (last (Conditions s)) = t"
    using status.log_unchanged [of clk s t r m "fst (logCondition clk s t r m)"]
    by (cases "logCondition clk s t r m"; auto)+
  then show ?thesis
    using recordType_last [OF assms, of t] by (simp add: historyOf_def last_condTypes)
qed

lemma abs_times [simp]: "historyOf (s\<lparr>StartTime := x\<rparr>) = historyOf s" "historyOf (s\<lparr>CompletionTime := x\<rparr>) = historyOf s"
  by (simp_all add: historyOf_def)

lemma status_wf_abs: "status_wf s \<Longrightarrow> distinct (historyOf s) \<and> set (historyOf s) \<subseteq> set loggedTypes"
  by (simp add: status_wf_def historyOf_def)

lemma status_step_abs: "status_step s t \<Longrightarrow> status_wf s \<Longrightarrow> spec_step (historyOf s) (historyOf t)"
  by (induction rule: status_step.induct)
     (auto dest!: status_wf_abs simp: log_methods MarkJobAsDeleted_eq abs_logCondition loggedTypes_def spec_step_iff)

lemma status_steps_abs: "status_step\<^sup>*\<^sup>* emptyStatus s \<Longrightarrow> spec_step\<^sup>*\<^sup>* [] (historyOf s)"
proof (induction rule: rtranclp_induct)
  case base
  then show ?case by (simp add: historyOf_def emptyStatus_def)
next
  case (step s t)
  then show ?case using status_step_abs [OF _ status_reached_wf] by (blast intro: rtranclp.rtrancl_into_rtrancl)
qed

section \<open>Every history is reached\<close>

text \<open>One step of the program for each type.\<close>

lemma status_step_logs:
  assumes "t \<in> set loggedTypes"
  shows "\<exists>r m. status_step s (fst (logCondition clk s t r m))"
proof -
  have "\<exists>r m. fst (logCondition clk s OperationWarning r m) = fst (LogWarning clk s ''r'' ''m'')"
    by (auto simp: LogWarning_def)
  with assms show ?thesis
    using status_step.intros(1-6) [of s clk] unfolding loggedTypes_def log_methods
    by (auto simp: Let_def; blast)
qed

lemma histories_reached:
  "distinct h \<Longrightarrow> set h \<subseteq> set loggedTypes \<Longrightarrow> \<exists>s. status_step\<^sup>*\<^sup>* emptyStatus s \<and> historyOf s = h"
proof (induction h rule: rev_induct)
  case Nil
  show ?case by (rule exI [of _ emptyStatus]) (simp add: historyOf_def emptyStatus_def)
next
  case (snoc t h)
  then obtain s where s: "status_step\<^sup>*\<^sup>* emptyStatus s" "historyOf s = h" by auto
  obtain r m where step: "status_step s (fst (logCondition (0, 0) s t r m))"
    using status_step_logs [of t s "(0, 0)"] snoc.prems(2) by auto
  have "historyOf (fst (logCondition (0, 0) s t r m)) = h @ [t]"
    using snoc.prems(1) s(2) by (subst abs_logCondition) (auto simp: recordType_new)
  with s step show ?case by (blast intro: rtranclp.rtrancl_into_rtrancl)
qed

section \<open>Observations\<close>

lemma last_observed:
  assumes "status_wf s"
  shows "hasLastOperationCondition s t \<longleftrightarrow> current (historyOf s) = Some t"
  using assms last_in_set [of "Conditions s"]
  by (auto simp: hasLastOperationCondition_def getLastEntityCondition_def current_def historyOf_def last_condTypes status_wf_def)

lemma holds_observed:
  assumes "\<forall>c \<in> set cs. cStatus c = ConditionTrue"
  shows "holds t cs \<longleftrightarrow> t \<in> set (condTypes cs)"
  using assms by (induction cs) (auto simp: holds_def)

lemma done_observed: "status_wf s \<Longrightarrow> IsDone s \<longleftrightarrow> specDone (historyOf s)"
  by (auto simp: IsDone_holds holds_observed status_wf_def specDone_def list_ex_iff historyOf_def)

lemma deleted_observed: "status_wf s \<Longrightarrow> ShouldMarkJobAsDeleted s = specDeleted (historyOf s)"
  by (auto simp: ShouldMarkJobAsDeleted_def specDeleted_def done_observed current_def historyOf_def last_condTypes Let_def)

section \<open>Properties\<close>

text \<open>C3: the status machine implements its specification, and nothing less. Every status the operator builds is in a
  history that the specification allows, and every question the code asks of it (is it starting, running, warned
  about, done, does a missing object count as deleted) is answered as the specification answers it of the history.
  Conversely each sequence of distinct types is the history of a status that the methods can build, so that the
  specification cannot be strengthened: any order is possible, a start after the end included.\<close>

theorem status_refines_history:
  "(status_step\<^sup>*\<^sup>* emptyStatus s \<longrightarrow>
      spec_step\<^sup>*\<^sup>* [] (historyOf s) \<and>
      (IsStarting s \<longleftrightarrow> current (historyOf s) = Some OperationStarting) \<and>
      (IsRunning s \<longleftrightarrow> current (historyOf s) = Some OperationRunning) \<and>
      (IsWarning s \<longleftrightarrow> current (historyOf s) = Some OperationWarning) \<and>
      (IsDone s \<longleftrightarrow> specDone (historyOf s)) \<and>
      ShouldMarkJobAsDeleted s = specDeleted (historyOf s)) \<and>
   historyOf ` {s. status_step\<^sup>*\<^sup>* emptyStatus s} = {h. distinct h \<and> set h \<subseteq> set loggedTypes}"
proof (intro conjI impI equalityI subsetI)
  assume s: "status_step\<^sup>*\<^sup>* emptyStatus s"
  then show "spec_step\<^sup>*\<^sup>* [] (historyOf s)" by (rule status_steps_abs)
  note wf = status_reached_wf [OF s]
  show "IsStarting s \<longleftrightarrow> current (historyOf s) = Some OperationStarting"
    "IsRunning s \<longleftrightarrow> current (historyOf s) = Some OperationRunning"
    "IsWarning s \<longleftrightarrow> current (historyOf s) = Some OperationWarning"
    by (simp_all add: IsStarting_def IsRunning_def IsWarning_def last_observed [OF wf])
  show "IsDone s \<longleftrightarrow> specDone (historyOf s)" "ShouldMarkJobAsDeleted s = specDeleted (historyOf s)"
    by (rule done_observed [OF wf], rule deleted_observed [OF wf])
next
  fix h assume "h \<in> historyOf ` {s. status_step\<^sup>*\<^sup>* emptyStatus s}"
  then show "h \<in> {h. distinct h \<and> set h \<subseteq> set loggedTypes}" by (auto dest!: status_reached_wf status_wf_abs)
next
  fix h :: history assume "h \<in> {h. distinct h \<and> set h \<subseteq> set loggedTypes}"
  then show "h \<in> historyOf ` {s. status_step\<^sup>*\<^sup>* emptyStatus s}" using histories_reached [of h] by auto
qed

theorem status_refines_history_witness:
  "let s = fst (LogWarning (2, 2) (fst (LogStarting (1, 1) emptyStatus)) ''r'' ''m'')
   in historyOf s = [OperationStarting, OperationWarning] \<and> IsWarning s \<and> \<not> IsDone s \<and>
      ShouldMarkJobAsDeleted s = (True, False)"
proof -
  let ?s = "fst (LogWarning (2, 2) (fst (LogStarting (1, 1) emptyStatus)) ''r'' ''m'')"
  have "status_step\<^sup>*\<^sup>* emptyStatus ?s"
    by (blast intro: rtranclp.rtrancl_into_rtrancl status_step.intros)
  moreover have "historyOf ?s = [OperationStarting, OperationWarning]"
    by (simp add: log_methods logCondition_cases emptyStatus_def historyOf_def)
  ultimately show ?thesis
    using status_refines_history [of ?s] by (simp add: Let_def current_def specDone_def specDeleted_def)
qed

end
