(* ===== verification/Virtual_Services.thy ===== *)
theory Virtual_Services
  imports Service_Controller Unstructured
begin

text \<open>
  Istio virtual services: \<^verbatim>\<open>internal/helpers/managers/istio.go\<close>, \<^verbatim>\<open>internal/controller/service/istio.go\<close> and the
  constants of \<^verbatim>\<open>internal/controller/service/kinds\<close>. The source says that the handler is optional and will be wired
  behind the Istio configuration; nothing calls it yet.

  The functions of the package \<open>unstructured\<close> that write lists at a path are the record \<open>sliceApi\<close>, with what is
  documented of them on a path of two fields as \<open>slice_laws\<close>.
\<close>

definition IstioAPIVersion :: string where
  "IstioAPIVersion = ''networking.istio.io/v1alpha3''"

definition IstioVirtualServiceKind :: string where
  "IstioVirtualServiceKind = ''VirtualService''"

definition DefaultServingPort :: int where
  "DefaultServingPort = 80"

definition DefaultTimeout :: string where
  "DefaultTimeout = ''300s''"

record sliceApi = unsApi +
  setNestedStringSlice :: "jobject \<Rightarrow> string list \<Rightarrow> string list \<Rightarrow> jobject \<times> error option"
  setNestedSlice :: "jobject \<Rightarrow> json list \<Rightarrow> string list \<Rightarrow> jobject \<times> error option"

section \<open>Builder and copier\<close>

definition CopyVirtualService :: "unsApi \<Rightarrow> jobject \<Rightarrow> jobject \<Rightarrow> jobject \<times> bool" where
  "CopyVirtualService u from to = CopyUnstructuredSpec u from to [''spec'']"

text \<open>An object literal.\<close>

definition jobj :: "(string \<times> json) list \<Rightarrow> json" where
  "jobj members = JMap (fmap_of_list members)"

definition routePath :: "string \<Rightarrow> string \<Rightarrow> string \<Rightarrow> string" where
  "routePath istioPrefix namespace name = ''/'' @ istioPrefix @ ''/'' @ namespace @ ''/'' @ name @ ''/''"

text \<open>The one element of \<open>.spec.http\<close>.\<close>

definition httpRoute :: "string \<Rightarrow> string \<Rightarrow> string \<Rightarrow> string \<Rightarrow> json" where
  "httpRoute prefix rewrite service timeout =
     jobj [(''match'', JList [jobj [(''uri'', jobj [(''prefix'', JStr prefix)])]]),
           (''rewrite'', jobj [(''uri'', JStr rewrite)]),
           (''route'', JList [jobj [(''destination'',
              jobj [(''host'', JStr service), (''port'', jobj [(''number'', JInt DefaultServingPort)])])]]),
           (''timeout'', JStr timeout)]"

definition setError :: "string \<Rightarrow> error \<Rightarrow> error" where
  "setError path e = OtherError (''set '' @ path @ '' error: '' @ errorText e)"

definition GenerateVirtualService :: "sliceApi \<Rightarrow> (string \<Rightarrow> string option) \<Rightarrow> string \<Rightarrow> string \<Rightarrow> error + jobject" where
  "GenerateVirtualService u env name namespace =
     (let istioPrefix = GetStrEnv env cfgIstioPrefix ''/'';
          prefix = routePath istioPrefix namespace name;
          rewrite = routePath istioPrefix namespace name;
          clusterDomain = GetStrEnv env cfgClusterDomain ''cluster.local'';
          service = name @ ''.'' @ namespace @ ''.svc.'' @ clusterDomain;
          vs = setNamespace u (setName u (setKind u (setAPIVersion u fmempty IstioAPIVersion) IstioVirtualServiceKind) name)
                 namespace;
          (vs, err) = setNestedStringSlice u vs [''*''] [''spec'', ''hosts'']
      in case err of
           Some e \<Rightarrow> Inl (setError ''.spec.hosts'' e)
         | None \<Rightarrow>
            (let istioGateway = GetStrEnv env cfgIstioGateway ''polyaxon/mloperator-gateway'';
                 (vs, err) = setNestedStringSlice u vs [istioGateway] [''spec'', ''gateways'']
             in case err of
                  Some e \<Rightarrow> Inl (setError ''.spec.gateways'' e)
                | None \<Rightarrow>
                   (let http = [httpRoute prefix rewrite service (GetStrEnv env cfgIstioTimeout DefaultTimeout)];
                        (vs, err) = setNestedSlice u vs http [''spec'', ''http'']
                    in case err of Some e \<Rightarrow> Inl (setError ''.spec.http'' e) | None \<Rightarrow> Inr vs)))"

section \<open>Handler\<close>

definition reconcileVirtualService ::
  "(Service, 'w) svcEnv \<Rightarrow> sliceApi \<Rightarrow> (Service, jobject, 'w) objApi \<Rightarrow> ((Service, 'w) pass, error option) go"
where
  "reconcileVirtualService env u objs =
     bindG (readS inst) (\<lambda>i.
       case GenerateVirtualService u (osEnv env) (opName i) (opNamespace i) of
         Inl e \<Rightarrow> ret (Some e)
       | Inr generated \<Rightarrow>
           (case setControllerReference objs i generated of
              Inl e \<Rightarrow> ret (Some e)
            | Inr virtualservice \<Rightarrow>
                bindG (objGet objs (opNamespace i, opName i)) (\<lambda>found.
                  case found of
                    Inl e \<Rightarrow>
                      if IsNotFound e then
                        if IsDone (opStatus i) then ret None
                        else bindG (objCreate objs KVirtualService virtualservice) (\<lambda>err.
                          case err of
                            Some e \<Rightarrow> warnCreate env ''OperatorCreateVirtualService'' e
                          | None \<Rightarrow> ret None)
                      else ret (Some e)
                  | Inr foundVirtualService \<Rightarrow>
                      (let (foundVirtualService, requireUpdate) =
                             CopyVirtualService (unsApi.truncate u) virtualservice foundVirtualService in
                       if requireUpdate then
                         bindG (objUpdate objs KVirtualService foundVirtualService) (\<lambda>(err, _). ret err)
                       else ret None))))"

section \<open>Properties\<close>

text \<open>What is documented of the writers of lists, for a path of two fields whose first is absent or an object.\<close>

definition slice_laws :: "sliceApi \<Rightarrow> bool" where
  "slice_laws u \<longleftrightarrow>
     (\<forall>obj m xs f g. fmlookup obj f = Some (JMap m) \<or> fmlookup obj f = None \<and> m = fmempty \<longrightarrow>
        setNestedStringSlice u obj xs [f, g] = (fmupd f (JMap (fmupd g (JList (map JStr xs)) m)) obj, None)) \<and>
     (\<forall>obj m xs f g. fmlookup obj f = Some (JMap m) \<or> fmlookup obj f = None \<and> m = fmempty \<longrightarrow>
        setNestedSlice u obj xs [f, g] = (fmupd f (JMap (fmupd g (JList xs) m)) obj, None))"

lemma slice_lawsD:
  assumes "slice_laws u"
  shows "fmlookup obj f = None \<Longrightarrow>
      setNestedStringSlice u obj xs [f, g] = (fmupd f (JMap (fmupd g (JList (map JStr xs)) fmempty)) obj, None)"
    and "setNestedStringSlice u (fmupd f (JMap m) obj) xs [f, g] = (fmupd f (JMap (fmupd g (JList (map JStr xs)) m)) obj, None)"
    and "setNestedSlice u (fmupd f (JMap m) obj) ys [f, g] = (fmupd f (JMap (fmupd g (JList ys) m)) obj, None)"
proof -
  have "fmlookup (fmupd f (JMap m) obj) f = Some (JMap m)" "fmupd f x (fmupd f y obj) = fmupd f x obj" for x y
    by (simp, rule fmap_ext) simp
  with assms show "fmlookup obj f = None \<Longrightarrow>
      setNestedStringSlice u obj xs [f, g] = (fmupd f (JMap (fmupd g (JList (map JStr xs)) fmempty)) obj, None)"
    "setNestedStringSlice u (fmupd f (JMap m) obj) xs [f, g] = (fmupd f (JMap (fmupd g (JList (map JStr xs)) m)) obj, None)"
    "setNestedSlice u (fmupd f (JMap m) obj) ys [f, g] = (fmupd f (JMap (fmupd g (JList ys) m)) obj, None)"
    unfolding slice_laws_def by metis+
qed

text \<open>The specification of a generated virtual service.\<close>

definition routeSpec :: "(string \<Rightarrow> string option) \<Rightarrow> string \<Rightarrow> string \<Rightarrow> jobject" where
  "routeSpec env name namespace =
     (let path = routePath (GetStrEnv env cfgIstioPrefix ''/'') namespace name
      in fmap_of_list
           [(''hosts'', JList [JStr ''*'']),
            (''gateways'', JList [JStr (GetStrEnv env cfgIstioGateway ''polyaxon/mloperator-gateway'')]),
            (''http'', JList [httpRoute path path
               (name @ ''.'' @ namespace @ ''.svc.'' @ GetStrEnv env cfgClusterDomain ''cluster.local'')
               (GetStrEnv env cfgIstioTimeout DefaultTimeout)])])"

lemma GenerateVirtualService_spec:
  assumes "unstructured_laws (unsApi.truncate u)" "slice_laws u"
  shows "\<exists>vs. GenerateVirtualService u env name namespace = Inr vs \<and>
    fmlookup vs ''spec'' = Some (JMap (routeSpec env name namespace))"
proof -
  let ?vs = "setNamespace u (setName u (setKind u (setAPIVersion u fmempty IstioAPIVersion) IstioVirtualServiceKind) name) namespace"
  have blank: "fmlookup ?vs ''spec'' = None"
    using assms(1) by (simp add: unstructured_laws_def isMetaField_def unsApi.truncate_def)
  have perm: "fmupd ''http'' c (fmupd ''gateways'' b (fmupd ''hosts'' a fmempty)) =
      fmap_of_list [(''hosts'', a), (''gateways'', b), (''http'', c)]" for a b c :: json
    by (rule fmap_ext) (auto simp: fmlookup_of_list)
  show ?thesis
    by (simp add: GenerateVirtualService_def slice_lawsD [OF assms(2)] blank Let_def routeSpec_def perm)
qed

text \<open>the virtual service of a service routes one path to it, by name and namespace, and rewrites that path to itself, so
  that the service sees the whole path. With the default prefix the path starts with three slashes.\<close>

theorem GenerateVirtualService_routes:
  assumes "unstructured_laws (unsApi.truncate u)" and "slice_laws u"
  shows "(\<exists>vs. GenerateVirtualService u env name namespace = Inr vs \<and>
      fmlookup vs ''spec'' = Some (JMap (routeSpec env name namespace))) \<and>
    routePath (GetStrEnv (env(cfgIstioPrefix := None)) cfgIstioPrefix ''/'') namespace name =
      ''///'' @ namespace @ ''/'' @ name @ ''/''"
  using GenerateVirtualService_spec [OF assms] by (simp_all add: GetStrEnv_def routePath_def)

definition routed :: "('i, 'w, 'm) api_scheme \<Rightarrow> Service \<Rightarrow> json" where
  "routed env i = JMap (routeSpec (osEnv env) (opName i) (opNamespace i))"

text \<open>the handler of virtual services on every branch. An object that is missing is created, unless the operation is done;
  a creation that fails is published as a warning and returned. One that is there is updated exactly when its
  specification is not the generated one, and the update sends the generated specification.\<close>

theorem reconcileVirtualService_spec:
  assumes laws: "unstructured_laws (unsApi.truncate u)" "slice_laws u"
    and ref: "\<And>i obj. \<exists>obj'. setControllerReference objs i obj = Inr obj' \<and> fmlookup obj' ''spec'' = fmlookup obj ''spec''"
  shows "wp (reconcileVirtualService env u objs) (\<lambda>r t. \<exists>new. calls t = calls s @ new \<and>
     (case oGet objs (opNamespace (inst s), opName (inst s)) (world s) of
        (Inr found, w) \<Rightarrow>
          (if fmlookup found ''spec'' = Some (routed env (inst s)) then new = [] \<and> r = Returns None
           else \<exists>ok. new = [CObjUpdate KVirtualService ok] \<and> (ok \<longleftrightarrow> r = Returns None) \<and>
             r = Returns (case fst (oUpdate objs (fmupd ''spec'' (routed env (inst s)) found) w) of Inl e \<Rightarrow> Some e | Inr _ \<Rightarrow> None))
      | (Inl e, w) \<Rightarrow>
          (if \<not> IsNotFound e then new = [] \<and> r = Returns (Some e)
           else if IsDone (opStatus (inst s)) then new = [] \<and> r = Returns None
           else \<exists>ok report. new = CCreate KVirtualService ok # report \<and> list_all isReportCall report \<and>
             (ok \<longrightarrow> report = [] \<and> r = Returns None) \<and> (\<not> ok \<longrightarrow> r \<noteq> Returns None)))) s"
proof -
  obtain vs where vs: "GenerateVirtualService u (osEnv env) (opName (inst s)) (opNamespace (inst s)) = Inr vs"
    "fmlookup vs ''spec'' = Some (routed env (inst s))"
    using GenerateVirtualService_spec [OF laws] unfolding routed_def by blast
  obtain obj where obj: "setControllerReference objs (inst s) vs = Inr obj" "fmlookup obj ''spec'' = Some (routed env (inst s))"
    using ref [of "inst s" vs] vs(2) by auto
  have copy: "CopyVirtualService (unsApi.truncate u) obj found =
      (fmupd ''spec'' (routed env (inst s)) found, fmlookup found ''spec'' \<noteq> Some (routed env (inst s)))" for found
    using CopyUnstructuredField_map [OF laws(1), of obj "''spec''" _ found] obj(2)
    by (simp add: CopyVirtualService_def CopyUnstructuredSpec_def routed_def)
  have warn: "wp (warnCreate env reason e) (\<lambda>r t. (\<exists>report. calls t = calls v @ report \<and> list_all isReportCall report) \<and>
      r \<noteq> Returns None) v" for reason e v
  proof -
    have "tracks (emits isReportCall) (warnCreate env reason e)"
      unfolding warnCreate_def by (intro track_intros) (simp_all add: isReportCall_def)
    then have "wp (warnCreate env reason e) (\<lambda>r t. emits isReportCall v t) v" by (rule tracks_wp)
    moreover have "wp (bindG m (\<lambda>statusErr. if statusErr \<noteq> None then ret statusErr else ret (Some e)))
        (\<lambda>r t. r \<noteq> Returns None) u" for u and m :: "((Service, 'a) pass, error option) go"
      by (auto simp: wp_def bindG_def ret_def split: prod.splits outcome.splits if_splits)
    then have "wp (warnCreate env reason e) (\<lambda>r t. r \<noteq> Returns None) v"
      unfolding warnCreate_def wp_bindG [of "logM env f" for f] by (intro wp_logM) (simp only: outcome.case)
    ultimately show ?thesis unfolding emits_def by (rule wp_conj)
  qed
  show ?thesis
    by (auto simp: reconcileVirtualService_def vs obj copy objGet_def objCreate_def objUpdate_def wp_simps
        split: prod.split sum.split option.split elim!: wp_mono intro!: wp_mono [OF warn])
qed

section \<open>Witnesses\<close>

definition setAtPath :: "jobject \<Rightarrow> json \<Rightarrow> string list \<Rightarrow> jobject \<times> error option" where
  "setAtPath obj v path =
     (case path of
        [f, g] \<Rightarrow>
          (case fmlookup obj f of
             None \<Rightarrow> (fmupd f (JMap (fmupd g v fmempty)) obj, None)
           | Some (JMap m) \<Rightarrow> (fmupd f (JMap (fmupd g v m)) obj, None)
           | Some _ \<Rightarrow> (obj, Some (OtherError ''not a map'')))
      | _ \<Rightarrow> (obj, Some (OtherError ''path'')))"

definition plainSlices :: sliceApi where
  "plainSlices = unsApi.extend plainUns
     (sliceApi.fields (\<lambda>obj xs path. setAtPath obj (JList (map JStr xs)) path) (\<lambda>obj xs path. setAtPath obj (JList xs) path))"

lemma plainSlices_laws: "unstructured_laws (unsApi.truncate plainSlices)" "slice_laws plainSlices"
proof -
  have "unsApi.truncate plainSlices = plainUns"
    by (simp add: plainSlices_def unsApi.truncate_def unsApi.extend_def sliceApi.fields_def)
  then show "unstructured_laws (unsApi.truncate plainSlices)" by (simp add: plainUns_laws)
  show "slice_laws plainSlices"
    by (auto simp: slice_laws_def plainSlices_def setAtPath_def unsApi.extend_def sliceApi.fields_def)
qed

theorem GenerateVirtualService_routes_witness:
  "\<exists>vs. GenerateVirtualService plainSlices (\<lambda>_. None) ''web'' ''ns'' = Inr vs \<and>
     fmlookup vs ''spec'' = Some (JMap (routeSpec (\<lambda>_. None) ''web'' ''ns''))"
  using GenerateVirtualService_routes [OF plainSlices_laws, of "\<lambda>_. None" "''web''" "''ns''"] by blast

theorem reconcileVirtualService_spec_witness:
  "let i = demoService [] None [] NilPtr; objs = fixedObjs None None; s = startPass i 10
   in calls (snd (reconcileVirtualService (demoSvcEnv i) plainSlices objs s)) = [CCreate KVirtualService True] \<or>
      (\<exists>report. calls (snd (reconcileVirtualService (demoSvcEnv i) plainSlices objs s)) = CCreate KVirtualService False # report)"
proof -
  let ?i = "demoService [] None [] NilPtr" and ?objs = "fixedObjs None None :: (Service, jobject, int) objApi"
  have ref: "\<exists>obj'. setControllerReference ?objs i obj = Inr obj' \<and> fmlookup obj' ''spec'' = fmlookup obj ''spec''" for i obj
    by (simp add: fixedObjs_def)
  have "\<not> IsDone (opStatus ?i)" by (simp add: demoService_def IsDone_holds holds_def)
  then show ?thesis
    using reconcileVirtualService_spec [OF plainSlices_laws ref, of "demoSvcEnv ?i" "startPass ?i 10"]
    by (auto simp: wp_def case_prod_beta startPass_def fixedObjs_def)
qed

end
