(* ===== verification/Metrics.thy ===== *)
theory Metrics
  imports Kubeflow Dask_Ray
begin

text \<open>
  The metrics of the operator: \<^verbatim>\<open>internal/helpers/plugins/metrics.go\<close>. The program does not create them
  (\<open>NewMetrics\<close> has no caller).

  A vector of Prometheus has a name and a value for each namespace that was ever set. The values are \<open>float64\<close> in
  the source; they count objects, so that integers are exact up to \<open>2 ^ 53\<close> objects in a namespace. The lists that
  the client returns are arguments. \<open>Describe\<close> sends the descriptions of the vectors, \<open>Collect\<close> their values; the
  channel is the list of what is sent.
\<close>

record metricVec =
  vecName :: string
  vecHelp :: string
  vecValues :: "(string \<times> int) list"

record Metrics =
  JobsRunning :: metricVec
  JobsCreated :: metricVec
  JobsFailedCreated :: metricVec
  ServicesRunning :: metricVec
  ServicesCreated :: metricVec
  ServicesFailedCreated :: metricVec
  ClustersRunning :: metricVec
  ClustersCreated :: metricVec
  ClustersFailedCreated :: metricVec
  KfJobsRunning :: metricVec
  KfJobsCreated :: metricVec
  KfJobsFailedCreated :: metricVec

definition newVec :: "string \<Rightarrow> string \<Rightarrow> metricVec" where
  "newVec name help = \<lparr>vecName = name, vecHelp = help, vecValues = []\<rparr>"

definition NewMetrics :: Metrics where
  "NewMetrics =
     \<lparr>JobsRunning = newVec ''jobs_running'' ''Current running jobs in the cluster'',
      JobsCreated = newVec ''jobs_created'' ''Total number of jobs created'',
      JobsFailedCreated = newVec ''jobs_create_failed_total'' ''Total number of jobs creation failures'',
      ServicesRunning = newVec ''services_running'' ''Current running services in the cluster'',
      ServicesCreated = newVec ''services_created'' ''Total number of services created'',
      ServicesFailedCreated = newVec ''services_create_failed_total'' ''Total number of services creation failures'',
      ClustersRunning = newVec ''clusters_running'' ''Current running clusters in the cluster'',
      ClustersCreated = newVec ''clusters_created'' ''Total number of clusters created'',
      ClustersFailedCreated = newVec ''clusters_create_failed_total'' ''Total number of clusters creation failures'',
      KfJobsRunning = newVec ''kfjobs_running'' ''Current running kfjobs in the cluster'',
      KfJobsCreated = newVec ''kfjobs_created'' ''Total number of kfjobs created'',
      KfJobsFailedCreated = newVec ''kfjobs_create_failed_total'' ''Total number of kfjobs creation failures''\<rparr>"

text \<open>The vectors in the order in which both methods go through them.\<close>

definition vectors :: "Metrics \<Rightarrow> metricVec list" where
  "vectors m =
     [JobsRunning m, JobsCreated m, JobsFailedCreated m, ServicesRunning m, ServicesCreated m, ServicesFailedCreated m,
      ClustersRunning m, ClustersCreated m, ClustersFailedCreated m, KfJobsRunning m, KfJobsCreated m, KfJobsFailedCreated m]"

definition Describe :: "Metrics \<Rightarrow> (string \<times> string) list" where
  "Describe m = map (\<lambda>v. (vecName v, vecHelp v)) (vectors m)"

section \<open>Scraping\<close>

text \<open>The loop that counts the items of a list by namespace.\<close>

fun countNs :: "(string \<times> int) list \<Rightarrow> 'a operation_scheme list \<Rightarrow> (string \<times> int) list" where
  "countNs stsCache [] = stsCache"
| "countNs stsCache (item # rest) =
     countNs (dictPut (opNamespace item)
       ((case map_of stsCache (opNamespace item) of None \<Rightarrow> 0 | Some n \<Rightarrow> n) + 1) stsCache) rest"

text \<open>The loop that sets the value of each counted namespace.\<close>

definition setRunning :: "(string \<times> int) list \<Rightarrow> metricVec \<Rightarrow> metricVec" where
  "setRunning stsCache v = v\<lparr>vecValues := dictCopy stsCache (vecValues v)\<rparr>"

definition scrapeJob :: "error + Job list \<Rightarrow> Metrics \<Rightarrow> Metrics" where
  "scrapeJob jobs m =
     (case jobs of Inl err \<Rightarrow> m | Inr items \<Rightarrow> m\<lparr>JobsRunning := setRunning (countNs [] items) (JobsRunning m)\<rparr>)"

definition scrapeService :: "error + Service list \<Rightarrow> Metrics \<Rightarrow> Metrics" where
  "scrapeService services m =
     (case services of Inl err \<Rightarrow> m
      | Inr items \<Rightarrow> m\<lparr>ServicesRunning := setRunning (countNs [] items) (ServicesRunning m)\<rparr>)"

definition scrapeCluster :: "error + Cluster list \<Rightarrow> Metrics \<Rightarrow> Metrics" where
  "scrapeCluster clusters m =
     (case clusters of Inl err \<Rightarrow> m
      | Inr items \<Rightarrow> m\<lparr>ClustersRunning := setRunning (countNs [] items) (ClustersRunning m)\<rparr>)"

definition scrapeKfJob :: "error + KfJob list \<Rightarrow> Metrics \<Rightarrow> Metrics" where
  "scrapeKfJob kfjobs m =
     (case kfjobs of Inl err \<Rightarrow> m
      | Inr items \<Rightarrow> m\<lparr>KfJobsRunning := setRunning (countNs [] items) (KfJobsRunning m)\<rparr>)"

definition scrape ::
  "error + Job list \<Rightarrow> error + Service list \<Rightarrow> error + Cluster list \<Rightarrow> error + KfJob list \<Rightarrow> Metrics \<Rightarrow> Metrics"
where
  "scrape jobs services clusters kfjobs m =
     scrapeKfJob kfjobs (scrapeCluster clusters (scrapeService services (scrapeJob jobs m)))"

definition Collect_metrics ::
  "error + Job list \<Rightarrow> error + Service list \<Rightarrow> error + Cluster list \<Rightarrow> error + KfJob list \<Rightarrow> Metrics \<Rightarrow>
   (string \<times> (string \<times> int) list) list \<times> Metrics"
where
  "Collect_metrics jobs services clusters kfjobs m =
     (let m' = scrape jobs services clusters kfjobs m in (map (\<lambda>v. (vecName v, vecValues v)) (vectors m'), m'))"

section \<open>Properties\<close>

definition itemsIn :: "string \<Rightarrow> 'a operation_scheme list \<Rightarrow> int" where
  "itemsIn ns items = int (length (filter (\<lambda>i. opNamespace i = ns) items))"

lemma map_of_countNs:
  "map_of (countNs c items) ns =
     (if itemsIn ns items = 0 then map_of c ns
      else Some ((case map_of c ns of None \<Rightarrow> 0 | Some n \<Rightarrow> n) + itemsIn ns items))"
  by (induction items arbitrary: c) (auto simp: itemsIn_def split: option.split)

lemma distinct_countNs: "distinct (map fst c) \<Longrightarrow> distinct (map fst (countNs c items))"
  by (induction items arbitrary: c) (simp_all add: distinct_dictPut)

text \<open>The value of a namespace after a scrape that listed \<open>items\<close>, and its value before.\<close>

definition scraped :: "error + 'a operation_scheme list \<Rightarrow> string \<Rightarrow> int option \<Rightarrow> int option" where
  "scraped items ns old =
     (case items of Inl err \<Rightarrow> old | Inr xs \<Rightarrow> if itemsIn ns xs = 0 then old else Some (itemsIn ns xs))"

lemma scraped_value:
  "map_of (vecValues (case items of Inl err \<Rightarrow> v | Inr xs \<Rightarrow> setRunning (countNs [] xs) v)) ns =
   scraped items ns (map_of (vecValues v) ns)"
  by (auto simp: scraped_def setRunning_def map_of_dictCopy distinct_countNs map_add_def map_of_countNs
      split: sum.split option.split)

text \<open>C39: what the metrics show. After a scrape the value of a namespace is the number of all its objects of that kind,
  finished ones included, although the metric counts running ones; when a list fails, or when the last object of a
  namespace is gone, the value stays what it was before. The counters of created objects and of failures are never
  touched. The twelve names are distinct, so that registering them cannot panic.\<close>

theorem metrics_values:
  fixes m :: Metrics and jobs services clusters kfjobs
  defines "m' \<equiv> snd (Collect_metrics jobs services clusters kfjobs m)"
  shows "(\<forall>ns. map_of (vecValues (JobsRunning m')) ns = scraped jobs ns (map_of (vecValues (JobsRunning m)) ns) \<and>
      map_of (vecValues (ServicesRunning m')) ns = scraped services ns (map_of (vecValues (ServicesRunning m)) ns) \<and>
      map_of (vecValues (ClustersRunning m')) ns = scraped clusters ns (map_of (vecValues (ClustersRunning m)) ns) \<and>
      map_of (vecValues (KfJobsRunning m')) ns = scraped kfjobs ns (map_of (vecValues (KfJobsRunning m)) ns)) \<and>
    [JobsCreated m', JobsFailedCreated m', ServicesCreated m', ServicesFailedCreated m', ClustersCreated m',
       ClustersFailedCreated m', KfJobsCreated m', KfJobsFailedCreated m'] =
    [JobsCreated m, JobsFailedCreated m, ServicesCreated m, ServicesFailedCreated m, ClustersCreated m,
       ClustersFailedCreated m, KfJobsCreated m, KfJobsFailedCreated m] \<and>
    fst (Collect_metrics jobs services clusters kfjobs m) = map (\<lambda>v. (vecName v, vecValues v)) (vectors m') \<and>
    distinct (map fst (Describe NewMetrics))"
proof -
  have m': "m' = scrape jobs services clusters kfjobs m" by (simp add: m'_def Collect_metrics_def Let_def)
  have running: "JobsRunning m' = (case jobs of Inl err \<Rightarrow> JobsRunning m | Inr xs \<Rightarrow> setRunning (countNs [] xs) (JobsRunning m))"
    "ServicesRunning m' = (case services of Inl err \<Rightarrow> ServicesRunning m | Inr xs \<Rightarrow> setRunning (countNs [] xs) (ServicesRunning m))"
    "ClustersRunning m' = (case clusters of Inl err \<Rightarrow> ClustersRunning m | Inr xs \<Rightarrow> setRunning (countNs [] xs) (ClustersRunning m))"
    "KfJobsRunning m' = (case kfjobs of Inl err \<Rightarrow> KfJobsRunning m | Inr xs \<Rightarrow> setRunning (countNs [] xs) (KfJobsRunning m))"
    by (simp_all add: m' scrape_def scrapeJob_def scrapeService_def scrapeCluster_def scrapeKfJob_def split: sum.split)
  have "[JobsCreated m', JobsFailedCreated m', ServicesCreated m', ServicesFailedCreated m', ClustersCreated m',
       ClustersFailedCreated m', KfJobsCreated m', KfJobsFailedCreated m'] =
    [JobsCreated m, JobsFailedCreated m, ServicesCreated m, ServicesFailedCreated m, ClustersCreated m,
       ClustersFailedCreated m, KfJobsCreated m, KfJobsFailedCreated m]"
    by (simp add: m' scrape_def scrapeJob_def scrapeService_def scrapeCluster_def scrapeKfJob_def split: sum.split)
  moreover have "distinct (map fst (Describe NewMetrics))" by (simp add: Describe_def vectors_def NewMetrics_def newVec_def)
  ultimately show ?thesis
    by (simp add: scraped_value running) (simp add: m' Collect_metrics_def Let_def)
qed

theorem metrics_values_witness:
  "let gone = snd (Collect_metrics (Inr []) (Inr []) (Inr []) (Inr [])
         (NewMetrics\<lparr>JobsRunning := (JobsRunning NewMetrics)\<lparr>vecValues := [(''ns'', 3)]\<rparr>\<rparr>))
   in map_of (vecValues (JobsRunning gone)) ''ns'' = Some 3"
  using metrics_values [of "Inr []" "Inr []" "Inr []" "Inr []"
    "NewMetrics\<lparr>JobsRunning := (JobsRunning NewMetrics)\<lparr>vecValues := [(''ns'', 3)]\<rparr>\<rparr>"]
  by (simp add: Let_def scraped_def itemsIn_def)

end
