(* ===== verification/Setup.thy ===== *)
theory Setup
  imports Job_Controller Virtual_Services KfJob_Controller Cluster_Controller
begin

text \<open>
  What the controllers watch: \<open>SetupWithManager\<close> of the four packages \<^verbatim>\<open>internal/controller/*/controller.go\<close>.

  The builder of controller-runtime collects watches; its state, which \<open>Complete\<close> turns into a controller, is the record
  \<open>controllerSetup\<close>. Predicates and handlers of the framework are the record \<open>framework\<close>, and \<open>framework_laws\<close> is what is
  documented of them. A watched object carries the pod it is, if it is one; the pod handlers convert it by a type
  assertion, which always succeeds in a watch on pods.
\<close>

section \<open>Events\<close>

record watched = clientObject +
  woResourceVersion :: string
  woPod :: "Pod option"

datatype event = CreateEvent watched | UpdateEvent watched watched | DeleteEvent watched | GenericEvent watched

type_synonym predicate = "event \<Rightarrow> bool"
type_synonym handler = "event \<Rightarrow> key list"

record framework =
  newPredicateFuncs :: "(watched \<Rightarrow> bool) \<Rightarrow> predicate"
  predicateFuncs :: "(watched \<Rightarrow> bool) \<Rightarrow> (watched \<Rightarrow> watched \<Rightarrow> bool) \<Rightarrow> (watched \<Rightarrow> bool) \<Rightarrow> (watched \<Rightarrow> bool) \<Rightarrow> predicate"
  resourceVersionChanged :: predicate
  generationChanged :: predicate
  enqueueRequestsFromMapFunc :: "(watched \<Rightarrow> key list) \<Rightarrow> handler"
  enqueueRequestForOwner :: "string \<Rightarrow> string \<Rightarrow> handler"
  enqueueRequestForObject :: handler
  getControllerOf :: "OwnerReference list \<Rightarrow> OwnerReference option"
  nestedString :: "jobject \<Rightarrow> string list \<Rightarrow> string \<times> bool \<times> error option"

section \<open>The builder\<close>

record watch =
  wAPIVersion :: string
  wKind :: string
  wHandler :: handler
  wPredicates :: "predicate list"

record controllerSetup =
  csMaxConcurrentReconciles :: int
  csWatches :: "watch list"

definition polyaxonAPIVersion :: string where
  "polyaxonAPIVersion = ''polyaxon.com/v1''"

text \<open>\<open>NewControllerManagedBy(mgr).For(kind).WithOptions(...)\<close>.\<close>

definition forKind :: "framework \<Rightarrow> (string \<Rightarrow> string option) \<Rightarrow> string \<Rightarrow> controllerSetup" where
  "forKind fw env kind =
     \<lparr>csMaxConcurrentReconciles = GetIntEnv env cfgMaxConcurrentReconciles 1,
      csWatches = [\<lparr>wAPIVersion = polyaxonAPIVersion, wKind = kind, wHandler = enqueueRequestForObject fw, wPredicates = []\<rparr>]\<rparr>"

definition watches :: "string \<Rightarrow> string \<Rightarrow> handler \<Rightarrow> predicate list \<Rightarrow> controllerSetup \<Rightarrow> controllerSetup" where
  "watches apiVersion kind h ps b =
     b\<lparr>csWatches := csWatches b @ [\<lparr>wAPIVersion = apiVersion, wKind = kind, wHandler = h, wPredicates = ps\<rparr>]\<rparr>"

text \<open>\<open>Owns\<close> is documented as a watch that enqueues the controlling owner of the kind given to \<open>For\<close>.\<close>

definition owns :: "framework \<Rightarrow> string \<Rightarrow> string \<Rightarrow> string \<Rightarrow> controllerSetup \<Rightarrow> controllerSetup" where
  "owns fw owner apiVersion kind b = watches apiVersion kind (enqueueRequestForOwner fw polyaxonAPIVersion owner) [] b"

definition onPod :: "(Pod \<Rightarrow> key list) \<Rightarrow> watched \<Rightarrow> key list" where
  "onPod f object = (case woPod object of None \<Rightarrow> [] | Some pod \<Rightarrow> f pod)"

definition podSatisfies :: "(Pod \<Rightarrow> bool) \<Rightarrow> watched \<Rightarrow> bool" where
  "podSatisfies P object = (case woPod object of None \<Rightarrow> False | Some pod \<Rightarrow> P pod)"

section \<open>The four controllers\<close>

definition Job_SetupWithManager :: "framework \<Rightarrow> (string \<Rightarrow> string option) \<Rightarrow> controllerSetup" where
  "Job_SetupWithManager fw env =
     watches ''v1'' ''Pod'' (enqueueRequestsFromMapFunc fw (onPod (Job_mapPodToRequest (getControllerOf fw))))
       [resourceVersionChanged fw, newPredicateFuncs fw (podSatisfies predPodHasWSLabel)]
     (owns fw ''Job'' ''batch/v1'' ''Job''
     (forKind fw env ''Job''))"

definition Service_SetupWithManager :: "framework \<Rightarrow> (string \<Rightarrow> string option) \<Rightarrow> controllerSetup" where
  "Service_SetupWithManager fw env =
     (let controllerManager =
            watches ''v1'' ''Pod'' (enqueueRequestsFromMapFunc fw (onPod (Service_mapPodToRequest (getControllerOf fw))))
              [resourceVersionChanged fw, newPredicateFuncs fw (podSatisfies predPodHasWSLabel)]
            (owns fw ''Service'' ''apps/v1'' ''Deployment''
            (owns fw ''Service'' ''v1'' ''Service''
            (forKind fw env ''Service'')))
      in if GetBoolEnv env cfgIstioEnabled False
         then owns fw ''Service'' IstioAPIVersion IstioVirtualServiceKind controllerManager
         else controllerManager)"

definition watchKf :: "framework \<Rightarrow> (string \<Rightarrow> string option) \<Rightarrow> string \<Rightarrow> string \<Rightarrow> controllerSetup \<Rightarrow> controllerSetup" where
  "watchKf fw env enabled kind b =
     (if GetBoolEnv env enabled False
      then watches KFAPIVersion kind (enqueueRequestForOwner fw polyaxonAPIVersion ''KfJob'')
             [generationChanged fw, resourceVersionChanged fw] b
      else b)"

definition KfJob_SetupWithManager :: "framework \<Rightarrow> (string \<Rightarrow> string option) \<Rightarrow> controllerSetup" where
  "KfJob_SetupWithManager fw env =
     watchKf fw env cfgMPIJobEnabled MPIJobKind
     (watchKf fw env cfgPytorchJobEnabled PytorchJobKind
     (watchKf fw env cfgTFJobEnabled TFJobKind
     (watches ''v1'' ''Pod'' (enqueueRequestsFromMapFunc fw (onPod mapKfPodToRequest))
        [resourceVersionChanged fw, newPredicateFuncs fw (podSatisfies predKfPod)]
     (forKind fw env ''KfJob''))))"

definition clusterResourcePredicate :: "framework \<Rightarrow> predicate" where
  "clusterResourcePredicate fw =
     predicateFuncs fw (\<lambda>_. True)
       (\<lambda>old new. clusterUpdateFunc (nestedString fw) (clientObject.truncate old) (clientObject.truncate new))
       (\<lambda>_. True) (\<lambda>_. True)"

definition Cluster_SetupWithManager :: "framework \<Rightarrow> (string \<Rightarrow> string option) \<Rightarrow> controllerSetup" where
  "Cluster_SetupWithManager fw env =
     (let mapClusterToRequest = enqueueRequestsFromMapFunc fw (\<lambda>o'. mapClusterToRequestFunc (clientObject.truncate o'));
          mapObject = enqueueRequestsFromMapFunc fw (\<lambda>o'. mapClusterObjectToRequest (clientObject.truncate o'));
          predObject = newPredicateFuncs fw (\<lambda>o'. predClusterObject (clientObject.truncate o'));
          controllerManager = watches ''v1'' ''Pod'' mapObject [resourceVersionChanged fw, predObject] (forKind fw env ''Cluster'');
          controllerManager =
            (if GetBoolEnv env cfgDaskClusterEnabled False
             then watches ''apps/v1'' ''Deployment'' mapObject [resourceVersionChanged fw, predObject]
                  (watches DaskAPIVersion DaskClusterKind mapClusterToRequest [clusterResourcePredicate fw] controllerManager)
             else controllerManager)
      in if GetBoolEnv env cfgRayClusterEnabled False
         then watches RayAPIVersion RayClusterKind mapClusterToRequest [clusterResourcePredicate fw] controllerManager
         else controllerManager)"

section \<open>Delivery\<close>

text \<open>The requests that an event on an object of some kind is turned into.\<close>

definition triggers :: "controllerSetup \<Rightarrow> string \<Rightarrow> string \<Rightarrow> event \<Rightarrow> key set" where
  "triggers b apiVersion kind ev =
     (\<Union>w \<in> set (csWatches b). if wAPIVersion w = apiVersion \<and> wKind w = kind \<and> list_all (\<lambda>p. p ev) (wPredicates w)
        then set (wHandler w ev) else {})"

definition eventObjects :: "event \<Rightarrow> watched set" where
  "eventObjects ev = (case ev of CreateEvent o' \<Rightarrow> {o'} | UpdateEvent old new \<Rightarrow> {old, new} | DeleteEvent o' \<Rightarrow> {o'} | GenericEvent o' \<Rightarrow> {o'})"

definition apiGroup :: "string \<Rightarrow> string" where
  "apiGroup apiVersion = (if CHR ''/'' \<in> set apiVersion then takeWhile (\<lambda>c. c \<noteq> CHR ''/'') apiVersion else '''')"

definition framework_laws :: "framework \<Rightarrow> bool" where
  "framework_laws fw \<longleftrightarrow>
     (\<forall>f ev. newPredicateFuncs fw f ev =
        (case ev of CreateEvent o' \<Rightarrow> f o' | UpdateEvent old new \<Rightarrow> f new | DeleteEvent o' \<Rightarrow> f o' | GenericEvent o' \<Rightarrow> f o')) \<and>
     (\<forall>c u d g ev. predicateFuncs fw c u d g ev =
        (case ev of CreateEvent o' \<Rightarrow> c o' | UpdateEvent old new \<Rightarrow> u old new | DeleteEvent o' \<Rightarrow> d o' | GenericEvent o' \<Rightarrow> g o')) \<and>
     (\<forall>ev. resourceVersionChanged fw ev =
        (case ev of UpdateEvent old new \<Rightarrow> woResourceVersion old \<noteq> woResourceVersion new | _ \<Rightarrow> True)) \<and>
     (\<forall>ev. generationChanged fw ev =
        (case ev of UpdateEvent old new \<Rightarrow> coGeneration old \<noteq> coGeneration new | _ \<Rightarrow> True)) \<and>
     (\<forall>f ev. set (enqueueRequestsFromMapFunc fw f ev) = (\<Union>o' \<in> eventObjects ev. set (f o'))) \<and>
     (\<forall>apiVersion kind ev. set (enqueueRequestForOwner fw apiVersion kind ev) =
        {(coNamespace o', orName r) | o' r. o' \<in> eventObjects ev \<and> getControllerOf fw (coOwnerReferences o') = Some r \<and>
           apiGroup (orAPIVersion r) = apiGroup apiVersion \<and> orKind r = kind}) \<and>
     controllerOf_law (getControllerOf fw)"

lemma triggers_watches [simp]:
  "triggers (watches apiVersion kind h ps b) v k ev =
     triggers b v k ev \<union> (if apiVersion = v \<and> kind = k \<and> list_all (\<lambda>p. p ev) ps then set (h ev) else {})"
  by (auto simp: triggers_def watches_def)

lemma triggers_forKind [simp]:
  "triggers (forKind fw env kind) v k ev = (if v = polyaxonAPIVersion \<and> k = kind then set (enqueueRequestForObject fw ev) else {})"
  by (auto simp: triggers_def forKind_def)

lemma triggers_if [simp]: "triggers (if c then a else b) v k ev = (if c then triggers a v k ev else triggers b v k ev)"
  by simp

lemma framework_lawsD:
  assumes "framework_laws fw"
  shows "newPredicateFuncs fw f (UpdateEvent old new) = f new" "newPredicateFuncs fw f (CreateEvent new) = f new"
    "predicateFuncs fw c u d g (UpdateEvent old new) = u old new" "predicateFuncs fw c u d g (DeleteEvent old) = d old"
    "resourceVersionChanged fw (UpdateEvent old new) = (woResourceVersion old \<noteq> woResourceVersion new)"
    "resourceVersionChanged fw (DeleteEvent old)" "generationChanged fw (DeleteEvent old)"
    "generationChanged fw (UpdateEvent old new) = (coGeneration old \<noteq> coGeneration new)"
    "set (enqueueRequestsFromMapFunc fw h (UpdateEvent old new)) = set (h old) \<union> set (h new)"
    "set (enqueueRequestsFromMapFunc fw h (DeleteEvent old)) = set (h old)"
    "set (enqueueRequestForOwner fw apiVersion kind ev) =
        {(coNamespace o', orName r) | o' r. o' \<in> eventObjects ev \<and> getControllerOf fw (coOwnerReferences o') = Some r \<and>
           apiGroup (orAPIVersion r) = apiGroup apiVersion \<and> orKind r = kind}"
  using assms by (simp_all add: framework_laws_def eventObjects_def)

lemmas kind_defs = polyaxonAPIVersion_def KFAPIVersion_def TFJobKind_def PytorchJobKind_def MPIJobKind_def DaskAPIVersion_def
  DaskClusterKind_def RayAPIVersion_def RayClusterKind_def IstioAPIVersion_def IstioVirtualServiceKind_def

section \<open>Properties\<close>

text \<open>The operation of a kind that controls an object.\<close>

definition controlledBy :: "framework \<Rightarrow> string \<Rightarrow> watched \<Rightarrow> key \<Rightarrow> bool" where
  "controlledBy fw kind o' k \<longleftrightarrow>
     (\<exists>r. getControllerOf fw (coOwnerReferences o') = Some r \<and> apiGroup (orAPIVersion r) = ''polyaxon.com'' \<and>
        orKind r = kind \<and> k = (coNamespace o', orName r))"

lemma owner_requests:
  assumes "framework_laws fw"
  shows "k \<in> set (enqueueRequestForOwner fw polyaxonAPIVersion kind ev) \<longleftrightarrow> (\<exists>o' \<in> eventObjects ev. controlledBy fw kind o' k)"
proof -
  have "apiGroup polyaxonAPIVersion = ''polyaxon.com''" by (simp add: apiGroup_def polyaxonAPIVersion_def)
  then show ?thesis by (auto simp: framework_lawsD [OF assms] controlledBy_def)
qed

text \<open>The training job a pod belongs to has the name of its operation.\<close>

definition podOfKf :: "Pod \<Rightarrow> key \<Rightarrow> bool" where
  "podOfKf pod k \<longleftrightarrow> (\<exists>r. List.find ownedByKf (podOwnerReferences pod) = Some r \<and> k = (podNamespace pod, orName r))"

lemma mapKfPodToRequest_iff: "k \<in> set (mapKfPodToRequest pod) \<longleftrightarrow> podOfKf pod k"
proof -
  have "firstKfOwner ns refs = (case List.find ownedByKf refs of None \<Rightarrow> [] | Some r \<Rightarrow> [(ns, orName r)])" for ns refs
    by (induction refs) simp_all
  then show ?thesis by (cases "List.find ownedByKf (podOwnerReferences pod)") (simp_all add: mapKfPodToRequest_def podOfKf_def)
qed

lemma predKfPod_iff: "predKfPod pod \<longleftrightarrow> (\<exists>k. podOfKf pod k)"
proof -
  have "list_ex P refs \<longleftrightarrow> List.find P refs \<noteq> None" for P :: "OwnerReference \<Rightarrow> bool" and refs
    by (induction refs) simp_all
  then show ?thesis by (auto simp: predKfPod_def podOfKf_def)
qed

text \<open>C23: what wakes the Kubeflow controller, and that it does not see a training job change its status. An update of a
  TensorFlow, PyTorch or MPI job starts a pass exactly when its kind is enabled and both its generation and its
  resource version are new, for the operation that controls it before or after the update; so an update of the
  status, which leaves the generation as it was, starts none. The deletion of a training job of any kind is
  delivered to the operation that controls it exactly when its kind is enabled. An update of a pod starts a pass
  exactly when its resource version is new and the pod belongs to a training job, for the operations of the training
  jobs it belonged or belongs to: what the controller learns of the status it learns in those passes.\<close>

theorem kf_status_changes_filtered:
  assumes laws: "framework_laws fw"
    and kind: "(enabled, kind) \<in> {(cfgTFJobEnabled, TFJobKind), (cfgPytorchJobEnabled, PytorchJobKind), (cfgMPIJobEnabled, MPIJobKind)}"
  shows "(k \<in> triggers (KfJob_SetupWithManager fw env) KFAPIVersion kind (UpdateEvent old new) \<longleftrightarrow>
      GetBoolEnv env enabled False \<and> coGeneration old \<noteq> coGeneration new \<and> woResourceVersion old \<noteq> woResourceVersion new \<and>
      (controlledBy fw ''KfJob'' old k \<or> controlledBy fw ''KfJob'' new k)) \<and>
    (k \<in> triggers (KfJob_SetupWithManager fw env) KFAPIVersion kind (DeleteEvent old) \<longleftrightarrow> GetBoolEnv env enabled False \<and> controlledBy fw ''KfJob'' old k) \<and>
    (woPod old = Some p \<longrightarrow> woPod new = Some p' \<longrightarrow>
      (k \<in> triggers (KfJob_SetupWithManager fw env) ''v1'' ''Pod'' (UpdateEvent old new) \<longleftrightarrow>
         woResourceVersion old \<noteq> woResourceVersion new \<and> (\<exists>k'. podOfKf p' k') \<and> (podOfKf p k \<or> podOfKf p' k)))"
proof (intro conjI impI)
  show "k \<in> triggers (KfJob_SetupWithManager fw env) KFAPIVersion kind (UpdateEvent old new) \<longleftrightarrow>
      GetBoolEnv env enabled False \<and> coGeneration old \<noteq> coGeneration new \<and> woResourceVersion old \<noteq> woResourceVersion new \<and>
      (controlledBy fw ''KfJob'' old k \<or> controlledBy fw ''KfJob'' new k)"
    using kind
    by (auto simp: KfJob_SetupWithManager_def watchKf_def kind_defs
        owner_requests [OF laws, unfolded kind_defs] framework_lawsD(5,8) [OF laws] eventObjects_def)
  show "k \<in> triggers (KfJob_SetupWithManager fw env) KFAPIVersion kind (DeleteEvent old) \<longleftrightarrow> GetBoolEnv env enabled False \<and> controlledBy fw ''KfJob'' old k"
    using kind
    by (auto simp: KfJob_SetupWithManager_def watchKf_def kind_defs
        owner_requests [OF laws, unfolded kind_defs] framework_lawsD(6,7) [OF laws] eventObjects_def)
next
  assume "woPod old = Some p" "woPod new = Some p'"
  then show "k \<in> triggers (KfJob_SetupWithManager fw env) ''v1'' ''Pod'' (UpdateEvent old new) \<longleftrightarrow>
         woResourceVersion old \<noteq> woResourceVersion new \<and> (\<exists>k'. podOfKf p' k') \<and> (podOfKf p k \<or> podOfKf p' k)"
    by (auto simp: KfJob_SetupWithManager_def watchKf_def kind_defs framework_lawsD(1,5,9) [OF laws] podSatisfies_def
        onPod_def mapKfPodToRequest_iff predKfPod_iff)
qed

text \<open>The cluster a pod or deployment belongs to, by its first owner that is a cluster or else by its label, and the
  operation that controls a cluster.\<close>

definition partOfCluster :: "watched \<Rightarrow> key \<Rightarrow> bool" where
  "partOfCluster o' k \<longleftrightarrow> snd k \<noteq> [] \<and> coNamespace o' = fst k \<and>
     (case List.find isClusterOwner (coOwnerReferences o') of
        Some r \<Rightarrow> orName r = snd k | None \<Rightarrow> map_of (coLabels o') ''dask.org/cluster-name'' = Some (snd k))"

definition clusterControlledBy :: "watched \<Rightarrow> key \<Rightarrow> bool" where
  "clusterControlledBy o' k \<longleftrightarrow>
     (\<exists>r. List.find (\<lambda>r. orAPIVersion r = ''polyaxon.com/v1'' \<and> orKind r = ''Cluster'' \<and> orController r = Some True)
            (coOwnerReferences o') = Some r \<and> k = (coNamespace o', orName r))"

lemma cluster_maps:
  "k \<in> set (mapClusterObjectToRequest (clientObject.truncate o')) \<longleftrightarrow> partOfCluster o' k"
  "k \<in> set (mapClusterToRequestFunc (clientObject.truncate o')) \<longleftrightarrow> clusterControlledBy o' k"
  by (cases k; cases "List.find isClusterOwner (coOwnerReferences o')";
      simp add: mapClusterObjectToRequest_iff partOfCluster_def clientObject.truncate_def)
     (simp add: mapClusterToRequestFunc_iff clusterControlledBy_def clientObject.truncate_def)

text \<open>C22: what wakes the cluster controller. An update of a pod, and with Dask enabled of a deployment, starts a pass
  exactly when its resource version is new and it belongs to a cluster, for the clusters of its namespace that it
  belonged or belongs to; without Dask no event on a deployment does. An update of a Dask or Ray cluster starts a
  pass exactly when its kind is enabled and it has a new generation, is being deleted, or has a new phase or
  state that is not empty, for the operations that controlled or control it; its deletion exactly when its kind is
  enabled. In particular nothing is started by new conditions of a Ray cluster, which are what its status is made from.\<close>

theorem cluster_watches:
  assumes laws: "framework_laws fw"
    and kind: "(enabled, apiVersion, kind) \<in> {(cfgDaskClusterEnabled, DaskAPIVersion, DaskClusterKind),
        (cfgRayClusterEnabled, RayAPIVersion, RayClusterKind)}"
  shows "(k \<in> triggers (Cluster_SetupWithManager fw env) ''v1'' ''Pod'' (UpdateEvent old new) \<longleftrightarrow> woResourceVersion old \<noteq> woResourceVersion new \<and>
       (\<exists>k'. partOfCluster new k') \<and> (partOfCluster old k \<or> partOfCluster new k)) \<and>
    (k \<in> triggers (Cluster_SetupWithManager fw env) ''apps/v1'' ''Deployment'' (UpdateEvent old new) \<longleftrightarrow> GetBoolEnv env cfgDaskClusterEnabled False \<and>
       woResourceVersion old \<noteq> woResourceVersion new \<and>
       (\<exists>k'. partOfCluster new k') \<and> (partOfCluster old k \<or> partOfCluster new k)) \<and>
    (k \<in> triggers (Cluster_SetupWithManager fw env) apiVersion kind (UpdateEvent old new) \<longleftrightarrow> GetBoolEnv env enabled False \<and>
       (coGeneration old \<noteq> coGeneration new \<or> \<not> isZeroTime (coDeletionTimestamp new) \<or>
        (\<exists>x y. coContent old = Some x \<and> coContent new = Some y \<and>
           (turned (nestedString fw) ''phase'' x y \<or> turned (nestedString fw) ''state'' x y))) \<and>
       (clusterControlledBy old k \<or> clusterControlledBy new k)) \<and>
    (k \<in> triggers (Cluster_SetupWithManager fw env) apiVersion kind (DeleteEvent old) \<longleftrightarrow> GetBoolEnv env enabled False \<and> clusterControlledBy old k)"
proof -
  note unfold = Cluster_SetupWithManager_def clusterResourcePredicate_def kind_defs Let_def framework_lawsD [OF laws]
    cluster_maps predClusterObject_iff
  have update: "clusterUpdateFunc (nestedString fw) (clientObject.truncate old) (clientObject.truncate new) \<longleftrightarrow>
      coGeneration old \<noteq> coGeneration new \<or> \<not> isZeroTime (coDeletionTimestamp new) \<or>
        (\<exists>x y. coContent old = Some x \<and> coContent new = Some y \<and>
           (turned (nestedString fw) ''phase'' x y \<or> turned (nestedString fw) ''state'' x y))"
    by (simp add: clusterUpdateFunc_iff clientObject.truncate_def)
  show ?thesis
  proof (intro conjI)
    show "k \<in> triggers (Cluster_SetupWithManager fw env) ''v1'' ''Pod'' (UpdateEvent old new) \<longleftrightarrow> woResourceVersion old \<noteq> woResourceVersion new \<and>
       (\<exists>k'. partOfCluster new k') \<and> (partOfCluster old k \<or> partOfCluster new k)"
      by (simp add: unfold)
    show "k \<in> triggers (Cluster_SetupWithManager fw env) ''apps/v1'' ''Deployment'' (UpdateEvent old new) \<longleftrightarrow> GetBoolEnv env cfgDaskClusterEnabled False \<and>
       woResourceVersion old \<noteq> woResourceVersion new \<and>
       (\<exists>k'. partOfCluster new k') \<and> (partOfCluster old k \<or> partOfCluster new k)"
      by (simp add: unfold)
    show "k \<in> triggers (Cluster_SetupWithManager fw env) apiVersion kind (UpdateEvent old new) \<longleftrightarrow> GetBoolEnv env enabled False \<and>
       (coGeneration old \<noteq> coGeneration new \<or> \<not> isZeroTime (coDeletionTimestamp new) \<or>
        (\<exists>x y. coContent old = Some x \<and> coContent new = Some y \<and>
           (turned (nestedString fw) ''phase'' x y \<or> turned (nestedString fw) ''state'' x y))) \<and>
       (clusterControlledBy old k \<or> clusterControlledBy new k)"
      unfolding update [symmetric] using kind unfolding insert_iff empty_iff prod.inject
      by (elim disjE conjE FalseE) (simp_all add: unfold)
    show "k \<in> triggers (Cluster_SetupWithManager fw env) apiVersion kind (DeleteEvent old) \<longleftrightarrow> GetBoolEnv env enabled False \<and> clusterControlledBy old k"
      using kind unfolding insert_iff empty_iff prod.inject by (elim disjE conjE FalseE) (simp_all add: unfold)
  qed
qed

text \<open>Every update of a batch job is delivered to the operation that controls it, before or after the update.\<close>

lemma batch_jobs_delivered:
  assumes "framework_laws fw"
  shows "k \<in> triggers (Job_SetupWithManager fw env) ''batch/v1'' ''Job'' (UpdateEvent old new) \<longleftrightarrow>
    controlledBy fw ''Job'' old k \<or> controlledBy fw ''Job'' new k"
  by (simp add: Job_SetupWithManager_def owns_def owner_requests [OF assms] eventObjects_def)
     (simp add: polyaxonAPIVersion_def)

section \<open>Witnesses\<close>

definition eventList :: "event \<Rightarrow> watched list" where
  "eventList ev = (case ev of CreateEvent o' \<Rightarrow> [o'] | UpdateEvent old new \<Rightarrow> [old, new] | DeleteEvent o' \<Rightarrow> [o'] | GenericEvent o' \<Rightarrow> [o'])"

definition ownerRequests :: "string \<Rightarrow> string \<Rightarrow> watched \<Rightarrow> key list" where
  "ownerRequests apiVersion kind o' =
     (case List.find (\<lambda>r. orController r = Some True) (coOwnerReferences o') of
        Some r \<Rightarrow> if apiGroup (orAPIVersion r) = apiGroup apiVersion \<and> orKind r = kind then [(coNamespace o', orName r)] else []
      | None \<Rightarrow> [])"

definition plainFramework :: framework where
  "plainFramework =
     \<lparr>newPredicateFuncs = (\<lambda>f ev. f (last (eventList ev))),
      predicateFuncs = (\<lambda>c u d g ev. case ev of CreateEvent o' \<Rightarrow> c o' | UpdateEvent old new \<Rightarrow> u old new
         | DeleteEvent o' \<Rightarrow> d o' | GenericEvent o' \<Rightarrow> g o'),
      resourceVersionChanged = (\<lambda>ev. case ev of UpdateEvent old new \<Rightarrow> woResourceVersion old \<noteq> woResourceVersion new | _ \<Rightarrow> True),
      generationChanged = (\<lambda>ev. case ev of UpdateEvent old new \<Rightarrow> coGeneration old \<noteq> coGeneration new | _ \<Rightarrow> True),
      enqueueRequestsFromMapFunc = (\<lambda>f ev. concat (map f (eventList ev))),
      enqueueRequestForOwner = (\<lambda>apiVersion kind ev. concat (map (ownerRequests apiVersion kind) (eventList ev))),
      enqueueRequestForObject = (\<lambda>ev. []),
      getControllerOf = List.find (\<lambda>r. orController r = Some True),
      nestedString = plainNestedString\<rparr>"

lemma plainFramework_laws: "framework_laws plainFramework"
proof -
  have "set (eventList ev) = eventObjects ev" for ev
    by (simp add: eventList_def eventObjects_def split: event.split)
  moreover have "last (eventList ev) = (case ev of CreateEvent o' \<Rightarrow> o' | UpdateEvent old new \<Rightarrow> new | DeleteEvent o' \<Rightarrow> o' | GenericEvent o' \<Rightarrow> o')" for ev
    by (simp add: eventList_def split: event.split)
  ultimately show ?thesis
    by (auto simp: framework_laws_def plainFramework_def ownerRequests_def controllerOf_law_def split: event.split option.splits if_splits)
       metis
qed

definition demoOwned :: "string \<Rightarrow> string \<Rightarrow> watched" where
  "demoOwned owner version =
     \<lparr>coNamespace = ''ns'', coLabels = [],
      coOwnerReferences = [\<lparr>orAPIVersion = ''polyaxon.com/v1'', orKind = owner, orName = ''run'', orController = Some True\<rparr>],
      coGeneration = 1, coDeletionTimestamp = None, coContent = Some fmempty, woResourceVersion = version, woPod = None\<rparr>"

theorem kf_status_changes_filtered_witness:
  "let env = Map.empty(cfgMPIJobEnabled \<mapsto> ''true''); b = KfJob_SetupWithManager plainFramework env
   in triggers b KFAPIVersion MPIJobKind (UpdateEvent (demoOwned ''KfJob'' ''1'') (demoOwned ''KfJob'' ''2'')) = {} \<and>
      (''ns'', ''run'') \<in> triggers b KFAPIVersion MPIJobKind (DeleteEvent (demoOwned ''KfJob'' ''1''))"
proof -
  let ?env = "Map.empty(cfgMPIJobEnabled \<mapsto> ''true'')" and ?j = "demoOwned ''KfJob''"
  have flag: "GetBoolEnv ?env cfgMPIJobEnabled False" by (simp add: GetBoolEnv_def parseBool_def)
  have owner: "controlledBy plainFramework ''KfJob'' (?j v) (''ns'', ''run'')" for v
    by (simp add: controlledBy_def plainFramework_def demoOwned_def apiGroup_def)
  have same: "coGeneration (?j v) = 1" for v by (simp add: demoOwned_def)
  note wakes = kf_status_changes_filtered [OF plainFramework_laws, of cfgMPIJobEnabled MPIJobKind _ ?env "?j ''1''" "?j ''2''"]
  have "k \<notin> triggers (KfJob_SetupWithManager plainFramework ?env) KFAPIVersion MPIJobKind (UpdateEvent (?j ''1'') (?j ''2''))" for k
    using wakes [of k] same by simp
  moreover have "(''ns'', ''run'') \<in> triggers (KfJob_SetupWithManager plainFramework ?env) KFAPIVersion MPIJobKind (DeleteEvent (?j ''1''))"
    using wakes [of "(''ns'', ''run'')"] flag owner [of "''1''"] by simp
  ultimately show ?thesis unfolding Let_def by blast
qed

theorem cluster_watches_witness:
  "let b = Cluster_SetupWithManager plainFramework (Map.empty(cfgRayClusterEnabled \<mapsto> ''1''))
   in (''ns'', ''run'') \<in> triggers b RayAPIVersion RayClusterKind (DeleteEvent (demoOwned ''Cluster'' ''1'')) \<and>
      triggers b RayAPIVersion RayClusterKind (UpdateEvent (demoOwned ''Cluster'' ''1'') (demoOwned ''Cluster'' ''2'')) = {}"
proof -
  let ?env = "Map.empty(cfgRayClusterEnabled \<mapsto> ''1'')" and ?c = "demoOwned ''Cluster''"
  have flag: "GetBoolEnv ?env cfgRayClusterEnabled False" by (simp add: GetBoolEnv_def parseBool_def)
  have owner: "clusterControlledBy (?c v) (''ns'', ''run'')" for v
    by (simp add: clusterControlledBy_def demoOwned_def)
  have same: "coGeneration (?c v) = 1" "isZeroTime (coDeletionTimestamp (?c v))" "coContent (?c v) = Some fmempty" for v
    by (simp_all add: demoOwned_def isZeroTime_def)
  note wakes = cluster_watches [OF plainFramework_laws, of cfgRayClusterEnabled RayAPIVersion RayClusterKind _ ?env "?c ''1''" "?c ''2''"]
  have "k \<notin> triggers (Cluster_SetupWithManager plainFramework ?env) RayAPIVersion RayClusterKind (UpdateEvent (?c ''1'') (?c ''2''))" for k
    using wakes [of k] same by (simp add: turned_def)
  moreover have "(''ns'', ''run'') \<in> triggers (Cluster_SetupWithManager plainFramework ?env) RayAPIVersion RayClusterKind (DeleteEvent (?c ''1''))"
    using wakes [of "(''ns'', ''run'')"] flag owner [of "''1''"] by simp
  ultimately show ?thesis unfolding Let_def by blast
qed

end
