(* ===== verification/Entry.thy ===== *)
theory Entry
  imports Setup
begin

text \<open>
  The program: \<^verbatim>\<open>cmd/main.go\<close>. Options come from the environment and from flags; the manager is created from them, the
  four controllers are registered, and the manager runs.

  The variables of \<open>main\<close> that hold options are the record \<open>operatorOptions\<close>, and a pointer to one of them is the update
  function of its field. The package \<open>flag\<close> is part of the model: declaring a flag assigns its default to the variable
  and registers its name, and \<open>flag.Parse\<close> reads the arguments from left to right. The flags that other packages
  register, among them those that \<open>zap\<close> binds for the logger, are a parameter: a name, whether the flag is boolean, and
  which values it accepts. The calls to the framework are the steps of \<open>main\<close>: each returns an error or not, and the
  first error exits with code 1.
\<close>

section \<open>Options\<close>

record operatorOptions =
  metricsAddr :: string
  probeAddr :: string
  enableLeaderElection :: bool
  namespace :: string
  secureMetrics :: bool
  webhookCertPath :: string
  webhookCertName :: string
  webhookCertKey :: string
  metricsCertPath :: string
  metricsCertName :: string
  metricsCertKey :: string
  enableHTTP2 :: bool
  debugMode :: bool

definition toLower :: "string \<Rightarrow> string" where
  "toLower = map (\<lambda>c. if 65 \<le> (of_char c :: nat) \<and> (of_char c :: nat) \<le> 90 then char_of ((of_char c :: nat) + 32) else c)"

text \<open>The namespace, the leader election and the debug mode as the environment sets them.\<close>

definition envNamespace :: "(string \<Rightarrow> string option) \<Rightarrow> string" where
  "envNamespace env =
     (if GetBoolEnv env cfgSingleNamespace False then
        if GetStrEnv env cfgNamespace '''' \<noteq> '''' then GetStrEnv env cfgNamespace '''' else ''polyaxon''
      else '''')"

definition envLeaderElection :: "(string \<Rightarrow> string option) \<Rightarrow> bool" where
  "envLeaderElection env = (if GetBoolEnv env cfgLeaderElection False then True else False)"

definition envDebugMode :: "(string \<Rightarrow> string option) \<Rightarrow> bool" where
  "envDebugMode env = (if toLower (GetStrEnv env cfgLogLevel '''') = ''debug'' then True else False)"

section \<open>The package flag\<close>

datatype flagVar =
    StringFlag "(string \<Rightarrow> string) \<Rightarrow> operatorOptions \<Rightarrow> operatorOptions"
  | BoolFlag "(bool \<Rightarrow> bool) \<Rightarrow> operatorOptions \<Rightarrow> operatorOptions"
  | ForeignFlag bool "string \<Rightarrow> bool"

type_synonym flagSet = "string \<Rightarrow> flagVar option"

record flagState =
  vars :: operatorOptions
  formal :: flagSet

text \<open>\<open>IsBoolFlag\<close> and \<open>Set\<close> of a flag.\<close>

fun isBoolFlag :: "flagVar \<Rightarrow> bool" where
  "isBoolFlag (StringFlag p) = False"
| "isBoolFlag (BoolFlag p) = True"
| "isBoolFlag (ForeignFlag b accepts) = b"

fun setFlag :: "flagVar \<Rightarrow> string \<Rightarrow> operatorOptions \<Rightarrow> operatorOptions option" where
  "setFlag (StringFlag p) value opts = Some (p (\<lambda>_. value) opts)"
| "setFlag (BoolFlag p) value opts = map_option (\<lambda>b. p (\<lambda>_. b) opts) (parseBool value)"
| "setFlag (ForeignFlag b accepts) value opts = (if accepts value then Some opts else None)"

text \<open>\<open>Var\<close> registers a flag; a name that starts with a dash, contains an equals sign or is taken panics.\<close>

definition validName :: "string \<Rightarrow> bool" where
  "validName name \<longleftrightarrow> take 1 name \<noteq> ''-'' \<and> CHR ''='' \<notin> set name"

definition Var :: "string \<Rightarrow> flagVar \<Rightarrow> (flagState, unit) go" where
  "Var name fl = bindG (readS formal) (\<lambda>f.
     if validName name \<and> f name = None then modifyS (formal_update (\<lambda>f. f(name \<mapsto> fl)))
     else panic ''flag redefined'')"

definition stringVar :: "((string \<Rightarrow> string) \<Rightarrow> operatorOptions \<Rightarrow> operatorOptions) \<Rightarrow> string \<Rightarrow> string \<Rightarrow> (flagState, unit) go" where
  "stringVar p name value = bindG (modifyS (vars_update (p (\<lambda>_. value)))) (\<lambda>_. Var name (StringFlag p))"

definition boolVar :: "((bool \<Rightarrow> bool) \<Rightarrow> operatorOptions \<Rightarrow> operatorOptions) \<Rightarrow> string \<Rightarrow> bool \<Rightarrow> (flagState, unit) go" where
  "boolVar p name value = bindG (modifyS (vars_update (p (\<lambda>_. value)))) (\<lambda>_. Var name (BoolFlag p))"

text \<open>A name and a value after an equals sign, if there is one.\<close>

definition cutEquals :: "string \<Rightarrow> string \<times> string option" where
  "cutEquals name =
     (case dropWhile (\<lambda>c. c \<noteq> CHR ''='') name of
        [] \<Rightarrow> (name, None)
      | _ # value \<Rightarrow> (takeWhile (\<lambda>c. c \<noteq> CHR ''='') name, Some value))"

text \<open>\<open>parseOne\<close>: the exit code of an error, or whether a flag was seen, the arguments left and the variables.\<close>

fun parseOne :: "flagSet \<Rightarrow> string list \<Rightarrow> operatorOptions \<Rightarrow> int + (bool \<times> string list \<times> operatorOptions)" where
  "parseOne f [] opts = Inr (False, [], opts)"
| "parseOne f (s # args) opts =
     (if length s < 2 \<or> s ! 0 \<noteq> CHR ''-'' then Inr (False, s # args, opts)
      else if s = ''--'' then Inr (False, args, opts)
      else
        (let name = (if s ! 1 = CHR ''-'' then drop 2 s else drop 1 s)
         in if name = [] \<or> name ! 0 = CHR ''-'' \<or> name ! 0 = CHR ''='' then Inl 2
            else
              (let (name, eq) = cutEquals name
               in case f name of
                    None \<Rightarrow> Inl (if name = ''help'' \<or> name = ''h'' then 0 else 2)
                  | Some fl \<Rightarrow>
                      if isBoolFlag fl then
                        (case setFlag fl (case eq of None \<Rightarrow> ''true'' | Some value \<Rightarrow> value) opts of
                           None \<Rightarrow> Inl 2 | Some opts' \<Rightarrow> Inr (True, args, opts'))
                      else
                        (case (case eq of Some value \<Rightarrow> Some (value, args)
                               | None \<Rightarrow> (case args of [] \<Rightarrow> None | value # rest \<Rightarrow> Some (value, rest))) of
                           None \<Rightarrow> Inl 2
                         | Some (value, rest) \<Rightarrow>
                             (case setFlag fl value opts of None \<Rightarrow> Inl 2 | Some opts' \<Rightarrow> Inr (True, rest, opts'))))))"

lemma parseOne_shorter: "parseOne f args opts = Inr (True, rest, opts') \<Longrightarrow> length rest < length args"
  by (cases args) (auto simp: Let_def split: if_splits option.splits prod.splits list.splits)

text \<open>\<open>flag.Parse\<close>: the exit code, or the variables.\<close>

function parse :: "flagSet \<Rightarrow> string list \<Rightarrow> operatorOptions \<Rightarrow> int + operatorOptions" where
  "parse f args opts =
     (case parseOne f args opts of
        Inl code \<Rightarrow> Inl code
      | Inr (seen, rest, opts') \<Rightarrow> if seen then parse f rest opts' else Inr opts')"
  by pat_completeness auto
termination
  by (relation "measure (\<lambda>(f, args, opts). length args)") (auto simp: parseOne_shorter)

declare parse.simps [simp del]

section \<open>The options of main\<close>

text \<open>The variables as \<open>main\<close> declares them, and the assignments from the environment.\<close>

definition zeroOptions :: operatorOptions where
  "zeroOptions =
     \<lparr>metricsAddr = '''', probeAddr = '''', enableLeaderElection = False, namespace = '''', secureMetrics = False,
      webhookCertPath = '''', webhookCertName = '''', webhookCertKey = '''',
      metricsCertPath = '''', metricsCertName = '''', metricsCertKey = '''', enableHTTP2 = False, debugMode = False\<rparr>"

definition setFromEnv :: "(string \<Rightarrow> string option) \<Rightarrow> (flagState, unit) go" where
  "setFromEnv env =
     bindG (modifyS (vars_update (namespace_update (\<lambda>_. envNamespace env)))) (\<lambda>_.
     bindG (modifyS (vars_update (enableLeaderElection_update (\<lambda>_. envLeaderElection env)))) (\<lambda>_.
     modifyS (vars_update (debugMode_update (\<lambda>_. envDebugMode env)))))"

definition declareFlags :: "(flagState, unit) go" where
  "declareFlags =
     bindG (stringVar metricsAddr_update ''metrics-bind-address'' '':8080'') (\<lambda>_.
     bindG (stringVar probeAddr_update ''health-probe-bind-address'' '':8081'') (\<lambda>_.
     bindG (boolVar enableLeaderElection_update ''leader-elect'' False) (\<lambda>_.
     bindG (readS (\<lambda>s. namespace (vars s))) (\<lambda>ns.
     bindG (stringVar namespace_update ''namespace'' ns) (\<lambda>_.
     bindG (boolVar secureMetrics_update ''metrics-secure'' True) (\<lambda>_.
     bindG (stringVar webhookCertPath_update ''webhook-cert-path'' '''') (\<lambda>_.
     bindG (stringVar webhookCertName_update ''webhook-cert-name'' ''tls.crt'') (\<lambda>_.
     bindG (stringVar webhookCertKey_update ''webhook-cert-key'' ''tls.key'') (\<lambda>_.
     bindG (stringVar metricsCertPath_update ''metrics-cert-path'' '''') (\<lambda>_.
     bindG (stringVar metricsCertName_update ''metrics-cert-name'' ''tls.crt'') (\<lambda>_.
     bindG (stringVar metricsCertKey_update ''metrics-cert-key'' ''tls.key'') (\<lambda>_.
     boolVar enableHTTP2_update ''enable-http2'' False))))))))))))"

text \<open>The flags that other packages register when they are initialised, and those of \<open>zap\<close>.\<close>

type_synonym foreignFlag = "string \<times> bool \<times> (string \<Rightarrow> bool)"

record foreignFlags =
  predeclared :: "foreignFlag list"
  zapFlags :: "foreignFlag list"

fun bindFlags :: "foreignFlag list \<Rightarrow> (flagState, unit) go" where
  "bindFlags [] = ret ()"
| "bindFlags ((name, isBool, accepts) # fs) = bindG (Var name (ForeignFlag isBool accepts)) (\<lambda>_. bindFlags fs)"

definition initFlags :: "foreignFlags \<Rightarrow> flagState" where
  "initFlags foreign =
     \<lparr>vars = zeroOptions, formal = map_of (map (\<lambda>(name, isBool, accepts). (name, ForeignFlag isBool accepts)) (predeclared foreign))\<rparr>"

text \<open>The exit code of \<open>flag.Parse\<close>, or the variables it leaves.\<close>

definition parseFlags :: "foreignFlags \<Rightarrow> (string \<Rightarrow> string option) \<Rightarrow> string list \<Rightarrow> (int + operatorOptions) outcome" where
  "parseFlags foreign env args =
     fst (bindG (setFromEnv env) (\<lambda>_.
          bindG declareFlags (\<lambda>_.
          bindG (bindFlags (zapFlags foreign)) (\<lambda>_.
          readS (\<lambda>s. parse (formal s) args (vars s))))) (initFlags foreign))"

section \<open>Options of the manager\<close>

text \<open>A certificate directory with the names of its files; \<open>nextProtos\<close> is what the TLS options set, if anything.\<close>

record serverOptions =
  nextProtos :: "string list option"
  certDir :: string
  certName :: string
  keyName :: string

record managerOptions =
  mgrNamespaces :: "string list option"
  mgrMetricsBindAddress :: string
  mgrSecureServing :: bool
  mgrAuthorizedMetrics :: bool
  mgrMetricsServer :: serverOptions
  mgrWebhookServer :: serverOptions
  mgrHealthProbeBindAddress :: string
  mgrLeaderElection :: bool
  mgrLeaderElectionID :: string

definition server :: "bool \<Rightarrow> string \<Rightarrow> string \<Rightarrow> string \<Rightarrow> serverOptions" where
  "server http2 path cert key =
     (let tlsOpts = (if \<not> http2 then Some [''http/1.1''] else None)
      in if length path > 0 then \<lparr>nextProtos = tlsOpts, certDir = path, certName = cert, keyName = key\<rparr>
         else \<lparr>nextProtos = tlsOpts, certDir = '''', certName = '''', keyName = ''''\<rparr>)"

definition managerOptionsOf :: "operatorOptions \<Rightarrow> managerOptions" where
  "managerOptionsOf opts =
     \<lparr>mgrNamespaces = (if namespace opts \<noteq> '''' then Some [namespace opts] else None),
      mgrMetricsBindAddress = metricsAddr opts,
      mgrSecureServing = secureMetrics opts,
      mgrAuthorizedMetrics = secureMetrics opts,
      mgrMetricsServer = server (enableHTTP2 opts) (metricsCertPath opts) (metricsCertName opts) (metricsCertKey opts),
      mgrWebhookServer = server (enableHTTP2 opts) (webhookCertPath opts) (webhookCertName opts) (webhookCertKey opts),
      mgrHealthProbeBindAddress = probeAddr opts,
      mgrLeaderElection = enableLeaderElection opts,
      mgrLeaderElectionID = ''operations-polyaxon-controller''\<rparr>"

section \<open>The program\<close>

datatype step =
    GetConfigOrDie
  | NewManager managerOptions
  | SetupController string controllerSetup
  | AddHealthzCheck
  | AddReadyzCheck
  | Start

fun runSteps :: "(step \<Rightarrow> error option) \<Rightarrow> step list \<Rightarrow> step list \<times> int" where
  "runSteps call [] = ([], 0)"
| "runSteps call (x # xs) =
     (case call x of
        Some err \<Rightarrow> ([x], 1)
      | None \<Rightarrow> let (done, code) = runSteps call xs in (x # done, code))"

definition mainSteps :: "framework \<Rightarrow> (string \<Rightarrow> string option) \<Rightarrow> operatorOptions \<Rightarrow> step list" where
  "mainSteps fw env opts =
     [GetConfigOrDie,
      NewManager (managerOptionsOf opts),
      SetupController ''Job'' (Job_SetupWithManager fw env),
      SetupController ''Service'' (Service_SetupWithManager fw env),
      SetupController ''KfJob'' (KfJob_SetupWithManager fw env),
      SetupController ''Cluster'' (Cluster_SetupWithManager fw env),
      AddHealthzCheck, AddReadyzCheck, Start]"

text \<open>The steps that were taken, and the exit code once the manager has stopped.\<close>

definition main_program ::
  "(step \<Rightarrow> error option) \<Rightarrow> framework \<Rightarrow> foreignFlags \<Rightarrow> (string \<Rightarrow> string option) \<Rightarrow> string list \<Rightarrow> (step list \<times> int) outcome"
where
  "main_program call fw foreign env args =
     (case parseFlags foreign env args of
        Panics msg \<Rightarrow> Panics msg
      | Returns (Inl code) \<Rightarrow> Returns ([], code)
      | Returns (Inr opts) \<Rightarrow> Returns (runSteps call (mainSteps fw env opts)))"

section \<open>Properties\<close>

lemma runSteps_takes:
  "runSteps call xs =
     (let n = length (takeWhile (\<lambda>x. call x = None) xs)
      in (take (Suc n) xs, if n = length xs then 0 else 1))"
  by (induction xs) (auto simp: Let_def split: option.split prod.split)

lemma takeWhile_all: "length (takeWhile P xs) = length xs \<longleftrightarrow> (\<forall>x \<in> set xs. P x)"
  by (induction xs) auto

subsection \<open>Declaring the flags\<close>

lemmas go_defs = bindG_def readS_def modifyS_def ret_def panic_def

definition ownFlags :: "(string \<times> flagVar) list" where
  "ownFlags =
     [(''metrics-bind-address'', StringFlag metricsAddr_update), (''health-probe-bind-address'', StringFlag probeAddr_update),
      (''leader-elect'', BoolFlag enableLeaderElection_update), (''namespace'', StringFlag namespace_update),
      (''metrics-secure'', BoolFlag secureMetrics_update), (''webhook-cert-path'', StringFlag webhookCertPath_update),
      (''webhook-cert-name'', StringFlag webhookCertName_update), (''webhook-cert-key'', StringFlag webhookCertKey_update),
      (''metrics-cert-path'', StringFlag metricsCertPath_update), (''metrics-cert-name'', StringFlag metricsCertName_update),
      (''metrics-cert-key'', StringFlag metricsCertKey_update), (''enable-http2'', BoolFlag enableHTTP2_update)]"

definition defaults :: "string \<Rightarrow> bool \<Rightarrow> operatorOptions" where
  "defaults ns debug =
     \<lparr>metricsAddr = '':8080'', probeAddr = '':8081'', enableLeaderElection = False, namespace = ns, secureMetrics = True,
      webhookCertPath = '''', webhookCertName = ''tls.crt'', webhookCertKey = ''tls.key'',
      metricsCertPath = '''', metricsCertName = ''tls.crt'', metricsCertKey = ''tls.key'', enableHTTP2 = False, debugMode = debug\<rparr>"

lemma declare_run:
  "fst (bindG (Var name fl) g \<lparr>vars = opts, formal = f\<rparr>) =
     (if validName name \<and> f name = None then fst (g () \<lparr>vars = opts, formal = f(name \<mapsto> fl)\<rparr>) else Panics ''flag redefined'')"
  "fst (bindG (stringVar p name value) g \<lparr>vars = opts, formal = f\<rparr>) =
     (if validName name \<and> f name = None
      then fst (g () \<lparr>vars = p (\<lambda>_. value) opts, formal = f(name \<mapsto> StringFlag p)\<rparr>) else Panics ''flag redefined'')"
  "fst (bindG (boolVar q name b) g \<lparr>vars = opts, formal = f\<rparr>) =
     (if validName name \<and> f name = None
      then fst (g () \<lparr>vars = q (\<lambda>_. b) opts, formal = f(name \<mapsto> BoolFlag q)\<rparr>) else Panics ''flag redefined'')"
  by (simp_all add: stringVar_def boolVar_def Var_def go_defs)

lemma if_both: "(if a then if b then x else p else p) = (if a \<and> b then x else p)"
  by simp

lemma bind_bind: "bindG (bindG m f) g = bindG m (\<lambda>x. bindG (f x) g)"
  by (rule ext) (simp add: bindG_def split: prod.split outcome.split)

lemma bind_read: "fst (bindG (readS h) g s) = fst (g (h s) s)"
  by (simp add: go_defs)

text \<open>After the declarations nothing is left of the values the variables had but the namespace and the debug mode.\<close>

lemma declareFlags_run:
  "fst (bindG declareFlags g \<lparr>vars = opts, formal = f\<rparr>) =
     (if list_all (\<lambda>(name, fl). f name = None) ownFlags
      then fst (g () \<lparr>vars = defaults (namespace opts) (debugMode opts), formal = f ++ map_of (rev ownFlags)\<rparr>)
      else Panics ''flag redefined'')"
  by (cases opts) (simp add: declareFlags_def bind_bind declare_run bind_read validName_def ownFlags_def defaults_def if_both
      split del: if_split cong: if_cong)

fun isForeign :: "flagVar \<Rightarrow> bool" where
  "isForeign (ForeignFlag b accepts) = True"
| "isForeign _ = False"

text \<open>The flags of \<open>zap\<close> are added to the others.\<close>

fun addForeign :: "foreignFlag list \<Rightarrow> flagSet \<Rightarrow> flagSet" where
  "addForeign [] f = f"
| "addForeign ((name, isBool, accepts) # fs) f = addForeign fs (f(name \<mapsto> ForeignFlag isBool accepts))"

fun addable :: "foreignFlag list \<Rightarrow> flagSet \<Rightarrow> bool" where
  "addable [] f \<longleftrightarrow> True"
| "addable ((name, isBool, accepts) # fs) f \<longleftrightarrow>
     validName name \<and> f name = None \<and> addable fs (f(name \<mapsto> ForeignFlag isBool accepts))"

lemma bindFlags_run:
  "fst (bindG (bindFlags fs) g \<lparr>vars = opts, formal = f\<rparr>) =
     (if addable fs f then fst (g () \<lparr>vars = opts, formal = addForeign fs f\<rparr>) else Panics ''flag redefined'')"
proof (induction fs arbitrary: f)
  case (Cons x fs)
  then show ?case by (cases x) (simp add: bind_bind declare_run fun_upd_def)
qed (simp add: go_defs)

lemma addForeign_extends: "addable fs f \<Longrightarrow> f n = Some fl \<Longrightarrow> addForeign fs f n = Some fl"
proof (induction fs arbitrary: f)
  case (Cons x fs)
  obtain name b accepts where x: "x = (name, b, accepts)" by (cases x)
  with Cons.prems have "addable fs (f(name \<mapsto> ForeignFlag b accepts))" "(f(name \<mapsto> ForeignFlag b accepts)) n = Some fl" by auto
  from Cons.IH [OF this] show ?case by (simp add: x fun_upd_def)
qed simp

lemma addForeign_foreign: "addForeign fs f n = Some fl \<Longrightarrow> f n = Some fl \<or> isForeign fl"
proof (induction fs arbitrary: f)
  case (Cons x fs)
  then show ?case by (cases x) (force split: if_splits)
qed simp

lemma addable_fresh:
  "distinct (map fst fs) \<Longrightarrow> list_all (\<lambda>x. validName (fst x) \<and> f (fst x) = None) fs \<Longrightarrow> addable fs f"
proof (induction fs arbitrary: f)
  case (Cons x fs)
  then show ?case by (cases x) (auto simp: list_all_iff intro!: Cons.IH)
qed simp

text \<open>When no flag is declared twice, parsing starts from the defaults with every flag of \<open>main\<close> registered.\<close>

definition declaredSet :: "flagSet \<Rightarrow> bool" where
  "declaredSet f \<longleftrightarrow> map_of ownFlags \<subseteq>\<^sub>m f \<and> (\<forall>n fl. f n = Some fl \<longrightarrow> map_of ownFlags n = Some fl \<or> isForeign fl)"

lemma distinct_ownFlags: "distinct (map fst ownFlags)"
  by (simp add: ownFlags_def)

lemma setFromEnv_run:
  "fst (bindG (setFromEnv env) g (initFlags foreign)) =
     fst (g () \<lparr>vars = zeroOptions\<lparr>namespace := envNamespace env, enableLeaderElection := envLeaderElection env,
            debugMode := envDebugMode env\<rparr>, formal = formal (initFlags foreign)\<rparr>)"
  by (simp add: setFromEnv_def initFlags_def go_defs zeroOptions_def)

lemma map_of_rev: "distinct (map fst xs) \<Longrightarrow> map_of (rev xs) = map_of xs"
  by (metis map_of_eqI set_rev map_of_eq_Some_iff distinct_rev rev_map option.exhaust)

lemma parseFlags_run:
  "parseFlags foreign env args =
     (let f = formal (initFlags foreign)
      in if list_all (\<lambda>(name, fl). f name = None) ownFlags \<and> addable (zapFlags foreign) (f ++ map_of ownFlags)
         then Returns (parse (addForeign (zapFlags foreign) (f ++ map_of ownFlags)) args (defaults (envNamespace env) (envDebugMode env)))
         else Panics ''flag redefined'')"
  by (simp add: parseFlags_def setFromEnv_run declareFlags_run zeroOptions_def bindFlags_run readS_def Let_def
      map_of_rev distinct_ownFlags)

lemma declaredSet_addForeign:
  assumes "addable fs (formal (initFlags foreign) ++ map_of ownFlags)"
  shows "declaredSet (addForeign fs (formal (initFlags foreign) ++ map_of ownFlags))"
proof -
  have "isForeign fl" if "formal (initFlags foreign) n = Some fl" for n fl
    using that by (auto simp: initFlags_def dest!: map_of_SomeD)
  then have "map_of ownFlags n = Some fl \<or> isForeign fl" if "(formal (initFlags foreign) ++ map_of ownFlags) n = Some fl" for n fl
    using that by (auto simp: map_add_Some_iff)
  then show ?thesis
    using addForeign_extends [OF assms] addForeign_foreign unfolding declaredSet_def map_le_def
    by (metis domD map_add_find_right)
qed

lemma parseFlagsD:
  assumes "parseFlags foreign env args = Returns r"
  obtains f where "declaredSet f" "r = parse f args (defaults (envNamespace env) (envDebugMode env))"
  using assms declaredSet_addForeign by (auto simp: parseFlags_run Let_def split: if_splits)

subsection \<open>Parsing\<close>

text \<open>The arguments that set a flag, and what is parsed when none of them occurs.\<close>

definition sets :: "string \<Rightarrow> string \<Rightarrow> bool" where
  "sets name a \<longleftrightarrow> (\<exists>dashes \<in> {''-'', ''--''}. a = dashes @ name \<or> (\<exists>value. a = dashes @ name @ ''='' @ value))"

lemma cutEquals_name: "cutEquals s = (name, eq) \<Longrightarrow> s = name @ (case eq of None \<Rightarrow> [] | Some value \<Rightarrow> ''='' @ value)"
proof -
  assume cut: "cutEquals s = (name, eq)"
  have "s = takeWhile (\<lambda>c. c \<noteq> CHR ''='') s @ dropWhile (\<lambda>c. c \<noteq> CHR ''='') s" by simp
  with cut show ?thesis
    by (auto simp: cutEquals_def dropWhile_eq_Cons_conv split: list.splits)
qed

lemma parseOne_keeps:
  assumes one: "parseOne f (a # args) opts = Inr (seen, rest, opts')" and unset: "\<not> sets name a"
    and keeps: "\<And>n fl v o1 o2. f n = Some fl \<Longrightarrow> n \<noteq> name \<Longrightarrow> setFlag fl v o1 = Some o2 \<Longrightarrow> x o2 = x o1"
  shows "x opts' = x opts"
proof (cases "length a < 2 \<or> a ! 0 \<noteq> CHR ''-'' \<or> a = ''--''")
  case True
  then show ?thesis using one by (auto split: if_splits)
next
  case False
  define body where "body = (if a ! 1 = CHR ''-'' then drop 2 a else drop 1 a)"
  have a: "a = ''-'' @ body \<or> a = ''--'' @ body"
    using False by (cases a; cases "tl a") (auto simp: body_def)
  obtain n eq where cut: "cutEquals body = (n, eq)" by (cases "cutEquals body")
  have "n \<noteq> name"
    using a unset cutEquals_name [OF cut] by (auto simp: sets_def split: option.splits)
  moreover obtain fl v where "f n = Some fl" "setFlag fl v opts = Some opts'"
    using one False cut unfolding body_def
    by (auto simp: Let_def split: if_splits option.splits list.splits)
  ultimately show ?thesis using keeps by blast
qed

lemma parseOne_rest: "parseOne f args opts = Inr (seen, rest, opts') \<Longrightarrow> set rest \<subseteq> set args"
  by (cases args) (auto simp: Let_def split: if_splits option.splits prod.splits list.splits)

text \<open>The environment variables that the program reads besides that of the leader election.\<close>

lemma cfg_others:
  "cfgSingleNamespace \<noteq> cfgLeaderElection" "cfgNamespace \<noteq> cfgLeaderElection" "cfgLogLevel \<noteq> cfgLeaderElection"
  "cfgMaxConcurrentReconciles \<noteq> cfgLeaderElection" "cfgIstioEnabled \<noteq> cfgLeaderElection" "cfgTFJobEnabled \<noteq> cfgLeaderElection"
  "cfgPytorchJobEnabled \<noteq> cfgLeaderElection" "cfgMPIJobEnabled \<noteq> cfgLeaderElection" "cfgDaskClusterEnabled \<noteq> cfgLeaderElection"
  "cfgRayClusterEnabled \<noteq> cfgLeaderElection"
  by (simp_all add: cfgSingleNamespace_def cfgNamespace_def cfgLogLevel_def cfgMaxConcurrentReconciles_def cfgIstioEnabled_def
      cfgTFJobEnabled_def cfgPytorchJobEnabled_def cfgMPIJobEnabled_def cfgDaskClusterEnabled_def cfgRayClusterEnabled_def
      cfgLeaderElection_def)

lemma parse_keeps:
  assumes keeps: "\<And>n fl v o1 o2. f n = Some fl \<Longrightarrow> n \<noteq> name \<Longrightarrow> setFlag fl v o1 = Some o2 \<Longrightarrow> x o2 = x o1"
  shows "parse f args opts = Inr opts' \<Longrightarrow> list_all (\<lambda>a. \<not> sets name a) args \<Longrightarrow> x opts' = x opts"
proof (induction args arbitrary: opts rule: measure_induct_rule [where f = length])
  case (less args)
  show ?case
  proof (cases args)
    case Nil
    then show ?thesis using less.prems by (simp add: parse.simps)
  next
    case (Cons a as)
    then obtain seen rest opts1 where one: "parseOne f args opts = Inr (seen, rest, opts1)"
      and more: "if seen then parse f rest opts1 = Inr opts' else opts' = opts1"
      using less.prems by (subst (asm) parse.simps) (auto split: sum.splits prod.splits if_splits)
    have first: "x opts1 = x opts"
      using one less.prems(2) keeps unfolding Cons by (intro parseOne_keeps [of f a as opts seen rest opts1 name x]) auto
    show ?thesis
    proof (cases seen)
      case True
      with one have "length rest < length args" by (simp add: parseOne_shorter)
      moreover have "list_all (\<lambda>a. \<not> sets name a) rest"
        using parseOne_rest [OF one] less.prems(2) by (auto simp: list_all_iff)
      ultimately show ?thesis using less.IH [of rest opts1] more True first by simp
    next
      case False
      with more first show ?thesis by simp
    qed
  qed
qed

lemma leader_election_set:
  assumes "declaredSet f" "parse f args (defaults ns debug) = Inr opts" "enableLeaderElection opts"
  shows "\<exists>a \<in> set args. sets ''leader-elect'' a"
proof (rule ccontr)
  assume "\<not> ?thesis"
  then have unset: "list_all (\<lambda>a. \<not> sets ''leader-elect'' a) args" by (auto simp: list_all_iff)
  have inv: "enableLeaderElection o2 = enableLeaderElection o1"
    if "f n = Some fl" "n \<noteq> ''leader-elect''" "setFlag fl v o1 = Some o2" for n fl v o1 o2
  proof -
    have "map_of ownFlags n = Some fl \<or> isForeign fl" using assms(1) that(1) by (auto simp: declaredSet_def)
    then show ?thesis
    proof
      assume "isForeign fl"
      then show ?thesis using that(3) by (cases fl) (auto split: if_splits)
    next
      assume "map_of ownFlags n = Some fl"
      then show ?thesis using that(2,3) by (auto simp: ownFlags_def split: if_splits)
    qed
  qed
  from parse_keeps [where x = enableLeaderElection, OF inv assms(2) unset]
  have "enableLeaderElection opts = enableLeaderElection (defaults ns debug)" .
  with assms(3) show False by (simp add: defaults_def)
qed

text \<open>C38: the environment does not turn on leader election. \<open>main\<close> sets its variable from the environment, but then declares
  the flag, which assigns the flag's default. So the whole program, its steps and its exit code, is the same whatever
  \<open>POLYAXON_LEADER_ELECTION\<close> is, for every command line, every other environment and every answer of the
  framework; and a manager with leader election is only created when an argument names the flag.\<close>

theorem leader_election_env_ignored:
  "main_program call fw foreign (env(cfgLeaderElection := x)) args = main_program call fw foreign env args \<and>
   (main_program call fw foreign env args = Returns (steps, code) \<longrightarrow> NewManager m \<in> set steps \<longrightarrow> mgrLeaderElection m \<longrightarrow>
     (\<exists>a \<in> set args. sets ''leader-elect'' a))"
proof (intro conjI impI)
  have other: "GetBoolEnv (env(cfgLeaderElection := x)) k d = GetBoolEnv env k d"
    "GetStrEnv (env(cfgLeaderElection := x)) k s = GetStrEnv env k s" "GetIntEnv (env(cfgLeaderElection := x)) k i = GetIntEnv env k i"
    if "k \<noteq> cfgLeaderElection" for k d s i
    using that by (simp_all add: GetBoolEnv_def GetStrEnv_def GetIntEnv_def)
  have steps: "mainSteps fw (env(cfgLeaderElection := x)) = mainSteps fw env"
    by (rule ext) (simp add: mainSteps_def Job_SetupWithManager_def Service_SetupWithManager_def KfJob_SetupWithManager_def
        Cluster_SetupWithManager_def forKind_def watchKf_def cfg_others [THEN other(1)] cfg_others [THEN other(2)] cfg_others [THEN other(3)])
  have "envNamespace (env(cfgLeaderElection := x)) = envNamespace env" "envDebugMode (env(cfgLeaderElection := x)) = envDebugMode env"
    by (simp_all add: envNamespace_def envDebugMode_def cfg_others [THEN other(1)] cfg_others [THEN other(2)])
  then have "parseFlags foreign (env(cfgLeaderElection := x)) args = parseFlags foreign env args"
    by (simp only: parseFlags_run)
  with steps show "main_program call fw foreign (env(cfgLeaderElection := x)) args = main_program call fw foreign env args"
    by (simp only: main_program_def)
next
  assume run: "main_program call fw foreign env args = Returns (steps, code)" and m: "NewManager m \<in> set steps" "mgrLeaderElection m"
  then obtain opts where opts: "parseFlags foreign env args = Returns (Inr opts)" "steps = fst (runSteps call (mainSteps fw env opts))"
    by (auto simp: main_program_def split: outcome.splits sum.splits)
  from m(1) have "NewManager m \<in> set (mainSteps fw env opts)"
    by (auto simp: opts(2) runSteps_takes Let_def dest: in_set_takeD)
  with m(2) have "enableLeaderElection opts" by (simp add: mainSteps_def managerOptionsOf_def)
  with opts(1) show "\<exists>a \<in> set args. sets ''leader-elect'' a"
    by (elim parseFlagsD) (metis leader_election_set)
qed

subsection \<open>Command lines\<close>

text \<open>A setting of a flag: the number of its dashes, the name, whether the value is left out, follows an equals sign or is the next
  argument, and the value.\<close>

datatype form = Bare | WithEquals | NextArgument

record setting =
  twoDashes :: bool
  flagName :: string
  flagForm :: form
  flagValue :: string

definition argsOf :: "setting \<Rightarrow> string list" where
  "argsOf x =
     (let flag = (if twoDashes x then ''--'' else ''-'') @ flagName x
      in case flagForm x of
           Bare \<Rightarrow> [flag] | WithEquals \<Rightarrow> [flag @ ''='' @ flagValue x] | NextArgument \<Rightarrow> [flag, flagValue x])"

text \<open>A boolean flag may be left bare, which sets it, and takes its value after an equals sign only; a string flag needs a value.\<close>

definition boolFlags :: "string list" where
  "boolFlags = [''leader-elect'', ''metrics-secure'', ''enable-http2'']"

definition stringFlags :: "string list" where
  "stringFlags = [''metrics-bind-address'', ''health-probe-bind-address'', ''namespace'', ''webhook-cert-path'', ''webhook-cert-name'',
     ''webhook-cert-key'', ''metrics-cert-path'', ''metrics-cert-name'', ''metrics-cert-key'']"

definition wellFormed :: "setting \<Rightarrow> bool" where
  "wellFormed x \<longleftrightarrow>
     (flagName x \<in> set boolFlags \<and> (flagForm x = Bare \<and> flagValue x = ''true'' \<or> flagForm x = WithEquals \<and> parseBool (flagValue x) \<noteq> None)) \<or>
     (flagName x \<in> set stringFlags \<and> flagForm x \<noteq> Bare)"

text \<open>Where the flags end: at the end of the command line, at two dashes, or at an argument that is no flag.\<close>

definition flagsEnd :: "string list \<Rightarrow> bool" where
  "flagsEnd rest \<longleftrightarrow> (case rest of [] \<Rightarrow> True | a # _ \<Rightarrow> a = ''--'' \<or> length a < 2 \<or> a ! 0 \<noteq> CHR ''-'')"

text \<open>The last setting of a flag, or its default.\<close>

fun lastString :: "string \<Rightarrow> string \<Rightarrow> setting list \<Rightarrow> string" where
  "lastString name d [] = d"
| "lastString name d (x # xs) = lastString name (if flagName x = name then flagValue x else d) xs"

fun lastBool :: "string \<Rightarrow> bool \<Rightarrow> setting list \<Rightarrow> bool" where
  "lastBool name d [] = d"
| "lastBool name d (x # xs) = lastBool name (if flagName x = name then parseBool (flagValue x) = Some True else d) xs"

definition settled :: "operatorOptions \<Rightarrow> setting list \<Rightarrow> operatorOptions" where
  "settled o' xs =
     \<lparr>metricsAddr = lastString ''metrics-bind-address'' (metricsAddr o') xs,
      probeAddr = lastString ''health-probe-bind-address'' (probeAddr o') xs,
      enableLeaderElection = lastBool ''leader-elect'' (enableLeaderElection o') xs,
      namespace = lastString ''namespace'' (namespace o') xs,
      secureMetrics = lastBool ''metrics-secure'' (secureMetrics o') xs,
      webhookCertPath = lastString ''webhook-cert-path'' (webhookCertPath o') xs,
      webhookCertName = lastString ''webhook-cert-name'' (webhookCertName o') xs,
      webhookCertKey = lastString ''webhook-cert-key'' (webhookCertKey o') xs,
      metricsCertPath = lastString ''metrics-cert-path'' (metricsCertPath o') xs,
      metricsCertName = lastString ''metrics-cert-name'' (metricsCertName o') xs,
      metricsCertKey = lastString ''metrics-cert-key'' (metricsCertKey o') xs,
      enableHTTP2 = lastBool ''enable-http2'' (enableHTTP2 o') xs,
      debugMode = debugMode o'\<rparr>"

lemma settled_Nil: "settled o' [] = o'"
  by (simp add: settled_def)

lemma flag_set:
  assumes "wellFormed x"
  shows "case map_of ownFlags (flagName x) of None \<Rightarrow> False
    | Some fl \<Rightarrow> (isBoolFlag fl \<longleftrightarrow> flagName x \<in> set boolFlags) \<and>
        (case setFlag fl (flagValue x) o1 of None \<Rightarrow> False | Some o2 \<Rightarrow> settled o2 xs = settled o1 (x # xs))"
proof (cases "flagName x \<in> set boolFlags")
  case True
  with assms obtain b where b: "parseBool (flagValue x) = Some b"
    by (auto simp: wellFormed_def parseBool_def boolFlags_def stringFlags_def)
  have "flagName x = ''leader-elect'' \<or> flagName x = ''metrics-secure'' \<or> flagName x = ''enable-http2''"
    using True by (simp add: boolFlags_def)
  then show ?thesis
    by (elim disjE) (simp_all add: b ownFlags_def boolFlags_def settled_def)
next
  case False
  with assms have "flagName x \<in> set stringFlags" by (simp add: wellFormed_def)
  then show ?thesis
    unfolding stringFlags_def list.set
    by (elim insertE emptyE) (simp_all add: ownFlags_def boolFlags_def settled_def)
qed

lemma own_name:
  assumes "map_of ownFlags name = Some fl"
  shows "name \<noteq> [] \<and> name ! 0 \<noteq> CHR ''-'' \<and> CHR ''='' \<notin> set name"
proof -
  have "list_all (\<lambda>(n, fl). n \<noteq> [] \<and> n ! 0 \<noteq> CHR ''-'' \<and> CHR ''='' \<notin> set n) ownFlags" by (simp add: ownFlags_def)
  with map_of_SomeD [OF assms] show ?thesis by (fastforce simp: list_all_iff)
qed

lemma cutEquals_plain:
  assumes "CHR ''='' \<notin> set name"
  shows "cutEquals name = (name, None)" "cutEquals (name @ CHR ''='' # value) = (name, Some value)"
proof -
  have cut: "dropWhile (\<lambda>c. c \<noteq> CHR ''='') name = []" "dropWhile (\<lambda>c. c \<noteq> CHR ''='') (name @ CHR ''='' # value) = CHR ''='' # value"
    "takeWhile (\<lambda>c. c \<noteq> CHR ''='') (name @ CHR ''='' # value) = name"
    using assms by (induction name) auto
  show "cutEquals name = (name, None)" "cutEquals (name @ CHR ''='' # value) = (name, Some value)"
    unfolding cutEquals_def cut by simp_all
qed

text \<open>A flag with its name split off.\<close>

lemma parseOne_flag:
  assumes "body \<noteq> []" "body ! 0 \<noteq> CHR ''-''" "body ! 0 \<noteq> CHR ''=''" "dashes = ''-'' \<or> dashes = ''--''" "cutEquals body = (name, eq)" "f name = Some fl"
  shows "parseOne f ((dashes @ body) # args) opts =
     (if isBoolFlag fl then
        (case setFlag fl (case eq of None \<Rightarrow> ''true'' | Some value \<Rightarrow> value) opts of None \<Rightarrow> Inl 2 | Some opts' \<Rightarrow> Inr (True, args, opts'))
      else
        (case (case eq of Some value \<Rightarrow> Some (value, args)
               | None \<Rightarrow> (case args of [] \<Rightarrow> None | value # rest \<Rightarrow> Some (value, rest))) of
           None \<Rightarrow> Inl 2
         | Some (value, rest) \<Rightarrow> (case setFlag fl value opts of None \<Rightarrow> Inl 2 | Some opts' \<Rightarrow> Inr (True, rest, opts'))))"
  using assms by (cases body) (auto split del: if_split)

lemma parseOne_setting:
  assumes f: "map_of ownFlags \<subseteq>\<^sub>m f" and x: "wellFormed x"
  shows "\<exists>o2. parseOne f (argsOf x @ args) opts = Inr (True, args, o2) \<and> settled o2 xs = settled opts (x # xs)"
proof -
  obtain fl o2 where own: "map_of ownFlags (flagName x) = Some fl" "isBoolFlag fl \<longleftrightarrow> flagName x \<in> set boolFlags"
    and set: "setFlag fl (flagValue x) opts = Some o2" "settled o2 xs = settled opts (x # xs)"
    using flag_set [OF x, where ?o1.0 = opts and xs = xs] by (auto split: option.splits)
  have name: "flagName x \<noteq> []" "flagName x ! 0 \<noteq> CHR ''-''" "CHR ''='' \<notin> set (flagName x)"
    using own_name [OF own(1)] by auto
  then have eq: "flagName x ! 0 \<noteq> CHR ''=''" by (cases "flagName x") auto
  have fl: "f (flagName x) = Some fl" using f own(1) by (metis domI map_le_def)
  have disjoint: "flagName x \<notin> set stringFlags" if "flagName x \<in> set boolFlags"
    using that by (auto simp: stringFlags_def boolFlags_def)
  note one = parseOne_flag [where f = f, OF _ _ _ _ cutEquals_plain(1) [OF name(3)] fl, of "if twoDashes x then ''--'' else ''-''" args opts]
    parseOne_flag [where f = f, OF _ _ _ _ cutEquals_plain(2) [OF name(3)] fl, of "flagValue x" "if twoDashes x then ''--'' else ''-''" args opts]
    parseOne_flag [where f = f, OF _ _ _ _ cutEquals_plain(1) [OF name(3)] fl, of "if twoDashes x then ''--'' else ''-''" "flagValue x # args" opts]
  have "parseOne f (argsOf x @ args) opts = Inr (True, args, o2)"
    using x disjoint one name eq own(2) set(1) by (cases "flagForm x") (auto simp: argsOf_def Let_def wellFormed_def nth_append)
  with set(2) show ?thesis by blast
qed

lemma parse_settings:
  assumes "map_of ownFlags \<subseteq>\<^sub>m f" "flagsEnd rest"
  shows "list_all wellFormed xs \<Longrightarrow> parse f (concat (map argsOf xs) @ rest) opts = Inr (settled opts xs)"
proof (induction xs arbitrary: opts)
  case Nil
  have "parseOne f rest opts = Inr (False, if rest \<noteq> [] \<and> hd rest = ''--'' then tl rest else rest, opts)"
    using assms(2) by (cases rest) (auto simp: flagsEnd_def)
  then show ?case by (simp add: parse.simps settled_Nil)
next
  case (Cons x xs)
  then obtain o2 where "parseOne f (argsOf x @ concat (map argsOf xs) @ rest) opts = Inr (True, concat (map argsOf xs) @ rest, o2)"
    "settled o2 xs = settled opts (x # xs)"
    using parseOne_setting [OF assms(1)] by force
  with Cons show ?case by (simp add: parse.simps)
qed

text \<open>The names of foreign flags are well formed and differ from each other and from those of \<open>main\<close>, or the program would panic.\<close>

definition apart :: "foreignFlags \<Rightarrow> bool" where
  "apart foreign \<longleftrightarrow> distinct (map fst (predeclared foreign @ zapFlags foreign)) \<and>
     list_all (\<lambda>x. validName (fst x) \<and> fst x \<notin> set (boolFlags @ stringFlags)) (predeclared foreign @ zapFlags foreign)"

lemma ownFlags_names: "set (map fst ownFlags) = set (boolFlags @ stringFlags)"
  by (auto simp: ownFlags_def boolFlags_def stringFlags_def)

lemma initFlags_None: "formal (initFlags foreign) n = None \<longleftrightarrow> n \<notin> fst ` set (predeclared foreign)"
  by (force simp: initFlags_def map_of_eq_None_iff)

lemma parseFlags_apart:
  assumes "apart foreign"
  obtains f where "declaredSet f" "\<And>env args. parseFlags foreign env args = Returns (parse f args (defaults (envNamespace env) (envDebugMode env)))"
proof -
  let ?f = "formal (initFlags foreign)"
  have "?f n = None" if "n \<in> set (map fst ownFlags)" for n
    using assms that unfolding ownFlags_names by (auto simp: apart_def list_all_iff initFlags_None)
  then have own: "list_all (\<lambda>(name, fl). ?f name = None) ownFlags" by (force simp: list_all_iff)
  have "map_of ownFlags n = None" if "n \<notin> set (boolFlags @ stringFlags)" for n
    using that ownFlags_names by (simp add: map_of_eq_None_iff)
  moreover have "distinct (map fst (zapFlags foreign))" "fst ` set (predeclared foreign) \<inter> fst ` set (zapFlags foreign) = {}"
    using assms by (auto simp: apart_def)
  ultimately have zap: "addable (zapFlags foreign) (?f ++ map_of ownFlags)"
    using assms by (intro addable_fresh) (auto simp: apart_def list_all_iff initFlags_None)
  show thesis
    by (rule that [OF declaredSet_addForeign [OF zap]]) (simp add: parseFlags_run Let_def own zap)
qed

lemma main_settings:
  assumes "apart foreign" "list_all wellFormed xs" "flagsEnd rest"
  shows "main_program call fw foreign env (concat (map argsOf xs) @ rest) =
    Returns (runSteps call (mainSteps fw env (settled (defaults (envNamespace env) (envDebugMode env)) xs)))"
proof -
  obtain f where f: "declaredSet f" "parseFlags foreign env args = Returns (parse f args (defaults (envNamespace env) (envDebugMode env)))" for args
    using parseFlags_apart [OF assms(1)] by metis
  then have "map_of ownFlags \<subseteq>\<^sub>m f" by (simp add: declaredSet_def)
  from parse_settings [OF this assms(3,2)] f(2) show ?thesis by (simp add: main_program_def)
qed

text \<open>C37: what is written on the command line is what the manager gets. For any list of settings of the flags of \<open>main\<close>, each written with
  one dash or two, as a bare flag, with an equals sign or with the value as the next argument, and any arguments after the
  end of the flags, the program does not exit early: it takes its steps with options that have for each flag
  the value of its last setting, and its default otherwise; the default of the namespace is that of the environment,
  that of leader election is false whatever the environment says.\<close>

theorem command_line_options:
  assumes "apart foreign" "list_all wellFormed xs" "flagsEnd rest"
  shows "main_program call fw foreign env (concat (map argsOf xs) @ rest) =
    Returns (runSteps call (mainSteps fw env (settled (defaults (envNamespace env) (envDebugMode env)) xs)))"
  using assms by (rule main_settings)

text \<open>The manager runs only when everything is in place. Whatever the framework answers, the steps taken are an initial part of
  the nine of \<open>main\<close>, all but the last of them succeeded, and the exit code is zero exactly when all nine did; in
  particular the manager is started only after the four controllers are registered.\<close>

lemma main_starts_last:
  assumes "parseFlags foreign env args = Returns (Inr opts)"
  shows "\<exists>run n. main_program call fw foreign env args = Returns run \<and> fst run = take n (mainSteps fw env opts) \<and> 0 < n \<and> (\<forall>x \<in> set (butlast (fst run)). call x = None) \<and>
    (snd run = 0 \<longleftrightarrow> (\<forall>x \<in> set (mainSteps fw env opts). call x = None)) \<and>
    (Start \<in> set (fst run) \<longrightarrow> fst run = mainSteps fw env opts)"
proof -
  let ?xs = "mainSteps fw env opts" and ?P = "\<lambda>x. call x = None"
  define run where "run = runSteps call ?xs"
  define n where "n = length (takeWhile ?P ?xs)"
  have run: "run = (take (Suc n) ?xs, if n = length ?xs then 0 else 1)"
    by (simp add: run_def runSteps_takes Let_def n_def)
  have all: "n = length ?xs \<longleftrightarrow> (\<forall>x \<in> set ?xs. ?P x)"
    unfolding n_def by (rule takeWhile_all)
  have pre: "\<forall>x \<in> set (take n ?xs). ?P x"
    by (metis n_def set_takeWhileD takeWhile_eq_take)
  have "butlast (take (Suc n) ?xs) = take n ?xs \<or> n = length ?xs"
    using length_takeWhile_le [of ?P ?xs] by (auto simp: n_def butlast_take)
  with pre all have "\<forall>x \<in> set (butlast (take (Suc n) ?xs)). ?P x" by (auto dest: in_set_butlastD in_set_takeD)
  moreover have "take (Suc n) ?xs = ?xs" if "Start \<in> set (take (Suc n) ?xs)"
  proof (rule ccontr)
    assume "take (Suc n) ?xs \<noteq> ?xs"
    then have "Suc n \<le> 8" by (simp add: mainSteps_def not_le [symmetric])
    then have "set (take (Suc n) ?xs) \<subseteq> set (take 8 ?xs)" by (rule set_take_subset_set_take)
    with that show False by (auto simp: mainSteps_def)
  qed
  moreover have "main_program call fw foreign env args = Returns run" using assms by (simp add: main_program_def run_def)
  ultimately show ?thesis using all by (intro exI [of _ run] exI [of _ "Suc n"]) (simp add: run)
qed

section \<open>Witnesses\<close>

text \<open>The flag that controller-runtime registers and one of \<open>zap\<close>.\<close>

definition demoForeign :: foreignFlags where
  "demoForeign = \<lparr>predeclared = [(''kubeconfig'', False, \<lambda>_. True)], zapFlags = [(''zap-devel'', True, \<lambda>v. parseBool v \<noteq> None)]\<rparr>"

lemma demoForeign_apart: "apart demoForeign"
  by (simp add: apart_def demoForeign_def validName_def boolFlags_def stringFlags_def)

lemma demoEnv:
  "envLeaderElection (Map.empty(cfgLeaderElection \<mapsto> ''true''))" "envNamespace (Map.empty(cfgLeaderElection \<mapsto> ''true'')) = []"
  "envDebugMode (Map.empty(cfgLeaderElection \<mapsto> ''true'')) = False"
  by (simp_all add: envLeaderElection_def envNamespace_def envDebugMode_def GetBoolEnv_def GetStrEnv_def cfgSingleNamespace_def
      cfgLeaderElection_def cfgLogLevel_def toLower_def parseBool_def)

lemma runSteps_all: "runSteps (\<lambda>_. None) xs = (xs, 0)"
  by (induction xs) simp_all

theorem command_line_options_witness:
  "main_program (\<lambda>_. None) plainFramework demoForeign (Map.empty(cfgLeaderElection \<mapsto> ''true'')) [''--namespace'', ''team'', ''-namespace=ml'', ''--'', ''x''] =
   Returns (mainSteps plainFramework (Map.empty(cfgLeaderElection \<mapsto> ''true'')) ((defaults [] False)\<lparr>namespace := ''ml''\<rparr>), 0)"
proof -
  let ?env = "Map.empty(cfgLeaderElection \<mapsto> ''true'')"
  let ?xs = "[\<lparr>twoDashes = True, flagName = ''namespace'', flagForm = NextArgument, flagValue = ''team''\<rparr>,
     \<lparr>twoDashes = False, flagName = ''namespace'', flagForm = WithEquals, flagValue = ''ml''\<rparr>]"
  have "list_all wellFormed ?xs" "flagsEnd [''--'', ''x'']"
    by (simp_all add: wellFormed_def boolFlags_def stringFlags_def flagsEnd_def)
  note run = command_line_options [OF demoForeign_apart this, of "\<lambda>_. None" plainFramework ?env]
  have "concat (map argsOf ?xs) @ [''--'', ''x''] = [''--namespace'', ''team'', ''-namespace=ml'', ''--'', ''x'']"
    by (simp add: argsOf_def)
  moreover have "settled (defaults [] False) ?xs = (defaults [] False)\<lparr>namespace := ''ml''\<rparr>"
    by (simp add: settled_def defaults_def)
  ultimately show ?thesis using run by (simp add: demoEnv runSteps_all)
qed

theorem leader_election_env_ignored_witness:
  "let env = Map.empty(cfgLeaderElection \<mapsto> ''true''); steps = mainSteps plainFramework env ((defaults [] False)\<lparr>enableLeaderElection := True\<rparr>)
   in envLeaderElection env \<and>
      main_program (\<lambda>_. None) plainFramework demoForeign env [] = main_program (\<lambda>_. None) plainFramework demoForeign Map.empty [] \<and>
      main_program (\<lambda>_. None) plainFramework demoForeign env [''-leader-elect''] = Returns (steps, 0) \<and>
      (\<exists>m. NewManager m \<in> set steps \<and> mgrLeaderElection m) \<and> (\<exists>a \<in> set [''-leader-elect'']. sets ''leader-elect'' a)"
proof -
  let ?env = "Map.empty(cfgLeaderElection \<mapsto> ''true'')" and ?x = "\<lparr>twoDashes = False, flagName = ''leader-elect'', flagForm = Bare, flagValue = ''true''\<rparr>"
  let ?opts = "(defaults [] False)\<lparr>enableLeaderElection := True\<rparr>"
  have "list_all wellFormed [?x]" "flagsEnd []" "argsOf ?x = [''-leader-elect'']" "settled (defaults [] False) [?x] = ?opts"
    by (simp_all add: wellFormed_def boolFlags_def flagsEnd_def argsOf_def settled_def defaults_def parseBool_def)
  then have run: "main_program (\<lambda>_. None) plainFramework demoForeign ?env [''-leader-elect''] = Returns (mainSteps plainFramework ?env ?opts, 0)"
    using main_settings [OF demoForeign_apart, of "[?x]" "[]" "\<lambda>_. None" plainFramework ?env] by (simp add: demoEnv runSteps_all)
  have m: "NewManager (managerOptionsOf ?opts) \<in> set (mainSteps plainFramework ?env ?opts)" "mgrLeaderElection (managerOptionsOf ?opts)"
    by (simp_all add: mainSteps_def managerOptionsOf_def)
  have "\<exists>a \<in> set [''-leader-elect'']. sets ''leader-elect'' a"
    using leader_election_env_ignored [THEN conjunct2, rule_format, OF run m] .
  moreover have "main_program (\<lambda>_. None) plainFramework demoForeign ?env [] = main_program (\<lambda>_. None) plainFramework demoForeign Map.empty []"
    by (rule leader_election_env_ignored [THEN conjunct1])
  ultimately show ?thesis unfolding Let_def using run m demoEnv(1) by blast
qed

end
