(* ===== verification/Go_Memory.thy ===== *)
theory Go_Memory
  imports Prelude
begin

text \<open>
  Memory of a Go program, for the code whose purpose is the sharing of objects: values as the
  program sees them (integers, strings, structs, and references to variables, arrays and maps),
  a store of objects, and the built-in operations \<open>new\<close>, \<open>make\<close>, \<open>copy\<close>, dereference and
  assignment on it.

  A type descriptor \<open>gty\<close> is the layout of a Go type. \<open>view\<close> reads a value of such a type out of the
  store: the tree of data it stands for, without addresses, and the addresses of the objects the
  data is spread over. A value is well typed in a store when it has a view.

  \<open>copies t f\<close> is the contract of a deep copy: on every well-typed value of type \<open>t\<close> the code \<open>f\<close>
  returns a value of the same type with the same tree, leaves the objects of the store as they are
  and uses new objects only. The lemmas collected in \<open>copies_intros\<close> give the contract to each
  statement form of generated copy functions.
\<close>

section \<open>Values, objects and types\<close>

type_synonym addr = nat

text \<open>A slice is an array with an offset and a length; a nil pointer, slice or map is \<open>GNil\<close>.\<close>

datatype gval =
    GInt int
  | GBool bool
  | GStr string
  | GNil
  | GRef addr
  | GSlice addr nat nat
  | GStruct "(string \<times> gval) list"

datatype gobj = Cell gval | Array "gval list" | Table "(string \<times> gval) list"

type_synonym store = "gobj list"
type_synonym copier = "gval \<Rightarrow> (store, gval) go"

datatype gty =
    TInt nat
  | TBool
  | TStr
  | TPtr gty
  | TSlice gty
  | TMap gty
  | TStruct "(string \<times> gty) list"

datatype tree =
    LInt int
  | LBool bool
  | LStr string
  | LNil
  | LPtr tree
  | LSlice "tree list"
  | LMap "(string \<times> tree) list"
  | LStruct "(string \<times> tree) list"

fun zero :: "gty \<Rightarrow> gval" where
  "zero (TInt w) = GInt 0"
| "zero TBool = GBool False"
| "zero TStr = GStr ''''"
| "zero (TPtr t) = GNil"
| "zero (TSlice t) = GNil"
| "zero (TMap t) = GNil"
| "zero (TStruct fts) = GStruct (map (\<lambda>(f, t). (f, zero t)) fts)"

text \<open>Types whose values hold no reference: assigning one copies it whole.\<close>

fun flat :: "gty \<Rightarrow> bool" where
  "flat (TInt w) = True"
| "flat TBool = True"
| "flat TStr = True"
| "flat (TPtr t) = False"
| "flat (TSlice t) = False"
| "flat (TMap t) = False"
| "flat (TStruct fts) = (\<forall>(f, t) \<in> set fts. flat t)"

definition objAt :: "store \<Rightarrow> addr \<Rightarrow> gobj option" where
  "objAt h a = (if a < length h then Some (h ! a) else None)"

section \<open>Reading a value out of the store\<close>

fun viewAll :: "('a \<Rightarrow> ('b \<times> addr list) option) \<Rightarrow> 'a list \<Rightarrow> ('b list \<times> addr list) option" where
  "viewAll f [] = Some ([], [])"
| "viewAll f (x # xs) =
     (case f x of None \<Rightarrow> None
      | Some (y, as) \<Rightarrow>
          (case viewAll f xs of None \<Rightarrow> None | Some (ys, bs) \<Rightarrow> Some (y # ys, as @ bs)))"

definition viewEntry ::
  "('a \<Rightarrow> ('b \<times> addr list) option) \<Rightarrow> string \<times> 'a \<Rightarrow> ((string \<times> 'b) \<times> addr list) option" where
  "viewEntry f = (\<lambda>(k, x). case f x of None \<Rightarrow> None | Some (y, as) \<Rightarrow> Some ((k, y), as))"

definition inRange :: "nat \<Rightarrow> int \<Rightarrow> bool" where
  "inRange w i \<longleftrightarrow> - (2 ^ (w - 1)) \<le> i \<and> i < 2 ^ (w - 1)"

fun view :: "store \<Rightarrow> gty \<Rightarrow> gval \<Rightarrow> (tree \<times> addr list) option"
  and viewFields ::
    "store \<Rightarrow> (string \<times> gty) list \<Rightarrow> (string \<times> gval) list \<Rightarrow>
     ((string \<times> tree) list \<times> addr list) option" where
  "view h (TInt w) v =
     (case v of GInt i \<Rightarrow> if inRange w i then Some (LInt i, []) else None | _ \<Rightarrow> None)"
| "view h TBool v = (case v of GBool b \<Rightarrow> Some (LBool b, []) | _ \<Rightarrow> None)"
| "view h TStr v = (case v of GStr s \<Rightarrow> Some (LStr s, []) | _ \<Rightarrow> None)"
| "view h (TPtr t) v =
     (case v of GNil \<Rightarrow> Some (LNil, [])
      | GRef a \<Rightarrow>
          (case objAt h a of
             Some (Cell x) \<Rightarrow>
               (case view h t x of None \<Rightarrow> None | Some (l, as) \<Rightarrow> Some (LPtr l, a # as))
           | _ \<Rightarrow> None)
      | _ \<Rightarrow> None)"
| "view h (TSlice t) v =
     (case v of GNil \<Rightarrow> Some (LNil, [])
      | GSlice a i n \<Rightarrow>
          (case objAt h a of
             Some (Array xs) \<Rightarrow>
               if i + n \<le> length xs
               then (case viewAll (view h t) (take n (drop i xs)) of None \<Rightarrow> None
                     | Some (ls, as) \<Rightarrow> Some (LSlice ls, a # as))
               else None
           | _ \<Rightarrow> None)
      | _ \<Rightarrow> None)"
| "view h (TMap t) v =
     (case v of GNil \<Rightarrow> Some (LNil, [])
      | GRef a \<Rightarrow>
          (case objAt h a of
             Some (Table m) \<Rightarrow>
               if distinct (map fst m)
               then (case viewAll (viewEntry (view h t)) m of None \<Rightarrow> None
                     | Some (ls, as) \<Rightarrow> Some (LMap ls, a # as))
               else None
           | _ \<Rightarrow> None)
      | _ \<Rightarrow> None)"
| "view h (TStruct fts) v =
     (case v of
        GStruct fs \<Rightarrow>
          (case viewFields h fts fs of None \<Rightarrow> None | Some (ls, as) \<Rightarrow> Some (LStruct ls, as))
      | _ \<Rightarrow> None)"
| "viewFields h [] fs = (if fs = [] then Some ([], []) else None)"
| "viewFields h ((f, t) # fts) fs =
     (case fs of [] \<Rightarrow> None
      | (g, x) # gs \<Rightarrow>
          if f = g
          then (case view h t x of None \<Rightarrow> None
                | Some (l, as) \<Rightarrow>
                    (case viewFields h fts gs of None \<Rightarrow> None
                     | Some (ls, bs) \<Rightarrow> Some ((f, l) # ls, as @ bs)))
          else None)"

section \<open>Views and changes of the store\<close>

lemma objAt_append [simp]: "a < length h \<Longrightarrow> objAt (h @ e) a = objAt h a"
  by (simp add: objAt_def nth_append)

lemma objAt_Some: "objAt h a = Some o1 \<Longrightarrow> a < length h"
  by (simp add: objAt_def split: if_splits)

lemma objAt_new [simp]: "objAt (h @ o1 # e) (length h) = Some o1"
  by (simp add: objAt_def)

lemma objAt_update_other [simp]: "a \<noteq> b \<Longrightarrow> objAt (h[b := o1]) a = objAt h a"
  by (simp add: objAt_def)

lemma viewAll_Cons:
  "viewAll f (x # xs) = Some (ys, as) \<longleftrightarrow>
     (\<exists>y bs zs cs. f x = Some (y, bs) \<and> viewAll f xs = Some (zs, cs) \<and> ys = y # zs \<and> as = bs @ cs)"
  by (auto split: option.splits)

lemma viewAll_mono:
  assumes "viewAll f xs = Some (ys, as)"
    and "\<And>x y bs. f x = Some (y, bs) \<Longrightarrow> set bs \<subseteq> set as \<Longrightarrow> g x = Some (y, bs)"
  shows "viewAll g xs = Some (ys, as)"
  using assms
proof (induction xs arbitrary: ys as)
  case (Cons x xs)
  from Cons.prems(1) obtain y bs zs cs where f: "f x = Some (y, bs)" "viewAll f xs = Some (zs, cs)"
    and r: "ys = y # zs" "as = bs @ cs" unfolding viewAll_Cons by blast
  have "g x = Some (y, bs)" using f(1) by (rule Cons.prems(2)) (simp add: r)
  moreover have "viewAll g xs = Some (zs, cs)"
    using f(2) by (rule Cons.IH) (rule Cons.prems(2), simp_all add: r subset_iff)
  ultimately show ?case by (simp add: r)
qed simp

lemma viewAll_addrs:
  assumes "viewAll f xs = Some (ys, as)"
    and "\<And>x y bs. f x = Some (y, bs) \<Longrightarrow> \<forall>b \<in> set bs. P b"
  shows "\<forall>a \<in> set as. P a"
  using assms
  by (induction xs arbitrary: ys as) (fastforce split: option.splits)+

lemma viewAll_length: "viewAll f xs = Some (ys, as) \<Longrightarrow> length ys = length xs"
  by (induction xs arbitrary: ys as) (auto split: option.splits)

lemma viewEntry_Some:
  "viewEntry f e = Some (l, as) \<longleftrightarrow> (\<exists>k x y. e = (k, x) \<and> l = (k, y) \<and> f x = Some (y, as))"
  by (cases e) (auto simp: viewEntry_def split: option.splits)

lemma view_ptr_Some:
  "view h (TPtr t) v = Some (l, as) \<longleftrightarrow>
     v = GNil \<and> l = LNil \<and> as = [] \<or>
     (\<exists>a x l' bs. v = GRef a \<and> objAt h a = Some (Cell x) \<and> view h t x = Some (l', bs) \<and>
        l = LPtr l' \<and> as = a # bs)"
  by (auto split: gval.splits option.splits gobj.splits)

lemma view_slice_Some:
  "view h (TSlice t) v = Some (l, as) \<longleftrightarrow>
     v = GNil \<and> l = LNil \<and> as = [] \<or>
     (\<exists>a i n xs ls bs. v = GSlice a i n \<and> objAt h a = Some (Array xs) \<and> i + n \<le> length xs \<and>
        viewAll (view h t) (take n (drop i xs)) = Some (ls, bs) \<and> l = LSlice ls \<and> as = a # bs)"
  by (auto split: gval.splits option.splits gobj.splits if_splits)

lemma view_map_Some:
  "view h (TMap t) v = Some (l, as) \<longleftrightarrow>
     v = GNil \<and> l = LNil \<and> as = [] \<or>
     (\<exists>a m ls bs. v = GRef a \<and> objAt h a = Some (Table m) \<and> distinct (map fst m) \<and>
        viewAll (viewEntry (view h t)) m = Some (ls, bs) \<and> l = LMap ls \<and> as = a # bs)"
  by (auto split: gval.splits option.splits gobj.splits if_splits)

lemma view_struct_Some:
  "view h (TStruct fts) v = Some (l, as) \<longleftrightarrow>
     (\<exists>fs ls. v = GStruct fs \<and> viewFields h fts fs = Some (ls, as) \<and> l = LStruct ls)"
  by (auto split: gval.splits option.splits)

lemma viewFields_Cons:
  "viewFields h ((f, t) # fts) fs = Some (ls, as) \<longleftrightarrow>
     (\<exists>x gs l bs ms cs. fs = (f, x) # gs \<and> view h t x = Some (l, bs) \<and>
        viewFields h fts gs = Some (ms, cs) \<and> ls = (f, l) # ms \<and> as = bs @ cs)"
  by (auto split: option.splits list.splits if_splits)

lemmas view_Some = view_ptr_Some view_slice_Some view_map_Some view_struct_Some viewFields_Cons

lemma viewFields_mono:
  assumes "viewFields h fts fs = Some (ls, as)"
    and "\<And>f t x l bs. (f, t) \<in> set fts \<Longrightarrow> view h t x = Some (l, bs) \<Longrightarrow> set bs \<subseteq> set as \<Longrightarrow>
           view h' t x = Some (l, bs)"
  shows "viewFields h' fts fs = Some (ls, as)"
  using assms
proof (induction fts arbitrary: fs ls as)
  case (Cons p fts)
  obtain f t where p: "p = (f, t)" by (cases p)
  from Cons.prems(1) obtain x gs l bs ms cs where v: "view h t x = Some (l, bs)"
    "viewFields h fts gs = Some (ms, cs)" and r: "fs = (f, x) # gs" "ls = (f, l) # ms" "as = bs @ cs"
    unfolding p viewFields_Cons by blast
  have "view h' t x = Some (l, bs)" by (rule Cons.prems(2) [of f, OF _ v(1)]) (simp_all add: p r)
  moreover have "viewFields h' fts gs = Some (ms, cs)"
    by (rule Cons.IH [OF v(2)]) (rule Cons.prems(2), auto simp: r)
  ultimately show ?case unfolding p viewFields_Cons using r by blast
qed (simp split: if_splits)

lemma gty_induct [case_names TInt TBool TStr TPtr TSlice TMap TStruct]:
  assumes "\<And>w. P (TInt w)" "P TBool" "P TStr"
    and "\<And>t. P t \<Longrightarrow> P (TPtr t)" "\<And>t. P t \<Longrightarrow> P (TSlice t)" "\<And>t. P t \<Longrightarrow> P (TMap t)"
    and "\<And>fts. (\<And>f t. (f, t) \<in> set fts \<Longrightarrow> P t) \<Longrightarrow> P (TStruct fts)"
  shows "P t"
  by (induction t) (use assms in \<open>auto intro!: assms(7)\<close>)

text \<open>A view depends on the objects it lists only, and these are objects of the store.\<close>

lemma view_frame:
  "view h t v = Some (l, as) \<Longrightarrow> (\<forall>a \<in> set as. objAt h' a = objAt h a) \<Longrightarrow>
   view h' t v = Some (l, as)"
proof (induction t arbitrary: v l as rule: gty_induct)
  case (TPtr t)
  then show ?case unfolding view_ptr_Some by auto
next
  case (TSlice t)
  from TSlice.prems show ?case unfolding view_slice_Some
  proof (elim disjE exE conjE)
    fix a i n xs ls bs
    assume *: "v = GSlice a i n" "objAt h a = Some (Array xs)" "i + n \<le> length xs"
      "viewAll (view h t) (take n (drop i xs)) = Some (ls, bs)" "l = LSlice ls" "as = a # bs"
    have "viewAll (view h' t) (take n (drop i xs)) = Some (ls, bs)"
      by (rule viewAll_mono [OF *(4)]) (rule TSlice.IH, use TSlice.prems(2) * in auto)
    with * TSlice.prems(2) show "v = GNil \<and> l = LNil \<and> as = [] \<or>
      (\<exists>a i n xs ls bs. v = GSlice a i n \<and> objAt h' a = Some (Array xs) \<and> i + n \<le> length xs \<and>
        viewAll (view h' t) (take n (drop i xs)) = Some (ls, bs) \<and> l = LSlice ls \<and> as = a # bs)"
      by simp
  qed simp
next
  case (TMap t)
  from TMap.prems show ?case unfolding view_map_Some
  proof (elim disjE exE conjE)
    fix a m ls bs
    assume *: "v = GRef a" "objAt h a = Some (Table m)" "distinct (map fst m)"
      "viewAll (viewEntry (view h t)) m = Some (ls, bs)" "l = LMap ls" "as = a # bs"
    have "viewAll (viewEntry (view h' t)) m = Some (ls, bs)"
      by (rule viewAll_mono [OF *(4)])
        (use TMap.prems(2) * in \<open>auto simp: viewEntry_Some subset_iff intro!: TMap.IH\<close>)
    with * TMap.prems(2) show "v = GNil \<and> l = LNil \<and> as = [] \<or>
      (\<exists>a m ls bs. v = GRef a \<and> objAt h' a = Some (Table m) \<and> distinct (map fst m) \<and>
        viewAll (viewEntry (view h' t)) m = Some (ls, bs) \<and> l = LMap ls \<and> as = a # bs)"
      by simp
  qed simp
next
  case (TStruct fts)
  from TStruct.prems(1) obtain fs ls where *: "v = GStruct fs" "l = LStruct ls"
    "viewFields h fts fs = Some (ls, as)" unfolding view_struct_Some by blast
  have "viewFields h' fts fs = Some (ls, as)"
    by (rule viewFields_mono [OF *(3)]) (rule TStruct.IH, use TStruct.prems(2) in auto)
  with * show ?case by simp
qed simp_all

lemma viewFields_addrs:
  assumes "viewFields h fts fs = Some (ls, as)"
    and "\<And>f t x l bs. (f, t) \<in> set fts \<Longrightarrow> view h t x = Some (l, bs) \<Longrightarrow> \<forall>b \<in> set bs. P b"
  shows "\<forall>a \<in> set as. P a"
  using assms
proof (induction fts arbitrary: fs ls as)
  case (Cons p fts)
  obtain f t where p: "p = (f, t)" by (cases p)
  from Cons.prems(1) obtain x gs l bs ms cs where v: "view h t x = Some (l, bs)"
    "viewFields h fts gs = Some (ms, cs)" and r: "as = bs @ cs"
    unfolding p viewFields_Cons by blast
  have "\<forall>b \<in> set bs. P b" by (rule Cons.prems(2) [of f, OF _ v(1)]) (simp add: p)
  moreover have "\<forall>b \<in> set cs. P b" by (rule Cons.IH [OF v(2)]) (rule Cons.prems(2), auto)
  ultimately show ?case using r by auto
qed (simp split: if_splits)

lemma view_addrs: "view h t v = Some (l, as) \<Longrightarrow> \<forall>a \<in> set as. a < length h"
proof (induction t arbitrary: v l as rule: gty_induct)
  case (TPtr t)
  then show ?case unfolding view_ptr_Some by (auto dest: objAt_Some)
next
  case (TSlice t)
  have "viewAll (view h t) xs = Some (ls, bs) \<Longrightarrow> \<forall>b \<in> set bs. b < length h" for xs ls bs
    by (erule viewAll_addrs) (rule TSlice.IH)
  with TSlice.prems show ?case unfolding view_slice_Some by (auto dest: objAt_Some)
next
  case (TMap t)
  have "viewAll (viewEntry (view h t)) m = Some (ls, bs) \<Longrightarrow> \<forall>b \<in> set bs. b < length h" for m ls bs
    by (erule viewAll_addrs) (auto simp: viewEntry_Some dest: TMap.IH)
  with TMap.prems show ?case unfolding view_map_Some by (auto dest: objAt_Some)
next
  case (TStruct fts)
  from TStruct.prems obtain fs ls where "viewFields h fts fs = Some (ls, as)"
    unfolding view_struct_Some by blast
  then show ?case by (rule viewFields_addrs) (rule TStruct.IH)
qed (auto split: gval.splits if_splits)

lemma view_append: "view h t v = Some (l, as) \<Longrightarrow> view (h @ e) t v = Some (l, as)"
  by (rule view_frame) (use view_addrs in auto)

lemma flat_addrs: "flat t \<Longrightarrow> view h t v = Some (l, as) \<Longrightarrow> as = []"
proof -
  have "flat t \<Longrightarrow> view h t v = Some (l, as) \<Longrightarrow> \<forall>a \<in> set as. False"
  proof (induction t arbitrary: v l as rule: gty_induct)
    case (TStruct fts)
    from TStruct.prems(2) obtain fs ls where "viewFields h fts fs = Some (ls, as)"
      unfolding view_struct_Some by blast
    then show ?case by (rule viewFields_addrs) (rule TStruct.IH, use TStruct.prems(1) in auto)
  qed (auto split: gval.splits if_splits)
  then show "flat t \<Longrightarrow> view h t v = Some (l, as) \<Longrightarrow> as = []" by (cases as) auto
qed

section \<open>Built-in operations\<close>

definition nilDereference :: string where
  "nilDereference = ''invalid memory address or nil pointer dereference''"

definition alloc :: "gobj \<Rightarrow> (store, addr) go" where
  "alloc ob = (\<lambda>h. (Returns (length h), h @ [ob]))"

definition putObj :: "addr \<Rightarrow> gobj \<Rightarrow> (store, unit) go" where
  "putObj a ob = modifyS (\<lambda>h. h[a := ob])"

definition loadPtr :: "gval \<Rightarrow> (store, gval) go" where
  "loadPtr v =
     (case v of
        GRef a \<Rightarrow> bindG (readS (\<lambda>h. objAt h a))
          (\<lambda>ob. case ob of Some (Cell x) \<Rightarrow> ret x | _ \<Rightarrow> panic nilDereference)
      | _ \<Rightarrow> panic nilDereference)"

definition loadMap :: "gval \<Rightarrow> (store, (string \<times> gval) list) go" where
  "loadMap v =
     (case v of
        GRef a \<Rightarrow> bindG (readS (\<lambda>h. objAt h a))
          (\<lambda>ob. case ob of Some (Table m) \<Rightarrow> ret m | _ \<Rightarrow> panic nilDereference)
      | _ \<Rightarrow> ret [])"

text \<open>\<open>len(s)\<close>, the elements of \<open>s\<close>, and \<open>s[i]\<close> with its bounds check.\<close>

definition sliceLen :: "gval \<Rightarrow> nat" where
  "sliceLen v = (case v of GSlice a i n \<Rightarrow> n | _ \<Rightarrow> 0)"

definition loadSlice :: "gval \<Rightarrow> (store, gval list) go" where
  "loadSlice v =
     (case v of
        GSlice a i n \<Rightarrow> bindG (readS (\<lambda>h. objAt h a))
          (\<lambda>ob. case ob of Some (Array xs) \<Rightarrow> ret (take n (drop i xs)) | _ \<Rightarrow> panic nilDereference)
      | _ \<Rightarrow> ret [])"

definition loadElem :: "gval \<Rightarrow> nat \<Rightarrow> (store, gval) go" where
  "loadElem v i =
     bindG (loadSlice v)
       (\<lambda>xs. if i < length xs then ret (xs ! i) else panic ''index out of range'')"

definition setElem :: "addr \<Rightarrow> nat \<Rightarrow> gval \<Rightarrow> (store, unit) go" where
  "setElem a i y =
     modifyS (\<lambda>h. case objAt h a of Some (Array ys) \<Rightarrow> h[a := Array (ys[i := y])] | _ \<Rightarrow> h)"

definition tablePut :: "string \<Rightarrow> gval \<Rightarrow> (string \<times> gval) list \<Rightarrow> (string \<times> gval) list" where
  "tablePut k y m =
     (if k \<in> fst ` set m then map (\<lambda>(j, x). if j = k then (k, y) else (j, x)) m else m @ [(k, y)])"

definition setEntry :: "addr \<Rightarrow> string \<Rightarrow> gval \<Rightarrow> (store, unit) go" where
  "setEntry a k y =
     modifyS (\<lambda>h. case objAt h a of Some (Table m) \<Rightarrow> h[a := Table (tablePut k y m)] | _ \<Rightarrow> h)"

section \<open>Statements of copy functions\<close>

text \<open>\<open>if in.F != nil \{ *out = new(T); (*in).DeepCopyInto(*out) \}\<close>: the copy of a pointer \<open>v\<close>. A nil
  pointer stays as the assignment \<open>*out = *in\<close> left it. With \<open>f = ret\<close> it is \<open>**out = **in\<close>.\<close>

definition newCopy :: "gty \<Rightarrow> copier \<Rightarrow> copier" where
  "newCopy t f v =
     (if v = GNil then ret GNil
      else bindG (alloc (Cell (zero t))) (\<lambda>a.
           bindG (loadPtr v) (\<lambda>x.
           bindG (f x) (\<lambda>y.
           bindG (putObj a (Cell y)) (\<lambda>_. ret (GRef a))))))"

text \<open>\<open>*out = make([]T, len( *in)); copy( *out, *in)\<close>\<close>

definition makeCopy :: "gty \<Rightarrow> copier" where
  "makeCopy t v =
     (if v = GNil then ret GNil
      else bindG (alloc (Array (replicate (sliceLen v) (zero t)))) (\<lambda>a.
           bindG (loadSlice v) (\<lambda>xs.
           bindG (putObj a (Array xs)) (\<lambda>_. ret (GSlice a 0 (sliceLen v))))))"

text \<open>\<open>*out = make([]T, len( *in)); for i := range *in \{ ( *in)[i].DeepCopyInto(&( *out)[i]) \}\<close>\<close>

fun copyElems :: "copier \<Rightarrow> gval \<Rightarrow> addr \<Rightarrow> nat list \<Rightarrow> (store, unit) go" where
  "copyElems f v a [] = ret ()"
| "copyElems f v a (i # is) =
     bindG (loadElem v i) (\<lambda>x.
     bindG (f x) (\<lambda>y.
     bindG (setElem a i y) (\<lambda>_. copyElems f v a is)))"

definition makeEach :: "gty \<Rightarrow> copier \<Rightarrow> copier" where
  "makeEach t f v =
     (if v = GNil then ret GNil
      else bindG (alloc (Array (replicate (sliceLen v) (zero t)))) (\<lambda>a.
           bindG (copyElems f v a [0..<sliceLen v]) (\<lambda>_. ret (GSlice a 0 (sliceLen v)))))"

text \<open>\<open>*out = make(map[K]T, len( *in)); for key, val := range *in \{ ( *out)[key] = f(val) \}\<close>. Each
  round writes its own key, so that the result does not depend on the order of the range, which is
  the stored order here.\<close>

fun copyEntries :: "copier \<Rightarrow> addr \<Rightarrow> (string \<times> gval) list \<Rightarrow> (store, unit) go" where
  "copyEntries f a [] = ret ()"
| "copyEntries f a ((k, x) # m) =
     bindG (f x) (\<lambda>y. bindG (setEntry a k y) (\<lambda>_. copyEntries f a m))"

definition makeMap :: "copier \<Rightarrow> copier" where
  "makeMap f v =
     (if v = GNil then ret GNil
      else bindG (alloc (Table [])) (\<lambda>a.
           bindG (loadMap v) (\<lambda>m.
           bindG (copyEntries f a m) (\<lambda>_. ret (GRef a)))))"

text \<open>\<open>*val.DeepCopy()\<close> on a loop variable: the address of the variable, a new object, and the struct
  read back out of it.\<close>

definition valueCopy :: "gty \<Rightarrow> copier \<Rightarrow> copier" where
  "valueCopy t f x =
     bindG (alloc (Cell x)) (\<lambda>p. bindG (newCopy t f (GRef p)) loadPtr)"

text \<open>A \<open>DeepCopyInto\<close> method: \<open>*out = *in\<close>, then for each listed field a statement that reads the field
  of \<open>in\<close> and assigns the one of \<open>out\<close>. The argument is the struct \<open>*in\<close> and the result the struct left in
  \<open>*out\<close>; no statement reads \<open>*out\<close> before it is assigned.\<close>

definition setField :: "string \<Rightarrow> gval \<Rightarrow> (string \<times> gval) list \<Rightarrow> (string \<times> gval) list" where
  "setField f y fs = map (\<lambda>(g, x). if g = f then (g, y) else (g, x)) fs"

fun copyFields ::
  "(string \<times> copier) list \<Rightarrow> (string \<times> gval) list \<Rightarrow> (string \<times> gval) list \<Rightarrow>
   (store, (string \<times> gval) list) go" where
  "copyFields [] inp out = ret out"
| "copyFields ((f, c) # cs) inp out =
     (case map_of inp f of None \<Rightarrow> panic ''no such field''
      | Some x \<Rightarrow> bindG (c x) (\<lambda>y. copyFields cs inp (setField f y out)))"

definition structCopy :: "(string \<times> copier) list \<Rightarrow> copier" where
  "structCopy cs v =
     (case v of GStruct fs \<Rightarrow> bindG (copyFields cs fs fs) (\<lambda>out. ret (GStruct out))
      | _ \<Rightarrow> panic ''not a struct'')"

section \<open>The contract of a deep copy\<close>

definition copies :: "gty \<Rightarrow> copier \<Rightarrow> bool" where
  "copies t f \<longleftrightarrow>
     (\<forall>h v l as. view h t v = Some (l, as) \<longrightarrow>
        (\<exists>w e bs. f v h = (Returns w, h @ e) \<and> view (h @ e) t w = Some (l, bs) \<and>
           (\<forall>b \<in> set bs. length h \<le> b)))"

named_theorems copies_intros

lemma copiesE:
  assumes "copies t f" and "view h t v = Some (l, as)"
  obtains w e bs where "f v h = (Returns w, h @ e)" "view (h @ e) t w = Some (l, bs)"
    "\<forall>b \<in> set bs. length h \<le> b"
  using assms unfolding copies_def by blast

lemmas mem_defs = bindG_def ret_def panic_def readS_def modifyS_def alloc_def putObj_def
  loadPtr_def loadMap_def

lemma copies_keep [copies_intros]: "flat t \<Longrightarrow> copies t ret"
  unfolding copies_def by (auto simp: ret_def dest: flat_addrs)

lemma copies_new [copies_intros]: "copies t f \<Longrightarrow> copies (TPtr t) (newCopy t f)"
  unfolding copies_def [of "TPtr t"]
proof (intro allI impI)
  fix h v l as assume c: "copies t f" and v: "view h (TPtr t) v = Some (l, as)"
  show "\<exists>w e bs. newCopy t f v h = (Returns w, h @ e) \<and> view (h @ e) (TPtr t) w = Some (l, bs) \<and>
    (\<forall>b \<in> set bs. length h \<le> b)"
  proof (cases "v = GNil")
    case True
    with v show ?thesis by (auto simp: newCopy_def mem_defs)
  next
    case False
    with v obtain a x l' bs where v': "v = GRef a" "objAt h a = Some (Cell x)"
      "view h t x = Some (l', bs)" "l = LPtr l'" unfolding view_ptr_Some by blast
    let ?h = "h @ [Cell (zero t)]"
    from c view_append [OF v'(3)] obtain y e cs where y: "f x ?h = (Returns y, ?h @ e)"
      "view (?h @ e) t y = Some (l', cs)" "\<forall>b \<in> set cs. length ?h \<le> b" by (rule copiesE)
    have "view (h @ Cell y # e) t y = Some (l', cs)"
      using y(2) by (rule view_frame) (use y(3) in \<open>auto simp: objAt_def nth_append\<close>)
    with y v' objAt_Some [OF v'(2)] have "newCopy t f v h = (Returns (GRef (length h)), h @ (Cell y # e))"
      "view (h @ (Cell y # e)) (TPtr t) (GRef (length h)) = Some (l, length h # cs)"
      by (simp_all add: newCopy_def mem_defs)
    with y(3) show ?thesis by fastforce
  qed
qed

lemma copies_value [copies_intros]: "copies t f \<Longrightarrow> copies t (valueCopy t f)"
  unfolding copies_def [of t "valueCopy t f"]
proof (intro allI impI)
  fix h v l as assume c: "copies t f" and v: "view h t v = Some (l, as)"
  let ?h = "h @ [Cell v]"
  have "view ?h (TPtr t) (GRef (length h)) = Some (LPtr l, length h # as)"
    using view_append [OF v] by simp
  with copies_new [OF c] obtain w e bs where w: "newCopy t f (GRef (length h)) ?h = (Returns w, ?h @ e)"
    "view (?h @ e) (TPtr t) w = Some (LPtr l, bs)" "\<forall>b \<in> set bs. length ?h \<le> b" by (rule copiesE)
  from w(2) obtain a x cs where x: "w = GRef a" "objAt (?h @ e) a = Some (Cell x)"
    "view (?h @ e) t x = Some (l, cs)" "bs = a # cs" unfolding view_ptr_Some by auto
  with w have "valueCopy t f v h = (Returns x, h @ Cell v # e)"
    by (simp add: valueCopy_def mem_defs)
  with w x show "\<exists>w e bs. valueCopy t f v h = (Returns w, h @ e) \<and> view (h @ e) t w = Some (l, bs) \<and>
    (\<forall>b \<in> set bs. length h \<le> b)" by fastforce
qed

lemma viewAll_flat:
  assumes "flat t" "viewAll (view h t) xs = Some (ls, as)"
  shows "viewAll (view h' t) xs = Some (ls, [])"
proof -
  have "\<forall>a \<in> set as. False"
    using assms(2) by (rule viewAll_addrs) (use flat_addrs [OF assms(1)] in auto)
  then have as: "as = []" by (cases as) auto
  have "view h' t x = Some (y, bs)" if "view h t x = Some (y, bs)" for x y bs
    using that by (rule view_frame) (simp add: flat_addrs [OF assms(1) that])
  then have "viewAll (view h' t) xs = Some (ls, as)"
    using assms(2) by (rule viewAll_mono [rotated])
  with as show ?thesis by simp
qed

lemma copies_make [copies_intros]: "flat t \<Longrightarrow> copies (TSlice t) (makeCopy t)"
  unfolding copies_def
proof (intro allI impI)
  fix h v l as assume t: "flat t" and v: "view h (TSlice t) v = Some (l, as)"
  show "\<exists>w e bs. makeCopy t v h = (Returns w, h @ e) \<and> view (h @ e) (TSlice t) w = Some (l, bs) \<and>
    (\<forall>b \<in> set bs. length h \<le> b)"
  proof (cases "v = GNil")
    case True
    with v show ?thesis by (auto simp: makeCopy_def mem_defs)
  next
    case False
    with v obtain a i n xs ls bs where *: "v = GSlice a i n" "objAt h a = Some (Array xs)"
      "i + n \<le> length xs" "viewAll (view h t) (take n (drop i xs)) = Some (ls, bs)" "l = LSlice ls"
      unfolding view_slice_Some by blast
    let ?h = "h @ [Array (take n (drop i xs))]"
    have "makeCopy t v h = (Returns (GSlice (length h) 0 n), ?h)"
      using * objAt_Some [OF *(2)] by (simp add: makeCopy_def loadSlice_def sliceLen_def mem_defs)
    moreover have "view ?h (TSlice t) (GSlice (length h) 0 n) = Some (l, [length h])"
      using * viewAll_flat [OF t *(4), of ?h] by simp
    ultimately show ?thesis by fastforce
  qed
qed

text \<open>The loops: \<open>filled a h h'\<close> says that \<open>h'\<close> has the objects of \<open>h\<close>, the one at \<open>a\<close> apart.\<close>

definition filled :: "addr \<Rightarrow> store \<Rightarrow> store \<Rightarrow> bool" where
  "filled a h h' \<longleftrightarrow> length h \<le> length h' \<and> (\<forall>b < length h. b \<noteq> a \<longrightarrow> objAt h' b = objAt h b)"

lemma filled_refl [simp]: "filled a h h"
  by (simp add: filled_def)

lemma filled_trans: "filled a h h' \<Longrightarrow> filled a h' h'' \<Longrightarrow> filled a h h''"
  by (auto simp: filled_def)

lemma filled_put: "a < length h \<Longrightarrow> filled a h ((h @ e)[a := ob])"
  by (simp add: filled_def)

lemma filled_view:
  "filled a h h' \<Longrightarrow> view h t v = Some (l, as) \<Longrightarrow> a \<notin> set as \<Longrightarrow> view h' t v = Some (l, as)"
proof -
  assume f: "filled a h h'" and v: "view h t v = Some (l, as)" and a: "a \<notin> set as"
  have "\<forall>b \<in> set as. objAt h' b = objAt h b"
    using view_addrs [OF v] a f by (auto simp: filled_def)
  with v show ?thesis by (rule view_frame)
qed

lemma filled_new: "filled (length h) (h @ [ob]) h' \<Longrightarrow> \<exists>e. h' = h @ e"
proof -
  assume f: "filled (length h) (h @ [ob]) h'"
  have "take (length h) h' = h"
  proof (rule nth_equalityI)
    fix i assume "i < length (take (length h) h')"
    with f show "take (length h) h' ! i = h ! i"
      by (fastforce simp: filled_def objAt_def nth_append)
  qed (use f in \<open>simp add: filled_def\<close>)
  then show ?thesis by (metis append_take_drop_id)
qed

lemma copy_step:
  assumes "copies t f" and "view h t x = Some (l, as)" and "a < length h"
  obtains y e bs where "f x h = (Returns y, h @ e)"
    "\<forall>ob. view ((h @ e)[a := ob]) t y = Some (l, bs)" "\<forall>b \<in> set bs. length h \<le> b"
proof -
  from assms(1,2) obtain y e bs where y: "f x h = (Returns y, h @ e)"
    "view (h @ e) t y = Some (l, bs)" "\<forall>b \<in> set bs. length h \<le> b" by (rule copiesE)
  have "view ((h @ e)[a := ob]) t y = Some (l, bs)" for ob
    using y(2) by (rule view_frame) (use y(3) assms(3) in force)
  with y show ?thesis using that by blast
qed

lemma filled_viewAll:
  assumes "filled a h h'" "viewAll (view h t) xs = Some (ls, as)" "a \<notin> set as"
  shows "viewAll (view h' t) xs = Some (ls, as)"
  using assms(2) by (rule viewAll_mono) (use filled_view [OF assms(1)] assms(3) in blast)

lemma setElem_run:
  "objAt h a = Some (Array ys) \<Longrightarrow> setElem a i y h = (Returns (), h[a := Array (ys[i := y])])"
  by (simp add: setElem_def modifyS_def)

lemma loadElem_run:
  assumes "objAt h b = Some (Array xs)" "off + n \<le> length xs" "i < n"
  shows "loadElem (GSlice b off n) i h = (Returns (xs ! (off + i)), h)"
  using assms by (simp add: loadElem_def loadSlice_def bindG_def readS_def ret_def)

lemma slice_Cons:
  "i < n \<Longrightarrow> off + n \<le> length xs \<Longrightarrow>
   take (n - i) (drop (off + i) xs) = xs ! (off + i) # take (n - Suc i) (drop (off + Suc i) xs)"
  by (simp add: Cons_nth_drop_Suc [symmetric] take_Cons')

text \<open>One round of the loop over a slice.\<close>

lemma elem_step:
  assumes f: "copies t f" and b: "objAt h b = Some (Array xs)" and n: "off + n \<le> length xs" "i < n"
    and x: "view h t (xs ! (off + i)) = Some (l, as)" and ys: "objAt h a = Some (Array ys)"
    and ab: "a \<noteq> b"
  obtains y h' cs where
    "copyElems f (GSlice b off n) a (i # is) h = copyElems f (GSlice b off n) a is h'"
    "filled a h h'" "objAt h' a = Some (Array (ys[i := y]))" "objAt h' b = Some (Array xs)"
    "view h' t y = Some (l, cs)" "\<forall>c \<in> set cs. length h \<le> c"
proof -
  have a: "a < length h" using ys by (rule objAt_Some)
  from f x a obtain y e cs where y: "f (xs ! (off + i)) h = (Returns y, h @ e)"
    "\<forall>ob. view ((h @ e)[a := ob]) t y = Some (l, cs)" "\<forall>c \<in> set cs. length h \<le> c"
    by (rule copy_step)
  let ?h = "(h @ e)[a := Array (ys[i := y])]"
  have "copyElems f (GSlice b off n) a (i # is) h = copyElems f (GSlice b off n) a is ?h"
    using y(1) a ys loadElem_run [OF b n] by (simp add: bindG_def setElem_run [of "h @ e" a ys])
  moreover have "objAt ?h a = Some (Array (ys[i := y]))" "objAt ?h b = Some (Array xs)"
    using a b ab objAt_Some [OF b] by (simp_all add: objAt_def nth_append)
  ultimately show ?thesis using that filled_put [OF a] y(2,3) by blast
qed

lemma copyElems_run:
  assumes f: "copies t f"
  shows "objAt h b = Some (Array xs) \<Longrightarrow> off + n \<le> length xs \<Longrightarrow> i \<le> n \<Longrightarrow>
    viewAll (view h t) (take (n - i) (drop (off + i) xs)) = Some (ls, as) \<Longrightarrow>
    a \<noteq> b \<Longrightarrow> a \<notin> set as \<Longrightarrow> objAt h a = Some (Array ys) \<Longrightarrow> length ys = n \<Longrightarrow>
    \<exists>h' zs bs. copyElems f (GSlice b off n) a [i..<n] h = (Returns (), h') \<and> filled a h h' \<and>
      objAt h' a = Some (Array (take i ys @ zs)) \<and> length zs = n - i \<and>
      viewAll (view h' t) zs = Some (ls, bs) \<and> (\<forall>c \<in> set bs. length h \<le> c)"
proof (induction "n - i" arbitrary: h i ls as ys)
  case 0
  then have "copyElems f (GSlice b off n) a [i..<n] h = (Returns (), h)" by (simp add: ret_def)
  with 0 show ?case by (intro exI [of _ h] exI [of _ "[]"]) simp
next
  case (Suc k)
  have i: "i < n" using Suc.hyps(2) by simp
  from Suc.prems(4) obtain l as1 ms as2 where v: "view h t (xs ! (off + i)) = Some (l, as1)"
    "viewAll (view h t) (take (n - Suc i) (drop (off + Suc i) xs)) = Some (ms, as2)"
    "ls = l # ms" "as = as1 @ as2" unfolding slice_Cons [OF i Suc.prems(2)] viewAll_Cons by blast
  from f Suc.prems(1,2) i v(1) Suc.prems(7,5) obtain y h1 cs where s:
    "copyElems f (GSlice b off n) a (i # [Suc i..<n]) h = copyElems f (GSlice b off n) a [Suc i..<n] h1"
    "filled a h h1" "objAt h1 a = Some (Array (ys[i := y]))" "objAt h1 b = Some (Array xs)"
    "view h1 t y = Some (l, cs)" "\<forall>c \<in> set cs. length h \<le> c" by (rule elem_step)
  have r: "viewAll (view h1 t) (take (n - Suc i) (drop (off + Suc i) xs)) = Some (ms, as2)"
    using s(2) v(2) by (rule filled_viewAll) (use Suc.prems(6) v(4) in simp)
  have "k = n - Suc i" using Suc.hyps(2) by simp
  from Suc.hyps(1) [OF this s(4) Suc.prems(2) _ r Suc.prems(5) _ s(3)] i Suc.prems(6,8) v(4)
  obtain h' zs bs where IH: "copyElems f (GSlice b off n) a [Suc i..<n] h1 = (Returns (), h')"
    "filled a h1 h'" "objAt h' a = Some (Array (take (Suc i) (ys[i := y]) @ zs))"
    "length zs = n - Suc i" "viewAll (view h' t) zs = Some (ms, bs)" "\<forall>c \<in> set bs. length h1 \<le> c"
    by auto
  have "a \<notin> set cs" using s(6) objAt_Some [OF Suc.prems(7)] by fastforce
  with IH(2) s(5) have "view h' t y = Some (l, cs)" by (rule filled_view)
  with IH(5) v(3) have "viewAll (view h' t) (y # zs) = Some (ls, cs @ bs)" by simp
  moreover have "take (Suc i) (ys[i := y]) @ zs = take i ys @ y # zs"
    using i Suc.prems(8) by (simp add: take_Suc_conv_app_nth)
  moreover have "length h \<le> length h1" using s(2) by (simp add: filled_def)
  ultimately show ?case
    using s IH filled_trans [OF s(2) IH(2)] i
    by (intro exI [of _ h'] exI [of _ "y # zs"] exI [of _ "cs @ bs"]) (auto simp: upt_conv_Cons)
qed

lemma copies_each [copies_intros]: "copies t f \<Longrightarrow> copies (TSlice t) (makeEach t f)"
  unfolding copies_def [of "TSlice t"]
proof (intro allI impI)
  fix h v l as assume c: "copies t f" and v: "view h (TSlice t) v = Some (l, as)"
  show "\<exists>w e bs. makeEach t f v h = (Returns w, h @ e) \<and> view (h @ e) (TSlice t) w = Some (l, bs) \<and>
    (\<forall>b \<in> set bs. length h \<le> b)"
  proof (cases "v = GNil")
    case True
    with v show ?thesis by (auto simp: makeEach_def mem_defs)
  next
    case False
    with v obtain b i n xs ls bs where *: "v = GSlice b i n" "objAt h b = Some (Array xs)"
      "i + n \<le> length xs" "viewAll (view h t) (take n (drop i xs)) = Some (ls, bs)" "l = LSlice ls"
      "as = b # bs" unfolding view_slice_Some by blast
    let ?h = "h @ [Array (replicate n (zero t))]"
    have "viewAll (view ?h t) (take (n - 0) (drop (i + 0) xs)) = Some (ls, bs)"
      using viewAll_mono [OF *(4), of "view ?h t"] view_append by simp
    moreover have "length h \<noteq> b" "length h \<notin> set bs"
      using view_addrs [OF v] *(6) by auto
    ultimately obtain h' zs cs where r:
      "copyElems f (GSlice b i n) (length h) [0..<n] ?h = (Returns (), h')" "filled (length h) ?h h'"
      "objAt h' (length h) = Some (Array zs)" "length zs = n" "viewAll (view h' t) zs = Some (ls, cs)"
      "\<forall>c \<in> set cs. length ?h \<le> c"
      using copyElems_run [OF c, of ?h b xs i n 0 ls bs "length h" "replicate n (zero t)"] *(2,3)
        objAt_Some [OF *(2)] by auto
    from filled_new [OF r(2)] obtain e where e: "h' = h @ e" by blast
    have "makeEach t f v h = (Returns (GSlice (length h) 0 n), h')"
      using * r(1) by (simp add: makeEach_def sliceLen_def bindG_def alloc_def ret_def)
    moreover have "view h' (TSlice t) (GSlice (length h) 0 n) = Some (l, length h # cs)"
      using r * by simp
    ultimately show ?thesis using e r(6) by fastforce
  qed
qed

text \<open>The loop over a map, on the entries that are left, \<open>done\<close> being the entries already copied.\<close>

lemma tablePut_new: "k \<notin> fst ` set m \<Longrightarrow> tablePut k y m = m @ [(k, y)]"
  by (simp add: tablePut_def)

lemma setEntry_run:
  "objAt h a = Some (Table m) \<Longrightarrow> setEntry a k y h = (Returns (), h[a := Table (tablePut k y m)])"
  by (simp add: setEntry_def modifyS_def)

lemma viewAll_keys: "viewAll (viewEntry f) m = Some (ls, as) \<Longrightarrow> map fst ls = map fst m"
  by (induction m arbitrary: ls as) (auto simp: viewEntry_def split: option.splits)

lemma filled_viewEntries:
  assumes "filled a h h'" "viewAll (viewEntry (view h t)) m = Some (ls, as)" "a \<notin> set as"
  shows "viewAll (viewEntry (view h' t)) m = Some (ls, as)"
  using assms(2)
  by (rule viewAll_mono)
    (use filled_view [OF assms(1)] assms(3) in \<open>fastforce simp: viewEntry_Some\<close>)

lemma copyEntries_run:
  assumes f: "copies t f"
  shows "viewAll (viewEntry (view h t)) m = Some (ls, as) \<Longrightarrow> a \<notin> set as \<Longrightarrow>
    objAt h a = Some (Table d) \<Longrightarrow> distinct (map fst (d @ m)) \<Longrightarrow>
    \<exists>h' zs bs. copyEntries f a m h = (Returns (), h') \<and> filled a h h' \<and>
      objAt h' a = Some (Table (d @ zs)) \<and> map fst zs = map fst m \<and>
      viewAll (viewEntry (view h' t)) zs = Some (ls, bs) \<and> (\<forall>c \<in> set bs. length h \<le> c)"
proof (induction m arbitrary: h ls as d)
  case Nil
  then show ?case by (intro exI [of _ h] exI [of _ "[]"]) (simp add: ret_def)
next
  case (Cons p m)
  obtain k x where p: "p = (k, x)" by (cases p)
  have a: "a < length h" using Cons.prems(3) by (rule objAt_Some)
  from Cons.prems(1) obtain l as1 ms as2 where v: "view h t x = Some (l, as1)"
    "viewAll (viewEntry (view h t)) m = Some (ms, as2)" "ls = (k, l) # ms" "as = as1 @ as2"
    unfolding p viewAll_Cons viewEntry_Some by blast
  from f v(1) a obtain y e cs where y: "f x h = (Returns y, h @ e)"
    "\<forall>ob. view ((h @ e)[a := ob]) t y = Some (l, cs)" "\<forall>c \<in> set cs. length h \<le> c"
    by (rule copy_step)
  let ?h = "(h @ e)[a := Table (d @ [(k, y)])]"
  have fl: "filled a h ?h" using a by (rule filled_put)
  have "viewAll (viewEntry (view ?h t)) m = Some (ms, as2)"
    using fl v(2) by (rule filled_viewEntries) (use Cons.prems(2) v(4) in simp)
  moreover have "objAt ?h a = Some (Table (d @ [(k, y)]))" using a by (simp add: objAt_def)
  ultimately obtain h' zs bs where IH: "copyEntries f a m ?h = (Returns (), h')" "filled a ?h h'"
    "objAt h' a = Some (Table ((d @ [(k, y)]) @ zs))" "map fst zs = map fst m"
    "viewAll (viewEntry (view h' t)) zs = Some (ms, bs)" "\<forall>c \<in> set bs. length ?h \<le> c"
    using Cons.IH [of ?h ms as2 "d @ [(k, y)]"] Cons.prems(2,4) v(4) p by auto
  have "a \<notin> set cs" using y(3) a by fastforce
  with IH(2) spec [OF y(2)] have "view h' t y = Some (l, cs)" by (rule filled_view)
  with IH(5) v(3) have "viewAll (viewEntry (view h' t)) ((k, y) # zs) = Some (ls, cs @ bs)"
    by (simp add: viewEntry_def)
  moreover have "k \<notin> fst ` set d" using Cons.prems(4) p by auto
  then have "copyEntries f a (p # m) h = (Returns (), h')"
    using y(1) a Cons.prems(3) IH(1)
    by (simp add: p bindG_def setEntry_run [of "h @ e" a d] tablePut_new)
  ultimately show ?case
    using IH y(3) filled_trans [OF fl IH(2)] p
    by (intro exI [of _ h'] exI [of _ "(k, y) # zs"] exI [of _ "cs @ bs"]) auto
qed

lemma copies_map [copies_intros]: "copies t f \<Longrightarrow> copies (TMap t) (makeMap f)"
  unfolding copies_def [of "TMap t"]
proof (intro allI impI)
  fix h v l as assume c: "copies t f" and v: "view h (TMap t) v = Some (l, as)"
  show "\<exists>w e bs. makeMap f v h = (Returns w, h @ e) \<and> view (h @ e) (TMap t) w = Some (l, bs) \<and>
    (\<forall>b \<in> set bs. length h \<le> b)"
  proof (cases "v = GNil")
    case True
    with v show ?thesis by (auto simp: makeMap_def mem_defs)
  next
    case False
    with v obtain b m ls bs where *: "v = GRef b" "objAt h b = Some (Table m)"
      "distinct (map fst m)" "viewAll (viewEntry (view h t)) m = Some (ls, bs)" "l = LMap ls"
      "as = b # bs" unfolding view_map_Some by blast
    let ?h = "h @ [Table []]"
    have "viewAll (viewEntry (view ?h t)) m = Some (ls, bs)"
      using *(4) by (rule viewAll_mono) (auto simp: viewEntry_Some intro: view_append)
    moreover have "length h \<notin> set bs" using view_addrs [OF v] *(6) by auto
    ultimately obtain h' zs cs where r: "copyEntries f (length h) m ?h = (Returns (), h')"
      "filled (length h) ?h h'" "objAt h' (length h) = Some (Table zs)" "map fst zs = map fst m"
      "viewAll (viewEntry (view h' t)) zs = Some (ls, cs)" "\<forall>c \<in> set cs. length ?h \<le> c"
      using copyEntries_run [OF c, of ?h m ls bs "length h" "[]"] *(3) by auto
    from filled_new [OF r(2)] obtain e where e: "h' = h @ e" by blast
    have "makeMap f v h = (Returns (GRef (length h)), h')"
      using * r(1) objAt_Some [OF *(2)] by (simp add: makeMap_def mem_defs)
    moreover have "view h' (TMap t) (GRef (length h)) = Some (l, length h # cs)"
      using r * by simp
    ultimately show ?thesis using e r(6) by fastforce
  qed
qed

text \<open>The statements of a method, one field after the other.\<close>

lemma fst_setField [simp]: "map fst (setField f y fs) = map fst fs"
  by (simp add: setField_def case_prod_unfold if_distrib [of fst])

lemma map_of_setField:
  "map_of (setField f y fs) g = (if g = f \<and> f \<in> fst ` set fs then Some y else map_of fs g)"
proof (induction fs)
  case (Cons p fs)
  then show ?case by (cases p; cases "g = f") (simp_all add: setField_def)
qed (simp add: setField_def)

lemma viewFields_field:
  "viewFields h fts fs = Some (ls, as) \<Longrightarrow> map_of fts f = Some t \<Longrightarrow>
   \<exists>x l bs. map_of fs f = Some x \<and> view h t x = Some (l, bs)"
proof (induction fts arbitrary: fs ls as)
  case (Cons p fts)
  obtain g u where p: "p = (g, u)" by (cases p)
  with Cons.prems(1) obtain x gs l bs ms cs where v: "view h u x = Some (l, bs)"
    "viewFields h fts gs = Some (ms, cs)" "fs = (g, x) # gs"
    unfolding p viewFields_Cons by blast
  with Cons.IH [OF v(2)] Cons.prems(2) p show ?case by (cases "f = g") auto
qed simp

lemma viewFields_names: "viewFields h fts fs = Some (ls, as) \<Longrightarrow> map fst fs = map fst fts"
proof (induction fts arbitrary: fs ls as)
  case (Cons p fts)
  then show ?case by (cases p) (auto simp: viewFields_Cons simp del: viewFields.simps)
qed (simp split: if_splits)

text \<open>Field by field: \<open>y\<close> stands for the data of \<open>x\<close>, in objects that satisfy \<open>P\<close>.\<close>

definition sameField ::
  "(addr \<Rightarrow> bool) \<Rightarrow> store \<Rightarrow> store \<Rightarrow> gty \<Rightarrow> gval option \<Rightarrow> gval option \<Rightarrow> bool" where
  "sameField P h h' t x y \<longleftrightarrow>
     (\<exists>u v l as bs. x = Some u \<and> y = Some v \<and> view h t u = Some (l, as) \<and> view h' t v = Some (l, bs) \<and>
        (\<forall>b \<in> set bs. P b))"

lemma viewFields_same:
  assumes "viewFields h fts fs = Some (ls, as)" and "distinct (map fst fts)"
    and "map fst out = map fst fts"
    and "\<And>f t. map_of fts f = Some t \<Longrightarrow> sameField P h h' t (map_of fs f) (map_of out f)"
  shows "\<exists>bs. viewFields h' fts out = Some (ls, bs) \<and> (\<forall>b \<in> set bs. P b)"
  using assms
proof (induction fts arbitrary: fs ls as out)
  case (Cons p fts)
  obtain f t where p: "p = (f, t)" by (cases p)
  from Cons.prems(1) obtain x gs l as1 ms as2 where v: "view h t x = Some (l, as1)"
    "viewFields h fts gs = Some (ms, as2)" "fs = (f, x) # gs" "ls = (f, l) # ms"
    unfolding p viewFields_Cons by blast
  from Cons.prems(3) p obtain y rest where out: "out = (f, y) # rest" "map fst rest = map fst fts"
    by (cases out) auto
  have "sameField P h h' t (Some x) (Some y)" using Cons.prems(4) [of f t] p v(3) out(1) by simp
  then obtain bs where y: "view h' t y = Some (l, bs)" "\<forall>b \<in> set bs. P b"
    using v(1) by (auto simp: sameField_def)
  have "sameField P h h' u (map_of gs g) (map_of rest g)" if "map_of fts g = Some u" for g u
  proof -
    have "g \<noteq> f" using Cons.prems(2) p map_of_SomeD [OF that] by force
    then show ?thesis using Cons.prems(4) [of g u] that p v(3) out(1) by simp
  qed
  then obtain cs where "viewFields h' fts rest = Some (ms, cs)" "\<forall>b \<in> set cs. P b"
    using Cons.IH [OF v(2) _ out(2)] Cons.prems(2) p by auto
  with y out(1) v(4) p show ?case by auto
qed (simp split: if_splits)

lemma copyFields_run:
  assumes "\<forall>(f, c) \<in> set cs. \<exists>t x l as. map_of fts f = Some t \<and> map_of fs f = Some x \<and>
      view h0 t x = Some (l, as) \<and> copies t c \<and> f \<in> fst ` set out"
    and "distinct (map fst cs)" and "h = h0 @ e0"
  shows "\<exists>out' e. copyFields cs fs out h = (Returns out', h @ e) \<and> map fst out' = map fst out \<and>
      (\<forall>f. f \<notin> fst ` set cs \<longrightarrow> map_of out' f = map_of out f) \<and>
      (\<forall>f t. f \<in> fst ` set cs \<longrightarrow> map_of fts f = Some t \<longrightarrow>
         sameField (\<lambda>b. length h0 \<le> b) h0 (h @ e) t (map_of fs f) (map_of out' f))"
  using assms
proof (induction cs arbitrary: h e0 out)
  case Nil
  then show ?case by (auto simp: ret_def)
next
  case (Cons p cs)
  obtain f c where p: "p = (f, c)" by (cases p)
  have "\<exists>t x l as. map_of fts f = Some t \<and> map_of fs f = Some x \<and> view h0 t x = Some (l, as) \<and>
      copies t c \<and> f \<in> fst ` set out" using Cons.prems(1) by (simp add: p)
  then obtain t x l as where t: "map_of fts f = Some t" "map_of fs f = Some x"
    "view h0 t x = Some (l, as)" "copies t c" "f \<in> fst ` set out" by blast
  from view_append [OF t(3)] Cons.prems(3) have "view h t x = Some (l, as)" by simp
  with t(4) obtain y e bs where y: "c x h = (Returns y, h @ e)" "view (h @ e) t y = Some (l, bs)"
    "\<forall>b \<in> set bs. length h \<le> b" by (rule copiesE)
  have "fst ` set (setField f y out) = fst ` set out" by (metis fst_setField list.set_map)
  with Cons.prems p obtain out' e' where IH:
    "copyFields cs fs (setField f y out) (h @ e) = (Returns out', (h @ e) @ e')"
    "map fst out' = map fst out"
    "\<And>g. g \<notin> fst ` set cs \<Longrightarrow> map_of out' g = map_of (setField f y out) g"
    "\<And>g u. g \<in> fst ` set cs \<Longrightarrow> map_of fts g = Some u \<Longrightarrow>
       sameField (\<lambda>b. length h0 \<le> b) h0 ((h @ e) @ e') u (map_of fs g) (map_of out' g)"
    using Cons.IH [of "setField f y out" "h @ e" "e0 @ e"] by fastforce
  have "f \<notin> fst ` set cs" using Cons.prems(2) p by auto
  then have "map_of out' f = Some y" using IH(3) t(5) by (simp add: map_of_setField)
  then have "sameField (\<lambda>b. length h0 \<le> b) h0 ((h @ e) @ e') t (map_of fs f) (map_of out' f)"
    using t(2,3) view_append [OF y(2)] y(3) Cons.prems(3) by (fastforce simp: sameField_def)
  then have "sameField (\<lambda>b. length h0 \<le> b) h0 (h @ e @ e') u (map_of fs g) (map_of out' g)"
    if "g \<in> fst ` set (p # cs)" "map_of fts g = Some u" for g u
    using that IH(4) [of g u] t(1) p by auto
  moreover have "copyFields (p # cs) fs out h = (Returns out', h @ e @ e')"
    using IH(1) y(1) t(2) p by (simp add: bindG_def)
  moreover have "map_of out' g = map_of out g" if "g \<notin> fst ` set (p # cs)" for g
    using that IH(3) [of g] p by (simp add: map_of_setField)
  ultimately show ?case using IH(2) by blast
qed

lemma copies_struct:
  assumes "distinct (map fst fts)" "distinct (map fst cs)" "\<forall>f \<in> fst ` set cs. f \<in> fst ` set fts"
    and "\<forall>(f, t) \<in> set fts. case map_of cs f of None \<Rightarrow> flat t | Some c \<Rightarrow> copies t c"
  shows "copies (TStruct fts) (structCopy cs)"
  unfolding copies_def
proof (intro allI impI)
  fix h v l as assume "view h (TStruct fts) v = Some (l, as)"
  then obtain fs ls where v: "v = GStruct fs" "viewFields h fts fs = Some (ls, as)" "l = LStruct ls"
    unfolding view_struct_Some by blast
  have copy: "case map_of cs f of None \<Rightarrow> flat t | Some c \<Rightarrow> copies t c" if "map_of fts f = Some t" for f t
    using assms(4) map_of_SomeD [OF that] by blast
  have "\<forall>(f, c) \<in> set cs. \<exists>t x l as. map_of fts f = Some t \<and> map_of fs f = Some x \<and>
      view h t x = Some (l, as) \<and> copies t c \<and> f \<in> fst ` set fs"
  proof clarify
    fix f c assume fc: "(f, c) \<in> set cs"
    then obtain t where t: "map_of fts f = Some t"
      using assms(3) by (metis fst_conv image_eqI map_of_eq_None_iff not_None_eq)
    with viewFields_field [OF v(2) t] copy [OF t] fc assms(2)
    show "\<exists>t x l as. map_of fts f = Some t \<and> map_of fs f = Some x \<and> view h t x = Some (l, as) \<and>
        copies t c \<and> f \<in> fst ` set fs"
      by auto (metis fst_conv image_eqI map_of_SomeD)+
  qed
  from copyFields_run [OF this assms(2), of h "[]"] obtain out e where r:
    "copyFields cs fs fs h = (Returns out, h @ e)" "map fst out = map fst fs"
    "\<And>f. f \<notin> fst ` set cs \<Longrightarrow> map_of out f = map_of fs f"
    "\<And>f t. f \<in> fst ` set cs \<Longrightarrow> map_of fts f = Some t \<Longrightarrow>
       sameField (\<lambda>b. length h \<le> b) h (h @ e) t (map_of fs f) (map_of out f)" by auto
  have "sameField (\<lambda>b. length h \<le> b) h (h @ e) t (map_of fs f) (map_of out f)"
    if t: "map_of fts f = Some t" for f t
  proof (cases "f \<in> fst ` set cs")
    case False
    then have "flat t" using copy [OF t] by (simp add: map_of_eq_None_iff [THEN iffD2])
    with viewFields_field [OF v(2) t] r(3) [OF False] show ?thesis
      unfolding sameField_def by (metis empty_iff empty_set flat_addrs view_append)
  qed (use r(4) t in blast)
  from viewFields_same [OF v(2) assms(1) _ this] obtain bs where
    "viewFields (h @ e) fts out = Some (ls, bs)" "\<forall>b \<in> set bs. length h \<le> b"
    using r(2) viewFields_names [OF v(2)] by auto
  with r(1) v show "\<exists>w e bs. structCopy cs v h = (Returns w, h @ e) \<and>
      view (h @ e) (TStruct fts) w = Some (l, bs) \<and> (\<forall>b \<in> set bs. length h \<le> b)"
    by (auto simp: structCopy_def bindG_def ret_def)
qed

section \<open>A reference copier\<close>

text \<open>The copy by type: what a generated method of the type is meant to do.\<close>

fun copyTy :: "gty \<Rightarrow> copier" and copyTys :: "(string \<times> gty) list \<Rightarrow> (string \<times> copier) list" where
  "copyTy (TInt w) = ret"
| "copyTy TBool = ret"
| "copyTy TStr = ret"
| "copyTy (TPtr t) = newCopy t (copyTy t)"
| "copyTy (TSlice t) = makeEach t (copyTy t)"
| "copyTy (TMap t) = makeMap (copyTy t)"
| "copyTy (TStruct fts) = structCopy (copyTys fts)"
| "copyTys [] = []"
| "copyTys ((f, t) # fts) = (f, copyTy t) # copyTys fts"

text \<open>No struct of the type has two fields of one name.\<close>

fun wfTy :: "gty \<Rightarrow> bool" where
  "wfTy (TInt w) = True"
| "wfTy TBool = True"
| "wfTy TStr = True"
| "wfTy (TPtr t) = wfTy t"
| "wfTy (TSlice t) = wfTy t"
| "wfTy (TMap t) = wfTy t"
| "wfTy (TStruct fts) = (distinct (map fst fts) \<and> (\<forall>(f, t) \<in> set fts. wfTy t))"

lemma fst_copyTys [simp]: "map fst (copyTys fts) = map fst fts"
  by (induction fts) auto

lemma map_of_copyTys: "map_of (copyTys fts) f = map_option copyTy (map_of fts f)"
  by (induction fts) auto

lemma copies_copyTy: "wfTy t \<Longrightarrow> copies t (copyTy t)"
proof (induction t rule: gty_induct)
  case (TStruct fts)
  have "\<forall>(f, t) \<in> set fts. case map_of (copyTys fts) f of None \<Rightarrow> flat t | Some c \<Rightarrow> copies t c"
    using TStruct by (auto simp: map_of_copyTys)
  moreover have "fst ` set (copyTys fts) = fst ` set fts" by (metis fst_copyTys list.set_map)
  ultimately show ?case using TStruct.prems by (simp add: copies_struct)
qed (simp_all add: copies_intros)

section \<open>Independence of a copy\<close>

text \<open>Code that works on the copy, by changing its objects or allocating new ones, leaves the original
  as it was.\<close>

lemma copy_independent:
  assumes "copies t f" and "view h t v = Some (l, as)"
  obtains w e bs where "f v h = (Returns w, h @ e)" "view (h @ e) t w = Some (l, bs)"
    "view (h @ e) t v = Some (l, as)" "set as \<inter> set bs = {}"
proof -
  from assms obtain w e bs where w: "f v h = (Returns w, h @ e)" "view (h @ e) t w = Some (l, bs)"
    "\<forall>b \<in> set bs. length h \<le> b" by (rule copiesE)
  moreover have "set as \<inter> set bs = {}" using view_addrs [OF assms(2)] w(3) by fastforce
  ultimately show ?thesis using that view_append [OF assms(2)] by blast
qed

end
