(* ===== verification/Deep_Copy.thy ===== *)
theory Deep_Copy
  imports Go_Memory
begin

text \<open>
  The generated deep copies of the API types (api/v1/zz_generated.deepcopy.go).

  For every type of the API: its layout, translated from the struct declaration (\<open><T>_type\<close>), and its
  methods \<open>DeepCopyInto\<close>, \<open>DeepCopy\<close> and, for the objects of the API, \<open>DeepCopyObject\<close>. The methods are
  written with the statement forms of \<open>Go_Memory\<close>, one entry per statement of the source and in its
  order; a field without an entry is copied by the assignment \<open>*out = *in\<close> alone.

  The types of Kubernetes that the API embeds, with their own copy methods, are a parameter: the
  record \<open>foreign_code\<close>. The locale \<open>foreign_copies\<close> states what the generated code relies on: those methods
  are deep copies of their types, and the types copied by assignment hold no reference. (A
  \<open>metav1.Time\<close> is an instant: its location pointer refers to immutable data.)
\<close>

section \<open>The types of Kubernetes\<close>

datatype foreign_name =
    TypeMeta | ObjectMeta | ListMeta | Time | PodTemplateSpec | CoreServiceSpec
  | ConditionStatus | RestartPolicy | PodFailurePolicy | MetricSpec | Quantity

text \<open>Layout, \<open>DeepCopyInto\<close> (for a \<open>Quantity\<close>, \<open>DeepCopy\<close>, which returns a value) and the \<open>DeepCopy\<close> of
  pointers.\<close>

record foreign_code =
  foreignType :: "foreign_name \<Rightarrow> gty"
  foreignInto :: "foreign_name \<Rightarrow> copier"
  foreignNew :: "foreign_name \<Rightarrow> copier"

text \<open>A value of the interface type \<open>runtime.Object\<close>: nil, or a dynamic type with a pointer.\<close>

datatype iface = NilIface | Iface string gval

text \<open>\<open>if c := in.DeepCopy(); c != nil \{ return c \}; return nil\<close>\<close>

definition asObject :: "string \<Rightarrow> copier \<Rightarrow> gval \<Rightarrow> (store, iface) go" where
  "asObject n dc v = bindG (dc v) (\<lambda>c. if c \<noteq> GNil then ret (Iface n c) else ret NilIface)"

section \<open>Types and methods\<close>

definition ActivityProbeExec_type :: "gty" where
  "ActivityProbeExec_type = TStruct
     [(''Command'', TSlice TStr)]"

definition ActivityProbeExec_DeepCopyInto :: "copier" where
  "ActivityProbeExec_DeepCopyInto = structCopy
     [(''Command'', makeCopy TStr)]"

definition ActivityProbeExec_DeepCopy :: "copier" where
  "ActivityProbeExec_DeepCopy = newCopy ActivityProbeExec_type ActivityProbeExec_DeepCopyInto"

definition ActivityProbeHttp_type :: "gty" where
  "ActivityProbeHttp_type = TStruct
     [(''Path'', TStr),
      (''Port'', TInt 32)]"

definition ActivityProbeHttp_DeepCopyInto :: copier where
  "ActivityProbeHttp_DeepCopyInto = structCopy []"

definition ActivityProbeHttp_DeepCopy :: "copier" where
  "ActivityProbeHttp_DeepCopy = newCopy ActivityProbeHttp_type ActivityProbeHttp_DeepCopyInto"

definition ActivityProbe_type :: "gty" where
  "ActivityProbe_type = TStruct
     [(''Exec'', TPtr ActivityProbeExec_type),
      (''Http'', TPtr ActivityProbeHttp_type)]"

definition ActivityProbe_DeepCopyInto :: "copier" where
  "ActivityProbe_DeepCopyInto = structCopy
     [(''Exec'', newCopy ActivityProbeExec_type ActivityProbeExec_DeepCopyInto),
      (''Http'', newCopy ActivityProbeHttp_type ret)]"

definition ActivityProbe_DeepCopy :: "copier" where
  "ActivityProbe_DeepCopy = newCopy ActivityProbe_type ActivityProbe_DeepCopyInto"

definition BatchJobSpec_type :: "foreign_code \<Rightarrow> gty" where
  "BatchJobSpec_type K = TStruct
     [(''Template'', foreignType K PodTemplateSpec)]"

definition BatchJobSpec_DeepCopyInto :: "foreign_code \<Rightarrow> copier" where
  "BatchJobSpec_DeepCopyInto K = structCopy
     [(''Template'', foreignInto K PodTemplateSpec)]"

definition BatchJobSpec_DeepCopy :: "foreign_code \<Rightarrow> copier" where
  "BatchJobSpec_DeepCopy K = newCopy (BatchJobSpec_type K) (BatchJobSpec_DeepCopyInto K)"

definition DaskReplicaSpec_type :: "foreign_code \<Rightarrow> gty" where
  "DaskReplicaSpec_type K = TStruct
     [(''Replicas'', TInt 64),
      (''Template'', foreignType K PodTemplateSpec),
      (''RestartPolicy'', foreignType K RestartPolicy)]"

definition DaskReplicaSpec_DeepCopyInto :: "foreign_code \<Rightarrow> copier" where
  "DaskReplicaSpec_DeepCopyInto K = structCopy
     [(''Template'', foreignInto K PodTemplateSpec)]"

definition DaskReplicaSpec_DeepCopy :: "foreign_code \<Rightarrow> copier" where
  "DaskReplicaSpec_DeepCopy K = newCopy (DaskReplicaSpec_type K) (DaskReplicaSpec_DeepCopyInto K)"

definition DaskClusterSpec_type :: "foreign_code \<Rightarrow> gty" where
  "DaskClusterSpec_type K = TStruct
     [(''IdleTimeout'', TPtr (TInt 32)),
      (''ReplicaSpecs'', TMap (DaskReplicaSpec_type K)),
      (''Service'', foreignType K CoreServiceSpec),
      (''MinReplicas'', TPtr (TInt 32)),
      (''MaxReplicas'', TPtr (TInt 32))]"

definition DaskClusterSpec_DeepCopyInto :: "foreign_code \<Rightarrow> copier" where
  "DaskClusterSpec_DeepCopyInto K = structCopy
     [(''IdleTimeout'', newCopy (TInt 32) ret),
      (''ReplicaSpecs'', makeMap (valueCopy (DaskReplicaSpec_type K) (DaskReplicaSpec_DeepCopyInto K))),
      (''Service'', foreignInto K CoreServiceSpec),
      (''MinReplicas'', newCopy (TInt 32) ret),
      (''MaxReplicas'', newCopy (TInt 32) ret)]"

definition DaskClusterSpec_DeepCopy :: "foreign_code \<Rightarrow> copier" where
  "DaskClusterSpec_DeepCopy K = newCopy (DaskClusterSpec_type K) (DaskClusterSpec_DeepCopyInto K)"

definition OperationCondition_type :: "foreign_code \<Rightarrow> gty" where
  "OperationCondition_type K = TStruct
     [(''Type'', TStr),
      (''Status'', foreignType K ConditionStatus),
      (''LastUpdateTime'', foreignType K Time),
      (''LastTransitionTime'', foreignType K Time),
      (''Reason'', TStr),
      (''Message'', TStr)]"

definition OperationCondition_DeepCopyInto :: "foreign_code \<Rightarrow> copier" where
  "OperationCondition_DeepCopyInto K = structCopy
     [(''LastUpdateTime'', foreignInto K Time),
      (''LastTransitionTime'', foreignInto K Time)]"

definition OperationCondition_DeepCopy :: "foreign_code \<Rightarrow> copier" where
  "OperationCondition_DeepCopy K = newCopy (OperationCondition_type K) (OperationCondition_DeepCopyInto K)"

definition OperationStatus_type :: "foreign_code \<Rightarrow> gty" where
  "OperationStatus_type K = TStruct
     [(''Conditions'', TSlice (OperationCondition_type K)),
      (''StartTime'', TPtr (foreignType K Time)),
      (''CompletionTime'', TPtr (foreignType K Time)),
      (''LastReconcileTime'', TPtr (foreignType K Time))]"

definition OperationStatus_DeepCopyInto :: "foreign_code \<Rightarrow> copier" where
  "OperationStatus_DeepCopyInto K = structCopy
     [(''Conditions'', makeEach (OperationCondition_type K) (OperationCondition_DeepCopyInto K)),
      (''StartTime'', foreignNew K Time),
      (''CompletionTime'', foreignNew K Time),
      (''LastReconcileTime'', foreignNew K Time)]"

definition OperationStatus_DeepCopy :: "foreign_code \<Rightarrow> copier" where
  "OperationStatus_DeepCopy K = newCopy (OperationStatus_type K) (OperationStatus_DeepCopyInto K)"

definition RayAutoscalerOptions_type :: "gty" where
  "RayAutoscalerOptions_type = TStruct
     [(''UpscalingMode'', TStr),
      (''ImagePullPolicy'', TStr)]"

definition RayAutoscalerOptions_DeepCopyInto :: copier where
  "RayAutoscalerOptions_DeepCopyInto = structCopy []"

definition RayAutoscalerOptions_DeepCopy :: "copier" where
  "RayAutoscalerOptions_DeepCopy = newCopy RayAutoscalerOptions_type RayAutoscalerOptions_DeepCopyInto"

definition RayReplicaSpec_type :: "foreign_code \<Rightarrow> gty" where
  "RayReplicaSpec_type K = TStruct
     [(''GroupName'', TStr),
      (''Replicas'', TPtr (TInt 32)),
      (''MinReplicas'', TPtr (TInt 32)),
      (''MaxReplicas'', TPtr (TInt 32)),
      (''RayStartParams'', TMap TStr),
      (''Template'', foreignType K PodTemplateSpec),
      (''RestartPolicy'', foreignType K RestartPolicy)]"

definition RayReplicaSpec_DeepCopyInto :: "foreign_code \<Rightarrow> copier" where
  "RayReplicaSpec_DeepCopyInto K = structCopy
     [(''Replicas'', newCopy (TInt 32) ret),
      (''MinReplicas'', newCopy (TInt 32) ret),
      (''MaxReplicas'', newCopy (TInt 32) ret),
      (''RayStartParams'', makeMap ret),
      (''Template'', foreignInto K PodTemplateSpec)]"

definition RayReplicaSpec_DeepCopy :: "foreign_code \<Rightarrow> copier" where
  "RayReplicaSpec_DeepCopy K = newCopy (RayReplicaSpec_type K) (RayReplicaSpec_DeepCopyInto K)"

definition RayClusterSpec_type :: "foreign_code \<Rightarrow> gty" where
  "RayClusterSpec_type K = TStruct
     [(''Entrypoint'', TStr),
      (''Metadata'', TMap TStr),
      (''Suspend'', TPtr TBool),
      (''RuntimeEnv'', TStr),
      (''RayVersion'', TStr),
      (''Head'', RayReplicaSpec_type K),
      (''Workers'', TSlice (RayReplicaSpec_type K)),
      (''EnableInTreeAutoscaling'', TPtr TBool),
      (''AutoscalerOptions'', TPtr RayAutoscalerOptions_type)]"

definition RayClusterSpec_DeepCopyInto :: "foreign_code \<Rightarrow> copier" where
  "RayClusterSpec_DeepCopyInto K = structCopy
     [(''Metadata'', makeMap ret),
      (''Suspend'', newCopy TBool ret),
      (''Head'', RayReplicaSpec_DeepCopyInto K),
      (''Workers'', makeEach (RayReplicaSpec_type K) (RayReplicaSpec_DeepCopyInto K)),
      (''EnableInTreeAutoscaling'', newCopy TBool ret),
      (''AutoscalerOptions'', newCopy RayAutoscalerOptions_type ret)]"

definition RayClusterSpec_DeepCopy :: "foreign_code \<Rightarrow> copier" where
  "RayClusterSpec_DeepCopy K = newCopy (RayClusterSpec_type K) (RayClusterSpec_DeepCopyInto K)"

definition CullingSpec_type :: "gty" where
  "CullingSpec_type = TStruct
     [(''Timeout'', TPtr (TInt 32))]"

definition CullingSpec_DeepCopyInto :: "copier" where
  "CullingSpec_DeepCopyInto = structCopy
     [(''Timeout'', newCopy (TInt 32) ret)]"

definition CullingSpec_DeepCopy :: "copier" where
  "CullingSpec_DeepCopy = newCopy CullingSpec_type CullingSpec_DeepCopyInto"

definition TerminationSpec_type :: "foreign_code \<Rightarrow> gty" where
  "TerminationSpec_type K = TStruct
     [(''BackoffLimit'', TPtr (TInt 32)),
      (''ActiveDeadlineSeconds'', TPtr (TInt 64)),
      (''TTLSecondsAfterFinished'', TPtr (TInt 32)),
      (''Culling'', TPtr CullingSpec_type),
      (''Probe'', TPtr ActivityProbe_type),
      (''PodFailurePolicy'', TPtr (foreignType K PodFailurePolicy))]"

definition TerminationSpec_DeepCopyInto :: "foreign_code \<Rightarrow> copier" where
  "TerminationSpec_DeepCopyInto K = structCopy
     [(''BackoffLimit'', newCopy (TInt 32) ret),
      (''ActiveDeadlineSeconds'', newCopy (TInt 64) ret),
      (''TTLSecondsAfterFinished'', newCopy (TInt 32) ret),
      (''Culling'', newCopy CullingSpec_type CullingSpec_DeepCopyInto),
      (''Probe'', newCopy ActivityProbe_type ActivityProbe_DeepCopyInto),
      (''PodFailurePolicy'', newCopy (foreignType K PodFailurePolicy) (foreignInto K PodFailurePolicy))]"

definition TerminationSpec_DeepCopy :: "foreign_code \<Rightarrow> copier" where
  "TerminationSpec_DeepCopy K = newCopy (TerminationSpec_type K) (TerminationSpec_DeepCopyInto K)"

definition Cluster_type :: "foreign_code \<Rightarrow> gty" where
  "Cluster_type K = TStruct
     [(''TypeMeta'', foreignType K TypeMeta),
      (''ObjectMeta'', foreignType K ObjectMeta),
      (''Termination'', TerminationSpec_type K),
      (''CollectLogs'', TBool),
      (''SyncStatuses'', TBool),
      (''DaskClusterSpec'', TPtr (DaskClusterSpec_type K)),
      (''RayClusterSpec'', TPtr (RayClusterSpec_type K)),
      (''Status'', OperationStatus_type K)]"

definition Cluster_DeepCopyInto :: "foreign_code \<Rightarrow> copier" where
  "Cluster_DeepCopyInto K = structCopy
     [(''TypeMeta'', ret),
      (''ObjectMeta'', foreignInto K ObjectMeta),
      (''Termination'', TerminationSpec_DeepCopyInto K),
      (''DaskClusterSpec'', newCopy (DaskClusterSpec_type K) (DaskClusterSpec_DeepCopyInto K)),
      (''RayClusterSpec'', newCopy (RayClusterSpec_type K) (RayClusterSpec_DeepCopyInto K)),
      (''Status'', OperationStatus_DeepCopyInto K)]"

definition Cluster_DeepCopy :: "foreign_code \<Rightarrow> copier" where
  "Cluster_DeepCopy K = newCopy (Cluster_type K) (Cluster_DeepCopyInto K)"

definition Cluster_DeepCopyObject :: "foreign_code \<Rightarrow> gval \<Rightarrow> (store, iface) go" where
  "Cluster_DeepCopyObject K = asObject ''Cluster'' (Cluster_DeepCopy K)"

definition ClusterList_type :: "foreign_code \<Rightarrow> gty" where
  "ClusterList_type K = TStruct
     [(''TypeMeta'', foreignType K TypeMeta),
      (''ListMeta'', foreignType K ListMeta),
      (''Items'', TSlice (Cluster_type K))]"

definition ClusterList_DeepCopyInto :: "foreign_code \<Rightarrow> copier" where
  "ClusterList_DeepCopyInto K = structCopy
     [(''TypeMeta'', ret),
      (''ListMeta'', foreignInto K ListMeta),
      (''Items'', makeEach (Cluster_type K) (Cluster_DeepCopyInto K))]"

definition ClusterList_DeepCopy :: "foreign_code \<Rightarrow> copier" where
  "ClusterList_DeepCopy K = newCopy (ClusterList_type K) (ClusterList_DeepCopyInto K)"

definition ClusterList_DeepCopyObject :: "foreign_code \<Rightarrow> gval \<Rightarrow> (store, iface) go" where
  "ClusterList_DeepCopyObject K = asObject ''ClusterList'' (ClusterList_DeepCopy K)"

definition Job_type :: "foreign_code \<Rightarrow> gty" where
  "Job_type K = TStruct
     [(''TypeMeta'', foreignType K TypeMeta),
      (''ObjectMeta'', foreignType K ObjectMeta),
      (''Termination'', TerminationSpec_type K),
      (''CollectLogs'', TBool),
      (''SyncStatuses'', TBool),
      (''BatchJobSpec'', TPtr (BatchJobSpec_type K)),
      (''Status'', OperationStatus_type K)]"

definition Job_DeepCopyInto :: "foreign_code \<Rightarrow> copier" where
  "Job_DeepCopyInto K = structCopy
     [(''TypeMeta'', ret),
      (''ObjectMeta'', foreignInto K ObjectMeta),
      (''Termination'', TerminationSpec_DeepCopyInto K),
      (''BatchJobSpec'', newCopy (BatchJobSpec_type K) (BatchJobSpec_DeepCopyInto K)),
      (''Status'', OperationStatus_DeepCopyInto K)]"

definition Job_DeepCopy :: "foreign_code \<Rightarrow> copier" where
  "Job_DeepCopy K = newCopy (Job_type K) (Job_DeepCopyInto K)"

definition Job_DeepCopyObject :: "foreign_code \<Rightarrow> gval \<Rightarrow> (store, iface) go" where
  "Job_DeepCopyObject K = asObject ''Job'' (Job_DeepCopy K)"

definition JobList_type :: "foreign_code \<Rightarrow> gty" where
  "JobList_type K = TStruct
     [(''TypeMeta'', foreignType K TypeMeta),
      (''ListMeta'', foreignType K ListMeta),
      (''Items'', TSlice (Job_type K))]"

definition JobList_DeepCopyInto :: "foreign_code \<Rightarrow> copier" where
  "JobList_DeepCopyInto K = structCopy
     [(''TypeMeta'', ret),
      (''ListMeta'', foreignInto K ListMeta),
      (''Items'', makeEach (Job_type K) (Job_DeepCopyInto K))]"

definition JobList_DeepCopy :: "foreign_code \<Rightarrow> copier" where
  "JobList_DeepCopy K = newCopy (JobList_type K) (JobList_DeepCopyInto K)"

definition JobList_DeepCopyObject :: "foreign_code \<Rightarrow> gval \<Rightarrow> (store, iface) go" where
  "JobList_DeepCopyObject K = asObject ''JobList'' (JobList_DeepCopy K)"

definition KFReplicaSpec_type :: "foreign_code \<Rightarrow> gty" where
  "KFReplicaSpec_type K = TStruct
     [(''Replicas'', TPtr (TInt 32)),
      (''Template'', foreignType K PodTemplateSpec),
      (''RestartPolicy'', foreignType K RestartPolicy)]"

definition KFReplicaSpec_DeepCopyInto :: "foreign_code \<Rightarrow> copier" where
  "KFReplicaSpec_DeepCopyInto K = structCopy
     [(''Replicas'', newCopy (TInt 32) ret),
      (''Template'', foreignInto K PodTemplateSpec)]"

definition KFReplicaSpec_DeepCopy :: "foreign_code \<Rightarrow> copier" where
  "KFReplicaSpec_DeepCopy K = newCopy (KFReplicaSpec_type K) (KFReplicaSpec_DeepCopyInto K)"

definition SchedulingPolicy_type :: "foreign_code \<Rightarrow> gty" where
  "SchedulingPolicy_type K = TStruct
     [(''MinAvailable'', TPtr (TInt 32)),
      (''Queue'', TStr),
      (''MinResources'', TPtr (TMap (foreignType K Quantity))),
      (''PriorityClass'', TStr),
      (''ScheduleTimeoutSeconds'', TPtr (TInt 32))]"

definition SchedulingPolicy_DeepCopyInto :: "foreign_code \<Rightarrow> copier" where
  "SchedulingPolicy_DeepCopyInto K = structCopy
     [(''MinAvailable'', newCopy (TInt 32) ret),
      (''MinResources'', newCopy (TMap (foreignType K Quantity)) (makeMap (foreignInto K Quantity))),
      (''ScheduleTimeoutSeconds'', newCopy (TInt 32) ret)]"

definition SchedulingPolicy_DeepCopy :: "foreign_code \<Rightarrow> copier" where
  "SchedulingPolicy_DeepCopy K = newCopy (SchedulingPolicy_type K) (SchedulingPolicy_DeepCopyInto K)"

definition MPIJobSpec_type :: "foreign_code \<Rightarrow> gty" where
  "MPIJobSpec_type K = TStruct
     [(''CleanPodPolicy'', TPtr TStr),
      (''SchedulingPolicy'', TPtr (SchedulingPolicy_type K)),
      (''SlotsPerWorker'', TPtr (TInt 32)),
      (''ReplicaSpecs'', TMap (TPtr (KFReplicaSpec_type K)))]"

definition MPIJobSpec_DeepCopyInto :: "foreign_code \<Rightarrow> copier" where
  "MPIJobSpec_DeepCopyInto K = structCopy
     [(''CleanPodPolicy'', newCopy TStr ret),
      (''SchedulingPolicy'', newCopy (SchedulingPolicy_type K) (SchedulingPolicy_DeepCopyInto K)),
      (''SlotsPerWorker'', newCopy (TInt 32) ret),
      (''ReplicaSpecs'', makeMap (newCopy (KFReplicaSpec_type K) (KFReplicaSpec_DeepCopyInto K)))]"

definition MPIJobSpec_DeepCopy :: "foreign_code \<Rightarrow> copier" where
  "MPIJobSpec_DeepCopy K = newCopy (MPIJobSpec_type K) (MPIJobSpec_DeepCopyInto K)"

definition RDZVConf_type :: "gty" where
  "RDZVConf_type = TStruct
     [(''Key'', TStr),
      (''Value'', TStr)]"

definition RDZVConf_DeepCopyInto :: copier where
  "RDZVConf_DeepCopyInto = structCopy []"

definition RDZVConf_DeepCopy :: "copier" where
  "RDZVConf_DeepCopy = newCopy RDZVConf_type RDZVConf_DeepCopyInto"

definition PytorchElasticPolicy_type :: "foreign_code \<Rightarrow> gty" where
  "PytorchElasticPolicy_type K = TStruct
     [(''MinReplicas'', TPtr (TInt 32)),
      (''MaxReplicas'', TPtr (TInt 32)),
      (''RDZVBackend'', TPtr TStr),
      (''RDZVPort'', TPtr (TInt 32)),
      (''RDZVHost'', TPtr TStr),
      (''RDZVID'', TPtr TStr),
      (''RDZVConf'', TSlice RDZVConf_type),
      (''Standalone'', TPtr TBool),
      (''NProcPerNode'', TPtr (TInt 32)),
      (''MaxRestarts'', TPtr (TInt 32)),
      (''Metrics'', TSlice (foreignType K MetricSpec))]"

definition PytorchElasticPolicy_DeepCopyInto :: "foreign_code \<Rightarrow> copier" where
  "PytorchElasticPolicy_DeepCopyInto K = structCopy
     [(''MinReplicas'', newCopy (TInt 32) ret),
      (''MaxReplicas'', newCopy (TInt 32) ret),
      (''RDZVBackend'', newCopy TStr ret),
      (''RDZVPort'', newCopy (TInt 32) ret),
      (''RDZVHost'', newCopy TStr ret),
      (''RDZVID'', newCopy TStr ret),
      (''RDZVConf'', makeCopy RDZVConf_type),
      (''Standalone'', newCopy TBool ret),
      (''NProcPerNode'', newCopy (TInt 32) ret),
      (''MaxRestarts'', newCopy (TInt 32) ret),
      (''Metrics'', makeEach (foreignType K MetricSpec) (foreignInto K MetricSpec))]"

definition PytorchElasticPolicy_DeepCopy :: "foreign_code \<Rightarrow> copier" where
  "PytorchElasticPolicy_DeepCopy K = newCopy (PytorchElasticPolicy_type K) (PytorchElasticPolicy_DeepCopyInto K)"

definition PytorchJobSpec_type :: "foreign_code \<Rightarrow> gty" where
  "PytorchJobSpec_type K = TStruct
     [(''CleanPodPolicy'', TPtr TStr),
      (''SchedulingPolicy'', TPtr (SchedulingPolicy_type K)),
      (''ElasticPolicy'', TPtr (PytorchElasticPolicy_type K)),
      (''ReplicaSpecs'', TMap (TPtr (KFReplicaSpec_type K))),
      (''NprocPerNode'', TPtr TStr)]"

definition PytorchJobSpec_DeepCopyInto :: "foreign_code \<Rightarrow> copier" where
  "PytorchJobSpec_DeepCopyInto K = structCopy
     [(''CleanPodPolicy'', newCopy TStr ret),
      (''SchedulingPolicy'', newCopy (SchedulingPolicy_type K) (SchedulingPolicy_DeepCopyInto K)),
      (''ElasticPolicy'', newCopy (PytorchElasticPolicy_type K) (PytorchElasticPolicy_DeepCopyInto K)),
      (''ReplicaSpecs'', makeMap (newCopy (KFReplicaSpec_type K) (KFReplicaSpec_DeepCopyInto K))),
      (''NprocPerNode'', newCopy TStr ret)]"

definition PytorchJobSpec_DeepCopy :: "foreign_code \<Rightarrow> copier" where
  "PytorchJobSpec_DeepCopy K = newCopy (PytorchJobSpec_type K) (PytorchJobSpec_DeepCopyInto K)"

definition TFJobSpec_type :: "foreign_code \<Rightarrow> gty" where
  "TFJobSpec_type K = TStruct
     [(''CleanPodPolicy'', TPtr TStr),
      (''SchedulingPolicy'', TPtr (SchedulingPolicy_type K)),
      (''SuccessPolicy'', TPtr TStr),
      (''EnableDynamicWorker'', TBool),
      (''ReplicaSpecs'', TMap (TPtr (KFReplicaSpec_type K)))]"

definition TFJobSpec_DeepCopyInto :: "foreign_code \<Rightarrow> copier" where
  "TFJobSpec_DeepCopyInto K = structCopy
     [(''CleanPodPolicy'', newCopy TStr ret),
      (''SchedulingPolicy'', newCopy (SchedulingPolicy_type K) (SchedulingPolicy_DeepCopyInto K)),
      (''SuccessPolicy'', newCopy TStr ret),
      (''ReplicaSpecs'', makeMap (newCopy (KFReplicaSpec_type K) (KFReplicaSpec_DeepCopyInto K)))]"

definition TFJobSpec_DeepCopy :: "foreign_code \<Rightarrow> copier" where
  "TFJobSpec_DeepCopy K = newCopy (TFJobSpec_type K) (TFJobSpec_DeepCopyInto K)"

definition KfJob_type :: "foreign_code \<Rightarrow> gty" where
  "KfJob_type K = TStruct
     [(''TypeMeta'', foreignType K TypeMeta),
      (''ObjectMeta'', foreignType K ObjectMeta),
      (''Termination'', TerminationSpec_type K),
      (''CollectLogs'', TBool),
      (''SyncStatuses'', TBool),
      (''TFJobSpec'', TPtr (TFJobSpec_type K)),
      (''PytorchJobSpec'', TPtr (PytorchJobSpec_type K)),
      (''MPIJobSpec'', TPtr (MPIJobSpec_type K)),
      (''Status'', OperationStatus_type K)]"

definition KfJob_DeepCopyInto :: "foreign_code \<Rightarrow> copier" where
  "KfJob_DeepCopyInto K = structCopy
     [(''TypeMeta'', ret),
      (''ObjectMeta'', foreignInto K ObjectMeta),
      (''Termination'', TerminationSpec_DeepCopyInto K),
      (''TFJobSpec'', newCopy (TFJobSpec_type K) (TFJobSpec_DeepCopyInto K)),
      (''PytorchJobSpec'', newCopy (PytorchJobSpec_type K) (PytorchJobSpec_DeepCopyInto K)),
      (''MPIJobSpec'', newCopy (MPIJobSpec_type K) (MPIJobSpec_DeepCopyInto K)),
      (''Status'', OperationStatus_DeepCopyInto K)]"

definition KfJob_DeepCopy :: "foreign_code \<Rightarrow> copier" where
  "KfJob_DeepCopy K = newCopy (KfJob_type K) (KfJob_DeepCopyInto K)"

definition KfJob_DeepCopyObject :: "foreign_code \<Rightarrow> gval \<Rightarrow> (store, iface) go" where
  "KfJob_DeepCopyObject K = asObject ''KfJob'' (KfJob_DeepCopy K)"

definition KfJobList_type :: "foreign_code \<Rightarrow> gty" where
  "KfJobList_type K = TStruct
     [(''TypeMeta'', foreignType K TypeMeta),
      (''ListMeta'', foreignType K ListMeta),
      (''Items'', TSlice (KfJob_type K))]"

definition KfJobList_DeepCopyInto :: "foreign_code \<Rightarrow> copier" where
  "KfJobList_DeepCopyInto K = structCopy
     [(''TypeMeta'', ret),
      (''ListMeta'', foreignInto K ListMeta),
      (''Items'', makeEach (KfJob_type K) (KfJob_DeepCopyInto K))]"

definition KfJobList_DeepCopy :: "foreign_code \<Rightarrow> copier" where
  "KfJobList_DeepCopy K = newCopy (KfJobList_type K) (KfJobList_DeepCopyInto K)"

definition KfJobList_DeepCopyObject :: "foreign_code \<Rightarrow> gval \<Rightarrow> (store, iface) go" where
  "KfJobList_DeepCopyObject K = asObject ''KfJobList'' (KfJobList_DeepCopy K)"

definition ServiceSpec_type :: "foreign_code \<Rightarrow> gty" where
  "ServiceSpec_type K = TStruct
     [(''Replicas'', TPtr (TInt 32)),
      (''Ports'', TSlice (TInt 32)),
      (''IsExternal'', TBool),
      (''Template'', foreignType K PodTemplateSpec)]"

definition ServiceSpec_DeepCopyInto :: "foreign_code \<Rightarrow> copier" where
  "ServiceSpec_DeepCopyInto K = structCopy
     [(''Replicas'', newCopy (TInt 32) ret),
      (''Ports'', makeCopy (TInt 32)),
      (''Template'', foreignInto K PodTemplateSpec)]"

definition ServiceSpec_DeepCopy :: "foreign_code \<Rightarrow> copier" where
  "ServiceSpec_DeepCopy K = newCopy (ServiceSpec_type K) (ServiceSpec_DeepCopyInto K)"

definition Service_type :: "foreign_code \<Rightarrow> gty" where
  "Service_type K = TStruct
     [(''TypeMeta'', foreignType K TypeMeta),
      (''ObjectMeta'', foreignType K ObjectMeta),
      (''Termination'', TerminationSpec_type K),
      (''CollectLogs'', TBool),
      (''SyncStatuses'', TBool),
      (''BatchJobSpec'', TPtr (BatchJobSpec_type K)),
      (''ServiceSpec'', TPtr (ServiceSpec_type K)),
      (''Status'', OperationStatus_type K)]"

definition Service_DeepCopyInto :: "foreign_code \<Rightarrow> copier" where
  "Service_DeepCopyInto K = structCopy
     [(''TypeMeta'', ret),
      (''ObjectMeta'', foreignInto K ObjectMeta),
      (''Termination'', TerminationSpec_DeepCopyInto K),
      (''BatchJobSpec'', newCopy (BatchJobSpec_type K) (BatchJobSpec_DeepCopyInto K)),
      (''ServiceSpec'', newCopy (ServiceSpec_type K) (ServiceSpec_DeepCopyInto K)),
      (''Status'', OperationStatus_DeepCopyInto K)]"

definition Service_DeepCopy :: "foreign_code \<Rightarrow> copier" where
  "Service_DeepCopy K = newCopy (Service_type K) (Service_DeepCopyInto K)"

definition Service_DeepCopyObject :: "foreign_code \<Rightarrow> gval \<Rightarrow> (store, iface) go" where
  "Service_DeepCopyObject K = asObject ''Service'' (Service_DeepCopy K)"

definition ServiceList_type :: "foreign_code \<Rightarrow> gty" where
  "ServiceList_type K = TStruct
     [(''TypeMeta'', foreignType K TypeMeta),
      (''ListMeta'', foreignType K ListMeta),
      (''Items'', TSlice (Service_type K))]"

definition ServiceList_DeepCopyInto :: "foreign_code \<Rightarrow> copier" where
  "ServiceList_DeepCopyInto K = structCopy
     [(''TypeMeta'', ret),
      (''ListMeta'', foreignInto K ListMeta),
      (''Items'', makeEach (Service_type K) (Service_DeepCopyInto K))]"

definition ServiceList_DeepCopy :: "foreign_code \<Rightarrow> copier" where
  "ServiceList_DeepCopy K = newCopy (ServiceList_type K) (ServiceList_DeepCopyInto K)"

definition ServiceList_DeepCopyObject :: "foreign_code \<Rightarrow> gval \<Rightarrow> (store, iface) go" where
  "ServiceList_DeepCopyObject K = asObject ''ServiceList'' (ServiceList_DeepCopy K)"

section \<open>All methods\<close>

definition deepCopyMethods :: "foreign_code \<Rightarrow> (string \<times> gty \<times> copier) list" where
  "deepCopyMethods K =
     [(''ActivityProbeExec'', ActivityProbeExec_type, ActivityProbeExec_DeepCopy),
      (''ActivityProbeHttp'', ActivityProbeHttp_type, ActivityProbeHttp_DeepCopy),
      (''ActivityProbe'', ActivityProbe_type, ActivityProbe_DeepCopy),
      (''BatchJobSpec'', BatchJobSpec_type K, BatchJobSpec_DeepCopy K),
      (''DaskReplicaSpec'', DaskReplicaSpec_type K, DaskReplicaSpec_DeepCopy K),
      (''DaskClusterSpec'', DaskClusterSpec_type K, DaskClusterSpec_DeepCopy K),
      (''OperationCondition'', OperationCondition_type K, OperationCondition_DeepCopy K),
      (''OperationStatus'', OperationStatus_type K, OperationStatus_DeepCopy K),
      (''RayAutoscalerOptions'', RayAutoscalerOptions_type, RayAutoscalerOptions_DeepCopy),
      (''RayReplicaSpec'', RayReplicaSpec_type K, RayReplicaSpec_DeepCopy K),
      (''RayClusterSpec'', RayClusterSpec_type K, RayClusterSpec_DeepCopy K),
      (''CullingSpec'', CullingSpec_type, CullingSpec_DeepCopy),
      (''TerminationSpec'', TerminationSpec_type K, TerminationSpec_DeepCopy K),
      (''Cluster'', Cluster_type K, Cluster_DeepCopy K),
      (''ClusterList'', ClusterList_type K, ClusterList_DeepCopy K),
      (''Job'', Job_type K, Job_DeepCopy K),
      (''JobList'', JobList_type K, JobList_DeepCopy K),
      (''KFReplicaSpec'', KFReplicaSpec_type K, KFReplicaSpec_DeepCopy K),
      (''SchedulingPolicy'', SchedulingPolicy_type K, SchedulingPolicy_DeepCopy K),
      (''MPIJobSpec'', MPIJobSpec_type K, MPIJobSpec_DeepCopy K),
      (''RDZVConf'', RDZVConf_type, RDZVConf_DeepCopy),
      (''PytorchElasticPolicy'', PytorchElasticPolicy_type K, PytorchElasticPolicy_DeepCopy K),
      (''PytorchJobSpec'', PytorchJobSpec_type K, PytorchJobSpec_DeepCopy K),
      (''TFJobSpec'', TFJobSpec_type K, TFJobSpec_DeepCopy K),
      (''KfJob'', KfJob_type K, KfJob_DeepCopy K),
      (''KfJobList'', KfJobList_type K, KfJobList_DeepCopy K),
      (''ServiceSpec'', ServiceSpec_type K, ServiceSpec_DeepCopy K),
      (''Service'', Service_type K, Service_DeepCopy K),
      (''ServiceList'', ServiceList_type K, ServiceList_DeepCopy K)]"

definition objectMethods ::
  "foreign_code \<Rightarrow> (string \<times> gty \<times> (gval \<Rightarrow> (store, iface) go)) list" where
  "objectMethods K =
     [(''Cluster'', Cluster_type K, Cluster_DeepCopyObject K),
      (''ClusterList'', ClusterList_type K, ClusterList_DeepCopyObject K),
      (''Job'', Job_type K, Job_DeepCopyObject K),
      (''JobList'', JobList_type K, JobList_DeepCopyObject K),
      (''KfJob'', KfJob_type K, KfJob_DeepCopyObject K),
      (''KfJobList'', KfJobList_type K, KfJobList_DeepCopyObject K),
      (''Service'', Service_type K, Service_DeepCopyObject K),
      (''ServiceList'', ServiceList_type K, ServiceList_DeepCopyObject K)]"

section \<open>Correctness\<close>

lemmas leaf_defs =
  ActivityProbeExec_type_def ActivityProbeExec_DeepCopyInto_def ActivityProbeHttp_type_def
  ActivityProbeHttp_DeepCopyInto_def BatchJobSpec_type_def BatchJobSpec_DeepCopyInto_def
  DaskReplicaSpec_type_def DaskReplicaSpec_DeepCopyInto_def OperationCondition_type_def
  OperationCondition_DeepCopyInto_def RayAutoscalerOptions_type_def
  RayAutoscalerOptions_DeepCopyInto_def RayReplicaSpec_type_def RayReplicaSpec_DeepCopyInto_def
  CullingSpec_type_def CullingSpec_DeepCopyInto_def KFReplicaSpec_type_def
  KFReplicaSpec_DeepCopyInto_def SchedulingPolicy_type_def SchedulingPolicy_DeepCopyInto_def
  RDZVConf_type_def RDZVConf_DeepCopyInto_def ServiceSpec_type_def ServiceSpec_DeepCopyInto_def

lemmas part_defs =
  ActivityProbe_type_def ActivityProbe_DeepCopyInto_def DaskClusterSpec_type_def
  DaskClusterSpec_DeepCopyInto_def OperationStatus_type_def OperationStatus_DeepCopyInto_def
  RayClusterSpec_type_def RayClusterSpec_DeepCopyInto_def MPIJobSpec_type_def
  MPIJobSpec_DeepCopyInto_def PytorchElasticPolicy_type_def PytorchElasticPolicy_DeepCopyInto_def
  TFJobSpec_type_def TFJobSpec_DeepCopyInto_def

lemmas spec_defs =
  TerminationSpec_type_def TerminationSpec_DeepCopyInto_def PytorchJobSpec_type_def
  PytorchJobSpec_DeepCopyInto_def

lemmas resource_defs =
  Cluster_type_def Cluster_DeepCopyInto_def Job_type_def Job_DeepCopyInto_def KfJob_type_def
  KfJob_DeepCopyInto_def Service_type_def Service_DeepCopyInto_def

lemmas list_defs =
  ClusterList_type_def ClusterList_DeepCopyInto_def JobList_type_def JobList_DeepCopyInto_def
  KfJobList_type_def KfJobList_DeepCopyInto_def ServiceList_type_def ServiceList_DeepCopyInto_def

lemmas deepCopy_defs =
  ActivityProbeExec_DeepCopy_def ActivityProbeHttp_DeepCopy_def ActivityProbe_DeepCopy_def
  BatchJobSpec_DeepCopy_def DaskReplicaSpec_DeepCopy_def DaskClusterSpec_DeepCopy_def
  OperationCondition_DeepCopy_def OperationStatus_DeepCopy_def RayAutoscalerOptions_DeepCopy_def
  RayReplicaSpec_DeepCopy_def RayClusterSpec_DeepCopy_def CullingSpec_DeepCopy_def
  TerminationSpec_DeepCopy_def Cluster_DeepCopy_def ClusterList_DeepCopy_def Job_DeepCopy_def
  JobList_DeepCopy_def KFReplicaSpec_DeepCopy_def SchedulingPolicy_DeepCopy_def
  MPIJobSpec_DeepCopy_def RDZVConf_DeepCopy_def PytorchElasticPolicy_DeepCopy_def
  PytorchJobSpec_DeepCopy_def TFJobSpec_DeepCopy_def KfJob_DeepCopy_def KfJobList_DeepCopy_def
  ServiceSpec_DeepCopy_def Service_DeepCopy_def ServiceList_DeepCopy_def

lemmas object_defs =
  Cluster_DeepCopyObject_def ClusterList_DeepCopyObject_def Job_DeepCopyObject_def
  JobList_DeepCopyObject_def KfJob_DeepCopyObject_def KfJobList_DeepCopyObject_def
  Service_DeepCopyObject_def ServiceList_DeepCopyObject_def

text \<open>The contracts proved so far, for the types built from them.\<close>

named_theorems generated

locale foreign_copies =
  fixes K :: foreign_code
  assumes into: "n \<in> {ObjectMeta, ListMeta, Time, PodTemplateSpec, CoreServiceSpec, PodFailurePolicy,
      MetricSpec, Quantity} \<Longrightarrow> copies (foreignType K n) (foreignInto K n)"
    and times: "copies (TPtr (foreignType K Time)) (foreignNew K Time)"
    and plain: "n \<in> {TypeMeta, ConditionStatus, RestartPolicy} \<Longrightarrow> flat (foreignType K n)"
begin

lemma leaf_copies [generated]:
  "copies ActivityProbeExec_type ActivityProbeExec_DeepCopyInto"
  "copies ActivityProbeHttp_type ActivityProbeHttp_DeepCopyInto"
  "copies (BatchJobSpec_type K) (BatchJobSpec_DeepCopyInto K)"
  "copies (DaskReplicaSpec_type K) (DaskReplicaSpec_DeepCopyInto K)"
  "copies (OperationCondition_type K) (OperationCondition_DeepCopyInto K)"
  "copies RayAutoscalerOptions_type RayAutoscalerOptions_DeepCopyInto"
  "copies (RayReplicaSpec_type K) (RayReplicaSpec_DeepCopyInto K)"
  "copies CullingSpec_type CullingSpec_DeepCopyInto"
  "copies (KFReplicaSpec_type K) (KFReplicaSpec_DeepCopyInto K)"
  "copies (SchedulingPolicy_type K) (SchedulingPolicy_DeepCopyInto K)"
  "copies RDZVConf_type RDZVConf_DeepCopyInto"
  "copies (ServiceSpec_type K) (ServiceSpec_DeepCopyInto K)"
  by (simp_all add: leaf_defs copies_struct copies_intros generated into times plain)

lemma flat_types [generated]: "flat ActivityProbeHttp_type" "flat RDZVConf_type" "flat RayAutoscalerOptions_type"
  by (simp_all add: leaf_defs)

lemma part_copies [generated]:
  "copies ActivityProbe_type ActivityProbe_DeepCopyInto"
  "copies (DaskClusterSpec_type K) (DaskClusterSpec_DeepCopyInto K)"
  "copies (OperationStatus_type K) (OperationStatus_DeepCopyInto K)"
  "copies (RayClusterSpec_type K) (RayClusterSpec_DeepCopyInto K)"
  "copies (MPIJobSpec_type K) (MPIJobSpec_DeepCopyInto K)"
  "copies (PytorchElasticPolicy_type K) (PytorchElasticPolicy_DeepCopyInto K)"
  "copies (TFJobSpec_type K) (TFJobSpec_DeepCopyInto K)"
  by (simp_all add: part_defs copies_struct copies_intros generated into times plain)

lemma spec_copies [generated]:
  "copies (TerminationSpec_type K) (TerminationSpec_DeepCopyInto K)"
  "copies (PytorchJobSpec_type K) (PytorchJobSpec_DeepCopyInto K)"
  by (simp_all add: spec_defs copies_struct copies_intros generated into times plain)

lemma resource_copies [generated]:
  "copies (Cluster_type K) (Cluster_DeepCopyInto K)"
  "copies (Job_type K) (Job_DeepCopyInto K)"
  "copies (KfJob_type K) (KfJob_DeepCopyInto K)"
  "copies (Service_type K) (Service_DeepCopyInto K)"
  by (simp_all add: resource_defs copies_struct copies_intros generated into times plain)

lemma list_copies [generated]:
  "copies (ClusterList_type K) (ClusterList_DeepCopyInto K)"
  "copies (JobList_type K) (JobList_DeepCopyInto K)"
  "copies (KfJobList_type K) (KfJobList_DeepCopyInto K)"
  "copies (ServiceList_type K) (ServiceList_DeepCopyInto K)"
  by (simp_all add: list_defs copies_struct copies_intros generated into times plain)

lemma deepCopy_copies: "\<forall>(n, t, dc) \<in> set (deepCopyMethods K). copies (TPtr t) dc"
  unfolding deepCopyMethods_def deepCopy_defs by (simp add: copies_new generated)

lemma object_copies:
  "\<forall>(n, t, oc) \<in> set (objectMethods K). \<exists>into. copies t into \<and> oc = asObject n (newCopy t into)"
  unfolding objectMethods_def object_defs deepCopy_defs by simp (blast intro: generated)

end

section \<open>Layouts that meet the laws\<close>

text \<open>The layouts of the types of Kubernetes, cut down to a few of their fields, with the copier by type.\<close>

fun cutType :: "foreign_name \<Rightarrow> gty" where
  "cutType TypeMeta = TStruct [(''Kind'', TStr), (''APIVersion'', TStr)]"
| "cutType ObjectMeta = TStruct
     [(''Name'', TStr), (''Namespace'', TStr), (''DeletionTimestamp'', TPtr (TInt 64)),
      (''Labels'', TMap TStr), (''Finalizers'', TSlice TStr)]"
| "cutType ListMeta = TStruct [(''ResourceVersion'', TStr), (''RemainingItemCount'', TPtr (TInt 64))]"
| "cutType Time = TInt 64"
| "cutType PodTemplateSpec = TStruct
     [(''Containers'', TSlice (TStruct [(''Name'', TStr), (''Command'', TSlice TStr)]))]"
| "cutType CoreServiceSpec = TStruct [(''Ports'', TSlice (TInt 32)), (''Selector'', TMap TStr)]"
| "cutType ConditionStatus = TStr"
| "cutType RestartPolicy = TStr"
| "cutType PodFailurePolicy = TStruct [(''Rules'', TSlice TStr)]"
| "cutType MetricSpec = TStruct [(''Type'', TStr)]"
| "cutType Quantity = TStruct [(''i'', TInt 64), (''s'', TStr)]"

definition cutDown :: foreign_code where
  "cutDown = \<lparr>foreignType = cutType, foreignInto = (\<lambda>n. copyTy (cutType n)),
     foreignNew = (\<lambda>n. copyTy (TPtr (cutType n)))\<rparr>"

lemma wf_cutType: "wfTy (cutType n)"
  by (cases n) simp_all

interpretation cut: foreign_copies cutDown
  by unfold_locales
    (auto simp: cutDown_def copies_new simp del: cutType.simps intro!: copies_copyTy wf_cutType,
      simp_all add: copies_intros)

section \<open>Properties\<close>

text \<open>C9: For every type of the API and every pointer to a well-typed value of it, nil included, the generated
  DeepCopy returns (no nil dereference, no index out of range) a pointer of the same type to the same data,
  keeps every object of the memory as it was, and all objects of the copy are newly allocated.\<close>

theorem DeepCopy_typed:
  assumes "foreign_copies K" and "(n, t, dc) \<in> set (deepCopyMethods K)"
    and "view h (TPtr t) p = Some (l, as)"
  shows "\<exists>q e bs. dc p h = (Returns q, h @ e) \<and> view (h @ e) (TPtr t) q = Some (l, bs) \<and>
    (\<forall>b \<in> set bs. length h \<le> b)"
proof -
  have "copies (TPtr t) dc" using foreign_copies.deepCopy_copies [OF assms(1)] assms(2) by blast
  with assms(3) show ?thesis unfolding copies_def by blast
qed

text \<open>A termination specification with a backoff limit, a culling timeout and a probe.\<close>

definition sampleStore :: store where
  "sampleStore =
     [Cell (GInt 3),
      Cell (GInt 60),
      Cell (GStruct [(''Timeout'', GRef 1)]),
      Array [GStr ''unused'', GStr ''test'', GStr ''-f''],
      Cell (GStruct [(''Command'', GSlice 3 1 2)]),
      Cell (GStruct [(''Exec'', GRef 4), (''Http'', GNil)]),
      Cell (GStruct
        [(''BackoffLimit'', GRef 0), (''ActiveDeadlineSeconds'', GNil),
         (''TTLSecondsAfterFinished'', GNil), (''Culling'', GRef 2), (''Probe'', GRef 5),
         (''PodFailurePolicy'', GNil)])]"

lemma objAt_sample:
  "objAt sampleStore 0 = Some (Cell (GInt 3))"
  "objAt sampleStore (Suc 0) = Some (Cell (GInt 60))"
  "objAt sampleStore 2 = Some (Cell (GStruct [(''Timeout'', GRef 1)]))"
  "objAt sampleStore 3 = Some (Array [GStr ''unused'', GStr ''test'', GStr ''-f''])"
  "objAt sampleStore 4 = Some (Cell (GStruct [(''Command'', GSlice 3 1 2)]))"
  "objAt sampleStore 5 = Some (Cell (GStruct [(''Exec'', GRef 4), (''Http'', GNil)]))"
  "objAt sampleStore 6 = Some (Cell (GStruct
     [(''BackoffLimit'', GRef 0), (''ActiveDeadlineSeconds'', GNil),
      (''TTLSecondsAfterFinished'', GNil), (''Culling'', GRef 2), (''Probe'', GRef 5),
      (''PodFailurePolicy'', GNil)]))"
  by (simp_all add: sampleStore_def objAt_def)

lemma view_sample:
  "view sampleStore (TPtr (TerminationSpec_type cutDown)) (GRef 6) =
     Some (LPtr (LStruct
       [(''BackoffLimit'', LPtr (LInt 3)), (''ActiveDeadlineSeconds'', LNil),
        (''TTLSecondsAfterFinished'', LNil),
        (''Culling'', LPtr (LStruct [(''Timeout'', LPtr (LInt 60))])),
        (''Probe'', LPtr (LStruct
          [(''Exec'', LPtr (LStruct [(''Command'', LSlice [LStr ''test'', LStr ''-f''])])), (''Http'', LNil)])),
        (''PodFailurePolicy'', LNil)]), [6, 0, 2, 1, 5, 4, 3])"
  by (simp add: objAt_sample spec_defs part_defs leaf_defs inRange_def)

lemma length_sample: "length sampleStore = 7"
  by (simp add: sampleStore_def)

theorem DeepCopy_typed_witness:
  "\<exists>q e bs. TerminationSpec_DeepCopy cutDown (GRef 6) sampleStore = (Returns q, sampleStore @ e) \<and>
     view (sampleStore @ e) (TPtr (TerminationSpec_type cutDown)) q =
       Some (LPtr (LStruct
         [(''BackoffLimit'', LPtr (LInt 3)), (''ActiveDeadlineSeconds'', LNil),
          (''TTLSecondsAfterFinished'', LNil),
          (''Culling'', LPtr (LStruct [(''Timeout'', LPtr (LInt 60))])),
          (''Probe'', LPtr (LStruct
            [(''Exec'', LPtr (LStruct [(''Command'', LSlice [LStr ''test'', LStr ''-f''])])), (''Http'', LNil)])),
          (''PodFailurePolicy'', LNil)]), bs) \<and>
     (\<forall>b \<in> set bs. 7 \<le> b)"
proof -
  have "(''TerminationSpec'', TerminationSpec_type cutDown, TerminationSpec_DeepCopy cutDown)
      \<in> set (deepCopyMethods cutDown)" by (simp add: deepCopyMethods_def)
  from DeepCopy_typed [OF cut.foreign_copies_axioms this view_sample] show ?thesis
    unfolding length_sample .
qed

text \<open>C10: The copy that DeepCopyObject hands to a cache and the original never influence each other: whatever
  is written later to the objects of one of them, or to new objects, the other keeps its data. A nil pointer
  gives the nil interface, not an interface that holds a nil pointer.\<close>

theorem DeepCopyObject_independent:
  assumes "foreign_copies K" and "(n, t, oc) \<in> set (objectMethods K)"
    and "view h (TPtr t) p = Some (l, as)" and "p \<noteq> GNil"
  shows "\<exists>q e bs. oc p h = (Returns (Iface n q), h @ e) \<and> view (h @ e) (TPtr t) q = Some (l, bs) \<and>
      (\<forall>h'. (\<forall>a < length (h @ e). a \<notin> set bs \<longrightarrow> objAt h' a = objAt (h @ e) a) \<longrightarrow>
         view h' (TPtr t) p = Some (l, as)) \<and>
      (\<forall>h'. (\<forall>a < length (h @ e). a \<notin> set as \<longrightarrow> objAt h' a = objAt (h @ e) a) \<longrightarrow>
         view h' (TPtr t) q = Some (l, bs)) \<and>
      oc GNil h = (Returns NilIface, h)"
proof -
  from foreign_copies.object_copies [OF assms(1)] assms(2) obtain into where
    into: "copies t into" "oc = asObject n (newCopy t into)" by blast
  from copy_independent [OF copies_new [OF into(1)] assms(3)]
  obtain q e bs where q: "newCopy t into p h = (Returns q, h @ e)"
    "view (h @ e) (TPtr t) q = Some (l, bs)" "view (h @ e) (TPtr t) p = Some (l, as)"
    "set as \<inter> set bs = {}" .
  from assms(3,4) q(2) have "q \<noteq> GNil" unfolding view_ptr_Some by auto
  then have "oc p h = (Returns (Iface n q), h @ e)" "oc GNil h = (Returns NilIface, h)"
    using into(2) q(1) by (simp_all add: asObject_def newCopy_def [of _ _ GNil] bindG_def ret_def)
  moreover have "view h' (TPtr t) p = Some (l, as)"
    if "\<forall>a < length (h @ e). a \<notin> set bs \<longrightarrow> objAt h' a = objAt (h @ e) a" for h'
    using q(3) by (rule view_frame) (use that q(4) view_addrs [OF q(3)] in blast)
  moreover have "view h' (TPtr t) q = Some (l, bs)"
    if "\<forall>a < length (h @ e). a \<notin> set as \<longrightarrow> objAt h' a = objAt (h @ e) a" for h'
    using q(2) by (rule view_frame) (use that q(4) view_addrs [OF q(2)] in blast)
  ultimately show ?thesis using q(2) by blast
qed

text \<open>A job with a label, a finalizer, a condition and a start time.\<close>

definition jobCondition :: gval where
  "jobCondition = GStruct
     [(''Type'', GStr ''Starting''), (''Status'', GStr ''True''), (''LastUpdateTime'', GInt 5),
      (''LastTransitionTime'', GInt 5), (''Reason'', GStr []), (''Message'', GStr [])]"

definition jobStruct :: gval where
  "jobStruct = GStruct
     [(''TypeMeta'', GStruct [(''Kind'', GStr ''Job''), (''APIVersion'', GStr ''v1'')]),
      (''ObjectMeta'', GStruct
         [(''Name'', GStr ''run''), (''Namespace'', GStr ''ns''), (''DeletionTimestamp'', GNil),
          (''Labels'', GRef 0), (''Finalizers'', GSlice 1 0 1)]),
      (''Termination'', GStruct
         [(''BackoffLimit'', GNil), (''ActiveDeadlineSeconds'', GNil),
          (''TTLSecondsAfterFinished'', GNil), (''Culling'', GNil), (''Probe'', GNil),
          (''PodFailurePolicy'', GNil)]),
      (''CollectLogs'', GBool True), (''SyncStatuses'', GBool True), (''BatchJobSpec'', GNil),
      (''Status'', GStruct
         [(''Conditions'', GSlice 2 0 1), (''StartTime'', GRef 3), (''CompletionTime'', GNil),
          (''LastReconcileTime'', GNil)])]"

definition jobStore :: store where
  "jobStore =
     [Table [(''app'', GStr ''demo'')], Array [GStr ''operation.logs.finalizers.polyaxon.com''],
      Array [jobCondition], Cell (GInt 5), Cell jobStruct]"

lemma objAt_job:
  "objAt jobStore 0 = Some (Table [(''app'', GStr ''demo'')])"
  "objAt jobStore (Suc 0) = Some (Array [GStr ''operation.logs.finalizers.polyaxon.com''])"
  "objAt jobStore 2 = Some (Array [jobCondition])"
  "objAt jobStore 3 = Some (Cell (GInt 5))" "objAt jobStore 4 = Some (Cell jobStruct)"
  by (simp_all add: objAt_def jobStore_def)

lemma view_job:
  "\<exists>l. view jobStore (TPtr (Job_type cutDown)) (GRef 4) = Some (l, [4, 0, 1, 2, 3])"
  by (simp add: objAt_job jobStruct_def jobCondition_def resource_defs spec_defs part_defs leaf_defs
      cutDown_def inRange_def viewEntry_def)

theorem DeepCopyObject_independent_witness:
  "\<exists>q e l bs. Job_DeepCopyObject cutDown (GRef 4) jobStore = (Returns (Iface ''Job'' q), jobStore @ e) \<and>
     view jobStore (TPtr (Job_type cutDown)) (GRef 4) = Some (l, [4, 0, 1, 2, 3]) \<and>
     view (jobStore @ e) (TPtr (Job_type cutDown)) q = Some (l, bs) \<and>
     Job_DeepCopyObject cutDown GNil jobStore = (Returns NilIface, jobStore)"
proof -
  from view_job obtain l where
    v: "view jobStore (TPtr (Job_type cutDown)) (GRef 4) = Some (l, [4, 0, 1, 2, 3])" by blast
  have "(''Job'', Job_type cutDown, Job_DeepCopyObject cutDown) \<in> set (objectMethods cutDown)"
    by (simp add: objectMethods_def)
  from DeepCopyObject_independent [OF cut.foreign_copies_axioms this v] v show ?thesis by blast
qed

end
