(* ===== verification/Scheme.thy ===== *)
theory Scheme
  imports Deep_Copy
begin

text \<open>
  The registration of types: the variables of \<^verbatim>\<open>api/v1/groupversion_info.go\<close>, the \<open>init\<close> functions of the API types and
  of \<^verbatim>\<open>cmd/main.go\<close>.

  A scheme and the functions that add types to it belong to apimachinery and controller-runtime: the record
  \<open>scheme_lib\<close>. \<open>scheme_laws\<close> is what they document: what is added is recognized, and what was recognized stays so.
  \<open>utilruntime.Must\<close> panics on an error.
\<close>

section \<open>The group of the API\<close>

record groupVersion =
  gvGroup :: string
  gvVersion :: string

definition GroupVersion :: groupVersion where
  "GroupVersion = \<lparr>gvGroup = ''polyaxon.com'', gvVersion = ''v1''\<rparr>"

text \<open>A \<open>scheme.Builder\<close>: the group version and the objects registered so far, by the names of their types.\<close>

record schemeBuilder =
  builderVersion :: groupVersion
  builderObjects :: "string list"

definition SchemeBuilder :: schemeBuilder where
  "SchemeBuilder = \<lparr>builderVersion = GroupVersion, builderObjects = []\<rparr>"

definition Register :: "string list \<Rightarrow> schemeBuilder \<Rightarrow> schemeBuilder" where
  "Register objs b = b\<lparr>builderObjects := builderObjects b @ objs\<rparr>"

definition init_cluster_types :: "schemeBuilder \<Rightarrow> schemeBuilder" where
  "init_cluster_types = Register [''Cluster'', ''ClusterList'']"

definition init_job_types :: "schemeBuilder \<Rightarrow> schemeBuilder" where
  "init_job_types = Register [''Job'', ''JobList'']"

definition init_kfjob_types :: "schemeBuilder \<Rightarrow> schemeBuilder" where
  "init_kfjob_types = Register [''KfJob'', ''KfJobList'']"

definition init_service_types :: "schemeBuilder \<Rightarrow> schemeBuilder" where
  "init_service_types = Register [''Service'', ''ServiceList'']"

text \<open>The initialization of the package: its files in the order of their names.\<close>

definition initializedBuilder :: schemeBuilder where
  "initializedBuilder =
     init_service_types (init_kfjob_types (init_job_types (init_cluster_types SchemeBuilder)))"

section \<open>The scheme of the program\<close>

record 'sch scheme_lib =
  newScheme :: 'sch
  addForeign :: "string \<Rightarrow> 'sch \<Rightarrow> string option \<times> 'sch"
  addBuilder :: "schemeBuilder \<Rightarrow> 'sch \<Rightarrow> string option \<times> 'sch"
  recognizes :: "'sch \<Rightarrow> groupVersion \<Rightarrow> string \<Rightarrow> bool"

definition scheme_laws :: "'sch scheme_lib \<Rightarrow> bool" where
  "scheme_laws L \<longleftrightarrow>
     (\<forall>b s s'. addBuilder L b s = (None, s') \<longrightarrow>
        (\<forall>gv k. recognizes L s' gv k \<longleftrightarrow>
           recognizes L s gv k \<or> gv = builderVersion b \<and> k \<in> set (builderObjects b))) \<and>
     (\<forall>p s s' gv k. addForeign L p s = (None, s') \<longrightarrow> gvGroup gv = gvGroup GroupVersion \<longrightarrow>
        recognizes L s' gv k = recognizes L s gv k) \<and>
     (\<forall>gv k. \<not> recognizes L (newScheme L) gv k)"

definition Must :: "('sch \<Rightarrow> string option \<times> 'sch) \<Rightarrow> ('sch, unit) go" where
  "Must f = (\<lambda>s. case f s of (None, s') \<Rightarrow> (Returns (), s') | (Some e, s') \<Rightarrow> (Panics e, s'))"

definition init_main :: "'sch scheme_lib \<Rightarrow> ('sch, unit) go" where
  "init_main L =
     bindG (Must (addForeign L ''clientgoscheme'')) (\<lambda>_.
     bindG (Must (addForeign L ''corev1'')) (\<lambda>_.
     bindG (Must (addForeign L ''appsv1'')) (\<lambda>_.
     bindG (Must (addForeign L ''batchv1'')) (\<lambda>_.
     Must (addBuilder L initializedBuilder)))))"

section \<open>Properties\<close>

lemma builderVersion_initialized: "builderVersion initializedBuilder = GroupVersion"
  by (simp add: initializedBuilder_def init_cluster_types_def init_job_types_def init_kfjob_types_def
      init_service_types_def Register_def SchemeBuilder_def)

lemma builderObjects_initialized:
  "builderObjects initializedBuilder = map fst (objectMethods K)"
  by (simp add: initializedBuilder_def init_cluster_types_def init_job_types_def init_kfjob_types_def
      init_service_types_def Register_def SchemeBuilder_def objectMethods_def)

lemma wp_Must:
  "wp (Must f) Q s = (case f s of (None, s') \<Rightarrow> Q (Returns ()) s' | (Some e, s') \<Rightarrow> Q (Panics e) s')"
  by (simp add: Must_def wp_def split: prod.split option.split)

text \<open>once the initialization of the program has returned, its scheme knows in the group of the API exactly the types that
  have a generated DeepCopyObject method (the four resources and their lists), in version v1.\<close>

theorem scheme_registers_objects:
  assumes "scheme_laws L" and "init_main L (newScheme L) = (Returns (), s)"
    and "gvGroup gv = ''polyaxon.com''"
  shows "recognizes L s gv k \<longleftrightarrow> gvVersion gv = ''v1'' \<and> k \<in> set (map fst (objectMethods K))"
proof -
  have known: "recognizes L s' gv k \<longleftrightarrow> recognizes L s gv k \<or> gv = builderVersion b \<and> k \<in> set (builderObjects b)"
    if "addBuilder L b s = (None, s')" for b s s'
    using assms(1) that unfolding scheme_laws_def by blast
  have foreign: "recognizes L s' gv k = recognizes L s gv k" if "addForeign L p s = (None, s')" for p s s'
    using assms(1,3) that unfolding scheme_laws_def by (simp add: GroupVersion_def)
  have new: "\<not> recognizes L (newScheme L) gv k" using assms(1) by (simp add: scheme_laws_def)
  have gv: "gv = GroupVersion \<longleftrightarrow> gvVersion gv = ''v1''"
    using assms(3) by (cases gv) (simp add: GroupVersion_def)
  have "wp (init_main L) (\<lambda>r s. r = Returns () \<longrightarrow>
      (recognizes L s gv k \<longleftrightarrow> gv = GroupVersion \<and> k \<in> set (builderObjects initializedBuilder))) (newScheme L)"
    using new
    by (auto simp: init_main_def wp_bindG wp_Must builderVersion_initialized known foreign
        split: prod.split option.split)
  from wpD [OF this assms(2)] show ?thesis
    unfolding gv builderObjects_initialized [of K] by simp
qed

text \<open>A scheme as a set of types.\<close>

definition setScheme :: "(groupVersion \<times> string) set scheme_lib" where
  "setScheme = \<lparr>newScheme = {},
     addForeign = (\<lambda>p s. (None, insert (\<lparr>gvGroup = ''k8s.io/'' @ p, gvVersion = ''v1''\<rparr>, ''Pod'') s)),
     addBuilder = (\<lambda>b s. (None, s \<union> Pair (builderVersion b) ` set (builderObjects b))),
     recognizes = (\<lambda>s gv k. (gv, k) \<in> s)\<rparr>"

lemma setScheme_laws: "scheme_laws setScheme"
  by (auto simp: scheme_laws_def setScheme_def GroupVersion_def)

theorem scheme_registers_objects_witness:
  "\<exists>s. init_main setScheme {} = (Returns (), s) \<and>
     (GroupVersion, ''KfJobList'') \<in> s \<and> (GroupVersion, ''OperationStatus'') \<notin> s"
proof -
  obtain s where s: "init_main setScheme (newScheme setScheme) = (Returns (), s)"
    by (simp add: init_main_def Must_def bindG_def setScheme_def)
  have rec: "(GroupVersion, k) \<in> s \<longleftrightarrow> k \<in> set (map fst (objectMethods cutDown))" for k
    using scheme_registers_objects [OF setScheme_laws s, of GroupVersion k cutDown]
    by (simp add: setScheme_def GroupVersion_def)
  have "init_main setScheme {} = (Returns (), s)" using s by (simp add: setScheme_def)
  with rec [of "''KfJobList''"] rec [of "''OperationStatus''"] show ?thesis
    by (simp add: objectMethods_def)
qed

end
