(* ===== verification/OpenAPI.thy ===== *)
theory OpenAPI
  imports "HOL-Library.Sublist" Prelude
begin

text \<open>
  The OpenAPI description of the API: the generated schemas (api/v1/openapi_generated.go) and the
  program that prints them (cmd/openapi-gen/main.go).

  A \<open>schema\<close> has the members of \<open>spec.Schema\<close> that the generated code sets; the builders below fill the
  others with their zero values. Each generated function is one definition, over the callback \<open>ref\<close>
  that makes the reference of a type name.

  The package kube-openapi and the JSON encoder are parameters of the program: the record
  \<open>openapi_env\<close>.
\<close>

section \<open>Schemas\<close>

datatype 'r schema = Schema
  (description: string) (types: "string list") (format: string) (refTo: "'r option")
  (required: "string list") (properties: "(string \<times> 'r schema) list") (items: "'r schema option")
  (additional: "'r schema option") (extensions: "(string \<times> string) list")

record 'r openapi_definition =
  schema :: "'r schema"
  dependencies :: "string list"

definition typed :: "string \<Rightarrow> string \<Rightarrow> string \<Rightarrow> 'r schema" where
  "typed d t f = Schema d [t] f None [] [] None None []"

definition refers :: "string \<Rightarrow> 'r \<Rightarrow> 'r schema" where
  "refers d r = Schema d [] [] (Some r) [] [] None None []"

definition arrayOf :: "string \<Rightarrow> 'r schema \<Rightarrow> 'r schema" where
  "arrayOf d s = Schema d [''array''] [] None [] [] (Some s) None []"

definition mapOf :: "string \<Rightarrow> 'r schema \<Rightarrow> 'r schema" where
  "mapOf d s = Schema d [''object''] [] None [] [] None (Some s) []"

definition objectOf :: "string \<Rightarrow> (string \<times> 'r schema) list \<Rightarrow> string list \<Rightarrow> 'r schema" where
  "objectOf d ps req = Schema d [''object''] [] None req ps None None []"

fun withExtensions :: "(string \<times> string) list \<Rightarrow> 'r schema \<Rightarrow> 'r schema" where
  "withExtensions es (Schema d ts f r req ps i a _) = Schema d ts f r req ps i a es"

text \<open>The name of a type of this API.\<close>

definition own :: "string \<Rightarrow> string" where
  "own n = ''github.com/polyaxon/mloperator/api/v1.'' @ n"

section \<open>Descriptions\<close>

definition doc_BatchJobSpec :: string where
  "doc_BatchJobSpec = ''BatchJobSpec defines the desired state of a batch job''"

definition doc_BatchJobSpec_termination :: string where
  "doc_BatchJobSpec_termination = ''Specifies the number of retries before marking this job failed.''"

definition doc_BatchJobSpec_template :: string where
  "doc_BatchJobSpec_template = ''Template describes the pods that will be created.''"

definition doc_MPIJobSpec :: string where
  "doc_MPIJobSpec = ''MPIJobSpec defines the desired state of an mpi job''"

definition doc_MPIJobSpec_cleanPodPolicy :: string where
  "doc_MPIJobSpec_cleanPodPolicy = ''Defines the policy for cleaning up pods after the Job completes. Defaults to Running.''"

definition doc_MPIJobSpec_slotsPerWorker :: string where
  "doc_MPIJobSpec_slotsPerWorker = ''CleanPodPolicy defines the policy that whether to kill pods after the job completes. Defaults to None.''"

definition doc_MPIJobSpec_replicaSpecs :: string where
  "doc_MPIJobSpec_replicaSpecs = ''`MPIReplicaSpecs` contains maps from `MPIReplicaType` to `ReplicaSpec` that specify the MPI replicas to run.''"

definition doc_Operation :: string where
  "doc_Operation = ''Operation is the Schema for the operations API''"

definition doc_Operation_kind :: string where
  "doc_Operation_kind = ''Kind is a string value representing the REST resource this object represents. Servers may infer this from the endpoint the client submits requests to. Cannot be updated. In CamelCase. More info: https://git.k8s.io/community/contributors/devel/sig-architecture/api-conventions.md#types-kinds''"

definition doc_Operation_apiVersion :: string where
  "doc_Operation_apiVersion = ''APIVersion defines the versioned schema of this representation of an object. Servers should convert recognized schemas to the latest internal value, and may reject unrecognized values. More info: https://git.k8s.io/community/contributors/devel/sig-architecture/api-conventions.md#resources''"

definition doc_Operation_batchJobSpec :: string where
  "doc_Operation_batchJobSpec = ''Specification of the desired behavior of a job.''"

definition doc_Operation_serviceSpec :: string where
  "doc_Operation_serviceSpec = ''Specification of the desired behavior of a Service.''"

definition doc_Operation_tfJobSpec :: string where
  "doc_Operation_tfJobSpec = ''Specification of the desired behavior of a TFJob.''"

definition doc_Operation_pytorchJobSpec :: string where
  "doc_Operation_pytorchJobSpec = ''Specification of the desired behavior of a PytorchJob.''"

definition doc_Operation_mpiJobSpec :: string where
  "doc_Operation_mpiJobSpec = ''Specification of the desired behavior of a MPIJob.''"

definition doc_Operation_daskClusterSpec :: string where
  "doc_Operation_daskClusterSpec = ''Specification of the desired behavior of a DaskCluster.''"

definition doc_Operation_rayClusterSpec :: string where
  "doc_Operation_rayClusterSpec = ''Specification of the desired behavior of a RayCluster.''"

definition doc_Operation_status :: string where
  "doc_Operation_status = ''Current status of an op.''"

definition doc_OperationCondition :: string where
  "doc_OperationCondition = ''OperationCondition defines the conditions of Operation or OpService''"

definition doc_OperationCondition_type :: string where
  "doc_OperationCondition_type = ''Type is the type of the condition.''"

definition doc_OperationCondition_status :: string where
  "doc_OperationCondition_status = ''Status of the condition, one of True, False, Unknown.''"

definition doc_OperationCondition_lastUpdateTime :: string where
  "doc_OperationCondition_lastUpdateTime = ''The last time this condition was updated.''"

definition doc_OperationCondition_lastTransitionTime :: string where
  "doc_OperationCondition_lastTransitionTime = ''Last time the condition transitioned.''"

definition doc_OperationCondition_reason :: string where
  "doc_OperationCondition_reason = ''The reason for this container condition.''"

definition doc_OperationCondition_message :: string where
  "doc_OperationCondition_message = ''A human readable message indicating details about the transition.''"

definition doc_OperationStatus :: string where
  "doc_OperationStatus = ''OperationStatus defines the observed state of a job or a service''"

definition doc_OperationStatus_conditions :: string where
  "doc_OperationStatus_conditions = ''The latest available observations of an object's current state.''"

definition doc_OperationStatus_startTime :: string where
  "doc_OperationStatus_startTime = ''Represents the time when the job was acknowledged by the controller. It is not guaranteed to be set in happens-before order across separate operations. It is represented in RFC3339 form and is in UTC.''"

definition doc_OperationStatus_completionTime :: string where
  "doc_OperationStatus_completionTime = ''Represents the time when the job was completed. It is not guaranteed to be set in happens-before order across separate operations. It is represented in RFC3339 form and is in UTC.''"

definition doc_OperationStatus_lastReconcileTime :: string where
  "doc_OperationStatus_lastReconcileTime = ''Represents the last time when the job was reconciled. It is not guaranteed to be set in happens-before order across separate operations. It is represented in RFC3339 form and is in UTC.''"

definition doc_PytorchJobSpec :: string where
  "doc_PytorchJobSpec = ''PytorchJobSpec defines the desired state of a pytorch job''"

definition doc_PytorchJobSpec_replicaSpecs :: string where
  "doc_PytorchJobSpec_replicaSpecs = ''A map of PyTorchReplicaType (type) to ReplicaSpec (value). Specifies the PyTorch cluster configuration. For example,'' @ [CHR 0x0A] @ ''  {'' @ [CHR 0x0A] @ ''    '' @ [CHR 0x22] @ ''Master'' @ [CHR 0x22] @ '': PyTorchReplicaSpec,'' @ [CHR 0x0A] @ ''    '' @ [CHR 0x22] @ ''Worker'' @ [CHR 0x22] @ '': PyTorchReplicaSpec,'' @ [CHR 0x0A] @ ''  }''"

definition doc_ServiceSpec :: string where
  "doc_ServiceSpec = ''ServiceSpec defines the desired state of a service''"

definition doc_ServiceSpec_replicas :: string where
  "doc_ServiceSpec_replicas = ''Replicas is the number of desired replicas. This is a pointer to distinguish between explicit zero and unspecified. Defaults to 1.''"

definition doc_ServiceSpec_ports :: string where
  "doc_ServiceSpec_ports = ''optional List of ports to expose on the service''"

definition doc_TFJobSpec :: string where
  "doc_TFJobSpec = ''TFJobSpec defines the desired state of a tf job''"

definition doc_TFJobSpec_replicaSpecs :: string where
  "doc_TFJobSpec_replicaSpecs = ''A map of TFReplicaType (type) to ReplicaSpec (value). Specifies the TF cluster configuration. For example,'' @ [CHR 0x0A] @ ''  {'' @ [CHR 0x0A] @ ''    '' @ [CHR 0x22] @ ''PS'' @ [CHR 0x22] @ '': ReplicaSpec,'' @ [CHR 0x0A] @ ''    '' @ [CHR 0x22] @ ''Worker'' @ [CHR 0x22] @ '': ReplicaSpec,'' @ [CHR 0x0A] @ ''  }''"

definition doc_RayClusterSpec :: string where
  "doc_RayClusterSpec = ''RayClusterSpec defines the desired state of a ray job''"

definition doc_TerminationSpec :: string where
  "doc_TerminationSpec = ''TerminationSpec defines the desired state of a job or a service''"

definition doc_TerminationSpec_backoffLimit :: string where
  "doc_TerminationSpec_backoffLimit = ''Specifies the number of retries before marking this job failed. Defaults to 1''"

definition doc_TerminationSpec_activeDeadlineSeconds :: string where
  "doc_TerminationSpec_activeDeadlineSeconds = ''Specifies the duration (in seconds) since startTime during which the job can remain active before it is terminated. Must be a positive integer. This setting applies only to pods where restartPolicy is OnFailure or Always.''"

definition doc_TerminationSpec_ttlSecondsAfterFinished :: string where
  "doc_TerminationSpec_ttlSecondsAfterFinished = ''ttlSecondsAfterFinished limits the lifetime of a Job that has finished execution (either Complete or Failed). If this field is set, ttlSecondsAfterFinished after the Job finishes, it is eligible to be automatically deleted. When the Job is being deleted, its lifecycle guarantees (e.g. finalizers) will be honored. If this field is unset, the Job won't be automatically deleted. If this field is set to zero, the Job becomes eligible to be deleted immediately after it finishes. This field is alpha-level and is only honored by servers that enable the TTLAfterFinished feature.''"

section \<open>The generated functions\<close>

definition schema_BatchJobSpec :: "(string \<Rightarrow> 'r) \<Rightarrow> 'r openapi_definition" where
  "schema_BatchJobSpec ref =
     \<lparr>schema = objectOf doc_BatchJobSpec
       [(''termination'', refers doc_BatchJobSpec_termination (ref (own ''TerminationSpec''))),
        (''template'', refers doc_BatchJobSpec_template (ref ''k8s.io/api/core/v1.PodTemplateSpec''))]
       [''template''],
      dependencies =
       [own ''TerminationSpec'',
        ''k8s.io/api/core/v1.PodTemplateSpec'']\<rparr>"

definition schema_MPIJobSpec :: "(string \<Rightarrow> 'r) \<Rightarrow> 'r openapi_definition" where
  "schema_MPIJobSpec ref =
     \<lparr>schema = objectOf doc_MPIJobSpec
       [(''termination'', refers doc_BatchJobSpec_termination (ref (own ''TerminationSpec''))),
        (''cleanPodPolicy'', typed doc_MPIJobSpec_cleanPodPolicy ''string'' []),
        (''slotsPerWorker'', typed doc_MPIJobSpec_slotsPerWorker ''integer'' ''int32''),
        (''replicaSpecs'', mapOf doc_MPIJobSpec_replicaSpecs (refers [] (ref ''github.com/kubeflow/tf-operator/pkg/apis/common/v1.ReplicaSpec'')))]
       [''replicaSpecs''],
      dependencies =
       [''github.com/kubeflow/tf-operator/pkg/apis/common/v1.ReplicaSpec'',
        own ''TerminationSpec'']\<rparr>"

definition schema_Operation :: "(string \<Rightarrow> 'r) \<Rightarrow> 'r openapi_definition" where
  "schema_Operation ref =
     \<lparr>schema = objectOf doc_Operation
       [(''kind'', typed doc_Operation_kind ''string'' []),
        (''apiVersion'', typed doc_Operation_apiVersion ''string'' []),
        (''metadata'', refers [] (ref ''k8s.io/apimachinery/pkg/apis/meta/v1.ObjectMeta'')),
        (''batchJobSpec'', refers doc_Operation_batchJobSpec (ref (own ''BatchJobSpec''))),
        (''serviceSpec'', refers doc_Operation_serviceSpec (ref (own ''ServiceSpec''))),
        (''tfJobSpec'', refers doc_Operation_tfJobSpec (ref (own ''TFJobSpec''))),
        (''pytorchJobSpec'', refers doc_Operation_pytorchJobSpec (ref (own ''PytorchJobSpec''))),
        (''mpiJobSpec'', refers doc_Operation_mpiJobSpec (ref (own ''MPIJobSpec''))),
        (''daskClusterSpec'', refers doc_Operation_daskClusterSpec (ref (own ''DaskClusterSpec''))),
        (''rayClusterSpec'', refers doc_Operation_rayClusterSpec (ref (own ''RayClusterSpec''))),
        (''status'', refers doc_Operation_status (ref (own ''OperationStatus'')))]
       [],
      dependencies =
       [own ''BatchJobSpec'',
        own ''MPIJobSpec'',
        own ''OperationStatus'',
        own ''PytorchJobSpec'',
        own ''ServiceSpec'',
        own ''TFJobSpec'',
        own ''RayClusterSpec'',
        own ''DaskClusterSpec'',
        ''k8s.io/apimachinery/pkg/apis/meta/v1.ObjectMeta'']\<rparr>"

definition schema_OperationCondition :: "(string \<Rightarrow> 'r) \<Rightarrow> 'r openapi_definition" where
  "schema_OperationCondition ref =
     \<lparr>schema = objectOf doc_OperationCondition
       [(''type'', typed doc_OperationCondition_type ''string'' []),
        (''status'', typed doc_OperationCondition_status ''string'' []),
        (''lastUpdateTime'', refers doc_OperationCondition_lastUpdateTime (ref ''k8s.io/apimachinery/pkg/apis/meta/v1.Time'')),
        (''lastTransitionTime'', refers doc_OperationCondition_lastTransitionTime (ref ''k8s.io/apimachinery/pkg/apis/meta/v1.Time'')),
        (''reason'', typed doc_OperationCondition_reason ''string'' []),
        (''message'', typed doc_OperationCondition_message ''string'' [])]
       [''type'', ''status''],
      dependencies =
       [''k8s.io/apimachinery/pkg/apis/meta/v1.Time'']\<rparr>"

definition schema_OperationStatus :: "(string \<Rightarrow> 'r) \<Rightarrow> 'r openapi_definition" where
  "schema_OperationStatus ref =
     \<lparr>schema = objectOf doc_OperationStatus
       [(''conditions'', withExtensions [(''x-kubernetes-patch-merge-key'', ''type''), (''x-kubernetes-patch-strategy'', ''merge'')]
            (arrayOf doc_OperationStatus_conditions (refers [] (ref (own ''OperationCondition''))))),
        (''startTime'', refers doc_OperationStatus_startTime (ref ''k8s.io/apimachinery/pkg/apis/meta/v1.Time'')),
        (''completionTime'', refers doc_OperationStatus_completionTime (ref ''k8s.io/apimachinery/pkg/apis/meta/v1.Time'')),
        (''lastReconcileTime'', refers doc_OperationStatus_lastReconcileTime (ref ''k8s.io/apimachinery/pkg/apis/meta/v1.Time''))]
       [],
      dependencies =
       [own ''OperationCondition'',
        ''k8s.io/apimachinery/pkg/apis/meta/v1.Time'']\<rparr>"

definition schema_PytorchJobSpec :: "(string \<Rightarrow> 'r) \<Rightarrow> 'r openapi_definition" where
  "schema_PytorchJobSpec ref =
     \<lparr>schema = objectOf doc_PytorchJobSpec
       [(''termination'', refers doc_BatchJobSpec_termination (ref (own ''TerminationSpec''))),
        (''cleanPodPolicy'', typed doc_MPIJobSpec_cleanPodPolicy ''string'' []),
        (''replicaSpecs'', mapOf doc_PytorchJobSpec_replicaSpecs (refers [] (ref ''github.com/kubeflow/tf-operator/pkg/apis/common/v1.ReplicaSpec'')))]
       [''replicaSpecs''],
      dependencies =
       [''github.com/kubeflow/tf-operator/pkg/apis/common/v1.ReplicaSpec'',
        own ''TerminationSpec'']\<rparr>"

definition schema_ServiceSpec :: "(string \<Rightarrow> 'r) \<Rightarrow> 'r openapi_definition" where
  "schema_ServiceSpec ref =
     \<lparr>schema = objectOf doc_ServiceSpec
       [(''termination'', refers doc_BatchJobSpec_termination (ref (own ''TerminationSpec''))),
        (''replicas'', typed doc_ServiceSpec_replicas ''integer'' ''int32''),
        (''ports'', arrayOf doc_ServiceSpec_ports (typed [] ''integer'' ''int32'')),
        (''template'', refers doc_BatchJobSpec_template (ref ''k8s.io/api/core/v1.PodTemplateSpec''))]
       [''template''],
      dependencies =
       [own ''TerminationSpec'',
        ''k8s.io/api/core/v1.PodTemplateSpec'']\<rparr>"

definition schema_TFJobSpec :: "(string \<Rightarrow> 'r) \<Rightarrow> 'r openapi_definition" where
  "schema_TFJobSpec ref =
     \<lparr>schema = objectOf doc_TFJobSpec
       [(''termination'', refers doc_BatchJobSpec_termination (ref (own ''TerminationSpec''))),
        (''cleanPodPolicy'', typed doc_MPIJobSpec_cleanPodPolicy ''string'' []),
        (''replicaSpecs'', mapOf doc_TFJobSpec_replicaSpecs (refers [] (ref ''github.com/kubeflow/tf-operator/pkg/apis/common/v1.ReplicaSpec'')))]
       [''replicaSpecs''],
      dependencies =
       [''github.com/kubeflow/tf-operator/pkg/apis/common/v1.ReplicaSpec'',
        own ''TerminationSpec'']\<rparr>"

definition schema_RayClusterSpec :: "(string \<Rightarrow> 'r) \<Rightarrow> 'r openapi_definition" where
  "schema_RayClusterSpec ref =
     \<lparr>schema = objectOf doc_RayClusterSpec
       [(''termination'', refers doc_BatchJobSpec_termination (ref (own ''TerminationSpec'')))]
       [],
      dependencies =
       [''github.com/kubeflow/tf-operator/pkg/apis/common/v1.ReplicaSpec'',
        own ''TerminationSpec'']\<rparr>"

definition schema_DaskClusterSpec :: "(string \<Rightarrow> 'r) \<Rightarrow> 'r openapi_definition" where
  "schema_DaskClusterSpec ref =
     \<lparr>schema = objectOf doc_RayClusterSpec
       [(''termination'', refers doc_BatchJobSpec_termination (ref (own ''TerminationSpec'')))]
       [],
      dependencies =
       [''github.com/kubeflow/tf-operator/pkg/apis/common/v1.ReplicaSpec'',
        own ''TerminationSpec'']\<rparr>"

definition schema_TerminationSpec :: "(string \<Rightarrow> 'r) \<Rightarrow> 'r openapi_definition" where
  "schema_TerminationSpec ref =
     \<lparr>schema = objectOf doc_TerminationSpec
       [(''backoffLimit'', typed doc_TerminationSpec_backoffLimit ''integer'' ''int32''),
        (''activeDeadlineSeconds'', typed doc_TerminationSpec_activeDeadlineSeconds ''integer'' ''int64''),
        (''ttlSecondsAfterFinished'', typed doc_TerminationSpec_ttlSecondsAfterFinished ''integer'' ''int32'')]
       [],
      dependencies =
       []\<rparr>"

definition GetOpenAPIDefinitions ::
  "(string \<Rightarrow> 'r) \<Rightarrow> (string \<times> 'r openapi_definition) list" where
  "GetOpenAPIDefinitions ref =
     [(own ''BatchJobSpec'', schema_BatchJobSpec ref),
      (own ''MPIJobSpec'', schema_MPIJobSpec ref),
      (own ''Operation'', schema_Operation ref),
      (own ''OperationCondition'', schema_OperationCondition ref),
      (own ''OperationStatus'', schema_OperationStatus ref),
      (own ''PytorchJobSpec'', schema_PytorchJobSpec ref),
      (own ''ServiceSpec'', schema_ServiceSpec ref),
      (own ''TFJobSpec'', schema_TFJobSpec ref),
      (own ''DaskClusterSpec'', schema_DaskClusterSpec ref),
      (own ''RayClusterSpec'', schema_RayClusterSpec ref),
      (own ''TerminationSpec'', schema_TerminationSpec ref)]"

section \<open>The program openapi-gen\<close>

text \<open>\<open>strings.ReplaceAll\<close> for a non-empty \<open>old\<close>.\<close>

function replaceAll :: "string \<Rightarrow> string \<Rightarrow> string \<Rightarrow> string" where
  "replaceAll [] old new = []"
| "replaceAll (c # s) old new =
     (if old \<noteq> [] \<and> take (length old) (c # s) = old
      then new @ replaceAll (drop (length old) (c # s)) old new
      else c # replaceAll s old new)"
  by pat_completeness auto
termination
  by (relation "measure (\<lambda>(s, old, new). length s)") (auto simp: neq_Nil_conv)

definition swaggify :: "string \<Rightarrow> string" where
  "swaggify name =
     (let name = replaceAll name ''github.com/polyaxon/mloperator/api/'' [];
          name = replaceAll name ''k8s.io/api/core/'' [];
          name = replaceAll name ''k8s.io/apimachinery/pkg/apis/meta/'' [];
          name = replaceAll name ''/'' ''.''
      in name)"

record swagger =
  swaggerVersion :: string
  definitions :: "(string \<times> string schema) list"
  pathItems :: "string list"
  title :: string
  infoDescription :: string
  infoVersion :: string

text \<open>\<open>common.EscapeJsonPointer\<close>, \<open>spec.MustCreateRef\<close>, with \<open>None\<close> for its panic on a text that is no URL, and
  \<open>json.MarshalIndent\<close>, an error or the bytes.\<close>

record openapi_env =
  escapeJsonPointer :: "string \<Rightarrow> string"
  mustCreateRef :: "string \<Rightarrow> string option"
  marshalIndent :: "swagger \<Rightarrow> string + string"

text \<open>What a run leaves behind: its exit code, the lines it prints and the messages it logs.\<close>

record gen_run =
  exitCode :: int
  printed :: "string list"
  logged :: "string list"

definition refCallback :: "openapi_env \<Rightarrow> string \<Rightarrow> string option" where
  "refCallback E path = mustCreateRef E (''#/definitions/'' @ escapeJsonPointer E (swaggify path))"

definition withVersionPrefix :: "string \<Rightarrow> string" where
  "withVersionPrefix version = (if take 1 version = ''v'' then version else ''v'' @ version)"

text \<open>The references that occur in a schema.\<close>

primrec refsOf :: "'r schema \<Rightarrow> 'r list" where
  "refsOf (Schema d ts f r req ps i a es) =
     (case r of None \<Rightarrow> [] | Some x \<Rightarrow> [x]) @ concat (map snd (map (map_prod id refsOf) ps)) @
     concat (case map_option refsOf i of None \<Rightarrow> [] | Some xs \<Rightarrow> [xs]) @
     concat (case map_option refsOf a of None \<Rightarrow> [] | Some xs \<Rightarrow> [xs])"

definition references :: "(string \<times> 'r openapi_definition) list \<Rightarrow> 'r list" where
  "references ds = concat (map (\<lambda>(k, d). refsOf (schema d)) ds)"

text \<open>The callback is called for every reference of the definitions while they are built; one that panics ends the program.\<close>

definition openapi_main :: "openapi_env \<Rightarrow> string list \<Rightarrow> gen_run outcome" where
  "openapi_main E args =
     (if length args \<le> 1
      then Returns \<lparr>exitCode = 1, printed = [], logged = [''Supply a version'']\<rparr>
      else
        (let version = withVersionPrefix (args ! 1);
             built = GetOpenAPIDefinitions (refCallback E)
         in if None \<in> set (references built) then Panics ''MustCreateRef''
            else
              (let oAPIDefs = dictCopy built [];
                   defs = [];
                   doc = \<lparr>swaggerVersion = ''2.0'', definitions = defs, pathItems = [],
                          title = ''Polyaxon Operator'',
                          infoDescription = ''Polyaxon SDK for Operator specification'',
                          infoVersion = version\<rparr>
               in case marshalIndent E doc of
                    Inl err \<Rightarrow> Returns \<lparr>exitCode = 0, printed = [[]], logged = [''Error marshal'']\<rparr>
                  | Inr json \<Rightarrow> Returns \<lparr>exitCode = 0, printed = [json], logged = []\<rparr>)))"

section \<open>References and names\<close>

definition isOwn :: "string \<Rightarrow> bool" where
  "isOwn p \<longleftrightarrow> take (length (own [])) p = own []"

lemma own_inject [simp]: "own m = own n \<longleftrightarrow> m = n"
  by (simp add: own_def)

lemma refsOf_builders [simp]:
  "refsOf (typed d t f) = []"
  "refsOf (refers d r) = [r]"
  "refsOf (arrayOf d s) = refsOf s"
  "refsOf (mapOf d s) = refsOf s"
  "refsOf (objectOf d ps req) = concat (map (\<lambda>p. refsOf (snd p)) ps)"
  "refsOf (withExtensions es s) = refsOf s"
  by (simp_all add: typed_def refers_def arrayOf_def mapOf_def objectOf_def comp_def)
    (cases s, simp)

lemma objectOf_sel [simp]:
  "properties (objectOf d ps req) = ps" "required (objectOf d ps req) = req"
  by (simp_all add: objectOf_def)

lemmas schema_defs =
  schema_BatchJobSpec_def schema_MPIJobSpec_def schema_Operation_def schema_OperationCondition_def
  schema_OperationStatus_def schema_PytorchJobSpec_def schema_ServiceSpec_def schema_TFJobSpec_def
  schema_DaskClusterSpec_def schema_RayClusterSpec_def schema_TerminationSpec_def

text \<open>A definition is closed in a set of names when what it requires are its properties, what it refers
  to are its dependencies, and those of its dependencies that belong to this API are names of the
  set.\<close>

definition closedDef :: "string set \<Rightarrow> string openapi_definition \<Rightarrow> bool" where
  "closedDef N d \<longleftrightarrow>
     set (required (schema d)) \<subseteq> fst ` set (properties (schema d)) \<and>
     set (refsOf (schema d)) \<subseteq> set (dependencies d) \<and>
     (\<forall>p \<in> set (dependencies d). isOwn p \<longrightarrow> p \<in> N)"

lemma fst_GetOpenAPIDefinitions:
  "fst ` set (GetOpenAPIDefinitions ref) =
     own ` {''BatchJobSpec'', ''MPIJobSpec'', ''Operation'', ''OperationCondition'', ''OperationStatus'',
       ''PytorchJobSpec'', ''ServiceSpec'', ''TFJobSpec'', ''DaskClusterSpec'', ''RayClusterSpec'',
       ''TerminationSpec''}"
  by (simp add: GetOpenAPIDefinitions_def)

lemma isOwn_foreign:
  "\<not> isOwn ''k8s.io/api/core/v1.PodTemplateSpec''"
  "\<not> isOwn ''k8s.io/apimachinery/pkg/apis/meta/v1.ObjectMeta''"
  "\<not> isOwn ''k8s.io/apimachinery/pkg/apis/meta/v1.Time''"
  "\<not> isOwn ''github.com/kubeflow/tf-operator/pkg/apis/common/v1.ReplicaSpec''"
  by (simp_all add: isOwn_def own_def)

text \<open>The generated definitions are closed: in each of the eleven, every required name is a declared property, every
  referenced type is among the dependencies, and every dependency of this API has a definition of its own.\<close>

lemma openapi_definitions_closed:
  "list_all (\<lambda>(k, d). closedDef (fst ` set (GetOpenAPIDefinitions id)) d) (GetOpenAPIDefinitions id)"
  unfolding fst_GetOpenAPIDefinitions
  by (simp add: GetOpenAPIDefinitions_def schema_defs closedDef_def isOwn_foreign)

lemma replaceAll_absent: "\<not> sublist old s \<Longrightarrow> replaceAll s old new = s"
proof (induction s old new rule: replaceAll.induct)
  case (2 c s old new)
  then have "take (length old) (c # s) \<noteq> old" by (metis prefix_imp_sublist take_is_prefix)
  with 2 show ?case by (auto simp: sublist_Cons_right)
qed simp

lemma replaceAll_char: "replaceAll s [a] [b] = map (\<lambda>c. if c = a then b else c) s"
  by (induction s "[a]" "[b]" rule: replaceAll.induct) auto

lemma sublist_subset: "x \<in> set xs \<Longrightarrow> x \<notin> set ys \<Longrightarrow> \<not> sublist xs ys"
  using set_mono_sublist by fastforce

text \<open>The packages whose types are named by version and name alone, and the name of any other type.\<close>

definition strippedPackages :: "string set" where
  "strippedPackages = {''github.com/polyaxon/mloperator/api/'', ''k8s.io/api/core/'', ''k8s.io/apimachinery/pkg/apis/meta/''}"

definition dotted :: "string \<Rightarrow> string" where
  "dotted = map (\<lambda>c. if c = CHR ''/'' then CHR ''.'' else c)"

lemma swaggify_versioned:
  assumes "CHR ''/'' \<notin> set n" and "pkg \<in> strippedPackages"
  shows "swaggify (pkg @ n) = n"
proof -
  have "replaceAll n old new = n" if "CHR ''/'' \<in> set old" for old new
    using sublist_subset [OF that assms(1)] by (rule replaceAll_absent)
  then have "replaceAll n ''github.com/polyaxon/mloperator/api/'' [] = n" "replaceAll n ''k8s.io/api/core/'' [] = n"
    "replaceAll n ''k8s.io/apimachinery/pkg/apis/meta/'' [] = n" "replaceAll n ''/'' ''.'' = n"
    by simp_all
  with assms(2) show ?thesis unfolding strippedPackages_def by (elim insertE emptyE) (simp_all add: swaggify_def Let_def)
qed

lemma swaggify_no_slash: "CHR ''/'' \<notin> set (swaggify name)"
  by (auto simp: swaggify_def Let_def replaceAll_char)

text \<open>What is documented of the references of kube-openapi: a JSON pointer escapes only tildes and slashes, and a reference
  whose fragment is made of letters, digits, dots and dashes is a URL.\<close>

definition plainChar :: "char \<Rightarrow> bool" where
  "plainChar c \<longleftrightarrow> (let n = (of_char c :: nat) in n = 45 \<or> n = 46 \<or> 48 \<le> n \<and> n \<le> 57 \<or> 65 \<le> n \<and> n \<le> 90 \<or> 97 \<le> n \<and> n \<le> 122)"

definition plainName :: "string \<Rightarrow> bool" where
  "plainName s \<longleftrightarrow> list_all plainChar s"

definition reference_laws :: "openapi_env \<Rightarrow> bool" where
  "reference_laws E \<longleftrightarrow>
     (\<forall>s. CHR ''~'' \<notin> set s \<longrightarrow> CHR ''/'' \<notin> set s \<longrightarrow> escapeJsonPointer E s = s) \<and>
     (\<forall>s. plainName s \<longrightarrow> mustCreateRef E (''#/definitions/'' @ s) = Some (''#/definitions/'' @ s))"

lemma plainName_chars: "plainName s \<Longrightarrow> CHR ''~'' \<notin> set s \<and> CHR ''/'' \<notin> set s"
  by (auto simp: plainName_def list_all_iff plainChar_def)

lemma refCallback_plain:
  assumes "reference_laws E" "plainName (swaggify p)"
  shows "refCallback E p = Some (''#/definitions/'' @ swaggify p)"
  using assms plainName_chars by (simp add: reference_laws_def refCallback_def)

lemma refCallback_versioned:
  assumes "reference_laws E" "plainName n" "pkg \<in> strippedPackages"
  shows "refCallback E (pkg @ n) = Some (''#/definitions/'' @ n)"
proof -
  have "swaggify (pkg @ n) = n" using plainName_chars [OF assms(2)] assms(3) by (simp add: swaggify_versioned)
  with refCallback_plain [OF assms(1), of "pkg @ n"] assms(2) show ?thesis by (simp only:)
qed

text \<open>The types that the generated schemas refer to.\<close>

definition referredTypes :: "string list" where
  "referredTypes =
     map own [''TerminationSpec'', ''BatchJobSpec'', ''ServiceSpec'', ''TFJobSpec'', ''PytorchJobSpec'', ''MPIJobSpec'',
       ''DaskClusterSpec'', ''RayClusterSpec'', ''OperationStatus'', ''OperationCondition''] @
     [''github.com/kubeflow/tf-operator/pkg/apis/common/v1.ReplicaSpec'', ''k8s.io/api/core/v1.PodTemplateSpec'',
      ''k8s.io/apimachinery/pkg/apis/meta/v1.ObjectMeta'', ''k8s.io/apimachinery/pkg/apis/meta/v1.Time'']"

lemma references_GetOpenAPIDefinitions: "set (references (GetOpenAPIDefinitions ref)) = ref ` set referredTypes"
  by (simp add: references_def GetOpenAPIDefinitions_def schema_defs referredTypes_def insert_commute)

lemma referredTypes_plain: "list_all (\<lambda>p. plainName (swaggify p)) referredTypes"
  by (simp add: referredTypes_def own_def swaggify_def plainName_def plainChar_def Let_def)

lemma references_made:
  assumes "reference_laws E"
  shows "None \<notin> set (references (GetOpenAPIDefinitions (refCallback E)))"
  using referredTypes_plain refCallback_plain [OF assms] unfolding references_GetOpenAPIDefinitions
  by (fastforce simp: list_all_iff)

text \<open>C36: the references of openapi-gen. When references are made as kube-openapi documents it, the program does not panic on
  any command line: every type name of the generated schemas is turned into a valid reference. A type of this API, of
  the core API or of the meta API is referred to by its version and name alone, so types of the same name in the three
  packages share one reference; any other type keeps its package, with dots for slashes.\<close>

theorem openapi_references:
  assumes laws: "reference_laws E"
  shows "(\<forall>msg. openapi_main E args \<noteq> Panics msg) \<and>
    (plainName name \<longrightarrow> (\<forall>pkg \<in> strippedPackages. refCallback E (pkg @ name) = Some (''#/definitions/'' @ name))) \<and>
    (plainName (dotted path) \<longrightarrow> (\<forall>pkg \<in> strippedPackages. \<not> sublist pkg path) \<longrightarrow>
       refCallback E path = Some (''#/definitions/'' @ dotted path))"
proof (intro conjI allI impI ballI)
  show "openapi_main E args \<noteq> Panics msg" for msg
    using references_made [OF laws] by (auto simp: openapi_main_def Let_def split: sum.split)
  show "refCallback E (pkg @ name) = Some (''#/definitions/'' @ name)" if "plainName name" "pkg \<in> strippedPackages" for pkg
    using laws that by (rule refCallback_versioned)
  assume *: "plainName (dotted path)" "\<forall>pkg \<in> strippedPackages. \<not> sublist pkg path"
  then have "swaggify path = dotted path"
    by (simp add: swaggify_def strippedPackages_def dotted_def replaceAll_absent replaceAll_char Let_def)
  with * laws refCallback_plain [of E path] show "refCallback E path = Some (''#/definitions/'' @ dotted path)" by simp
qed

text \<open>An environment that accepts every reference.\<close>

definition plainEncoder :: openapi_env where
  "plainEncoder = \<lparr>escapeJsonPointer = id, mustCreateRef = Some, marshalIndent = (\<lambda>doc. Inr (title doc))\<rparr>"

theorem openapi_references_witness:
  "openapi_main plainEncoder [''openapi-gen'', ''1.0''] \<noteq> Panics ''MustCreateRef'' \<and>
   refCallback plainEncoder (''k8s.io/api/core/'' @ ''v1.Service'') = refCallback plainEncoder (''github.com/polyaxon/mloperator/api/'' @ ''v1.Service'')"
proof -
  have "reference_laws plainEncoder" by (simp add: reference_laws_def plainEncoder_def)
  moreover have "plainName ''v1.Service''" by (simp add: plainName_def plainChar_def)
  ultimately have *: "openapi_main plainEncoder [''openapi-gen'', ''1.0''] \<noteq> Panics ''MustCreateRef''"
    "refCallback plainEncoder (pkg @ ''v1.Service'') = Some (''#/definitions/'' @ ''v1.Service'')" if "pkg \<in> strippedPackages" for pkg
    using that openapi_references [of plainEncoder "[''openapi-gen'', ''1.0'']" "''v1.Service''"] by simp_all
  have "''github.com/polyaxon/mloperator/api/'' \<in> strippedPackages" "''k8s.io/api/core/'' \<in> strippedPackages"
    by (simp_all add: strippedPackages_def)
  then show ?thesis using * by metis
qed

end
