(* ===== verification/Spec2Isabelle.thy ===== *)
theory Spec2Isabelle
  imports Job_Controller Service_Controller KfJob_Controller Cluster_Controller Status_Machine Virtual_Services
    Metrics Setup Entry Scheme OpenAPI
begin

text \<open>
  \<^bold>\<open>Verification of the Polyaxon operator\<close> (\<^verbatim>\<open>polyaxon/mloperator\<close>, Go).

  The operator is a Kubernetes controller manager. It serves four custom resources, called operations:
  \<open>Job\<close>, \<open>Service\<close>, \<open>KfJob\<close> (Kubeflow training jobs) and \<open>Cluster\<close> (Dask and Ray). Each has a controller
  package under \<^verbatim>\<open>src/internal/controller\<close> whose function \<open>Reconcile\<close> is called with the name of an operation: it
  fetches the operation, sets its start time, runs the finalizers when it is done or being deleted, and
  otherwise creates or updates the object that does the work (a batch job, a deployment and a service, a
  training job, a cluster) and turns what it reads of that object and of its pods into the conditions of the
  operation, which it also reports to the Polyaxon API. The packages share helpers under \<^verbatim>\<open>src/internal/helpers\<close> and
  the status state machine of \<^verbatim>\<open>src/api/v1/condition.go\<close>.

  \<^bold>\<open>Theories.\<close>
  \<^item> \<open>Prelude\<close>: the fragment of Go (machine integers, pointers, time, strings, maps) and the monad of effectful
    code: a state, a result, the possibility of a panic; weakest preconditions (\<open>wp\<close>), total correctness
    (\<open>hoare\<close>: the code returns) and effects (\<open>tracks\<close>, locale \<open>effect\<close>).
  \<^item> \<open>Float64\<close>: the binary floating point numbers that \<open>getBackOff\<close> computes with, exactly, and their conversions.
  \<^item> \<open>Conditions\<close>: \<^verbatim>\<open>api/v1/condition.go\<close>, \<^verbatim>\<open>status.go\<close>, \<^verbatim>\<open>helpers.go\<close>. The methods on a status, the step relation
    \<open>status_step\<close> that runs any of them, its invariants, and the locale \<open>status_log\<close>, the contract of
    \<open>logCondition\<close> the rest relies on. \<open>Status_Machine\<close>: the abstract specification of a status and its refinement.
  \<^item> \<open>Config\<close>: \<^verbatim>\<open>helpers/config\<close> and \<^verbatim>\<open>helpers/utils\<close>. Errors of the client are values of \<open>error\<close>.
  \<^item> \<open>Kube_Types\<close>, \<open>Operations\<close>: the Kubernetes objects and the custom resources as records. The four resources
    extend the record \<open>operation\<close>.
  \<^item> \<open>Pods\<close>, \<open>Managers\<close>: \<^verbatim>\<open>helpers/managers/pods.go\<close>, \<^verbatim>\<open>jobs.go\<close>, \<^verbatim>\<open>services.go\<close>, \<^verbatim>\<open>deployments.go\<close>.
  \<^item> \<open>Plugins\<close>, \<open>Metrics\<close>: \<^verbatim>\<open>helpers/plugins/polyaxon.go\<close> and \<^verbatim>\<open>metrics.go\<close>.
  \<^item> \<open>Reconcile\<close>: the code that every controller package copies (\<^verbatim>\<open>status.go\<close>, \<^verbatim>\<open>sync.go\<close>, \<^verbatim>\<open>finalizer.go\<close>,
    \<^verbatim>\<open>cleanup.go\<close>, the body of \<open>Reconcile\<close>), defined once over all operations. The client, \<open>controllerutil\<close>, the
    clock, the environment and the SDK are the record \<open>api\<close>, acting on an arbitrary world; a pass records the
    calls it sends. The locale \<open>op_controller\<close> is the contract between the pass and a controller's own
    \<open>reconcileOperation\<close> and \<open>cleanUpOperation\<close>; \<open>status_inv\<close> is the contract of an invariant on instances.
  \<^item> \<open>Release\<close>: several passes in a row against a server that stores the operation, in \<open>op_controller\<close>. \<open>Requeue\<close>: the
    loop of passes that the results of \<open>Reconcile\<close> ask the work queue for.
  \<^item> \<open>Unstructured\<close>, \<open>Owned\<close>: unstructured objects and their copier (\<^verbatim>\<open>helpers/managers/unstructured.go\<close>), and what the
    Kubeflow and the cluster controller share in handling the object they own.
  \<^item> \<open>Job_Controller\<close>, \<open>Service_Controller\<close>, \<open>KfJob_Controller\<close>, \<open>Cluster_Controller\<close>: the controllers, each with the
    interpretations of \<open>op_controller\<close> and \<open>status_inv\<close> on its definitions. \<open>Kubeflow\<close>, \<open>Dask_Ray\<close>: the resources,
    the types of the training, Dask and Ray operators, and the builders. \<open>Virtual_Services\<close>: the Istio objects of
    services.
  \<^item> \<open>Setup\<close>: the watches that \<open>SetupWithManager\<close> registers. \<open>Entry\<close>: \<^verbatim>\<open>cmd/main.go\<close>, with
    the package \<open>flag\<close> of the standard library: the declaration of flags and the parsing of the command line.
  \<^item> \<open>Go_Memory\<close>, \<open>Deep_Copy\<close>: a store of variables, arrays and maps with the built-in operations on it, the layout of every
    API type, and the generated methods of \<^verbatim>\<open>zz_generated.deepcopy.go\<close>, which exist because of the sharing that the
    records of \<open>Operations\<close> abstract from. \<open>copies\<close> is their contract, \<open>copyTy\<close> the reference copier by type, the locale
    \<open>foreign_copies\<close> what they rely on of the types of Kubernetes.
  \<^item> \<open>Scheme\<close>: the registration of the API types (\<^verbatim>\<open>groupversion_info.go\<close>, the \<open>init\<close> functions). \<open>OpenAPI\<close>: the schemas of
    \<^verbatim>\<open>openapi_generated.go\<close> and the program \<^verbatim>\<open>cmd/openapi-gen\<close>.

  \<^bold>\<open>What is shown.\<close> Of the status: it refines its specification, a final condition is absorbing, statuses
  stay well formed. Of a pass, for each controller: it never panics under a stated invariant of the objects the API server
  serves; a done or deleted job is only released; a job's logs finalizer is dropped only after the Polyaxon API has collected
  the logs, or has answered that it does not know the run or refuses. Of several passes: two of them release a finished
  operation, and the loop that waits for the end of a time to live ends (below). Of the handlers: the finalizer protocol, the
  time to live, the deadline, the retry budget, culling, and decision tables for the status of jobs, training jobs and clusters,
  on every branch, errors included. Of the builders and copiers: what they copy, when they ask for an update, round trips of the
  pod watches. Of the watches: which events start a pass, and which do not. Of the program: which options every command line and
  environment give the manager, in which order it starts and which types its scheme knows. Of the generated code: a deep copy is
  well typed, has the data of the original and shares nothing with it; the references of the OpenAPI schemas are made without a
  panic, and which types share one. Several theorems prove that the code does something its comments do not say; they are named
  in the manifest's findings.

  \<^bold>\<open>Environment.\<close> Code outside the repository appears as arguments. What is relied on is stated as
  hypotheses by name: \<open>finalizer_laws\<close>, \<open>status_echo\<close> and \<open>serves\<close> (of a write to the
  main resource only for what the server has \<open>served\<close>), \<open>writesStatusOnly\<close>, \<open>stores\<close>,
  \<open>refusesDelete\<close>, \<open>collects\<close>, \<open>servesObjs\<close>, \<open>controllerOf_law\<close>,
  \<open>unstructured_laws\<close>, \<open>slice_laws\<close>, \<open>kfLawful\<close>, \<open>clLawful\<close>,
  \<open>framework_laws\<close>, \<open>waits\<close>, \<open>foreign_copies\<close>, \<open>scheme_laws\<close>,
  \<open>reference_laws\<close>, \<open>apart\<close>; the witnesses run the theorems in concrete environments that satisfy
  them. Every loop of the code is a structural recursion or one with a measure; the only fuel is the number of passes of
  \<open>rounds\<close>, of which three are shown to be enough. Log output and contexts are left out; so is the dump of the
  specification in the text of one error of \<open>GenerateDeployment\<close>. Concurrency is that of the framework, which runs
  one pass at a time per operation; what other clients do between two calls is in the world of the API, except in
  \<open>Release\<close> and \<open>Requeue\<close>, where nobody else writes.

  \<^bold>\<open>Not modelled.\<close> Test utilities, the effect of the flags of other packages, and the trigger names of notifications in
  \<^verbatim>\<open>condition.go\<close>, which nothing uses. Metrics count in integers, which floating point numbers are up to \<open>2 ^ 53\<close>.
\<close>

section \<open>Release of operations\<close>


text \<open>A job that has succeeded and still carries both finalizers, without a time to live.\<close>

definition finishedJob :: Job where
  "finishedJob = (demoJob [doneCond] (Some 2) [OperationLogsFinalizer, OperationStatusFinalizer])
     \<lparr>opTermination := demoTermination\<rparr>"

definition storeJobEnv :: "sdkError option \<Rightarrow> (Job, Job option \<times> int) jobEnv" where
  "storeJobEnv logsErr = storeApi (\<lambda>_. None) logsErr (jobEnv.fields
     \<lparr>oGet = (\<lambda>k w. (Inl (NotFound ''not found''), w)), oCreate = (\<lambda>obj w. (None, w)), oUpdate = (\<lambda>obj w. (Inr obj, w)),
      setControllerReference = (\<lambda>i obj. Inr obj)\<rparr> 100)"


text \<open>C5: log collection that fails is not tried again by itself. While a job whose start time is recorded is being deleted and the
  Polyaxon API does not collect its logs, each pass leaves the job as it is, and yet returns neither an error nor a
  request to be called again, so that nothing but an outside event starts the next pass; however many there are, the
  logs finalizer keeps the job.\<close>

theorem failed_collection_stalls:
  assumes "stores env req stored" and "finalizer_laws env"
    and "stored (world s) = Some i" and "StartTime (opStatus i) \<noteq> None" and "IsOperationBeingDeleted i"
    and "OperationLogsFinalizer \<in> set (opFinalizers i)" and "mustCollect env i"
    and "\<And>r w. fst (collectRunLogs env r w) = Some (OtherSdkError e)"
  defines "pass \<equiv> Job_Reconcile env req"
  defines "after n \<equiv> ((\<lambda>s. snd (pass s)) ^^ n) s"
  shows "stored (world (after n)) = Some i \<and> fst (pass (after n)) = Returns (noRequeue, None)"
proof -
  have step: "fst (pass t) = Returns (noRequeue, None) \<and> stored (world (snd (pass t))) = Some i"
    if "stored (world t) = Some i" for t
    using job_controller.stalled_pass [OF assms(1,2) that assms(4-8), of False]
    by (simp add: wp_def pass_def Job_Reconcile_def case_prod_beta)
  have "stored (world (after n)) = Some i"
    by (induction n) (simp_all add: after_def assms(3) step)
  with step show ?thesis by blast
qed

theorem failed_collection_stalls_witness:
  "let i = finishedJob\<lparr>opDeletionTimestamp := Some 5\<rparr>; s = \<lparr>inst = i, world = (Some i, 10), calls = []\<rparr>;
       pass = Job_Reconcile (storeJobEnv (Some (OtherSdkError ''down''))) (''ns'', ''run'')
   in fst (pass s) = Returns (noRequeue, None) \<and> fst (world (((\<lambda>s. snd (pass s)) ^^ 7) s)) = Some i"
proof -
  let ?i = "finishedJob\<lparr>opDeletionTimestamp := Some 5\<rparr>" and ?env = "storeJobEnv (Some (OtherSdkError ''down''))"
  let ?s = "\<lparr>inst = ?i, world = (Some ?i, 10), calls = []\<rparr> :: (Job, Job option \<times> int) pass"
  have i: "StartTime (opStatus ?i) \<noteq> None" "IsOperationBeingDeleted ?i" "OperationLogsFinalizer \<in> set (opFinalizers ?i)"
    by (simp_all add: finishedJob_def demoJob_def IsOperationBeingDeleted_def isZeroTime_def)
  have env: "mustCollect ?env ?i" "fst (collectRunLogs ?env r w) = Some (OtherSdkError ''down'')" for r w
    by (simp_all add: mustCollect_def storeJobEnv_def storeApi_def finishedJob_def demoJob_def GetBoolEnv_def
        getInstanceInfo_def nonEmpty_def)
  have laws: "stores ?env (''ns'', ''run'') fst" "finalizer_laws ?env" by (simp_all add: storeJobEnv_def)
  show ?thesis
    using failed_collection_stalls [OF laws _ i env, of ?s 0] failed_collection_stalls [OF laws _ i env, of ?s 7]
    by (simp add: Let_def)
qed

section \<open>The loop over a finished operation\<close>

text \<open>C8: the clean-up loop ends. Take an operation of any of the four kinds that is done, completed in the past and has a
  time to live, on an API server that nobody else writes to and with a Polyaxon API that collects logs. If the work
  queue does what \<open>Reconcile\<close> asks of it, then the loop comes to rest after at most three passes, none of which panics,
  with the operation deleted: the first waits for what is left of the time to live, the second may come at the very
  instant at which it ends, which the code does not count as later, the third deletes at the latest.\<close>

theorem ttl_loop_terminates:
  "(keptUntil jenv req jstored job c e \<longrightarrow> waits jenv jstored jq \<longrightarrow> jstored (world js) = Some job \<longrightarrow>
      c \<le> fst (timeNow jenv (world js)) \<longrightarrow>
      (\<exists>t. rounds 3 (Job_Reconcile jenv req) jq js = Some t \<and> deletedOp jstored t)) \<and>
   (keptUntil senv req sstored service c e \<longrightarrow> waits senv sstored sq \<longrightarrow> sstored (world ss) = Some service \<longrightarrow>
      c \<le> fst (timeNow senv (world ss)) \<longrightarrow>
      (\<exists>t. rounds 3 (Service_Reconcile senv req) sq ss = Some t \<and> deletedOp sstored t)) \<and>
   (keptUntil kenv req kstored kfjob c e \<longrightarrow> waits kenv kstored kq \<longrightarrow> kstored (world ks) = Some kfjob \<longrightarrow>
      c \<le> fst (timeNow kenv (world ks)) \<longrightarrow>
      kjTFJobSpec kfjob \<noteq> None \<or> kjPytorchJobSpec kfjob \<noteq> None \<or> kjMPIJobSpec kfjob \<noteq> None \<longrightarrow>
      (\<exists>t. rounds 3 (KfJob_Reconcile kenv req) kq ks = Some t \<and> deletedOp kstored t)) \<and>
   (keptUntil cenv req cstored cluster c e \<longrightarrow> waits cenv cstored cq \<longrightarrow> cstored (world cs) = Some cluster \<longrightarrow>
      c \<le> fst (timeNow cenv (world cs)) \<longrightarrow> clDaskClusterSpec cluster \<noteq> None \<or> clRayClusterSpec cluster \<noteq> None \<longrightarrow>
      (\<exists>t. rounds 3 (Cluster_Reconcile cenv req) cq cs = Some t \<and> deletedOp cstored t))"
  unfolding Job_Reconcile_def Service_Reconcile_def KfJob_Reconcile_def Cluster_Reconcile_def
proof (intro conjI impI, goal_cases)
  case 1
  then show ?case
    by (rule job_controller.three_rounds) (simp add: Job_cleanUpOperation_def cleanUpJob_def)
next
  case 2
  then show ?case by (rule service_controller.three_rounds) (simp add: cleanUpService_def)
next
  case 3
  then show ?case
    by (intro kfjob_controller.three_rounds) (auto simp: kf_cleanup_defs bindG_def readS_def)
next
  case 4
  then show ?case
    by (intro cluster_controller.three_rounds) (auto simp: cl_cleanup_defs bindG_def readS_def)
qed

text \<open>A job that is kept for a minute, and a queue that sleeps.\<close>

definition keptJob :: Job where
  "keptJob = finishedJob\<lparr>opTermination := demoTermination\<lparr>TTLSecondsAfterFinished := Ptr 0 60\<rparr>\<rparr>"

definition sleepQueue :: "(Job, Job option \<times> int) queue" where
  "sleepQueue = (\<lambda>(r, e) s. s\<lparr>world := (fst (world s), snd (world s) + max 1 (RequeueAfter r))\<rparr>)"

theorem ttl_loop_terminates_witness:
  "\<exists>t. rounds 3 (Job_Reconcile (storeJobEnv None) (''ns'', ''run'')) sleepQueue
       \<lparr>inst = keptJob, world = (Some keptJob, 10), calls = []\<rparr> = Some t \<and> deletedOp fst t"
proof -
  let ?s = "\<lparr>inst = keptJob, world = (Some keptJob, 10), calls = []\<rparr> :: (Job, Job option \<times> int) pass"
  have "IsDone (opStatus keptJob)"
    by (simp add: keptJob_def finishedJob_def demoJob_def IsDone_holds holds_def doneCond_def isFinal_def)
  then have k: "keptUntil (storeJobEnv None) (''ns'', ''run'') fst keptJob 2 60000000002"
    by (simp add: keptUntil_def storeJobEnv_def keptJob_def finishedJob_def demoJob_def demoTermination_def
        IsOperationBeingDeleted_def isZeroTime_def)
  have q: "waits (storeJobEnv None) fst sleepQueue"
    by (simp add: waits_def sleepQueue_def storeJobEnv_def storeApi_def case_prod_beta)
  have "fst (timeNow (storeJobEnv None) (world ?s)) = 10" by (simp add: storeJobEnv_def storeApi_def)
  with k q ttl_loop_terminates [of "storeJobEnv None" "(''ns'', ''run'')" fst keptJob 2 60000000002 sleepQueue ?s,
      THEN conjunct1]
  show ?thesis by simp
qed

end
